(* ===== verification/Prelude.thy ===== *)
theory Prelude
  imports Main "HOL-Library.Word"
begin

text \<open>
  What every component of the model shares: Python text, JSON documents, the result of a
  request that may raise, the little state-and-exception monad in which the commands are
  written, its weakest-precondition calculus, and the list lemmas behind the SQL tables.

  The collection \<open>wp_rules\<close> holds one equation per operation of the model, so that
  \<open>simp add: wp_rules\<close> turns a statement about a command into one about the states in
  which it can end.
\<close>

named_theorems wp_rules \<open>weakest preconditions of the model's operations\<close>
named_theorems table_rules \<open>reading a table after it was written\<close>

section \<open>Text and time\<close>

text \<open>
  A Python \<open>str\<close> is a sequence of Unicode code points; \<open>ascii\<close> gives the text of a
  literal of the source. A \<open>datetime\<close> in UTC is its distance from the epoch in
  microseconds, the resolution of both Python and PostgreSQL.
\<close>

type_synonym ptext = "nat list"
type_synonym instant = int
type_synonym uuid = "128 word"

definition ascii :: "string \<Rightarrow> ptext" where
  "ascii s = map of_char s"

definition seconds :: "int \<Rightarrow> int" where
  "seconds n = n * 1000000"

definition minutes :: "int \<Rightarrow> int" where
  "minutes n = seconds (n * 60)"

definition hours :: "int \<Rightarrow> int" where
  "hours n = minutes (n * 60)"

definition days :: "int \<Rightarrow> int" where
  "days n = hours (n * 24)"

lemmas duration_defs = seconds_def minutes_def hours_def days_def

lemma ascii_inject [simp]: "ascii s = ascii t \<longleftrightarrow> s = t"
  by (simp add: ascii_def inj_map_eq_map [OF inj_of_char])

lemma ascii_Nil_iff [simp]: "ascii s = [] \<longleftrightarrow> s = []" "[] = ascii s \<longleftrightarrow> s = []"
  by (auto simp: ascii_def)

section \<open>JSON documents\<close>

text \<open>
  A document as \<open>json.dumps\<close> writes it and \<open>json.loads\<close> reads it. An instant is kept as
  such where the source writes its \<open>isoformat()\<close>. The keys the code uses are literals.
\<close>

datatype json =
    JNull
  | JBool bool
  | JInt int
  | JText ptext
  | JTime instant
  | JList "json list"
  | JObj "(string \<times> json) list"

definition jlit :: "string \<Rightarrow> json" where
  "jlit s = JText (ascii s)"

fun jtext_or_null :: "ptext option \<Rightarrow> json" where
  "jtext_or_null None = JNull"
| "jtext_or_null (Some t) = JText t"

fun jtime_or_null :: "instant option \<Rightarrow> json" where
  "jtime_or_null None = JNull"
| "jtime_or_null (Some t) = JTime t"

text \<open>Reading a field, \<open>None\<close> when the key is absent or the document is not an object.\<close>

fun jfield :: "string \<Rightarrow> json \<Rightarrow> json option" where
  "jfield k (JObj fs) = map_of fs k"
| "jfield _ _ = None"

lemma jlit_inject [simp]: "jlit s = jlit t \<longleftrightarrow> s = t"
  by (simp add: jlit_def)

lemma jtext_or_null_inject [simp]: "jtext_or_null a = jtext_or_null b \<longleftrightarrow> a = b"
  by (cases a; cases b) auto

lemma jtime_or_null_inject [simp]: "jtime_or_null a = jtime_or_null b \<longleftrightarrow> a = b"
  by (cases a; cases b) auto

section \<open>Errors\<close>

text \<open>
  \<open>ApiError\<close> of \<open>core/errors.py\<close>, without the human-readable message: the HTTP status, the
  machine-readable code and the details. Any other exception reaches the client as a plain
  \<open>500\<close>; it is named here by the class that was raised.
\<close>

record api_error =
  status_code :: nat
  error_code :: string
  details :: json

datatype failure = Api api_error | Uncaught string

definition api :: "nat \<Rightarrow> string \<Rightarrow> json \<Rightarrow> failure" where
  "api st cd dt = Api \<lparr>status_code = st, error_code = cd, details = dt\<rparr>"

text \<open>The envelope of \<open>api_error_response\<close>, the message left out.\<close>

definition api_error_response :: "api_error \<Rightarrow> nat \<times> json" where
  "api_error_response e =
     (status_code e, JObj [(''error'', JObj [(''code'', jlit (error_code e)), (''details'', details e)])])"

lemma api_inject [simp]:
  "api s c d = api s' c' d' \<longleftrightarrow> s = s' \<and> c = c' \<and> d = d'"
  by (simp add: api_def)

lemma api_neq_Uncaught [simp]: "api s c d \<noteq> Uncaught x" "Uncaught x \<noteq> api s c d"
  by (simp_all add: api_def)

section \<open>Programs that read and write a state and may raise\<close>

type_synonym ('w, 'a) prog = "'w \<Rightarrow> (failure + 'a) \<times> 'w"

definition return :: "'a \<Rightarrow> ('w, 'a) prog" where
  "return a w = (Inr a, w)"

definition raise :: "failure \<Rightarrow> ('w, 'a) prog" where
  "raise e w = (Inl e, w)"

definition andthen :: "('w, 'a) prog \<Rightarrow> ('a \<Rightarrow> ('w, 'b) prog) \<Rightarrow> ('w, 'b) prog" where
  "andthen m f w = (case m w of (Inl e, w') \<Rightarrow> (Inl e, w') | (Inr a, w') \<Rightarrow> f a w')"

definition before :: "('w, unit) prog \<Rightarrow> ('w, 'b) prog \<Rightarrow> ('w, 'b) prog" where
  "before m n = andthen m (\<lambda>_. n)"

definition gets :: "('w \<Rightarrow> 'a) \<Rightarrow> ('w, 'a) prog" where
  "gets f w = (Inr (f w), w)"

definition modify :: "('w \<Rightarrow> 'w) \<Rightarrow> ('w, unit) prog" where
  "modify f w = (Inr (), f w)"

definition whenever :: "bool \<Rightarrow> ('w, unit) prog \<Rightarrow> ('w, unit) prog" where
  "whenever b m = (if b then m else return ())"

definition from_result :: "failure + 'a \<Rightarrow> ('w, 'a) prog" where
  "from_result r w = (r, w)"

lemmas prog_defs =
  return_def raise_def andthen_def before_def gets_def modify_def whenever_def from_result_def

text \<open>
  \<open>wp m Q E w\<close>: started in \<open>w\<close>, the program ends with a value and a state satisfying \<open>Q\<close>
  or raises in a state satisfying \<open>E\<close>. Programs are total functions, so this is total
  correctness.
\<close>

definition wp :: "('w, 'a) prog \<Rightarrow> ('a \<Rightarrow> 'w \<Rightarrow> bool) \<Rightarrow> (failure \<Rightarrow> 'w \<Rightarrow> bool) \<Rightarrow> 'w \<Rightarrow> bool" where
  "wp m Q E w = (case m w of (Inr a, w') \<Rightarrow> Q a w' | (Inl e, w') \<Rightarrow> E e w')"

lemma wp_return [wp_rules]: "wp (return a) Q E w = Q a w"
  by (simp add: wp_def return_def)

lemma wp_raise [wp_rules]: "wp (raise e) Q E w = E e w"
  by (simp add: wp_def raise_def)

lemma wp_andthen [wp_rules]: "wp (andthen m f) Q E w = wp m (\<lambda>a. wp (f a) Q E) E w"
  by (auto simp: wp_def andthen_def split: prod.splits sum.splits)

lemma wp_before [wp_rules]: "wp (before m n) Q E w = wp m (\<lambda>_. wp n Q E) E w"
  by (simp add: before_def wp_andthen)

lemma wp_gets [wp_rules]: "wp (gets f) Q E w = Q (f w) w"
  by (simp add: wp_def gets_def)

lemma wp_modify [wp_rules]: "wp (modify f) Q E w = Q () (f w)"
  by (simp add: wp_def modify_def)

lemma wp_whenever [wp_rules]: "wp (whenever b m) Q E w = (if b then wp m Q E w else Q () w)"
  by (simp add: whenever_def wp_return)

lemma wp_from_result [wp_rules]:
  "wp (from_result r) Q E w = (case r of Inl e \<Rightarrow> E e w | Inr a \<Rightarrow> Q a w)"
  by (simp add: wp_def from_result_def split: sum.splits)

text \<open>The same before the state is given, for a continuation under a binder.\<close>

lemma wp_return': "wp (return a) Q E = Q a"
  by (rule ext) (rule wp_return)

lemma wp_if [wp_rules]: "wp (if b then m else n) Q E w = (if b then wp m Q E w else wp n Q E w)"
  by simp

lemma wp_case_option [wp_rules]:
  "wp (case x of None \<Rightarrow> m | Some a \<Rightarrow> f a) Q E w =
   (case x of None \<Rightarrow> wp m Q E w | Some a \<Rightarrow> wp (f a) Q E w)"
  by (simp split: option.splits)

lemma wp_case_prod [wp_rules]:
  "wp (case p of (a, b) \<Rightarrow> f a b) Q E w = (case p of (a, b) \<Rightarrow> wp (f a b) Q E w)"
  by (simp split: prod.splits)

lemma wp_Let [wp_rules]: "wp (Let x f) Q E w = wp (f x) Q E w"
  by (simp add: Let_def)

text \<open>From a weakest precondition back to the run it describes.\<close>

lemma wp_resultD:
  assumes "m w = (r, w')" and "wp m Q E w"
  shows "case r of Inr a \<Rightarrow> Q a w' | Inl e \<Rightarrow> E e w'"
  using assms by (auto simp: wp_def split: sum.splits)

lemma wp_successD: "m w = (Inr a, w') \<Longrightarrow> wp m Q E w \<Longrightarrow> Q a w'"
  by (simp add: wp_def)

lemma wp_failureD: "m w = (Inl e, w') \<Longrightarrow> wp m Q E w \<Longrightarrow> E e w'"
  by (simp add: wp_def)

lemma wp_state: "wp m (\<lambda>_. P) (\<lambda>_. P) w \<longleftrightarrow> P (snd (m w))"
  by (auto simp: wp_def split: prod.splits sum.splits)

lemma wp_mono:
  assumes "wp m Q E w" and "\<And>a w'. Q a w' \<Longrightarrow> Q' a w'" and "\<And>e w'. E e w' \<Longrightarrow> E' e w'"
  shows "wp m Q' E' w"
  using assms by (auto simp: wp_def split: prod.splits sum.splits)

lemma wp_conj:
  "wp m Q E w \<Longrightarrow> wp m Q' E' w \<Longrightarrow> wp m (\<lambda>a w'. Q a w' \<and> Q' a w') (\<lambda>e w'. E e w' \<and> E' e w') w"
  by (auto simp: wp_def split: prod.splits sum.splits)

section \<open>Tables as lists of rows\<close>

text \<open>
  \<open>update_where P f\<close> is SQL's \<open>UPDATE ... SET f WHERE P\<close>; \<open>SELECT ... WHERE P\<close> is
  \<open>filter P\<close>, and \<open>find P\<close> where a unique key makes the answer one row at most.
\<close>

definition update_where :: "('a \<Rightarrow> bool) \<Rightarrow> ('a \<Rightarrow> 'a) \<Rightarrow> 'a list \<Rightarrow> 'a list" where
  "update_where P f rows = map (\<lambda>r. if P r then f r else r) rows"

lemma update_where_simps [simp]:
  "update_where P f [] = []"
  "update_where P f (r # rs) = (if P r then f r else r) # update_where P f rs"
  by (simp_all add: update_where_def)

lemma length_update_where [simp]: "length (update_where P f rows) = length rows"
  by (simp add: update_where_def)

lemma set_update_where: "set (update_where P f rows) = (\<lambda>r. if P r then f r else r) ` set rows"
  by (simp add: update_where_def)

lemma map_update_where [simp]:
  assumes "\<And>r. k (f r) = k r"
  shows "map k (update_where P f rows) = map k rows"
  using assms by (simp add: update_where_def)

lemma find_Some_in: "find P xs = Some x \<Longrightarrow> x \<in> set xs \<and> P x"
  by (auto simp: find_Some_iff)

lemma find_append: "find P (xs @ ys) = (case find P xs of None \<Rightarrow> find P ys | Some x \<Rightarrow> Some x)"
  by (induction xs) auto

lemma find_None_all: "find P xs = None \<longleftrightarrow> (\<forall>x\<in>set xs. \<not> P x)"
  by (auto simp: find_None_iff)

lemma find_update_where_key:
  assumes "\<And>r. k (f r) = k r"
  shows "find (\<lambda>r. k r = v) (update_where P f rows) =
         map_option (\<lambda>r. if P r then f r else r) (find (\<lambda>r. k r = v) rows)"
  using assms by (induction rows) auto

lemma find_key_unique:
  assumes "distinct (map k rows)" and "r \<in> set rows"
  shows "find (\<lambda>x. k x = k r) rows = Some r"
  using assms by (induction rows) (auto simp: image_iff)

end
