(* ===== verification/Settings.thy ===== *)
theory Settings
  imports Prelude
begin

text \<open>
  \<open>core/settings.py\<close>: the configuration the modelled code reads, with its defaults, and the
  parsing of \<open>SERVICE_API_KEYS\<close>. Where the settings come from (environment, \<open>.env\<close>) is
  pydantic-settings' business.
\<close>

section \<open>Python string helpers\<close>

text \<open>The code points \<open>str.isspace\<close> accepts (Unicode 14, Python 3.11).\<close>

definition is_py_space :: "nat \<Rightarrow> bool" where
  "is_py_space c =
     ((9 \<le> c \<and> c \<le> 13) \<or> (28 \<le> c \<and> c \<le> 32) \<or> c = 133 \<or> c = 160 \<or> c = 5760 \<or>
      (8192 \<le> c \<and> c \<le> 8202) \<or> c = 8232 \<or> c = 8233 \<or> c = 8239 \<or> c = 8287 \<or> c = 12288)"

text \<open>\<open>s.split(sep)\<close> for a one-character separator: always at least one part.\<close>

fun split_on :: "nat \<Rightarrow> ptext \<Rightarrow> ptext list" where
  "split_on sep [] = [[]]"
| "split_on sep (c # cs) =
     (if c = sep then [] # split_on sep cs
      else case split_on sep cs of [] \<Rightarrow> [[c]] | p # ps \<Rightarrow> (c # p) # ps)"

definition py_strip :: "ptext \<Rightarrow> ptext" where
  "py_strip s = rev (dropWhile is_py_space (rev (dropWhile is_py_space s)))"

lemma split_on_neq_Nil [simp]: "split_on sep s \<noteq> []"
  by (induction s) (auto split: list.splits)

section \<open>The settings\<close>

record settings =
  jwt_active_kid :: ptext
  jwt_issuer :: ptext
  jwt_access_lifetime_minutes :: int
  refresh_token_lifetime_days :: int
  otp_code_lifetime_seconds :: int
  otp_rate_limit_seconds :: int
  otp_max_attempts :: int
  otp_hash_pepper :: ptext
  service_api_keys :: ptext

definition default_settings :: settings where
  "default_settings =
     \<lparr>jwt_active_kid = ascii ''dev-2026-07-01'',
      jwt_issuer = ascii ''diddifree-id'',
      jwt_access_lifetime_minutes = 15,
      refresh_token_lifetime_days = 30,
      otp_code_lifetime_seconds = 300,
      otp_rate_limit_seconds = 60,
      otp_max_attempts = 5,
      otp_hash_pepper = ascii ''change-me-in-prod-32-characters-minimum'',
      service_api_keys = []\<rparr>"

definition comma :: nat where
  "comma = of_char CHR '',''"

definition service_api_key_set :: "settings \<Rightarrow> ptext set" where
  "service_api_key_set s =
     set (map py_strip (filter (\<lambda>key. py_strip key \<noteq> []) (split_on comma (service_api_keys s))))"

lemma no_blank_service_key: "[] \<notin> service_api_key_set s"
  by (auto simp: service_api_key_set_def)

lemma no_service_key_by_default: "service_api_key_set default_settings = {}"
  by (simp add: service_api_key_set_def default_settings_def py_strip_def)

end
