(* ===== verification/Validation.thy ===== *)
theory Validation
  imports Settings
begin

text \<open>
  \<open>application/validation.py\<close>: normalising and checking a phone number. The regular
  expression is the code's own, so \<open>\d\<close> is any decimal digit of Unicode, as \<open>re\<close> has it for a
  \<open>str\<close> pattern, and \<open>$\<close> also matches before one final newline.
\<close>

text \<open>\<open>s.split()\<close>: the maximal runs without white space.\<close>

fun split_ws :: "ptext \<Rightarrow> ptext \<Rightarrow> ptext list" where
  "split_ws acc [] = (if acc = [] then [] else [rev acc])"
| "split_ws acc (c # cs) =
     (if is_py_space c
      then (if acc = [] then split_ws [] cs else rev acc # split_ws [] cs)
      else split_ws (c # acc) cs)"

definition py_split :: "ptext \<Rightarrow> ptext list" where
  "py_split s = split_ws [] s"

text \<open>The first code points of the blocks of ten decimal digits (category Nd, Unicode 14); the
  mathematical digits are five such blocks.\<close>

definition digit_zeros :: "nat list" where
  "digit_zeros =
     [48, 1632, 1776, 1984, 2406, 2534, 2662, 2790, 2918, 3046, 3174, 3302, 3430, 3558, 3664,
      3792, 3872, 4160, 4240, 6112, 6160, 6470, 6608, 6784, 6800, 6992, 7088, 7232, 7248,
      42528, 43216, 43264, 43472, 43504, 43600, 44016, 65296, 66720, 68912, 69734, 69872,
      69942, 70096, 70384, 70736, 70864, 71248, 71360, 71472, 71904, 72016, 72784, 73040,
      73120, 92768, 92864, 93008, 120782, 120792, 120802, 120812, 120822, 123200, 123632,
      125264, 130032]"

definition is_py_digit :: "nat \<Rightarrow> bool" where
  "is_py_digit c = list_ex (\<lambda>z. z \<le> c \<and> c \<le> z + 9) digit_zeros"

definition e164_body :: "ptext \<Rightarrow> bool" where
  "e164_body ds = (7 \<le> length ds \<and> length ds \<le> 14 \<and> list_all is_py_digit ds)"

text \<open>\<open>_E164.match(s)\<close>, for the pattern of a plus sign, a digit from 1 to 9 and 7 to 14
  digits.\<close>

fun e164_match :: "ptext \<Rightarrow> bool" where
  "e164_match (p # d # ds) =
     (p = of_char CHR ''+'' \<and> of_char CHR ''1'' \<le> d \<and> d \<le> of_char CHR ''9'' \<and>
      (e164_body ds \<or> (ds \<noteq> [] \<and> last ds = 10 \<and> e164_body (butlast ds))))"
| "e164_match _ = False"

definition invalid_phone :: failure where
  "invalid_phone = api 422 ''INVALID_PHONE_FORMAT'' (JObj [(''field'', jlit ''phone'')])"

definition validate_phone :: "ptext \<Rightarrow> failure + ptext" where
  "validate_phone phone =
     (let normalised = concat (py_split phone)
      in if \<not> e164_match normalised then Inl invalid_phone else Inr normalised)"

section \<open>What validation keeps and what it rejects\<close>

lemma concat_split_ws: "concat (split_ws acc s) = rev acc @ filter (\<lambda>c. \<not> is_py_space c) s"
  by (induction acc s rule: split_ws.induct) auto

lemma normalised_eq: "concat (py_split s) = filter (\<lambda>c. \<not> is_py_space c) s"
  by (simp add: py_split_def concat_split_ws)

lemma newline_is_space: "is_py_space 10"
  by (simp add: is_py_space_def)

lemma e164_match_no_space:
  assumes "e164_match s" and "\<forall>c\<in>set s. \<not> is_py_space c"
  obtains d ds where "s = of_char CHR ''+'' # d # ds" and "49 \<le> d" and "d \<le> 57" and "e164_body ds"
proof -
  obtain p d ds where s: "s = p # d # ds"
    using assms(1) by (cases s rule: e164_match.cases) auto
  have "last ds \<noteq> 10" if "ds \<noteq> []"
    using assms(2) newline_is_space last_in_set [OF that] by (auto simp: s)
  with assms(1) show thesis
    by (intro that) (auto simp: s)
qed

lemma validate_phone_iff:
  "validate_phone s = Inr p \<longleftrightarrow> p = filter (\<lambda>c. \<not> is_py_space c) s \<and> e164_match p"
  by (auto simp: validate_phone_def normalised_eq Let_def)

lemma validate_phone_length:
  assumes "validate_phone s = Inr p"
  shows "9 \<le> length p \<and> length p \<le> 16"
proof -
  have "e164_match p" and "\<forall>c\<in>set p. \<not> is_py_space c"
    using assms by (auto simp: validate_phone_iff)
  then obtain d ds where "p = of_char CHR ''+'' # d # ds" and "e164_body ds"
    by (rule e164_match_no_space)
  then show ?thesis by (auto simp: e164_body_def)
qed

lemma validate_phone_idem: "validate_phone s = Inr p \<Longrightarrow> validate_phone p = Inr p"
  by (auto simp: validate_phone_iff)

lemma validate_phone_error: "validate_phone s = Inl e \<Longrightarrow> e = invalid_phone"
  by (auto simp: validate_phone_def Let_def split: if_splits)

text \<open>
  A phone is accepted exactly when, its white space dropped, it is a plus sign, a digit from
  1 to 9 and between 7 and 14 more decimal digits; the stored number is the one without the
  white space.
\<close>

theorem validate_phone_shape:
  "validate_phone s = Inr p \<longleftrightarrow>
   p = filter (\<lambda>c. \<not> is_py_space c) s \<and>
   (\<exists>d ds. p = of_char CHR ''+'' # d # ds \<and> of_char CHR ''1'' \<le> d \<and> d \<le> of_char CHR ''9'' \<and>
      7 \<le> length ds \<and> length ds \<le> 14 \<and> list_all is_py_digit ds)"
proof -
  have "\<forall>c\<in>set (filter (\<lambda>c. \<not> is_py_space c) s). \<not> is_py_space c" by simp
  then show ?thesis
    unfolding validate_phone_iff
    by (auto simp: e164_body_def list_all_iff elim: e164_match_no_space)
qed

end
