(* ===== verification/Entities.thy ===== *)
theory Entities
  imports Prelude
begin

text \<open>
  \<open>domain/entities.py\<close>: the two enumerations with their wire values, the status transition
  table, the sets that gate sessions, the admin route and KYC, and the dataclasses with the
  methods that decide something (\<open>needs_kyc_for\<close>, \<open>is_expired\<close>, \<open>is_usable\<close>).
\<close>

section \<open>Roles and statuses\<close>

datatype user_role = USER | DRIVER | MERCHANT | ADMIN

datatype user_status = PENDING_VERIFICATION | PENDING_KYC | ACTIVE | SUSPENDED

fun role_value :: "user_role \<Rightarrow> string" where
  "role_value USER = ''user''"
| "role_value DRIVER = ''driver''"
| "role_value MERCHANT = ''merchant''"
| "role_value ADMIN = ''admin''"

fun status_value :: "user_status \<Rightarrow> string" where
  "status_value PENDING_VERIFICATION = ''pending_verification''"
| "status_value PENDING_KYC = ''pending_kyc''"
| "status_value ACTIVE = ''active''"
| "status_value SUSPENDED = ''suspended''"

text \<open>The members in definition order, and \<open>UserRole(v)\<close>, \<open>UserStatus(v)\<close>: lookup by value,
  \<open>None\<close> for the \<open>ValueError\<close>.\<close>

definition role_members :: "user_role list" where
  "role_members = [USER, DRIVER, MERCHANT, ADMIN]"

definition status_members :: "user_status list" where
  "status_members = [PENDING_VERIFICATION, PENDING_KYC, ACTIVE, SUSPENDED]"

definition UserRole :: "ptext \<Rightarrow> user_role option" where
  "UserRole v = find (\<lambda>r. ascii (role_value r) = v) role_members"

definition UserStatus :: "ptext \<Rightarrow> user_status option" where
  "UserStatus v = find (\<lambda>s. ascii (status_value s) = v) status_members"

definition KYC_REQUIRED_ROLES :: "user_role set" where
  "KYC_REQUIRED_ROLES = {DRIVER, MERCHANT}"

fun ALLOWED_STATUS_TRANSITIONS :: "user_status \<Rightarrow> user_status set" where
  "ALLOWED_STATUS_TRANSITIONS PENDING_VERIFICATION = {ACTIVE, PENDING_KYC, SUSPENDED}"
| "ALLOWED_STATUS_TRANSITIONS PENDING_KYC = {ACTIVE, SUSPENDED}"
| "ALLOWED_STATUS_TRANSITIONS ACTIVE = {SUSPENDED}"
| "ALLOWED_STATUS_TRANSITIONS SUSPENDED = {ACTIVE}"

definition SESSION_ALLOWED_STATUSES :: "user_status set" where
  "SESSION_ALLOWED_STATUSES = {ACTIVE, PENDING_KYC}"

definition ADMIN_SETTABLE_STATUSES :: "user_status set" where
  "ADMIN_SETTABLE_STATUSES = {ACTIVE, SUSPENDED}"

definition can_transition :: "user_status \<Rightarrow> user_status \<Rightarrow> bool" where
  "can_transition current target = (target \<in> ALLOWED_STATUS_TRANSITIONS current)"

lemmas status_sets = SESSION_ALLOWED_STATUSES_def ADMIN_SETTABLE_STATUSES_def KYC_REQUIRED_ROLES_def

lemma role_value_inject [simp]: "role_value a = role_value b \<longleftrightarrow> a = b"
  by (cases a; cases b) auto

lemma status_value_inject [simp]: "status_value a = status_value b \<longleftrightarrow> a = b"
  by (cases a; cases b) auto

lemma role_value_neq_Nil [simp]: "role_value r \<noteq> []"
  by (cases r) auto

lemma status_value_neq_Nil [simp]: "status_value s \<noteq> []"
  by (cases s) auto

lemma UserRole_value [simp]: "UserRole (ascii (role_value r)) = Some r"
  by (cases r) (simp_all add: UserRole_def role_members_def)

lemma UserStatus_value [simp]: "UserStatus (ascii (status_value s)) = Some s"
  by (cases s) (simp_all add: UserStatus_def status_members_def)

lemma wire_names [simp]:
  "UserStatus (ascii ''pending_verification'') = Some PENDING_VERIFICATION"
  "UserStatus (ascii ''pending_kyc'') = Some PENDING_KYC"
  "UserStatus (ascii ''active'') = Some ACTIVE" "UserStatus (ascii ''suspended'') = Some SUSPENDED"
  "UserRole (ascii ''user'') = Some USER" "UserRole (ascii ''driver'') = Some DRIVER"
  "UserRole (ascii ''merchant'') = Some MERCHANT" "UserRole (ascii ''admin'') = Some ADMIN"
  by (simp_all add: UserStatus_def status_members_def UserRole_def role_members_def)

lemma UserRole_SomeD: "UserRole v = Some r \<Longrightarrow> v = ascii (role_value r)"
  by (auto simp: UserRole_def find_Some_iff)

lemma UserStatus_SomeD: "UserStatus v = Some s \<Longrightarrow> v = ascii (status_value s)"
  by (auto simp: UserStatus_def find_Some_iff)

lemma UserRole_Some_iff: "UserRole v = Some r \<longleftrightarrow> v = ascii (role_value r)"
  by (auto dest: UserRole_SomeD)

lemma UserStatus_Some_iff: "UserStatus v = Some s \<longleftrightarrow> v = ascii (status_value s)"
  by (auto dest: UserStatus_SomeD)

text \<open>No transition leads back to an unverified account: what makes the first verification
  of an account an event that happens once.\<close>

lemma no_transition_to_unverified [simp]: "\<not> can_transition s PENDING_VERIFICATION"
  by (cases s) (auto simp: can_transition_def)

lemma can_transition_irrefl [simp]: "\<not> can_transition s s"
  by (cases s) (auto simp: can_transition_def)

section \<open>All roles and statuses\<close>

instantiation user_status :: enum
begin

definition "enum_user_status = status_members"
definition "enum_all_user_status P = list_all P status_members"
definition "enum_ex_user_status P = list_ex P status_members"

instance
proof
  show all: "(UNIV :: user_status set) = set enum_class.enum"
    by (auto simp: enum_user_status_def status_members_def intro: user_status.exhaust)
  show "distinct (enum_class.enum :: user_status list)" by (simp add: enum_user_status_def status_members_def)
  show "enum_class.enum_all P = Ball UNIV P" "enum_class.enum_ex P = Bex UNIV P" for P :: "user_status \<Rightarrow> bool"
    by (simp_all add: all enum_all_user_status_def enum_ex_user_status_def enum_user_status_def list_all_iff list_ex_iff)
qed

end

instantiation user_role :: enum
begin

definition "enum_user_role = role_members"
definition "enum_all_user_role P = list_all P role_members"
definition "enum_ex_user_role P = list_ex P role_members"

instance
proof
  show all: "(UNIV :: user_role set) = set enum_class.enum"
    by (auto simp: enum_user_role_def role_members_def intro: user_role.exhaust)
  show "distinct (enum_class.enum :: user_role list)" by (simp add: enum_user_role_def role_members_def)
  show "enum_class.enum_all P = Ball UNIV P" "enum_class.enum_ex P = Bex UNIV P" for P :: "user_role \<Rightarrow> bool"
    by (simp_all add: all enum_all_user_role_def enum_ex_user_role_def enum_user_role_def list_all_iff list_ex_iff)
qed

end

text \<open>The table has no dead end: out of every status an administrator can take an account further.
  Only the first verification leads to \<open>pending_kyc\<close>.\<close>

lemma status_table_alive:
  "\<forall>s. list_ex (\<lambda>t. t \<in> ADMIN_SETTABLE_STATUSES \<and> can_transition s t) status_members"
  by code_simp

lemma only_unverified_wait: "\<forall>s. can_transition s PENDING_KYC \<longleftrightarrow> s = PENDING_VERIFICATION"
  by code_simp

section \<open>The dataclasses\<close>

record user =
  usr_id :: uuid
  usr_phone :: ptext
  usr_role :: user_role
  usr_status :: user_status
  usr_full_name :: "ptext option"
  usr_password_hash :: "ptext option"
  usr_requested_role :: "user_role option"
  usr_created_at :: "instant option"
  usr_updated_at :: "instant option"

definition needs_kyc_for :: "user \<Rightarrow> user_role \<Rightarrow> bool" where
  "needs_kyc_for u target_role = (target_role \<in> KYC_REQUIRED_ROLES \<and> usr_role u \<noteq> target_role)"

record otp_code =
  otp_id :: uuid
  otp_phone :: ptext
  otp_code_hash :: ptext
  otp_expires_at :: instant
  otp_created_at :: instant
  otp_consumed_at :: "instant option"
  otp_attempts :: int

definition is_expired :: "otp_code \<Rightarrow> instant \<Rightarrow> bool" where
  "is_expired otp now = (otp_expires_at otp \<le> now)"

record refresh_token =
  rt_id :: uuid
  rt_user_id :: uuid
  rt_token_hash :: ptext
  rt_expires_at :: instant
  rt_created_at :: instant
  rt_device_info :: "ptext option"
  rt_revoked_at :: "instant option"

definition is_usable :: "refresh_token \<Rightarrow> instant \<Rightarrow> bool" where
  "is_usable t now = (rt_revoked_at t = None \<and> rt_expires_at t > now)"

record user_status_change =
  usc_id :: uuid
  usc_user_id :: uuid
  usc_to_status :: user_status
  usc_changed_at :: instant
  usc_from_status :: "user_status option"
  usc_reason :: "ptext option"
  usc_changed_by :: "uuid option"

record user_role_change =
  urc_id :: uuid
  urc_user_id :: uuid
  urc_changed_at :: instant
  urc_from_role :: "user_role option"
  urc_to_role :: "user_role option"
  urc_requested_role :: "user_role option"
  urc_reason :: "ptext option"
  urc_changed_by :: "uuid option"

end
