(* ===== verification/Models.thy ===== *)
theory Models
  imports Entities
begin

text \<open>
  \<open>infra/models.py\<close>: the tables of the \<open>identity\<close> schema as lists of rows. Roles and statuses
  are VARCHAR columns, so a row holds text and reading it may fail; the OTP and refresh-token
  rows have the columns of their dataclasses and share their records.
\<close>

record user_row =
  ur_id :: uuid
  ur_phone :: ptext
  ur_full_name :: "ptext option"
  ur_password_hash :: "ptext option"
  ur_role :: ptext
  ur_status :: ptext
  ur_requested_role :: "ptext option"
  ur_created_at :: instant
  ur_updated_at :: instant

record status_history_row =
  sh_id :: uuid
  sh_user_id :: uuid
  sh_from_status :: "ptext option"
  sh_to_status :: ptext
  sh_reason :: "ptext option"
  sh_changed_by :: "uuid option"
  sh_changed_at :: instant

record role_history_row =
  rh_id :: uuid
  rh_user_id :: uuid
  rh_from_role :: "ptext option"
  rh_to_role :: "ptext option"
  rh_requested_role :: "ptext option"
  rh_reason :: "ptext option"
  rh_changed_by :: "uuid option"
  rh_changed_at :: instant

record database =
  db_users :: "user_row list"
  db_otp_codes :: "otp_code list"
  db_refresh_tokens :: "refresh_token list"
  db_status_history :: "status_history_row list"
  db_role_history :: "role_history_row list"

definition empty_database :: database where
  "empty_database =
     \<lparr>db_users = [], db_otp_codes = [], db_refresh_tokens = [], db_status_history = [],
      db_role_history = []\<rparr>"

end
