(* ===== verification/Redis_Client.thy ===== *)
theory Redis_Client
  imports Prelude
begin

text \<open>
  Redis is a service the code only calls, so the model takes its client as an argument: the
  commands the source uses, each a function of the state of the server (an arbitrary type
  \<open>'r\<close>, which may hold anything, time and outages included) giving a reply or the exception of
  the client library. Nothing in the model fixes what they do. What a claim relies on is the
  documented behaviour stated by the locale \<open>redis_server\<close>; \<open>mem_client\<close> is a small server
  that has it.
\<close>

section \<open>The commands the service sends\<close>

text \<open>A stored value: the text of a JSON document, of an integer, or any other text.\<close>

datatype redis_value = Doc json | Num int | Raw ptext

datatype 'a reply = Down | Reply 'a

record 'r redis_client =
  rc_get :: "ptext \<Rightarrow> 'r \<Rightarrow> redis_value option reply \<times> 'r"
  rc_set_ex :: "ptext \<Rightarrow> redis_value \<Rightarrow> int \<Rightarrow> 'r \<Rightarrow> unit reply \<times> 'r"
  rc_delete :: "ptext \<Rightarrow> 'r \<Rightarrow> unit reply \<times> 'r"
  rc_ttl :: "ptext \<Rightarrow> 'r \<Rightarrow> int reply \<times> 'r"
  rc_incr :: "ptext \<Rightarrow> 'r \<Rightarrow> int reply \<times> 'r"
  rc_expire :: "ptext \<Rightarrow> int \<Rightarrow> 'r \<Rightarrow> unit reply \<times> 'r"
  rc_xadd :: "ptext \<Rightarrow> (string \<times> redis_value) list \<Rightarrow> int \<Rightarrow> 'r \<Rightarrow> unit reply \<times> 'r"

section \<open>The documented behaviour of a reachable server\<close>

text \<open>
  \<open>val r k\<close> is the value under a key and \<open>ttl r k\<close> its remaining seconds, \<open>None\<close> for a key
  that does not expire. \<open>TTL\<close> answers \<open>-2\<close> for a missing key and \<open>-1\<close> for one without expiry;
  \<open>INCR\<close> counts a missing key from 0 and keeps the expiry; \<open>XADD\<close> touches its stream only.
\<close>

locale redis_server =
  fixes c :: "'r redis_client"
    and up :: "'r \<Rightarrow> bool"
    and val :: "'r \<Rightarrow> ptext \<Rightarrow> redis_value option"
    and ttl :: "'r \<Rightarrow> ptext \<Rightarrow> int option"
  assumes get_up: "up r \<Longrightarrow> rc_get c k r = (Reply (val r k), r)"
    and set_up: "up r \<Longrightarrow> 0 < ex \<Longrightarrow> \<exists>r'. rc_set_ex c k v ex r = (Reply (), r') \<and> up r' \<and>
      val r' = (val r)(k \<mapsto> v) \<and> ttl r' = (ttl r)(k \<mapsto> ex)"
    and delete_up: "up r \<Longrightarrow> \<exists>r'. rc_delete c k r = (Reply (), r') \<and> up r' \<and>
      val r' = (val r)(k := None) \<and> ttl r' = (ttl r)(k := None)"
    and ttl_up: "up r \<Longrightarrow> rc_ttl c k r =
      (Reply (if val r k = None then -2 else case ttl r k of None \<Rightarrow> -1 | Some s \<Rightarrow> s), r)"
    and ttl_positive: "up r \<Longrightarrow> ttl r k = Some s \<Longrightarrow> 0 < s"
    and incr_new: "up r \<Longrightarrow> val r k = None \<Longrightarrow> \<exists>r'. rc_incr c k r = (Reply 1, r') \<and> up r' \<and>
      val r' = (val r)(k \<mapsto> Num 1) \<and> ttl r' = (ttl r)(k := None)"
    and incr_old: "up r \<Longrightarrow> val r k = Some (Num n) \<Longrightarrow> \<exists>r'. rc_incr c k r = (Reply (n + 1), r') \<and>
      up r' \<and> val r' = (val r)(k \<mapsto> Num (n + 1)) \<and> ttl r' = ttl r"
    and expire_up: "up r \<Longrightarrow> 0 < ex \<Longrightarrow> val r k \<noteq> None \<Longrightarrow> \<exists>r'. rc_expire c k ex r = (Reply (), r') \<and>
      up r' \<and> val r' = val r \<and> ttl r' = (ttl r)(k \<mapsto> ex)"
    and xadd_up: "up r \<Longrightarrow> \<exists>r'. rc_xadd c stream fs maxlen r = (Reply (), r') \<and> up r' \<and>
      (\<forall>k. k \<noteq> stream \<longrightarrow> val r' k = val r k \<and> ttl r' k = ttl r k)"
begin

lemma set_then_get:
  assumes "up r" and "0 < ex"
  shows "fst (rc_get c k (snd (rc_set_ex c k v ex r))) = Reply (Some v)"
proof -
  obtain r' where "rc_set_ex c k v ex r = (Reply (), r')" and "up r'" and "val r' = (val r)(k \<mapsto> v)"
    using set_up [OF assms] by blast
  then show ?thesis by (simp add: get_up)
qed

lemma delete_then_get:
  assumes "up r"
  shows "fst (rc_get c k (snd (rc_delete c k r))) = Reply None"
proof -
  obtain r' where "rc_delete c k r = (Reply (), r')" and "up r'" and "val r' = (val r)(k := None)"
    using delete_up [OF assms] by blast
  then show ?thesis by (simp add: get_up)
qed

text \<open>An entry deleted before an event was published is still absent after it.\<close>

lemma delete_then_publish:
  assumes "up r" and "k \<noteq> stream"
  shows "up (snd (rc_xadd c stream fs n (snd (rc_delete c k r))))"
    and "val (snd (rc_xadd c stream fs n (snd (rc_delete c k r)))) k = None"
proof -
  obtain r' where r': "rc_delete c k r = (Reply (), r')" "up r'" "val r' = (val r)(k := None)"
    using delete_up [OF assms(1)] by blast
  obtain r'' where "rc_xadd c stream fs n r' = (Reply (), r'')" "up r''" "val r'' k = val r' k"
    using xadd_up [OF r'(2)] assms(2) by blast
  with r' show "up (snd (rc_xadd c stream fs n (snd (rc_delete c k r))))"
    and "val (snd (rc_xadd c stream fs n (snd (rc_delete c k r)))) k = None" by simp_all
qed

text \<open>Counting \<open>n\<close> times on a key that was missing.\<close>

lemma counted:
  assumes "up r" and "val r k = None" and "0 < ex"
    and step: "\<And>r. f r = (case rc_incr c k r of (Down, r1) \<Rightarrow> r1
      | (Reply m, r1) \<Rightarrow> if m = 1 then snd (rc_expire c k ex r1) else r1)"
  shows "up ((f ^^ n) r) \<and> val ((f ^^ n) r) k = (if n = 0 then None else Some (Num (int n)))"
proof (induction n)
  case (Suc n)
  define s where "s = (f ^^ n) r"
  have next_state: "(f ^^ Suc n) r = f s" by (simp add: s_def)
  have here: "up s" "val s k = (if n = 0 then None else Some (Num (int n)))"
    using Suc by (simp_all add: s_def)
  show ?case
  proof (cases "n = 0")
    case True
    then obtain r1 where r1: "rc_incr c k s = (Reply 1, r1)" "up r1" "val r1 = (val s)(k \<mapsto> Num 1)"
      using incr_new [OF here(1), of k] here(2) by auto
    then have "val r1 k \<noteq> None" by simp
    then obtain r2 where "rc_expire c k ex r1 = (Reply (), r2)" "up r2" "val r2 = val r1"
      using expire_up [OF r1(2) assms(3)] by blast
    then show ?thesis unfolding next_state step [of s] using r1 True by simp
  next
    case False
    then obtain r1 where "rc_incr c k s = (Reply (int n + 1), r1)" "up r1"
        "val r1 = (val s)(k \<mapsto> Num (int n + 1))"
      using incr_old [OF here(1), of k "int n"] here(2) by auto
    then show ?thesis unfolding next_state step [of s] using False by simp
  qed
qed (use assms in simp)

end

section \<open>A server in memory\<close>

text \<open>
  One association of keys to values and expiries, and the entries of the streams. When it is
  offline every command raises and nothing changes.
\<close>

record mem_redis =
  mr_online :: bool
  mr_keys :: "ptext \<Rightarrow> (redis_value \<times> int option) option"
  mr_streams :: "(ptext \<times> (string \<times> redis_value) list) list"

definition mr_val :: "mem_redis \<Rightarrow> ptext \<Rightarrow> redis_value option" where
  "mr_val r k = map_option fst (mr_keys r k)"

definition mr_ttl :: "mem_redis \<Rightarrow> ptext \<Rightarrow> int option" where
  "mr_ttl r k = (case mr_keys r k of None \<Rightarrow> None | Some (_, t) \<Rightarrow> t)"

definition mr_up :: "mem_redis \<Rightarrow> bool" where
  "mr_up r = (mr_online r \<and> (\<forall>k s. mr_ttl r k = Some s \<longrightarrow> 0 < s))"

definition when_online :: "(mem_redis \<Rightarrow> 'a \<times> mem_redis) \<Rightarrow> mem_redis \<Rightarrow> 'a reply \<times> mem_redis" where
  "when_online f r = (if mr_online r then (case f r of (a, r') \<Rightarrow> (Reply a, r')) else (Down, r))"

definition mr_put :: "ptext \<Rightarrow> redis_value \<times> int option \<Rightarrow> mem_redis \<Rightarrow> mem_redis" where
  "mr_put k e r = r\<lparr>mr_keys := (mr_keys r)(k \<mapsto> e)\<rparr>"

definition mr_incr :: "ptext \<Rightarrow> mem_redis \<Rightarrow> int \<times> mem_redis" where
  "mr_incr k r =
     (case mr_keys r k of
        Some (Num n, t) \<Rightarrow> (n + 1, mr_put k (Num (n + 1), t) r)
      | _ \<Rightarrow> (1, mr_put k (Num 1, None) r))"

definition mem_client :: "mem_redis redis_client" where
  "mem_client =
     \<lparr>rc_get = (\<lambda>k. when_online (\<lambda>r. (mr_val r k, r))),
      rc_set_ex = (\<lambda>k v ex. when_online (\<lambda>r. ((), mr_put k (v, Some ex) r))),
      rc_delete = (\<lambda>k. when_online (\<lambda>r. ((), r\<lparr>mr_keys := (mr_keys r)(k := None)\<rparr>))),
      rc_ttl = (\<lambda>k. when_online (\<lambda>r.
        (case mr_keys r k of None \<Rightarrow> -2 | Some (_, None) \<Rightarrow> -1 | Some (_, Some s) \<Rightarrow> s, r))),
      rc_incr = (\<lambda>k. when_online (mr_incr k)),
      rc_expire = (\<lambda>k ex. when_online (\<lambda>r.
        ((), case mr_keys r k of None \<Rightarrow> r | Some (v, _) \<Rightarrow> mr_put k (v, Some ex) r))),
      rc_xadd = (\<lambda>s fs n. when_online (\<lambda>r. ((), r\<lparr>mr_streams := mr_streams r @ [(s, fs)]\<rparr>)))\<rparr>"

lemmas mem_client_defs =
  mem_client_def when_online_def mr_put_def mr_incr_def mr_up_def mr_val_def mr_ttl_def

interpretation mem: redis_server mem_client mr_up mr_val mr_ttl
  by unfold_locales
    (auto simp: mem_client_defs fun_eq_iff split: option.splits prod.splits)

end
