(* ===== verification/Keys.thy ===== *)
theory Keys
  imports Settings
begin

text \<open>
  \<open>core/keys.py\<close>: the key ring, its loading with the check of a half-configured rotation, and
  the JWK projection of a public key. Reading a file and parsing a PEM block are arguments.
\<close>

section \<open>RSA parameters as base64url text\<close>

fun bit_length :: "nat \<Rightarrow> nat" where
  "bit_length n = (if n = 0 then 0 else Suc (bit_length (n div 2)))"

declare bit_length.simps [simp del]

text \<open>\<open>n.to_bytes(k, 'big')\<close> for a value that fits.\<close>

fun to_bytes :: "nat \<Rightarrow> nat \<Rightarrow> nat list" where
  "to_bytes 0 n = []"
| "to_bytes (Suc k) n = to_bytes k (n div 256) @ [n mod 256]"

definition b64_char :: "nat \<Rightarrow> nat" where
  "b64_char n =
     (if n < 26 then 65 + n else if n < 52 then 71 + n else if n < 62 then n - 4
      else if n = 62 then of_char CHR ''-'' else of_char CHR ''_'')"

definition pad :: nat where
  "pad = of_char CHR ''=''"

fun urlsafe_b64encode :: "nat list \<Rightarrow> ptext" where
  "urlsafe_b64encode [] = []"
| "urlsafe_b64encode [a] = [b64_char (a div 4), b64_char (a mod 4 * 16), pad, pad]"
| "urlsafe_b64encode [a, b] =
     [b64_char (a div 4), b64_char (a mod 4 * 16 + b div 16), b64_char (b mod 16 * 4), pad]"
| "urlsafe_b64encode (a # b # c # bs) =
     b64_char (a div 4) # b64_char (a mod 4 * 16 + b div 16) #
     b64_char (b mod 16 * 4 + c div 64) # b64_char (c mod 64) # urlsafe_b64encode bs"

definition rstrip_pad :: "ptext \<Rightarrow> ptext" where
  "rstrip_pad s = rev (dropWhile (\<lambda>c. c = pad) (rev s))"

definition b64url_uint :: "nat \<Rightarrow> ptext" where
  "b64url_uint value =
     rstrip_pad (urlsafe_b64encode (to_bytes ((bit_length value + 7) div 8) value))"

section \<open>The key ring\<close>

record public_key_entry =
  kid :: ptext
  pem :: ptext

record key_ring =
  active_kid :: ptext
  private_pem :: ptext
  public_keys :: "public_key_entry list"

text \<open>\<open>load_pem_public_key\<close> gives the modulus and exponent of an RSA key; \<open>None\<close> stands for
  anything that is not one.\<close>

definition to_jwk :: "(ptext \<Rightarrow> (nat \<times> nat) option) \<Rightarrow> public_key_entry \<Rightarrow> failure + json" where
  "to_jwk load_pem_public_key e =
     (case load_pem_public_key (pem e) of
        None \<Rightarrow> Inl (Uncaught ''RuntimeError'')
      | Some (n, ex) \<Rightarrow>
          Inr (JObj [(''kid'', JText (kid e)), (''kty'', jlit ''RSA''), (''use'', jlit ''sig''),
                     (''alg'', jlit ''RS256''), (''n'', JText (b64url_uint n)),
                     (''e'', JText (b64url_uint ex))]))"

fun to_jwks :: "(ptext \<Rightarrow> (nat \<times> nat) option) \<Rightarrow> public_key_entry list \<Rightarrow> failure + json list" where
  "to_jwks load [] = Inr []"
| "to_jwks load (e # es) =
     (case to_jwk load e of Inl x \<Rightarrow> Inl x
      | Inr j \<Rightarrow> (case to_jwks load es of Inl x \<Rightarrow> Inl x | Inr js \<Rightarrow> Inr (j # js)))"

definition jwks :: "(ptext \<Rightarrow> (nat \<times> nat) option) \<Rightarrow> key_ring \<Rightarrow> failure + json" where
  "jwks load ring =
     (case to_jwks load (public_keys ring) of Inl x \<Rightarrow> Inl x
      | Inr js \<Rightarrow> Inr (JObj [(''keys'', JList js)]))"

section \<open>Loading the key ring\<close>

record key_paths =
  jwt_private_key_path :: ptext
  jwt_public_key_path :: ptext
  jwt_previous_public_key_path :: "ptext option"
  jwt_previous_kid :: "ptext option"

fun truthy :: "ptext option \<Rightarrow> bool" where
  "truthy None = False"
| "truthy (Some t) = (t \<noteq> [])"

text \<open>\<open>_read\<close>: the text of a file, or the \<open>RuntimeError\<close> for one that is not there.\<close>

definition read_key :: "(ptext \<Rightarrow> ptext option) \<Rightarrow> ptext \<Rightarrow> failure + ptext" where
  "read_key file path =
     (case file path of None \<Rightarrow> Inl (Uncaught ''RuntimeError'') | Some t \<Rightarrow> Inr t)"

definition get_key_ring ::
  "(ptext \<Rightarrow> ptext option) \<Rightarrow> settings \<Rightarrow> key_paths \<Rightarrow> failure + key_ring" where
  "get_key_ring file s p =
     (case read_key file (jwt_private_key_path p) of Inl e \<Rightarrow> Inl e | Inr private \<Rightarrow>
      (case read_key file (jwt_public_key_path p) of Inl e \<Rightarrow> Inl e | Inr public \<Rightarrow>
        let entry = \<lparr>kid = jwt_active_kid s, pem = public\<rparr>;
            ring = (\<lambda>entries. \<lparr>active_kid = jwt_active_kid s, private_pem = private, public_keys = entries\<rparr>)
        in
          if truthy (jwt_previous_public_key_path p) \<and> truthy (jwt_previous_kid p) then
            (case read_key file (the (jwt_previous_public_key_path p)) of Inl e \<Rightarrow> Inl e
             | Inr previous \<Rightarrow> Inr (ring [entry, \<lparr>kid = the (jwt_previous_kid p), pem = previous\<rparr>]))
          else if truthy (jwt_previous_public_key_path p) \<or> truthy (jwt_previous_kid p) then
            Inl (Uncaught ''RuntimeError'')
          else Inr (ring [entry])))"

lemma get_key_ring_active_first:
  "get_key_ring file s p = Inr ring \<Longrightarrow>
   active_kid ring = jwt_active_kid s \<and> public_keys ring \<noteq> [] \<and> kid (hd (public_keys ring)) = active_kid ring"
  by (auto simp: get_key_ring_def Let_def split: sum.splits if_splits)

text \<open>
  The key ring loads exactly when the files are there and the previous key and its id are
  configured together or not at all; it then signs with the active key, publishes it first, and
  publishes the previous one only during a rotation.
\<close>

theorem key_ring_loads_iff:
  "get_key_ring file s p = Inr ring \<longleftrightarrow>
   (\<exists>private public.
      file (jwt_private_key_path p) = Some private \<and> file (jwt_public_key_path p) = Some public \<and>
      truthy (jwt_previous_public_key_path p) = truthy (jwt_previous_kid p) \<and>
      active_kid ring = jwt_active_kid s \<and> private_pem ring = private \<and>
      (if truthy (jwt_previous_kid p)
       then \<exists>previous. file (the (jwt_previous_public_key_path p)) = Some previous \<and>
              public_keys ring =
                [\<lparr>kid = jwt_active_kid s, pem = public\<rparr>, \<lparr>kid = the (jwt_previous_kid p), pem = previous\<rparr>]
       else public_keys ring = [\<lparr>kid = jwt_active_kid s, pem = public\<rparr>]))"
  by (cases ring; cases "truthy (jwt_previous_kid p)"; cases "truthy (jwt_previous_public_key_path p)")
    (auto simp: get_key_ring_def read_key_def Let_def split: option.splits)

end
