(* ===== verification/Payloads.thy ===== *)
theory Payloads
  imports Entities
begin

text \<open>
  \<open>application/payloads.py\<close>: the published shape of a user, and \<open>str(uuid)\<close>, the text under which
  an account is known outside the service.
\<close>

section \<open>Canonical text of a UUID\<close>

definition hex_digit :: "nat \<Rightarrow> nat" where
  "hex_digit n = (if n < 10 then 48 + n else 87 + n)"

fun hex_value :: "nat \<Rightarrow> nat option" where
  "hex_value c =
     (if 48 \<le> c \<and> c \<le> 57 then Some (c - 48)
      else if 97 \<le> c \<and> c \<le> 102 then Some (c - 87)
      else if 65 \<le> c \<and> c \<le> 70 then Some (c - 55)
      else None)"

text \<open>\<open>'%032x' % self.int\<close>, least significant digit last.\<close>

fun hex_digits :: "nat \<Rightarrow> nat \<Rightarrow> ptext" where
  "hex_digits 0 n = []"
| "hex_digits (Suc k) n = hex_digits k (n div 16) @ [hex_digit (n mod 16)]"

definition dash :: nat where
  "dash = of_char CHR ''-''"

definition uuid_str :: "uuid \<Rightarrow> ptext" where
  "uuid_str u =
     (let hex = hex_digits 32 (unat u)
      in take 8 hex @ [dash] @ take 4 (drop 8 hex) @ [dash] @ take 4 (drop 12 hex) @ [dash]
         @ take 4 (drop 16 hex) @ [dash] @ drop 20 hex)"

lemma length_hex_digits [simp]: "length (hex_digits k n) = k"
  by (induction k arbitrary: n) auto

lemma length_uuid_str [simp]: "length (uuid_str u) = 36"
  by (simp add: uuid_str_def Let_def)

lemma uuid_str_neq_Nil [simp]: "uuid_str u \<noteq> []"
  by (simp add: uuid_str_def Let_def)

section \<open>The profile\<close>

definition profile_payload :: "user \<Rightarrow> json" where
  "profile_payload u =
     JObj [(''id'', JText (uuid_str (usr_id u))),
           (''phone'', JText (usr_phone u)),
           (''full_name'', jtext_or_null (usr_full_name u)),
           (''role'', jlit (role_value (usr_role u))),
           (''status'', jlit (status_value (usr_status u))),
           (''requested_role'',
              (case usr_requested_role u of None \<Rightarrow> JNull | Some r \<Rightarrow> jlit (role_value r)))]"

lemma profile_payload_fields:
  "jfield ''role'' (profile_payload u) = Some (jlit (role_value (usr_role u)))"
  "jfield ''status'' (profile_payload u) = Some (jlit (status_value (usr_status u)))"
  "jfield ''requested_role'' (profile_payload u) =
     Some (case usr_requested_role u of None \<Rightarrow> JNull | Some r \<Rightarrow> jlit (role_value r))"
  by (simp_all add: profile_payload_def)

end
