(* ===== verification/User_Events.thy ===== *)
theory User_Events
  imports Payloads
begin

text \<open>
  \<open>domain/events/user_events.py\<close>: the event classes as one datatype over their common
  envelope, their wire names and their published bodies. \<open>at\<close> is set when the event is
  built.
\<close>

record envelope =
  ev_user_id :: uuid
  ev_phone :: ptext
  ev_role :: string
  ev_at :: instant

datatype domain_event =
    UserRegistered envelope
  | UserUpdated envelope "string list"
  | UserRoleChanged envelope string string
  | UserStatusChanged envelope string string "ptext option"

fun event_envelope :: "domain_event \<Rightarrow> envelope" where
  "event_envelope (UserRegistered e) = e"
| "event_envelope (UserUpdated e changed_fields) = e"
| "event_envelope (UserRoleChanged e old_role new_role) = e"
| "event_envelope (UserStatusChanged e old_status new_status reason) = e"

text \<open>The \<open>name\<close> field after \<open>__post_init__\<close>.\<close>

fun event_name :: "domain_event \<Rightarrow> string" where
  "event_name (UserRegistered e) = ''user.registered''"
| "event_name (UserUpdated e changed_fields) = ''user.updated''"
| "event_name (UserRoleChanged e old_role new_role) = ''user.role_changed''"
| "event_name (UserStatusChanged e old_status new_status reason) =
     (if new_status \<noteq> ''suspended'' then ''user.updated'' else ''user.suspended'')"

definition base_payload :: "domain_event \<Rightarrow> (string \<times> json) list" where
  "base_payload ev =
     [(''event'', jlit (event_name ev)),
      (''user_id'', JText (uuid_str (ev_user_id (event_envelope ev)))),
      (''phone'', JText (ev_phone (event_envelope ev))),
      (''role'', jlit (ev_role (event_envelope ev))),
      (''at'', JTime (ev_at (event_envelope ev)))]"

fun extra_payload :: "domain_event \<Rightarrow> (string \<times> json) list" where
  "extra_payload (UserRegistered e) = []"
| "extra_payload (UserUpdated e changed_fields) =
     [(''changed_fields'', JList (map jlit changed_fields))]"
| "extra_payload (UserRoleChanged e old_role new_role) =
     [(''old_role'', jlit old_role), (''new_role'', jlit new_role)]"
| "extra_payload (UserStatusChanged e old_status new_status reason) =
     [(''old_status'', jlit old_status), (''new_status'', jlit new_status),
      (''reason'', jtext_or_null reason)]"

definition to_payload :: "domain_event \<Rightarrow> json" where
  "to_payload ev = JObj (base_payload ev @ extra_payload ev)"

definition contract_event_names :: "string set" where
  "contract_event_names =
     {''user.registered'', ''user.updated'', ''user.role_changed'', ''user.suspended''}"

lemma event_name_in_contract: "event_name ev \<in> contract_event_names"
  by (cases ev) (auto simp: contract_event_names_def)

lemma to_payload_fields:
  "jfield ''event'' (to_payload ev) = Some (jlit (event_name ev))"
  "jfield ''user_id'' (to_payload ev) = Some (JText (uuid_str (ev_user_id (event_envelope ev))))"
  "jfield ''role'' (to_payload ev) = Some (jlit (ev_role (event_envelope ev)))"
  "jfield ''at'' (to_payload ev) = Some (JTime (ev_at (event_envelope ev)))"
  by (simp_all add: to_payload_def base_payload_def)

end
