(* ===== verification/World.thy ===== *)
theory World
  imports Models Redis_Client Keys User_Events
begin

text \<open>
  What a request runs in. The context \<open>ctx\<close> is fixed: settings, the clients of the services,
  the cryptographic functions and the outcomes of every clock reading and random draw, in the
  order they are made. The world changes: the session's view of the database and what other
  connections see of it, the Redis server, the positions in the streams of readings and
  draws, and the effects that left the process, in order.
\<close>

section \<open>The JWT library\<close>

text \<open>
  PyJWT, an argument: \<open>encode payload key kid\<close>, \<open>get_unverified_header\<close> (\<open>None\<close> for its
  \<open>InvalidTokenError\<close>) giving the \<open>kid\<close> entry if there is one, and \<open>decode token pem issuer
  now\<close> with the algorithm and the required claims the source asks for.
\<close>

type_synonym claims = "(string \<times> json) list"

datatype jwt_error = ExpiredSignatureError | InvalidTokenError

record jwt_lib =
  jwt_encode :: "claims \<Rightarrow> ptext \<Rightarrow> ptext \<Rightarrow> ptext"
  jwt_header_kid :: "ptext \<Rightarrow> ptext option option"
  jwt_decode :: "ptext \<Rightarrow> ptext \<Rightarrow> ptext \<Rightarrow> instant \<Rightarrow> jwt_error + claims"

section \<open>The context\<close>

record 'r ctx =
  cfg :: settings
  redis :: "'r redis_client"
  ring :: key_ring
  jwt :: jwt_lib
  sha256_hex :: "ptext \<Rightarrow> ptext"
  hmac_sha256_hex :: "ptext \<Rightarrow> ptext \<Rightarrow> ptext"
  clock :: "nat \<Rightarrow> instant"
  uuid4s :: "nat \<Rightarrow> uuid"
  urlsafe_tokens :: "nat \<Rightarrow> ptext"
  random_codes :: "nat \<Rightarrow> nat"

section \<open>The world\<close>

datatype effect =
    Committed
  | Invalidated uuid
  | Published domain_event
  | OtpSent ptext ptext

record 'r world =
  w_db :: database
  w_committed :: database
  w_redis :: 'r
  w_clock_ix :: nat
  w_uuid_ix :: nat
  w_token_ix :: nat
  w_code_ix :: nat
  w_effects :: "effect list"

definition emit :: "effect \<Rightarrow> ('r world, unit) prog" where
  "emit e = modify (\<lambda>w. w\<lparr>w_effects := w_effects w @ [e]\<rparr>)"

definition modify_db :: "(database \<Rightarrow> database) \<Rightarrow> ('r world, unit) prog" where
  "modify_db f = modify (\<lambda>w. w\<lparr>w_db := f (w_db w)\<rparr>)"

text \<open>\<open>datetime.now(UTC)\<close>, \<open>uuid4()\<close>, \<open>token_urlsafe(32)\<close> and \<open>randbelow(n)\<close>.\<close>

definition now_utc :: "'r ctx \<Rightarrow> ('r world, instant) prog" where
  "now_utc c = andthen (gets (\<lambda>w. clock c (w_clock_ix w)))
     (\<lambda>t. before (modify (\<lambda>w. w\<lparr>w_clock_ix := Suc (w_clock_ix w)\<rparr>)) (return t))"

definition uuid4 :: "'r ctx \<Rightarrow> ('r world, uuid) prog" where
  "uuid4 c = andthen (gets (\<lambda>w. uuid4s c (w_uuid_ix w)))
     (\<lambda>u. before (modify (\<lambda>w. w\<lparr>w_uuid_ix := Suc (w_uuid_ix w)\<rparr>)) (return u))"

definition token_urlsafe :: "'r ctx \<Rightarrow> ('r world, ptext) prog" where
  "token_urlsafe c = andthen (gets (\<lambda>w. urlsafe_tokens c (w_token_ix w)))
     (\<lambda>t. before (modify (\<lambda>w. w\<lparr>w_token_ix := Suc (w_token_ix w)\<rparr>)) (return t))"

definition randbelow :: "'r ctx \<Rightarrow> nat \<Rightarrow> ('r world, nat) prog" where
  "randbelow c n = andthen (gets (\<lambda>w. random_codes c (w_code_ix w) mod n))
     (\<lambda>k. before (modify (\<lambda>w. w\<lparr>w_code_ix := Suc (w_code_ix w)\<rparr>)) (return k))"

lemma wp_emit [wp_rules]: "wp (emit e) Q E w = Q () (w\<lparr>w_effects := w_effects w @ [e]\<rparr>)"
  by (simp add: emit_def wp_rules)

lemma wp_modify_db [wp_rules]: "wp (modify_db f) Q E w = Q () (w\<lparr>w_db := f (w_db w)\<rparr>)"
  by (simp add: modify_db_def wp_rules)

lemma wp_now_utc [wp_rules]:
  "wp (now_utc c) Q E w = Q (clock c (w_clock_ix w)) (w\<lparr>w_clock_ix := Suc (w_clock_ix w)\<rparr>)"
  by (simp add: now_utc_def wp_rules)

lemma wp_uuid4 [wp_rules]:
  "wp (uuid4 c) Q E w = Q (uuid4s c (w_uuid_ix w)) (w\<lparr>w_uuid_ix := Suc (w_uuid_ix w)\<rparr>)"
  by (simp add: uuid4_def wp_rules)

lemma wp_token_urlsafe [wp_rules]:
  "wp (token_urlsafe c) Q E w =
   Q (urlsafe_tokens c (w_token_ix w)) (w\<lparr>w_token_ix := Suc (w_token_ix w)\<rparr>)"
  by (simp add: token_urlsafe_def wp_rules)

lemma wp_randbelow [wp_rules]:
  "wp (randbelow c n) Q E w =
   Q (random_codes c (w_code_ix w) mod n) (w\<lparr>w_code_ix := Suc (w_code_ix w)\<rparr>)"
  by (simp add: randbelow_def wp_rules)

section \<open>The session of a request (core/database.py)\<close>

text \<open>
  \<open>commit\<close> makes the session's view the committed one. \<open>get_session\<close> wraps a handler: it
  commits when the handler returns and rolls back when it raises.
\<close>

definition commit :: "('r world, unit) prog" where
  "commit = before (modify (\<lambda>w. w\<lparr>w_committed := w_db w\<rparr>)) (emit Committed)"

definition rollback :: "'r world \<Rightarrow> 'r world" where
  "rollback w = w\<lparr>w_db := w_committed w\<rparr>"

definition get_session :: "('r world, 'a) prog \<Rightarrow> ('r world, 'a) prog" where
  "get_session handler w =
     (case handler w of
        (Inr a, w') \<Rightarrow> (Inr a, w'\<lparr>w_committed := w_db w'\<rparr>)
      | (Inl e, w') \<Rightarrow> (Inl e, rollback w'))"

lemma wp_commit [wp_rules]:
  "wp commit Q E w = Q () (w\<lparr>w_committed := w_db w, w_effects := w_effects w @ [Committed]\<rparr>)"
  by (simp add: commit_def wp_rules)

lemma wp_get_session [wp_rules]:
  "wp (get_session m) Q E w =
   wp m (\<lambda>a w'. Q a (w'\<lparr>w_committed := w_db w'\<rparr>)) (\<lambda>e w'. E e (rollback w')) w"
  by (auto simp: wp_def get_session_def split: prod.splits sum.splits)

text \<open>After a request the session's view is the committed database, whatever happened.\<close>

lemma get_session_settled: "w_db (snd (get_session m w)) = w_committed (snd (get_session m w))"
  by (auto simp: get_session_def rollback_def split: prod.splits sum.splits)

end
