(* ===== verification/Write_Repository.thy ===== *)
theory Write_Repository
  imports World
begin

text \<open>
  \<open>infra/write_repository.py\<close>: the three SQLAlchemy repositories of the commands. A query is
  a list function on the session's tables; the constraints of \<open>infra/models.py\<close> (primary keys,
  the unique phone, the foreign keys to \<open>users\<close>) are checked where a row is inserted, and a
  violation is the \<open>IntegrityError\<close> of the flush.
\<close>

section \<open>What the statements do to the tables\<close>

definition add_user :: "user_row \<Rightarrow> database \<Rightarrow> database" where
  "add_user row db = db\<lparr>db_users := db_users db @ [row]\<rparr>"

definition add_status_row :: "status_history_row \<Rightarrow> database \<Rightarrow> database" where
  "add_status_row row db = db\<lparr>db_status_history := db_status_history db @ [row]\<rparr>"

definition add_role_row :: "role_history_row \<Rightarrow> database \<Rightarrow> database" where
  "add_role_row row db = db\<lparr>db_role_history := db_role_history db @ [row]\<rparr>"

definition add_otp :: "otp_code \<Rightarrow> database \<Rightarrow> database" where
  "add_otp row db = db\<lparr>db_otp_codes := db_otp_codes db @ [row]\<rparr>"

definition add_token :: "refresh_token \<Rightarrow> database \<Rightarrow> database" where
  "add_token row db = db\<lparr>db_refresh_tokens := db_refresh_tokens db @ [row]\<rparr>"

definition update_user :: "uuid \<Rightarrow> (user_row \<Rightarrow> user_row) \<Rightarrow> database \<Rightarrow> database" where
  "update_user i f db = db\<lparr>db_users := update_where (\<lambda>r. ur_id r = i) f (db_users db)\<rparr>"

definition update_otp :: "uuid \<Rightarrow> (otp_code \<Rightarrow> otp_code) \<Rightarrow> database \<Rightarrow> database" where
  "update_otp i f db = db\<lparr>db_otp_codes := update_where (\<lambda>r. otp_id r = i) f (db_otp_codes db)\<rparr>"

definition revoke_where :: "(refresh_token \<Rightarrow> bool) \<Rightarrow> instant \<Rightarrow> database \<Rightarrow> database" where
  "revoke_where P now db =
     db\<lparr>db_refresh_tokens :=
       update_where (\<lambda>r. P r \<and> rt_revoked_at r = None) (\<lambda>r. r\<lparr>rt_revoked_at := Some now\<rparr>)
         (db_refresh_tokens db)\<rparr>"

definition user_exists :: "uuid \<Rightarrow> database \<Rightarrow> bool" where
  "user_exists i db = list_ex (\<lambda>r. ur_id r = i) (db_users db)"

lemmas statement_defs =
  add_user_def add_status_row_def add_role_row_def add_otp_def add_token_def update_user_def
  update_otp_def revoke_where_def

section \<open>Selecting one row\<close>

fun scalar_one_or_none :: "'a list \<Rightarrow> failure + 'a option" where
  "scalar_one_or_none [] = Inr None"
| "scalar_one_or_none [r] = Inr (Some r)"
| "scalar_one_or_none (r # s # rs) = Inl (Uncaught ''MultipleResultsFound'')"

text \<open>\<open>UserRole(v) if v else None\<close>; the outer option is the \<open>ValueError\<close>.\<close>

fun nullable_role :: "ptext option \<Rightarrow> user_role option option" where
  "nullable_role None = Some None"
| "nullable_role (Some v) = (if v = [] then Some None else map_option Some (UserRole v))"

definition user_to_domain :: "user_row \<Rightarrow> user option" where
  "user_to_domain row =
     (case (UserRole (ur_role row), UserStatus (ur_status row), nullable_role (ur_requested_role row)) of
        (Some role, Some status, Some requested) \<Rightarrow>
          Some \<lparr>usr_id = ur_id row, usr_phone = ur_phone row, usr_role = role, usr_status = status,
                usr_full_name = ur_full_name row, usr_password_hash = ur_password_hash row,
                usr_requested_role = requested, usr_created_at = Some (ur_created_at row),
                usr_updated_at = Some (ur_updated_at row)\<rparr>
      | _ \<Rightarrow> None)"

definition select_user :: "(user_row \<Rightarrow> bool) \<Rightarrow> database \<Rightarrow> failure + user option" where
  "select_user P db =
     (case scalar_one_or_none (filter P (db_users db)) of
        Inl e \<Rightarrow> Inl e
      | Inr None \<Rightarrow> Inr None
      | Inr (Some row) \<Rightarrow>
          (case user_to_domain row of None \<Rightarrow> Inl (Uncaught ''ValueError'') | Some u \<Rightarrow> Inr (Some u)))"

section \<open>SqlAlchemyUserWriteRepository\<close>

definition user_find_by_id :: "uuid \<Rightarrow> ('r world, user option) prog" where
  "user_find_by_id user_id =
     andthen (gets w_db) (\<lambda>db. from_result (select_user (\<lambda>r. ur_id r = user_id) db))"

definition user_find_by_phone :: "ptext \<Rightarrow> ('r world, user option) prog" where
  "user_find_by_phone phone =
     andthen (gets w_db) (\<lambda>db. from_result (select_user (\<lambda>r. ur_phone r = phone) db))"

definition role_text :: "user_role option \<Rightarrow> ptext option" where
  "role_text r = map_option (\<lambda>r. ascii (role_value r)) r"

definition new_user_row :: "instant \<Rightarrow> user \<Rightarrow> user_row" where
  "new_user_row now u =
     \<lparr>ur_id = usr_id u, ur_phone = usr_phone u, ur_full_name = usr_full_name u,
      ur_password_hash = usr_password_hash u, ur_role = ascii (role_value (usr_role u)),
      ur_status = ascii (status_value (usr_status u)),
      ur_requested_role = role_text (usr_requested_role u),
      ur_created_at = (case usr_created_at u of None \<Rightarrow> now | Some t \<Rightarrow> t), ur_updated_at = now\<rparr>"

definition write_user_row :: "instant \<Rightarrow> user \<Rightarrow> user_row \<Rightarrow> user_row" where
  "write_user_row now u row =
     row\<lparr>ur_full_name := usr_full_name u, ur_password_hash := usr_password_hash u,
         ur_role := ascii (role_value (usr_role u)),
         ur_status := ascii (status_value (usr_status u)),
         ur_requested_role := role_text (usr_requested_role u), ur_updated_at := now\<rparr>"

definition insert_user :: "user_row \<Rightarrow> ('r world, unit) prog" where
  "insert_user row = andthen (gets w_db) (\<lambda>db.
     if list_ex (\<lambda>r. ur_id r = ur_id row \<or> ur_phone r = ur_phone row) (db_users db)
     then raise (Uncaught ''IntegrityError'')
     else modify_db (add_user row))"

definition user_save :: "'r ctx \<Rightarrow> user \<Rightarrow> ('r world, user) prog" where
  "user_save c u =
     andthen (gets (\<lambda>w. find (\<lambda>r. ur_id r = usr_id u) (db_users (w_db w)))) (\<lambda>row.
     andthen (now_utc c) (\<lambda>now.
     before (case row of
               None \<Rightarrow> insert_user (new_user_row now u)
             | Some _ \<Rightarrow> modify_db (update_user (usr_id u) (write_user_row now u)))
     (return (u\<lparr>usr_updated_at := Some now\<rparr>))))"

definition status_row :: "user_status_change \<Rightarrow> status_history_row" where
  "status_row ch =
     \<lparr>sh_id = usc_id ch, sh_user_id = usc_user_id ch,
      sh_from_status = map_option (\<lambda>s. ascii (status_value s)) (usc_from_status ch),
      sh_to_status = ascii (status_value (usc_to_status ch)), sh_reason = usc_reason ch,
      sh_changed_by = usc_changed_by ch, sh_changed_at = usc_changed_at ch\<rparr>"

definition role_row :: "user_role_change \<Rightarrow> role_history_row" where
  "role_row ch =
     \<lparr>rh_id = urc_id ch, rh_user_id = urc_user_id ch, rh_from_role = role_text (urc_from_role ch),
      rh_to_role = role_text (urc_to_role ch), rh_requested_role = role_text (urc_requested_role ch),
      rh_reason = urc_reason ch, rh_changed_by = urc_changed_by ch, rh_changed_at = urc_changed_at ch\<rparr>"

definition record_status_change :: "user_status_change \<Rightarrow> ('r world, unit) prog" where
  "record_status_change ch = andthen (gets w_db) (\<lambda>db.
     if list_ex (\<lambda>r. sh_id r = usc_id ch) (db_status_history db) \<or> \<not> user_exists (usc_user_id ch) db
     then raise (Uncaught ''IntegrityError'')
     else modify_db (add_status_row (status_row ch)))"

definition record_role_change :: "user_role_change \<Rightarrow> ('r world, unit) prog" where
  "record_role_change ch = andthen (gets w_db) (\<lambda>db.
     if list_ex (\<lambda>r. rh_id r = urc_id ch) (db_role_history db) \<or> \<not> user_exists (urc_user_id ch) db
     then raise (Uncaught ''IntegrityError'')
     else modify_db (add_role_row (role_row ch)))"

section \<open>SqlAlchemyOtpRepository\<close>

definition otp_save :: "otp_code \<Rightarrow> ('r world, unit) prog" where
  "otp_save otp = andthen (gets w_db) (\<lambda>db.
     if list_ex (\<lambda>r. otp_id r = otp_id otp) (db_otp_codes db)
     then raise (Uncaught ''IntegrityError'')
     else modify_db (add_otp otp))"

text \<open>\<open>ORDER BY created_at DESC LIMIT 1\<close>; rows of equal age come in table order.\<close>

definition latest_active :: "ptext \<Rightarrow> database \<Rightarrow> otp_code option" where
  "latest_active phone db =
     (case sort_key (\<lambda>r. - otp_created_at r)
             (filter (\<lambda>r. otp_phone r = phone \<and> otp_consumed_at r = None) (db_otp_codes db)) of
        [] \<Rightarrow> None | r # _ \<Rightarrow> Some r)"

definition otp_find_latest_active :: "ptext \<Rightarrow> ('r world, otp_code option) prog" where
  "otp_find_latest_active phone = gets (\<lambda>w. latest_active phone (w_db w))"

text \<open>\<open>UPDATE ... SET attempts = attempts + 1 ... RETURNING attempts\<close>, with \<open>scalar_one\<close>.\<close>

definition otp_register_attempt :: "uuid \<Rightarrow> ('r world, int) prog" where
  "otp_register_attempt i =
     before (modify_db (update_otp i (\<lambda>r. r\<lparr>otp_attempts := otp_attempts r + 1\<rparr>)))
     (andthen (gets (\<lambda>w. find (\<lambda>r. otp_id r = i) (db_otp_codes (w_db w)))) (\<lambda>row.
        case row of None \<Rightarrow> raise (Uncaught ''NoResultFound'') | Some r \<Rightarrow> return (otp_attempts r)))"

definition otp_mark_consumed :: "'r ctx \<Rightarrow> uuid \<Rightarrow> ('r world, unit) prog" where
  "otp_mark_consumed c i =
     andthen (gets (\<lambda>w. find (\<lambda>r. otp_id r = i) (db_otp_codes (w_db w)))) (\<lambda>row.
     case row of
       None \<Rightarrow> return ()
     | Some r \<Rightarrow>
         if otp_consumed_at r \<noteq> None then return ()
         else andthen (now_utc c) (\<lambda>now.
           modify_db (update_otp i (\<lambda>r. r\<lparr>otp_consumed_at := Some now\<rparr>))))"

section \<open>SqlAlchemyRefreshTokenRepository\<close>

definition token_save :: "refresh_token \<Rightarrow> ('r world, unit) prog" where
  "token_save t = andthen (gets w_db) (\<lambda>db.
     if list_ex (\<lambda>r. rt_id r = rt_id t) (db_refresh_tokens db) \<or> \<not> user_exists (rt_user_id t) db
     then raise (Uncaught ''IntegrityError'')
     else modify_db (add_token t))"

definition token_find_by_hash :: "ptext \<Rightarrow> ('r world, refresh_token option) prog" where
  "token_find_by_hash h = andthen (gets w_db) (\<lambda>db.
     from_result (scalar_one_or_none (filter (\<lambda>r. rt_token_hash r = h) (db_refresh_tokens db))))"

definition token_revoke :: "'r ctx \<Rightarrow> uuid \<Rightarrow> ('r world, unit) prog" where
  "token_revoke c i =
     andthen (now_utc c) (\<lambda>now. modify_db (revoke_where (\<lambda>r. rt_id r = i) now))"

definition live_tokens_of :: "uuid \<Rightarrow> database \<Rightarrow> refresh_token list" where
  "live_tokens_of u db =
     filter (\<lambda>r. rt_user_id r = u \<and> rt_revoked_at r = None) (db_refresh_tokens db)"

definition token_revoke_all_for_user :: "'r ctx \<Rightarrow> uuid \<Rightarrow> ('r world, nat) prog" where
  "token_revoke_all_for_user c u =
     andthen (now_utc c) (\<lambda>now.
     andthen (gets (\<lambda>w. length (live_tokens_of u (w_db w)))) (\<lambda>rowcount.
     before (modify_db (revoke_where (\<lambda>r. rt_user_id r = u) now)) (return rowcount)))"

end
