(* ===== verification/Py_Uuid.thy ===== *)
theory Py_Uuid
  imports Validation Payloads
begin

text \<open>
  \<open>UUID(text)\<close> of Python's \<open>uuid\<close> module, with the \<open>int(text, 16)\<close> it ends in, and the round
  trip with \<open>str\<close> on which the cache entries and the \<open>sub\<close> claim of the tokens rely.
\<close>

section \<open>int(text, 16)\<close>

text \<open>The value of a digit: \<open>int\<close> first turns the decimal digits of any script into ASCII.\<close>

definition digit_value :: "nat \<Rightarrow> nat option" where
  "digit_value ch =
     (case find (\<lambda>z. z \<le> ch \<and> ch \<le> z + 9) digit_zeros of
        Some z \<Rightarrow> Some (ch - z) | None \<Rightarrow> hex_value ch)"

definition underscore :: nat where
  "underscore = of_char CHR ''_''"

text \<open>Digits with single underscores between them; \<open>ready\<close> holds after a digit.\<close>

fun int_digits :: "bool \<Rightarrow> nat \<Rightarrow> ptext \<Rightarrow> nat option" where
  "int_digits ready acc [] = (if ready then Some acc else None)"
| "int_digits ready acc (ch # cs) =
     (if ch = underscore then (if ready then int_digits False acc cs else None)
      else case digit_value ch of None \<Rightarrow> None | Some d \<Rightarrow> int_digits True (16 * acc + d) cs)"

fun drop_prefix_0x :: "ptext \<Rightarrow> ptext" where
  "drop_prefix_0x (a # b # cs) =
     (if a = of_char CHR ''0'' \<and> (b = of_char CHR ''x'' \<or> b = of_char CHR ''X'')
      then (case cs of [] \<Rightarrow> [] | ch # cs' \<Rightarrow> if ch = underscore then cs' else cs)
      else a # b # cs)"
| "drop_prefix_0x cs = cs"

fun int_base16 :: "ptext \<Rightarrow> int option" where
  "int_base16 s =
     (case py_strip s of
        [] \<Rightarrow> None
      | ch # cs \<Rightarrow>
          if ch = of_char CHR ''-'' then map_option (\<lambda>n. - int n) (int_digits False 0 (drop_prefix_0x cs))
          else if ch = of_char CHR ''+'' then map_option int (int_digits False 0 (drop_prefix_0x cs))
          else map_option int (int_digits False 0 (drop_prefix_0x (ch # cs))))"

section \<open>UUID(text)\<close>

text \<open>\<open>s.replace(t, '')\<close> for a non-empty \<open>t\<close>, and \<open>s.strip('{}')\<close>.\<close>

function remove_all :: "ptext \<Rightarrow> ptext \<Rightarrow> ptext" where
  "remove_all t [] = []"
| "remove_all t (ch # cs) =
     (if t \<noteq> [] \<and> take (length t) (ch # cs) = t then remove_all t (drop (length t) (ch # cs))
      else ch # remove_all t cs)"
  by pat_completeness auto
termination
proof (relation "measure (\<lambda>(t, s). length s)")
  fix t ch cs
  assume "t \<noteq> [] \<and> take (length t) (ch # cs) = t"
  then have "0 < length t" by simp
  then show "((t, drop (length t) (ch # cs)), t, ch # cs) \<in> measure (\<lambda>(t, s). length s)"
    by (simp del: length_greater_0_conv)
qed auto

definition is_brace :: "nat \<Rightarrow> bool" where
  "is_brace ch = (ch = of_char CHR ''{'' \<or> ch = of_char CHR ''}'')"

definition strip_braces :: "ptext \<Rightarrow> ptext" where
  "strip_braces s = rev (dropWhile is_brace (rev (dropWhile is_brace s)))"

definition UUID :: "ptext \<Rightarrow> uuid option" where
  "UUID text =
     (let hex = remove_all [dash]
                  (strip_braces (remove_all (ascii ''uuid:'') (remove_all (ascii ''urn:'') text)))
      in if length hex \<noteq> 32 then None
         else case int_base16 hex of
                None \<Rightarrow> None
              | Some n \<Rightarrow> if 0 \<le> n \<and> n < 2 ^ 128 then Some (of_nat (nat n)) else None)"

section \<open>Reading back what \<open>str\<close> wrote\<close>

definition is_lower_hex :: "nat \<Rightarrow> bool" where
  "is_lower_hex ch \<longleftrightarrow> (48 \<le> ch \<and> ch \<le> 57) \<or> (97 \<le> ch \<and> ch \<le> 102)"

lemma hex_digit_lower: "n < 16 \<Longrightarrow> is_lower_hex (hex_digit n)"
  by (auto simp: hex_digit_def is_lower_hex_def)

lemma hex_digits_lower: "\<forall>ch\<in>set (hex_digits k n). is_lower_hex ch"
  by (induction k arbitrary: n) (auto simp: hex_digit_lower)

lemma digit_value_hex_digit:
  assumes "n < 16"
  shows "digit_value (hex_digit n) = Some n"
proof (cases "n < 10")
  case True
  then show ?thesis by (simp add: digit_value_def digit_zeros_def hex_digit_def)
next
  case False
  with assms have "find (\<lambda>z. z \<le> 87 + n \<and> 87 + n \<le> z + 9) digit_zeros = None"
    by (simp add: digit_zeros_def)
  with False assms show ?thesis by (simp add: digit_value_def hex_digit_def)
qed

lemma hex_digit_not_underscore: "n < 16 \<Longrightarrow> hex_digit n \<noteq> underscore"
  by (auto simp: hex_digit_def underscore_def)

lemma int_digits_hex_digits:
  "int_digits ready acc (hex_digits k n @ rest) =
   int_digits (0 < k \<or> ready) (acc * 16 ^ k + n mod 16 ^ k) rest"
proof (induction k arbitrary: n rest)
  case 0
  then show ?case by simp
next
  case (Suc k)
  have "n mod (16 * 16 ^ k) = 16 * (n div 16 mod 16 ^ k) + n mod 16"
    by (rule mod_mult2_eq)
  then have eq: "16 * (acc * 16 ^ k + n div 16 mod 16 ^ k) + n mod 16 =
             acc * 16 ^ Suc k + n mod 16 ^ Suc k"
    by (simp add: algebra_simps)
  have "int_digits ready acc (hex_digits (Suc k) n @ rest) =
        int_digits True (16 * (acc * 16 ^ k + n div 16 mod 16 ^ k) + n mod 16) rest"
    by (simp add: Suc.IH hex_digit_not_underscore digit_value_hex_digit)
  then show ?case
    unfolding eq by simp
qed

lemma remove_all_absent: "x \<in> set t \<Longrightarrow> x \<notin> set s \<Longrightarrow> remove_all t s = s"
proof (induction t s rule: remove_all.induct)
  case (2 t ch cs)
  have "take (length t) (ch # cs) \<noteq> t"
  proof
    assume eq: "take (length t) (ch # cs) = t"
    have "x \<in> set (take (length t) (ch # cs))"
      unfolding eq by (rule "2.prems"(1))
    then have "x \<in> set (ch # cs)" by (rule in_set_takeD)
    with "2.prems"(2) show False by simp
  qed
  with 2 show ?case by auto
qed simp

lemma remove_all_single: "remove_all [d] s = filter (\<lambda>ch. ch \<noteq> d) s"
  by (induction "[d]" s rule: remove_all.induct) auto

lemma dropWhile_none: "\<forall>ch\<in>set s. \<not> P ch \<Longrightarrow> dropWhile P s = s"
  by (cases s) auto

lemma strip_braces_none: "\<forall>ch\<in>set s. \<not> is_brace ch \<Longrightarrow> strip_braces s = s"
  by (simp add: strip_braces_def dropWhile_none)

lemma py_strip_none: "\<forall>ch\<in>set s. \<not> is_py_space ch \<Longrightarrow> py_strip s = s"
  by (simp add: py_strip_def dropWhile_none)

lemma lower_hex_facts:
  assumes "is_lower_hex ch"
  shows "\<not> is_py_space ch" "\<not> is_brace ch" "ch \<noteq> dash" "ch \<noteq> 114" "ch \<noteq> 117"
    "ch \<noteq> 120" "ch \<noteq> 88" "ch \<noteq> 43" "ch \<noteq> 45"
  using assms by (auto simp: is_lower_hex_def is_py_space_def is_brace_def dash_def)

lemma int_base16_hex_digits:
  assumes "2 \<le> k"
  shows "int_base16 (hex_digits k n) = Some (int (n mod 16 ^ k))"
proof -
  let ?h = "hex_digits k n"
  have low: "\<forall>ch\<in>set ?h. is_lower_hex ch" by (rule hex_digits_lower)
  then have strip: "py_strip ?h = ?h"
    by (auto intro!: py_strip_none dest: lower_hex_facts)
  obtain a b cs where h: "?h = a # b # cs"
    using assms length_hex_digits [of k n] by (cases ?h; cases "tl ?h") auto
  with low have ab: "is_lower_hex a" "is_lower_hex b" by auto
  have "int_digits False 0 ?h = Some (n mod 16 ^ k)"
    using int_digits_hex_digits [of False 0 k n "[]"] assms by simp
  with strip ab show ?thesis
    by (simp add: h lower_hex_facts)
qed

lemma uuid_str_chars:
  "ch \<in> set (uuid_str u) \<Longrightarrow> is_lower_hex ch \<or> ch = dash"
  using hex_digits_lower [of 32 "unat u"]
  by (auto simp: uuid_str_def Let_def dest!: in_set_takeD in_set_dropD)

lemma uuid_str_undashed: "filter (\<lambda>ch. ch \<noteq> dash) (uuid_str u) = hex_digits 32 (unat u)"
proof -
  let ?h = "hex_digits 32 (unat u)"
  have "ch \<noteq> dash" if "ch \<in> set ?h" for ch
    using hex_digits_lower that lower_hex_facts(3) by blast
  then have keep: "filter (\<lambda>ch. ch \<noteq> dash) xs = xs" if "set xs \<subseteq> set ?h" for xs
    using that by (auto simp: filter_id_conv)
  have "take 4 (drop 16 ?h) @ drop 20 ?h = drop 16 ?h"
    using append_take_drop_id [of 4 "drop 16 ?h"] by simp
  moreover have "take 4 (drop 12 ?h) @ drop 16 ?h = drop 12 ?h"
    using append_take_drop_id [of 4 "drop 12 ?h"] by simp
  moreover have "take 4 (drop 8 ?h) @ drop 12 ?h = drop 8 ?h"
    using append_take_drop_id [of 4 "drop 8 ?h"] by simp
  ultimately have "take 8 ?h @ take 4 (drop 8 ?h) @ take 4 (drop 12 ?h) @ take 4 (drop 16 ?h) @ drop 20 ?h = ?h"
    by simp
  then show ?thesis
    by (simp add: uuid_str_def Let_def keep set_take_subset set_drop_subset
        subset_trans [OF set_take_subset set_drop_subset])
qed

lemma UUID_uuid_str: "UUID (uuid_str u) = Some u"
proof -
  have no: "\<forall>ch\<in>set (uuid_str u). \<not> is_brace ch \<and> ch \<noteq> 114 \<and> ch \<noteq> 117"
    using uuid_str_chars lower_hex_facts by (fastforce simp: is_brace_def dash_def)
  have "remove_all (ascii ''urn:'') (uuid_str u) = uuid_str u"
    by (rule remove_all_absent [where x = 114]) (use no in \<open>auto simp: ascii_def\<close>)
  moreover have "remove_all (ascii ''uuid:'') (uuid_str u) = uuid_str u"
    by (rule remove_all_absent [where x = 117]) (use no in \<open>auto simp: ascii_def\<close>)
  moreover have "strip_braces (uuid_str u) = uuid_str u"
    using no by (intro strip_braces_none) auto
  moreover have lt: "unat u < 2 ^ 128"
  proof -
    have "unat u < 2 ^ LENGTH(128)" by (rule unsigned_less)
    then show ?thesis by simp
  qed
  moreover have "int_base16 (hex_digits 32 (unat u)) = Some (int (unat u))"
  proof -
    have "unat u mod 16 ^ 32 = unat u" using lt by (intro mod_less) simp
    with int_base16_hex_digits [of 32 "unat u"] show ?thesis by (simp del: int_base16.simps)
  qed
  moreover have "uint u < 2 ^ 128"
  proof -
    have "uint u < 2 ^ LENGTH(128)" by (rule unsigned_less)
    then show ?thesis by simp
  qed
  ultimately show ?thesis
    by (simp add: UUID_def remove_all_single uuid_str_undashed del: int_base16.simps)
qed

lemma uuid_str_inject [simp]: "uuid_str u = uuid_str v \<longleftrightarrow> u = v"
  by (metis UUID_uuid_str option.inject)

end
