(* ===== verification/Profile_Cache.thy ===== *)
theory Profile_Cache
  imports World Py_Uuid
begin

text \<open>
  \<open>infra/cache.py\<close>: the Redis profile cache. Every call swallows the client's exceptions. An
  entry is a JSON object; one that cannot be read back (a missing key, a value that is no UUID,
  role or status) is purged.
\<close>

definition redis_op :: "('r \<Rightarrow> 'a reply \<times> 'r) \<Rightarrow> ('r world, 'a reply) prog" where
  "redis_op f w = (case f (w_redis w) of (rep, r) \<Rightarrow> (Inr rep, w\<lparr>w_redis := r\<rparr>))"

lemma wp_redis_op [wp_rules]:
  "wp (redis_op f) Q E w = Q (fst (f (w_redis w))) (w\<lparr>w_redis := snd (f (w_redis w))\<rparr>)"
  by (simp add: wp_def redis_op_def split: prod.splits)

lemma wp_case_reply [wp_rules]:
  "wp (case rep of Down \<Rightarrow> m | Reply a \<Rightarrow> f a) Q E w =
   (case rep of Down \<Rightarrow> wp m Q E w | Reply a \<Rightarrow> wp (f a) Q E w)"
  by (simp split: reply.splits)

definition PROFILE_TTL_SECONDS :: int where
  "PROFILE_TTL_SECONDS = 300"

definition profile_key :: "uuid \<Rightarrow> ptext" where
  "profile_key user_id = ascii ''identity:profile:'' @ uuid_str user_id"

definition cache_entry :: "user \<Rightarrow> json" where
  "cache_entry u =
     JObj [(''id'', JText (uuid_str (usr_id u))),
           (''phone'', JText (usr_phone u)),
           (''full_name'', jtext_or_null (usr_full_name u)),
           (''role'', jlit (role_value (usr_role u))),
           (''status'', jlit (status_value (usr_status u))),
           (''created_at'', jtime_or_null (usr_created_at u)),
           (''updated_at'', jtime_or_null (usr_updated_at u))]"

text \<open>
  Reading an entry. \<open>Inr None\<close> is the caught \<open>ValueError\<close> or \<open>KeyError\<close>; a document that is
  not an object raises the \<open>TypeError\<close> the code does not catch. A name or number of another
  JSON type than the one written counts as unreadable.
\<close>

fun text_field :: "json \<Rightarrow> ptext option" where
  "text_field (JText t) = Some t"
| "text_field _ = None"

fun nullable_text_field :: "json \<Rightarrow> ptext option option" where
  "nullable_text_field (JText t) = Some (Some t)"
| "nullable_text_field JNull = Some None"
| "nullable_text_field _ = None"

fun time_field :: "json option \<Rightarrow> instant option option" where
  "time_field (Some (JTime t)) = Some (Some t)"
| "time_field (Some JNull) = Some None"
| "time_field None = Some None"
| "time_field (Some (JText [])) = Some None"
| "time_field (Some _) = None"

definition user_of_fields :: "(string \<times> json) list \<Rightarrow> user option" where
  "user_of_fields fs =
     Option.bind (Option.bind (map_of fs ''id'') text_field) (\<lambda>t.
     Option.bind (UUID t) (\<lambda>i.
     Option.bind (Option.bind (map_of fs ''phone'') text_field) (\<lambda>phone.
     Option.bind (Option.bind (map_of fs ''full_name'') nullable_text_field) (\<lambda>full_name.
     Option.bind (Option.bind (Option.bind (map_of fs ''role'') text_field) UserRole) (\<lambda>role.
     Option.bind (Option.bind (Option.bind (map_of fs ''status'') text_field) UserStatus) (\<lambda>status.
     Option.bind (time_field (map_of fs ''created_at'')) (\<lambda>created.
     Option.bind (time_field (map_of fs ''updated_at'')) (\<lambda>updated.
     Some \<lparr>usr_id = i, usr_phone = phone, usr_role = role, usr_status = status,
           usr_full_name = full_name, usr_password_hash = None, usr_requested_role = None,
           usr_created_at = created, usr_updated_at = updated\<rparr>))))))))"

fun read_entry :: "redis_value \<Rightarrow> failure + user option" where
  "read_entry (Doc (JObj fs)) = Inr (user_of_fields fs)"
| "read_entry (Raw t) = Inr None"
| "read_entry _ = Inl (Uncaught ''TypeError'')"

definition cache_invalidate_user :: "'r ctx \<Rightarrow> uuid \<Rightarrow> ('r world, unit) prog" where
  "cache_invalidate_user c user_id =
     before (emit (Invalidated user_id))
     (andthen (redis_op (rc_delete (redis c) (profile_key user_id))) (\<lambda>_. return ()))"

definition cache_get_user :: "'r ctx \<Rightarrow> uuid \<Rightarrow> ('r world, user option) prog" where
  "cache_get_user c user_id =
     andthen (redis_op (rc_get (redis c) (profile_key user_id))) (\<lambda>rep.
     case rep of
       Down \<Rightarrow> return None
     | Reply None \<Rightarrow> return None
     | Reply (Some raw) \<Rightarrow>
         andthen (from_result (read_entry raw)) (\<lambda>u.
         case u of
           Some u \<Rightarrow> return (Some u)
         | None \<Rightarrow> before (cache_invalidate_user c user_id) (return None)))"

definition cache_set_user :: "'r ctx \<Rightarrow> user \<Rightarrow> ('r world, unit) prog" where
  "cache_set_user c u =
     andthen (redis_op (rc_set_ex (redis c) (profile_key (usr_id u)) (Doc (cache_entry u)) PROFILE_TTL_SECONDS))
       (\<lambda>_. return ())"

lemma wp_cache_invalidate_user [wp_rules]:
  "wp (cache_invalidate_user c i) Q E w =
   Q () (w\<lparr>w_effects := w_effects w @ [Invalidated i],
           w_redis := snd (rc_delete (redis c) (profile_key i) (w_redis w))\<rparr>)"
  by (simp add: cache_invalidate_user_def wp_rules)

lemma wp_cache_set_user [wp_rules]:
  "wp (cache_set_user c u) Q E w =
   Q () (w\<lparr>w_redis := snd (rc_set_ex (redis c) (profile_key (usr_id u)) (Doc (cache_entry u))
                          PROFILE_TTL_SECONDS (w_redis w))\<rparr>)"
  by (simp add: cache_set_user_def wp_rules)

lemma profile_key_inject [simp]: "profile_key i = profile_key j \<longleftrightarrow> i = j"
  by (simp add: profile_key_def)

text \<open>What survives the cache: everything but the password hash, which no profile shows, and
  the requested role, which every profile shows.\<close>

lemma read_entry_cache_entry:
  "read_entry (Doc (cache_entry u)) = Inr (Some (u\<lparr>usr_password_hash := None, usr_requested_role := None\<rparr>))"
  by (cases "usr_full_name u"; cases "usr_created_at u"; cases "usr_updated_at u")
    (simp_all add: cache_entry_def user_of_fields_def UUID_uuid_str jlit_def)

end
