(* ===== verification/Event_Publisher.thy ===== *)
theory Event_Publisher
  imports Profile_Cache
begin

text \<open>
  \<open>RedisEventPublisher\<close> of \<open>shared_kernel/events/bus.py\<close>: one entry on the single stream per
  event; a failure of the bus is logged and never reaches the caller.
\<close>

definition STREAM_KEY :: ptext where
  "STREAM_KEY = ascii ''identity.events''"

definition STREAM_MAX_LEN :: int where
  "STREAM_MAX_LEN = 100000"

definition stream_entry :: "domain_event \<Rightarrow> (string \<times> redis_value) list" where
  "stream_entry ev = [(''event'', Raw (ascii (event_name ev))), (''payload'', Doc (to_payload ev))]"

definition publish :: "'r ctx \<Rightarrow> domain_event \<Rightarrow> ('r world, unit) prog" where
  "publish c ev =
     before (emit (Published ev))
     (andthen (redis_op (rc_xadd (redis c) STREAM_KEY (stream_entry ev) STREAM_MAX_LEN)) (\<lambda>_. return ()))"

text \<open>Building an event reads the clock for \<open>at\<close>.\<close>

definition envelope_of :: "user \<Rightarrow> string \<Rightarrow> instant \<Rightarrow> envelope" where
  "envelope_of u role at = \<lparr>ev_user_id = usr_id u, ev_phone = usr_phone u, ev_role = role, ev_at = at\<rparr>"

definition event_envelope_now :: "'r ctx \<Rightarrow> user \<Rightarrow> string \<Rightarrow> ('r world, envelope) prog" where
  "event_envelope_now c u role =
     andthen (now_utc c) (\<lambda>now.
     return (envelope_of u role now))"

text \<open>\<open>NullEventPublisher\<close>.\<close>

definition null_publish :: "domain_event \<Rightarrow> ('r world, unit) prog" where
  "null_publish ev = return ()"

lemma wp_publish [wp_rules]:
  "wp (publish c ev) Q E w =
   Q () (w\<lparr>w_effects := w_effects w @ [Published ev],
           w_redis := snd (rc_xadd (redis c) STREAM_KEY (stream_entry ev) STREAM_MAX_LEN (w_redis w))\<rparr>)"
  by (simp add: publish_def wp_rules)

lemma envelope_of_fields [simp]:
  "ev_user_id (envelope_of u role at) = usr_id u" "ev_phone (envelope_of u role at) = usr_phone u"
  "ev_role (envelope_of u role at) = role" "ev_at (envelope_of u role at) = at"
  by (simp_all add: envelope_of_def)

text \<open>An event names an account by its id and phone, which no command changes.\<close>

lemma envelope_of_update [simp]:
  "envelope_of (u\<lparr>usr_role := r\<rparr>) = envelope_of u"
  "envelope_of (u\<lparr>usr_status := st\<rparr>) = envelope_of u"
  "envelope_of (u\<lparr>usr_full_name := n\<rparr>) = envelope_of u"
  "envelope_of (u\<lparr>usr_requested_role := q\<rparr>) = envelope_of u"
  "envelope_of (u\<lparr>usr_updated_at := t\<rparr>) = envelope_of u"
  by (simp_all add: envelope_of_def fun_eq_iff)

lemma wp_event_envelope_now [wp_rules]:
  "wp (event_envelope_now c u role) Q E w =
   Q (envelope_of u role (clock c (w_clock_ix w))) (w\<lparr>w_clock_ix := Suc (w_clock_ix w)\<rparr>)"
  by (simp add: event_envelope_now_def wp_rules)

end
