(* ===== verification/Cmd_Account.thy ===== *)
theory Cmd_Account
  imports Validation Write_Repository Event_Publisher
begin

text \<open>
  \<open>commands/register_user.py\<close> and \<open>commands/update_profile.py\<close>.
\<close>

text \<open>Python's \<open>or\<close> between optional strings: the first unless it is \<open>None\<close> or empty.\<close>

definition py_or :: "ptext option \<Rightarrow> ptext option \<Rightarrow> ptext option" where
  "py_or a b = (if a = None \<or> a = Some [] then b else a)"

definition user_not_found :: failure where
  "user_not_found = api 404 ''USER_NOT_FOUND'' JNull"

section \<open>RegisterUser\<close>

definition registration :: "uuid \<Rightarrow> ptext \<Rightarrow> ptext option \<Rightarrow> instant \<Rightarrow> user" where
  "registration i phone full_name now =
     \<lparr>usr_id = i, usr_phone = phone, usr_role = USER, usr_status = PENDING_VERIFICATION,
      usr_full_name = py_or full_name None, usr_password_hash = None, usr_requested_role = None,
      usr_created_at = Some now, usr_updated_at = None\<rparr>"

text \<open>The check for the number, and the insertion that follows it.\<close>

definition register_lookup :: "ptext \<Rightarrow> ('r world, ptext) prog" where
  "register_lookup phone =
     andthen (from_result (validate_phone phone)) (\<lambda>phone.
     andthen (user_find_by_phone phone) (\<lambda>existing.
     if existing \<noteq> None then raise (api 409 ''PHONE_ALREADY_REGISTERED'' JNull) else return phone))"

definition register_insert :: "'r ctx \<Rightarrow> ptext option \<Rightarrow> ptext \<Rightarrow> ('r world, json) prog" where
  "register_insert c full_name phone =
     andthen (uuid4 c) (\<lambda>new_id.
     andthen (now_utc c) (\<lambda>now.
     andthen (user_save c (registration new_id phone full_name now)) (\<lambda>user.
     before commit
     (return (JObj [(''user_id'', JText (uuid_str (usr_id user))),
                    (''phone'', JText (usr_phone user)),
                    (''status'', jlit (status_value (usr_status user)))])))))"

definition register_user :: "'r ctx \<Rightarrow> ptext \<Rightarrow> ptext option \<Rightarrow> ('r world, json) prog" where
  "register_user c phone full_name = andthen (register_lookup phone) (register_insert c full_name)"

lemmas register_defs = register_user_def register_lookup_def register_insert_def

section \<open>UpdateProfile\<close>

definition update_profile :: "'r ctx \<Rightarrow> uuid \<Rightarrow> ptext option \<Rightarrow> ('r world, json) prog" where
  "update_profile c user_id full_name =
     andthen (user_find_by_id user_id) (\<lambda>found.
     case found of
       None \<Rightarrow> raise user_not_found
     | Some user \<Rightarrow>
         if full_name = None \<or> full_name = usr_full_name user then return (profile_payload user)
         else
           andthen (user_save c (user\<lparr>usr_full_name := full_name\<rparr>)) (\<lambda>user.
           before commit
           (before (cache_invalidate_user c (usr_id user))
           (andthen (event_envelope_now c user (role_value (usr_role user))) (\<lambda>env.
           before (publish c (UserUpdated env [''full_name'']))
           (return (profile_payload user)))))))"

end
