(* ===== verification/Rate_Limiter.thy ===== *)
theory Rate_Limiter
  imports Profile_Cache
begin

text \<open>
  \<open>infra/rate_limiter.py\<close>: the two OTP limits, a cooldown per phone and a counter per IP
  address, both failing open when Redis raises.
\<close>

definition IP_REQUESTS_PER_WINDOW :: int where
  "IP_REQUESTS_PER_WINDOW = 10"

definition IP_WINDOW_SECONDS :: int where
  "IP_WINDOW_SECONDS = 600"

definition cooldown_key :: "ptext \<Rightarrow> ptext" where
  "cooldown_key phone = ascii ''identity:otp:cooldown:'' @ phone"

definition ip_key :: "ptext \<Rightarrow> ptext" where
  "ip_key ip = ascii ''identity:otp:ip:'' @ ip"

definition seconds_until_phone_allowed :: "'r ctx \<Rightarrow> ptext \<Rightarrow> int \<Rightarrow> ('r world, int) prog" where
  "seconds_until_phone_allowed c phone cooldown_seconds =
     (if cooldown_seconds \<le> 0 then return 0
      else andthen (redis_op (rc_ttl (redis c) (cooldown_key phone))) (\<lambda>rep.
        case rep of Down \<Rightarrow> return 0 | Reply ttl \<Rightarrow> return (max ttl 0)))"

definition mark_phone_sent :: "'r ctx \<Rightarrow> ptext \<Rightarrow> int \<Rightarrow> ('r world, unit) prog" where
  "mark_phone_sent c phone cooldown_seconds =
     (if cooldown_seconds \<le> 0 then return ()
      else andthen (redis_op (rc_set_ex (redis c) (cooldown_key phone) (Num 1) cooldown_seconds))
        (\<lambda>_. return ()))"

text \<open>The \<open>try\<close> covers both commands: an exception of \<open>EXPIRE\<close> also fails open.\<close>

definition hit_ip :: "'r ctx \<Rightarrow> ptext \<Rightarrow> ('r world, bool) prog" where
  "hit_ip c ip =
     (if ip = [] then return True
      else andthen (redis_op (rc_incr (redis c) (ip_key ip))) (\<lambda>rep.
        case rep of
          Down \<Rightarrow> return True
        | Reply count \<Rightarrow>
            if count = 1 then
              andthen (redis_op (rc_expire (redis c) (ip_key ip) IP_WINDOW_SECONDS)) (\<lambda>rep.
                case rep of
                  Down \<Rightarrow> return True
                | Reply _ \<Rightarrow> return (count \<le> IP_REQUESTS_PER_WINDOW))
            else return (count \<le> IP_REQUESTS_PER_WINDOW)))"

text \<open>The three calls as functions of the server: the answer and the state it leaves.\<close>

definition cooldown_left :: "'r ctx \<Rightarrow> ptext \<Rightarrow> int \<Rightarrow> 'r \<Rightarrow> int \<times> 'r" where
  "cooldown_left c phone s r =
     (if s \<le> 0 then (0, r)
      else case rc_ttl (redis c) (cooldown_key phone) r of
        (Down, r') \<Rightarrow> (0, r') | (Reply t, r') \<Rightarrow> (max t 0, r'))"

definition start_cooldown :: "'r ctx \<Rightarrow> ptext \<Rightarrow> int \<Rightarrow> 'r \<Rightarrow> 'r" where
  "start_cooldown c phone s r =
     (if s \<le> 0 then r else snd (rc_set_ex (redis c) (cooldown_key phone) (Num 1) s r))"

definition ip_gate :: "'r ctx \<Rightarrow> ptext \<Rightarrow> 'r \<Rightarrow> bool \<times> 'r" where
  "ip_gate c ip r =
     (if ip = [] then (True, r)
      else case rc_incr (redis c) (ip_key ip) r of
        (Down, r1) \<Rightarrow> (True, r1)
      | (Reply n, r1) \<Rightarrow>
          if n = 1 then
            (case rc_expire (redis c) (ip_key ip) IP_WINDOW_SECONDS r1 of
               (Down, r2) \<Rightarrow> (True, r2) | (Reply _, r2) \<Rightarrow> (n \<le> IP_REQUESTS_PER_WINDOW, r2))
          else (n \<le> IP_REQUESTS_PER_WINDOW, r1))"

lemma wp_seconds_until_phone_allowed [wp_rules]:
  "wp (seconds_until_phone_allowed c p s) Q E w =
   Q (fst (cooldown_left c p s (w_redis w))) (w\<lparr>w_redis := snd (cooldown_left c p s (w_redis w))\<rparr>)"
  by (auto simp: seconds_until_phone_allowed_def cooldown_left_def wp_rules split: prod.splits reply.splits)

lemma wp_mark_phone_sent [wp_rules]:
  "wp (mark_phone_sent c p s) Q E w = Q () (w\<lparr>w_redis := start_cooldown c p s (w_redis w)\<rparr>)"
  by (simp add: mark_phone_sent_def start_cooldown_def wp_rules)

lemma wp_hit_ip [wp_rules]:
  "wp (hit_ip c ip) Q E w =
   Q (fst (ip_gate c ip (w_redis w))) (w\<lparr>w_redis := snd (ip_gate c ip (w_redis w))\<rparr>)"
  by (auto simp: hit_ip_def ip_gate_def wp_rules split: prod.splits reply.splits)

lemma ip_key_neq_cooldown_key [simp]: "ip_key ip \<noteq> cooldown_key phone" "cooldown_key phone \<noteq> ip_key ip"
  by (simp_all add: ip_key_def cooldown_key_def ascii_def)

lemma cooldown_key_inject [simp]: "cooldown_key p = cooldown_key q \<longleftrightarrow> p = q"
  by (simp add: cooldown_key_def)

lemma ip_key_inject [simp]: "ip_key p = ip_key q \<longleftrightarrow> p = q"
  by (simp add: ip_key_def)

end
