(* ===== verification/Token_Service.thy ===== *)
theory Token_Service
  imports World Payloads
begin

text \<open>
  \<open>core/security.py\<close> and \<open>infra/token_service.py\<close>: keyed hashing of OTP codes, opaque refresh
  tokens, and the access tokens with their claims and the choice of the verification key by
  \<open>kid\<close>. The digests and PyJWT are arguments.
\<close>

section \<open>OTP codes\<close>

definition hash_otp_code :: "'r ctx \<Rightarrow> ptext \<Rightarrow> ptext" where
  "hash_otp_code c code = hmac_sha256_hex c (otp_hash_pepper (cfg c)) code"

definition verify_otp_code :: "'r ctx \<Rightarrow> ptext \<Rightarrow> ptext \<Rightarrow> bool" where
  "verify_otp_code c code expected_hash = (hash_otp_code c code = expected_hash)"

section \<open>Passwords\<close>

text \<open>The verification of argon2, an argument: whether the password matches, or what it raises.\<close>

datatype argon2_error = VerifyMismatchError | InvalidHashError | OtherArgon2Error string

definition hash_password :: "(ptext \<Rightarrow> ptext) \<Rightarrow> ptext \<Rightarrow> ptext" where
  "hash_password hasher_hash password = hasher_hash password"

definition verify_password ::
  "(ptext \<Rightarrow> ptext \<Rightarrow> argon2_error + bool) \<Rightarrow> ptext \<Rightarrow> ptext \<Rightarrow> failure + bool" where
  "verify_password hasher_verify password password_hash =
     (case hasher_verify password_hash password of
        Inr ok \<Rightarrow> Inr ok
      | Inl (OtherArgon2Error cls) \<Rightarrow> Inl (Uncaught cls)
      | Inl _ \<Rightarrow> Inr False)"

section \<open>Refresh tokens\<close>

definition SERVICE_ROLE :: string where
  "SERVICE_ROLE = ''service''"

definition hash_refresh_token :: "'r ctx \<Rightarrow> ptext \<Rightarrow> ptext" where
  "hash_refresh_token c raw_token = sha256_hex c raw_token"

definition new_refresh_token :: "'r ctx \<Rightarrow> ('r world, ptext \<times> ptext) prog" where
  "new_refresh_token c =
     andthen (token_urlsafe c) (\<lambda>t.
     let raw = ascii ''opaque_'' @ t in return (raw, hash_refresh_token c raw))"

definition refresh_expiry :: "'r ctx \<Rightarrow> instant \<Rightarrow> instant" where
  "refresh_expiry c now = now + days (refresh_token_lifetime_days (cfg c))"

lemma wp_new_refresh_token [wp_rules]:
  "wp (new_refresh_token c) Q E w =
   (let raw = ascii ''opaque_'' @ urlsafe_tokens c (w_token_ix w)
    in Q (raw, hash_refresh_token c raw) (w\<lparr>w_token_ix := Suc (w_token_ix w)\<rparr>))"
  by (simp add: new_refresh_token_def wp_rules Let_def)

section \<open>Access tokens\<close>

definition access_claims :: "'r ctx \<Rightarrow> uuid \<Rightarrow> string \<Rightarrow> string \<Rightarrow> instant \<Rightarrow> claims" where
  "access_claims c user_id role status now =
     [(''sub'', JText (uuid_str user_id)), (''role'', jlit role), (''status'', jlit status),
      (''iss'', JText (jwt_issuer (cfg c))), (''iat'', JTime now),
      (''exp'', JTime (now + minutes (jwt_access_lifetime_minutes (cfg c))))]"

definition issue_access_token :: "'r ctx \<Rightarrow> uuid \<Rightarrow> string \<Rightarrow> string \<Rightarrow> ('r world, ptext) prog" where
  "issue_access_token c user_id role status =
     andthen (now_utc c) (\<lambda>now.
     return (jwt_encode (jwt c) (access_claims c user_id role status now)
               (private_pem (ring c)) (active_kid (ring c))))"

definition token_invalid :: failure where
  "token_invalid = api 401 ''TOKEN_INVALID'' JNull"

definition token_expired :: failure where
  "token_expired = api 401 ''TOKEN_EXPIRED'' JNull"

definition decode_access_token :: "'r ctx \<Rightarrow> ptext \<Rightarrow> ('r world, claims) prog" where
  "decode_access_token c token =
     (case jwt_header_kid (jwt c) token of
        None \<Rightarrow> raise token_invalid
      | Some k \<Rightarrow>
          (case find (\<lambda>e. Some (kid e) = k) (public_keys (ring c)) of
             None \<Rightarrow> raise token_invalid
           | Some entry \<Rightarrow>
               andthen (now_utc c) (\<lambda>now.
               case jwt_decode (jwt c) token (pem entry) (jwt_issuer (cfg c)) now of
                 Inr claims \<Rightarrow> return claims
               | Inl ExpiredSignatureError \<Rightarrow> raise token_expired
               | Inl InvalidTokenError \<Rightarrow> raise token_invalid)))"

lemma wp_issue_access_token [wp_rules]:
  "wp (issue_access_token c u r s) Q E w =
   Q (jwt_encode (jwt c) (access_claims c u r s (clock c (w_clock_ix w)))
        (private_pem (ring c)) (active_kid (ring c)))
     (w\<lparr>w_clock_ix := Suc (w_clock_ix w)\<rparr>)"
  by (simp add: issue_access_token_def wp_rules)

text \<open>\<open>published_kids\<close>, and the JWKS document of the service.\<close>

definition published_kids :: "'r ctx \<Rightarrow> ptext list" where
  "published_kids c = map kid (public_keys (ring c))"

end
