(* ===== verification/Cmd_Otp.thy ===== *)
theory Cmd_Otp
  imports Cmd_Account Rate_Limiter Token_Service
begin

text \<open>
  \<open>commands/request_otp.py\<close> and \<open>commands/verify_otp.py\<close>. The sender hands the plaintext code
  to the outside world; nothing else of \<open>infra/sms_adapter.py\<close> has an effect.
\<close>

section \<open>RequestOtp\<close>

text \<open>\<open>f"{n:06d}"\<close>.\<close>

definition six_digits :: "nat \<Rightarrow> ptext" where
  "six_digits n = map (\<lambda>k. 48 + n div 10 ^ k mod 10) [5, 4, 3, 2, 1, 0]"

definition otp_rate_limited :: "int \<Rightarrow> failure" where
  "otp_rate_limited s = api 429 ''OTP_RATE_LIMITED'' (JObj [(''retry_after_seconds'', JInt s)])"

definition sender_send :: "ptext \<Rightarrow> ptext \<Rightarrow> ('r world, unit) prog" where
  "sender_send phone code = emit (OtpSent phone code)"

definition check_ip :: "'r ctx \<Rightarrow> ptext option \<Rightarrow> ('r world, bool) prog" where
  "check_ip c client_ip =
     (case client_ip of None \<Rightarrow> return True | Some ip \<Rightarrow> if ip = [] then return True else hit_ip c ip)"

definition issue_otp :: "'r ctx \<Rightarrow> ptext \<Rightarrow> ('r world, unit) prog" where
  "issue_otp c phone =
     andthen (now_utc c) (\<lambda>now.
     andthen (randbelow c 1000000) (\<lambda>n.
     andthen (uuid4 c) (\<lambda>new_id.
     let code = six_digits n in
     before (otp_save \<lparr>otp_id = new_id, otp_phone = phone, otp_code_hash = hash_otp_code c code,
                       otp_expires_at = now + seconds (otp_code_lifetime_seconds (cfg c)),
                       otp_created_at = now, otp_consumed_at = None, otp_attempts = 0\<rparr>)
     (before commit
     (sender_send phone code)))))"

definition request_otp :: "'r ctx \<Rightarrow> ptext \<Rightarrow> ptext option \<Rightarrow> ('r world, json) prog" where
  "request_otp c phone client_ip =
     andthen (from_result (validate_phone phone)) (\<lambda>phone.
     andthen (check_ip c client_ip) (\<lambda>allowed.
     if \<not> allowed then raise (otp_rate_limited (otp_rate_limit_seconds (cfg c)))
     else
       andthen (seconds_until_phone_allowed c phone (otp_rate_limit_seconds (cfg c))) (\<lambda>remaining.
       if remaining > 0 then raise (otp_rate_limited remaining)
       else
         andthen (user_find_by_phone phone) (\<lambda>user.
         before (whenever (user \<noteq> None) (issue_otp c phone))
         (before (mark_phone_sent c phone (otp_rate_limit_seconds (cfg c)))
         (return (JObj [(''expires_in_seconds'', JInt (otp_code_lifetime_seconds (cfg c))),
                        (''retry_after_seconds'', JInt (otp_rate_limit_seconds (cfg c)))])))))))"

section \<open>VerifyOtp\<close>

definition otp_invalid :: "json \<Rightarrow> failure" where
  "otp_invalid d = api 400 ''OTP_INVALID'' d"

definition user_suspended :: failure where
  "user_suspended = api 403 ''USER_SUSPENDED'' JNull"

text \<open>The branch of a wrong code: count the attempt, burn the code at the ceiling.\<close>

definition reject_code :: "'r ctx \<Rightarrow> otp_code \<Rightarrow> ('r world, 'a) prog" where
  "reject_code c otp =
     andthen (otp_register_attempt (otp_id otp)) (\<lambda>attempts.
     if attempts \<ge> otp_max_attempts (cfg c) then
       before (otp_mark_consumed c (otp_id otp))
       (before commit
       (raise (api 429 ''OTP_TOO_MANY_ATTEMPTS'' (JObj [(''attempts'', JInt attempts)]))))
     else
       before commit
       (raise (otp_invalid (JObj [(''attempts_remaining'', JInt (otp_max_attempts (cfg c) - attempts))]))))"

definition otp_reason :: ptext where
  "otp_reason = ascii ''V'' @ [233] @ ascii ''rification OTP''"

text \<open>The transition out of \<open>pending_verification\<close> with its audit row.\<close>

definition activate :: "'r ctx \<Rightarrow> instant \<Rightarrow> user \<Rightarrow> ('r world, user) prog" where
  "activate c now user =
     (let target = (if usr_requested_role user \<noteq> None then PENDING_KYC else ACTIVE) in
      andthen (user_save c (user\<lparr>usr_status := target\<rparr>)) (\<lambda>user.
      andthen (uuid4 c) (\<lambda>row_id.
      before (record_status_change
        \<lparr>usc_id = row_id, usc_user_id = usr_id user, usc_to_status = usr_status user,
         usc_changed_at = now, usc_from_status = Some PENDING_VERIFICATION,
         usc_reason = Some otp_reason, usc_changed_by = None\<rparr>)
      (return user))))"

text \<open>A new refresh token for the user, saved in the session; the raw value is returned.\<close>

definition open_session :: "'r ctx \<Rightarrow> instant \<Rightarrow> uuid \<Rightarrow> ptext option \<Rightarrow> ('r world, ptext) prog" where
  "open_session c now user_id device_info =
     andthen (new_refresh_token c) (\<lambda>(raw_refresh, refresh_hash).
     andthen (uuid4 c) (\<lambda>row_id.
     before (token_save \<lparr>rt_id = row_id, rt_user_id = user_id, rt_token_hash = refresh_hash,
                         rt_expires_at = refresh_expiry c now, rt_created_at = now,
                         rt_device_info = device_info, rt_revoked_at = None\<rparr>)
     (return raw_refresh)))"

text \<open>
  The command in two parts, since other requests may be served between the reads of the first and
  the writes of the second: \<open>verify_lookup\<close> finds the code, \<open>verify_code\<close> compares and acts on it.
\<close>

definition verify_lookup :: "'r ctx \<Rightarrow> ptext \<Rightarrow> ('r world, ptext \<times> instant \<times> otp_code) prog" where
  "verify_lookup c phone =
     andthen (from_result (validate_phone phone)) (\<lambda>phone.
     andthen (now_utc c) (\<lambda>now.
     andthen (otp_find_latest_active phone) (\<lambda>found.
     case found of
       None \<Rightarrow> raise (otp_invalid JNull)
     | Some otp \<Rightarrow>
         if is_expired otp now then raise (api 410 ''OTP_EXPIRED'' JNull)
         else return (phone, now, otp))))"

definition verify_code ::
  "'r ctx \<Rightarrow> ptext \<Rightarrow> ptext option \<Rightarrow> ptext \<Rightarrow> instant \<Rightarrow> otp_code \<Rightarrow> ('r world, json) prog" where
  "verify_code c code device_info phone now otp =
     (if \<not> verify_otp_code c code (otp_code_hash otp) then reject_code c otp
      else
        before (otp_mark_consumed c (otp_id otp))
        (andthen (user_find_by_phone phone) (\<lambda>found.
        case found of
          None \<Rightarrow> raise user_not_found
        | Some user \<Rightarrow>
            if usr_status user = SUSPENDED then raise user_suspended
            else
              let first_verification = (usr_status user = PENDING_VERIFICATION) in
              andthen (if first_verification then activate c now user else return user) (\<lambda>user.
              andthen (open_session c now (usr_id user) device_info) (\<lambda>raw_refresh.
              before commit
              (before (cache_invalidate_user c (usr_id user))
              (before (whenever first_verification
                         (andthen (event_envelope_now c user (role_value (usr_role user)))
                            (\<lambda>env. publish c (UserRegistered env))))
              (andthen (issue_access_token c (usr_id user) (role_value (usr_role user))
                          (status_value (usr_status user))) (\<lambda>access_token.
              return (JObj [(''access_token'', JText access_token),
                            (''refresh_token'', JText raw_refresh),
                            (''user'', profile_payload user)]))))))))))"

definition verify_otp ::
  "'r ctx \<Rightarrow> ptext \<Rightarrow> ptext \<Rightarrow> ptext option \<Rightarrow> ('r world, json) prog" where
  "verify_otp c phone code device_info =
     andthen (verify_lookup c phone) (\<lambda>(phone, now, otp).
     verify_code c code device_info phone now otp)"

lemmas verify_otp_defs = verify_otp_def verify_lookup_def verify_code_def

end
