(* ===== verification/Cmd_Session.thy ===== *)
theory Cmd_Session
  imports Cmd_Otp
begin

text \<open>
  \<open>commands/refresh_token.py\<close> and \<open>commands/logout.py\<close>.
\<close>

section \<open>RefreshAccessToken\<close>

definition refresh_token_invalid :: failure where
  "refresh_token_invalid = api 401 ''REFRESH_TOKEN_INVALID'' JNull"

definition refresh_token_revoked :: failure where
  "refresh_token_revoked = api 401 ''REFRESH_TOKEN_REVOKED'' JNull"

text \<open>
  The command in two parts, since other requests may be served between the reads of the first and
  the writes of the second: \<open>refresh_lookup\<close> up to the check of the status, \<open>refresh_rotate\<close> from
  the revocation on.
\<close>

definition refresh_lookup :: "'r ctx \<Rightarrow> ptext \<Rightarrow> ('r world, instant \<times> refresh_token \<times> user) prog" where
  "refresh_lookup c refresh_token =
     andthen (now_utc c) (\<lambda>now.
     andthen (token_find_by_hash (hash_refresh_token c refresh_token)) (\<lambda>found.
     case found of
       None \<Rightarrow> raise refresh_token_invalid
     | Some stored \<Rightarrow>
         if rt_revoked_at stored \<noteq> None then
           andthen (token_revoke_all_for_user c (rt_user_id stored)) (\<lambda>revoked.
           before commit
           (raise refresh_token_revoked))
         else if rt_expires_at stored \<le> now then raise refresh_token_invalid
         else
           andthen (user_find_by_id (rt_user_id stored)) (\<lambda>found.
           case found of
             None \<Rightarrow> raise refresh_token_invalid
           | Some user \<Rightarrow>
               if usr_status user \<notin> SESSION_ALLOWED_STATUSES then raise user_suspended
               else return (now, stored, user))))"

definition refresh_rotate ::
  "'r ctx \<Rightarrow> ptext option \<Rightarrow> instant \<Rightarrow> refresh_token \<Rightarrow> user \<Rightarrow> ('r world, json) prog" where
  "refresh_rotate c device_info now stored user =
     before (token_revoke c (rt_id stored))
     (andthen (open_session c now (usr_id user) (py_or device_info (rt_device_info stored)))
        (\<lambda>raw_refresh.
     before commit
     (andthen (issue_access_token c (usr_id user) (role_value (usr_role user))
                 (status_value (usr_status user))) (\<lambda>access_token.
     return (JObj [(''access_token'', JText access_token),
                   (''refresh_token'', JText raw_refresh)])))))"

definition refresh_access_token :: "'r ctx \<Rightarrow> ptext \<Rightarrow> ptext option \<Rightarrow> ('r world, json) prog" where
  "refresh_access_token c refresh_token device_info =
     andthen (refresh_lookup c refresh_token) (\<lambda>(now, stored, user).
     refresh_rotate c device_info now stored user)"

lemmas refresh_defs = refresh_access_token_def refresh_lookup_def refresh_rotate_def

section \<open>Logout\<close>

definition logout :: "'r ctx \<Rightarrow> ptext \<Rightarrow> bool \<Rightarrow> ('r world, unit) prog" where
  "logout c refresh_token all_devices =
     andthen (token_find_by_hash (hash_refresh_token c refresh_token)) (\<lambda>found.
     case found of
       None \<Rightarrow> return ()
     | Some stored \<Rightarrow>
         before (if all_devices
                 then andthen (token_revoke_all_for_user c (rt_user_id stored)) (\<lambda>_. return ())
                 else token_revoke c (rt_id stored))
         commit)"

end
