(* ===== verification/Cmd_Roles.thy ===== *)
theory Cmd_Roles
  imports Cmd_Account
begin

text \<open>
  \<open>commands/change_role.py\<close> and \<open>commands/decide_kyc.py\<close>: requesting or granting a role, and
  the decision on a pending request.
\<close>

section \<open>ChangeRole\<close>

definition field_error :: "string \<Rightarrow> string \<Rightarrow> failure" where
  "field_error cd field = api 422 cd (JObj [(''field'', jlit field)])"

text \<open>The branch of a role that needs KYC: the request is recorded, nothing is granted.\<close>

definition request_role ::
  "'r ctx \<Rightarrow> instant \<Rightarrow> user \<Rightarrow> user_role \<Rightarrow> ptext option \<Rightarrow> uuid option \<Rightarrow> ('r world, json) prog" where
  "request_role c now user target_role reason changed_by =
     (if usr_requested_role user = Some target_role then return (profile_payload user)
      else
        let previous_role = usr_role user in
        andthen (user_save c (user\<lparr>usr_requested_role := Some target_role\<rparr>)) (\<lambda>user.
        andthen (uuid4 c) (\<lambda>row_id.
        before (record_role_change
          \<lparr>urc_id = row_id, urc_user_id = usr_id user, urc_changed_at = now,
           urc_from_role = Some previous_role, urc_to_role = None,
           urc_requested_role = Some target_role, urc_reason = reason, urc_changed_by = changed_by\<rparr>)
        (before commit
        (before (cache_invalidate_user c (usr_id user))
        (andthen (event_envelope_now c user (role_value (usr_role user))) (\<lambda>env.
        before (publish c (UserUpdated env [''requested_role'']))
        (return (profile_payload user)))))))))"

text \<open>The branch of a role granted at once, which settles any pending request.\<close>

definition set_role ::
  "'r ctx \<Rightarrow> instant \<Rightarrow> user \<Rightarrow> user_role \<Rightarrow> ptext option \<Rightarrow> uuid option \<Rightarrow> ('r world, json) prog" where
  "set_role c now user target_role reason changed_by =
     (let old_role = usr_role user in
      andthen (user_save c (user\<lparr>usr_role := target_role, usr_requested_role := None\<rparr>)) (\<lambda>user.
      andthen (uuid4 c) (\<lambda>row_id.
      before (record_role_change
        \<lparr>urc_id = row_id, urc_user_id = usr_id user, urc_changed_at = now,
         urc_from_role = Some old_role, urc_to_role = Some target_role, urc_requested_role = None,
         urc_reason = reason, urc_changed_by = changed_by\<rparr>)
      (before commit
      (before (cache_invalidate_user c (usr_id user))
      (andthen (event_envelope_now c user (role_value target_role)) (\<lambda>env.
      before (publish c (UserRoleChanged env (role_value old_role) (role_value target_role)))
      (return (profile_payload user)))))))))"

definition change_role ::
  "'r ctx \<Rightarrow> uuid \<Rightarrow> ptext \<Rightarrow> ptext option \<Rightarrow> uuid option \<Rightarrow> ('r world, json) prog" where
  "change_role c user_id role reason changed_by =
     (case UserRole role of
        None \<Rightarrow> raise (field_error ''INVALID_ROLE'' ''role'')
      | Some target_role \<Rightarrow>
          andthen (user_find_by_id user_id) (\<lambda>found.
          case found of
            None \<Rightarrow> raise user_not_found
          | Some user \<Rightarrow>
              andthen (now_utc c) (\<lambda>now.
              if needs_kyc_for user target_role then request_role c now user target_role reason changed_by
              else if usr_role user = target_role then return (profile_payload user)
              else set_role c now user target_role reason changed_by)))"

section \<open>DecideKyc\<close>

definition kyc_reason :: "bool \<Rightarrow> ptext" where
  "kyc_reason approved =
     ascii ''D'' @ [233] @ ascii ''cision KYC : '' @
     (if approved then ascii ''accord'' @ [233] else ascii ''refus'' @ [233])"

definition decided_user :: "user \<Rightarrow> user_role \<Rightarrow> bool \<Rightarrow> user" where
  "decided_user user requested approved =
     user\<lparr>usr_requested_role := None,
          usr_role := (if approved then requested else usr_role user),
          usr_status := (if usr_status user = PENDING_KYC then ACTIVE else usr_status user)\<rparr>"

text \<open>What is read before the first write, and what is written from it.\<close>

definition decide_lookup :: "uuid \<Rightarrow> ('r world, user \<times> user_role) prog" where
  "decide_lookup user_id =
     andthen (user_find_by_id user_id) (\<lambda>found.
     case found of
       None \<Rightarrow> raise user_not_found
     | Some user \<Rightarrow>
         (case usr_requested_role user of
            None \<Rightarrow> raise (api 409 ''NO_KYC_PENDING'' JNull)
          | Some requested \<Rightarrow> return (user, requested)))"

definition decide_write ::
  "'r ctx \<Rightarrow> user \<Rightarrow> user_role \<Rightarrow> bool \<Rightarrow> ptext option \<Rightarrow> uuid option \<Rightarrow> ('r world, json) prog" where
  "decide_write c user requested approved reason decided_by =
     andthen (now_utc c) (\<lambda>now.
     let previous_role = usr_role user; previous_status = usr_status user in
     andthen (user_save c (decided_user user requested approved)) (\<lambda>user.
     before (whenever (usr_status user \<noteq> previous_status)
       (andthen (uuid4 c) (\<lambda>row_id.
        record_status_change
          \<lparr>usc_id = row_id, usc_user_id = usr_id user, usc_to_status = usr_status user,
           usc_changed_at = now, usc_from_status = Some previous_status,
           usc_reason = py_or reason (Some (kyc_reason approved)),
           usc_changed_by = decided_by\<rparr>)))
     (andthen (uuid4 c) (\<lambda>row_id.
     before (record_role_change
       \<lparr>urc_id = row_id, urc_user_id = usr_id user, urc_changed_at = now,
        urc_from_role = Some previous_role,
        urc_to_role = (if approved then Some requested else None),
        urc_requested_role = Some requested, urc_reason = reason,
        urc_changed_by = decided_by\<rparr>)
     (before commit
     (before (cache_invalidate_user c (usr_id user))
     (andthen (event_envelope_now c user (role_value (usr_role user))) (\<lambda>env.
     before (publish c
       (if approved
        then UserRoleChanged env (role_value previous_role) (role_value (usr_role user))
        else UserUpdated env [''requested_role'']))
     (return (profile_payload user))))))))))"

definition decide_kyc ::
  "'r ctx \<Rightarrow> uuid \<Rightarrow> bool \<Rightarrow> ptext option \<Rightarrow> uuid option \<Rightarrow> ('r world, json) prog" where
  "decide_kyc c user_id approved reason decided_by =
     andthen (decide_lookup user_id) (\<lambda>(user, requested).
     decide_write c user requested approved reason decided_by)"

lemmas decide_kyc_defs = decide_kyc_def decide_lookup_def decide_write_def

end
