(* ===== verification/Cmd_Status.thy ===== *)
theory Cmd_Status
  imports Cmd_Roles
begin

text \<open>
  \<open>commands/change_status.py\<close>: suspending or reinstating an account.
\<close>

definition invalid_transition :: "user_status \<Rightarrow> user_status \<Rightarrow> failure" where
  "invalid_transition current target =
     api 409 ''INVALID_STATUS_TRANSITION''
       (JObj [(''from_status'', jlit (status_value current)), (''to_status'', jlit (status_value target))])"

definition set_status ::
  "'r ctx \<Rightarrow> user \<Rightarrow> user_status \<Rightarrow> ptext option \<Rightarrow> uuid option \<Rightarrow> ('r world, json) prog" where
  "set_status c user target reason changed_by =
     (let current = usr_status user in
      andthen (now_utc c) (\<lambda>now.
      andthen (user_save c (user\<lparr>usr_status := target\<rparr>)) (\<lambda>user.
      andthen (uuid4 c) (\<lambda>row_id.
      before (record_status_change
        \<lparr>usc_id = row_id, usc_user_id = usr_id user, usc_to_status = target, usc_changed_at = now,
         usc_from_status = Some current, usc_reason = reason, usc_changed_by = changed_by\<rparr>)
      (before (whenever (target = SUSPENDED)
        (andthen (token_revoke_all_for_user c (usr_id user)) (\<lambda>_. return ())))
      (before commit
      (before (cache_invalidate_user c (usr_id user))
      (andthen (event_envelope_now c user (role_value (usr_role user))) (\<lambda>env.
      before (publish c (UserStatusChanged env (status_value current) (status_value target) reason))
      (return (profile_payload user)))))))))))"

definition change_status ::
  "'r ctx \<Rightarrow> uuid \<Rightarrow> ptext \<Rightarrow> ptext option \<Rightarrow> uuid option \<Rightarrow> ('r world, json) prog" where
  "change_status c user_id status reason changed_by =
     (case UserStatus status of
        None \<Rightarrow> raise (field_error ''INVALID_STATUS'' ''status'')
      | Some target \<Rightarrow>
          if target \<notin> ADMIN_SETTABLE_STATUSES then raise (field_error ''STATUS_NOT_SETTABLE'' ''status'')
          else
            andthen (user_find_by_id user_id) (\<lambda>found.
            case found of
              None \<Rightarrow> raise user_not_found
            | Some user \<Rightarrow>
                if \<not> can_transition (usr_status user) target
                then raise (invalid_transition (usr_status user) target)
                else set_status c user target reason changed_by))"

end
