(* ===== verification/Read_Repository.thy ===== *)
theory Read_Repository
  imports Write_Repository "HOL-Library.Product_Lexorder"
begin

text \<open>
  \<open>infra/read_repository.py\<close>: the same tables, read only. Nothing here is a program: a read is
  a function of the session's view.
\<close>

definition MAX_PAGE_SIZE :: int where
  "MAX_PAGE_SIZE = 100"

definition get_by_id :: "uuid \<Rightarrow> ('r world, user option) prog" where
  "get_by_id user_id =
     andthen (gets w_db) (\<lambda>db. from_result (select_user (\<lambda>r. ur_id r = user_id) db))"

definition get_by_phone :: "ptext \<Rightarrow> ('r world, user option) prog" where
  "get_by_phone phone =
     andthen (gets w_db) (\<lambda>db. from_result (select_user (\<lambda>r. ur_phone r = phone) db))"

record list_filter =
  lf_role :: "ptext option"
  lf_status :: "ptext option"
  lf_pending_kyc :: bool
  lf_created_since :: "instant option"

definition matches :: "list_filter \<Rightarrow> user_row \<Rightarrow> bool" where
  "matches f r =
     ((case lf_role f of None \<Rightarrow> True | Some v \<Rightarrow> ur_role r = v) \<and>
      (case lf_status f of None \<Rightarrow> True | Some v \<Rightarrow> ur_status r = v) \<and>
      (lf_pending_kyc f \<longrightarrow> ur_requested_role r \<noteq> None) \<and>
      (case lf_created_since f of None \<Rightarrow> True | Some t \<Rightarrow> t \<le> ur_created_at r))"

definition creation_key :: "user_row \<Rightarrow> instant \<times> uuid" where
  "creation_key r = (ur_created_at r, ur_id r)"

text \<open>\<open>ORDER BY created_at, id\<close>, ascending for a backfill and descending otherwise.\<close>

definition ordered :: "list_filter \<Rightarrow> user_row list \<Rightarrow> user_row list" where
  "ordered f rows =
     (let asc = sort_key creation_key rows
      in if lf_created_since f \<noteq> None then asc else rev asc)"

definition page_rows :: "list_filter \<Rightarrow> int \<Rightarrow> int \<Rightarrow> database \<Rightarrow> user_row list" where
  "page_rows f page page_size db =
     (let page = max page 1; page_size = min (max page_size 1) MAX_PAGE_SIZE
      in take (nat page_size)
           (drop (nat ((page - 1) * page_size)) (ordered f (filter (matches f) (db_users db)))))"

fun users_of_rows :: "user_row list \<Rightarrow> failure + user list" where
  "users_of_rows [] = Inr []"
| "users_of_rows (r # rs) =
     (case user_to_domain r of
        None \<Rightarrow> Inl (Uncaught ''ValueError'')
      | Some u \<Rightarrow> (case users_of_rows rs of Inl e \<Rightarrow> Inl e | Inr us \<Rightarrow> Inr (u # us)))"

definition read_list_users ::
  "list_filter \<Rightarrow> int \<Rightarrow> int \<Rightarrow> ('r world, user list \<times> int) prog" where
  "read_list_users f page page_size =
     andthen (gets w_db) (\<lambda>db.
     let total = int (length (filter (matches f) (db_users db))) in
     andthen (from_result (users_of_rows (page_rows f page page_size db))) (\<lambda>rows.
     return (rows, total)))"

end
