(* ===== verification/Queries.thy ===== *)
theory Queries
  imports Read_Repository Cmd_Account Profile_Cache
begin

text \<open>
  \<open>application/queries/\<close>: reads through the cache and the paginated list. \<open>GetJwks\<close> is
  \<open>jwks\<close> of the key ring.
\<close>

section \<open>GetUserById, GetCurrentUserProfile, GetUserByPhone\<close>

definition get_user_by_id :: "'r ctx \<Rightarrow> uuid \<Rightarrow> ('r world, json) prog" where
  "get_user_by_id c user_id =
     andthen (cache_get_user c user_id) (\<lambda>cached.
     case cached of
       Some u \<Rightarrow> return (profile_payload u)
     | None \<Rightarrow>
         andthen (get_by_id user_id) (\<lambda>found.
         case found of
           None \<Rightarrow> raise user_not_found
         | Some user \<Rightarrow> before (cache_set_user c user) (return (profile_payload user))))"

definition get_current_user_profile :: "'r ctx \<Rightarrow> uuid \<Rightarrow> ('r world, json) prog" where
  "get_current_user_profile c user_id = get_user_by_id c user_id"

definition get_user_by_phone :: "ptext \<Rightarrow> ('r world, json option) prog" where
  "get_user_by_phone phone =
     andthen (from_result (validate_phone phone)) (\<lambda>phone.
     andthen (get_by_phone phone) (\<lambda>user. return (map_option profile_payload user)))"

section \<open>ListUsers\<close>

definition filter_error :: "string \<Rightarrow> string \<Rightarrow> string list \<Rightarrow> failure" where
  "filter_error cd field accepted =
     api 422 cd (JObj [(''field'', jlit field), (''accepted'', JList (map jlit accepted))])"

text \<open>\<open>ceil(total / page_size) if page_size else 0\<close>.\<close>

definition total_pages :: "int \<Rightarrow> int \<Rightarrow> int" where
  "total_pages n page_size = (if page_size = 0 then 0 else - ((- n) div page_size))"

definition list_users :: "list_filter \<Rightarrow> int \<Rightarrow> int \<Rightarrow> ('r world, json) prog" where
  "list_users f page page_size =
     (if lf_role f \<noteq> None \<and> UserRole (the (lf_role f)) = None
      then raise (filter_error ''INVALID_ROLE'' ''role'' (map role_value role_members))
      else if lf_status f \<noteq> None \<and> UserStatus (the (lf_status f)) = None
      then raise (filter_error ''INVALID_STATUS'' ''status'' (map status_value status_members))
      else
        andthen (read_list_users f page page_size) (\<lambda>(rows, n).
        return (JObj [(''data'', JList (map profile_payload rows)),
                      (''pagination'',
                        JObj [(''page'', JInt page), (''page_size'', JInt page_size),
                              (''total_items'', JInt n),
                              (''total_pages'', JInt (total_pages n page_size))])])))"

section \<open>The pages of a list\<close>

lemma concat_slices: "concat (map (\<lambda>k. take n (drop (k * n) xs)) [0..<m]) = take (m * n) xs"
proof (induction m)
  case (Suc m)
  have "take (m * n) xs @ take n (drop (m * n) xs) = take (m * n + n) xs"
    by (rule take_add [symmetric])
  with Suc show ?case by (simp add: add.commute)
qed simp

lemma total_pages_enough: "0 < n \<Longrightarrow> int k \<le> total_pages (int k) n * n"
proof -
  assume "0 < n"
  then have "0 \<le> - int k mod n" by (rule pos_mod_sign)
  with minus_mod_eq_div_mult [of "- int k" n] have "- int k div n * n \<le> - int k" by linarith
  with \<open>0 < n\<close> show ?thesis by (simp add: total_pages_def)
qed

lemma length_ordered [simp]: "length (ordered f rows) = length rows"
  by (simp add: ordered_def Let_def)

text \<open>
  C35. The pages a client walks through, from the first to the one \<open>total_pages\<close> names, are
  together the whole filtered list in its order: no account is missed or shown twice.
\<close>

theorem pages_partition:
  assumes "1 \<le> page_size" and "page_size \<le> MAX_PAGE_SIZE"
    and "rows = filter (matches f) (db_users db)"
  shows "concat (map (\<lambda>k. page_rows f (1 + int k) page_size db)
      [0..<nat (total_pages (int (length rows)) page_size)]) = ordered f rows"
proof -
  have slice: "page_rows f (1 + int k) page_size db =
      take (nat page_size) (drop (k * nat page_size) (ordered f rows))" for k
    using assms(1,2) by (simp add: page_rows_def Let_def assms(3) nat_mult_distrib min_absorb1)
  let ?n = "total_pages (int (length rows)) page_size"
  have "int (length rows) \<le> ?n * page_size" using total_pages_enough assms(1) by simp
  then have "length rows \<le> nat ?n * nat page_size"
    using assms(1) nat_mono nat_mult_distrib [of page_size ?n] by (fastforce simp: mult.commute)
  then show ?thesis unfolding slice concat_slices by simp
qed

definition everyone :: list_filter where
  "everyone = \<lparr>lf_role = None, lf_status = None, lf_pending_kyc = False, lf_created_since = None\<rparr>"

definition two_accounts :: database where
  "two_accounts = empty_database\<lparr>db_users :=
     map (\<lambda>k. \<lparr>ur_id = of_nat k, ur_phone = [k], ur_full_name = None, ur_password_hash = None,
                ur_role = ascii ''user'', ur_status = ascii ''active'', ur_requested_role = None,
                ur_created_at = int k, ur_updated_at = int k\<rparr>) [1, 2]\<rparr>"

lemma pages_partition_witness:
  "page_rows everyone 1 1 two_accounts @ page_rows everyone 2 1 two_accounts =
    rev (sort_key creation_key (db_users two_accounts))"
  using pages_partition [of 1 "db_users two_accounts" everyone two_accounts]
  by (simp add: MAX_PAGE_SIZE_def matches_def two_accounts_def total_pages_def everyone_def
      empty_database_def ordered_def upt_rec)

end
