(* ===== verification/Auth_Deps.thy ===== *)
theory Auth_Deps
  imports Read_Repository Token_Service Py_Uuid Cmd_Otp
begin

text \<open>
  \<open>core/auth_deps.py\<close>: who is calling. The bearer token and the service key are what FastAPI
  found in the headers, \<open>None\<close> when the header is absent.
\<close>

definition token_missing :: failure where
  "token_missing = api 401 ''TOKEN_MISSING'' JNull"

definition get_claims :: "'r ctx \<Rightarrow> ptext option \<Rightarrow> ('r world, claims) prog" where
  "get_claims c credentials =
     (case credentials of
        None \<Rightarrow> raise token_missing
      | Some token \<Rightarrow> if token = [] then raise token_missing else decode_access_token c token)"

text \<open>\<open>UUID(claims["sub"])\<close>: a missing or malformed claim is the caught error; \<open>UUID\<close> of
  something that is no string raises another exception.\<close>

definition sub_uuid :: "claims \<Rightarrow> failure + uuid" where
  "sub_uuid claims =
     (case map_of claims ''sub'' of
        None \<Rightarrow> Inl token_invalid
      | Some (JText t) \<Rightarrow> (case UUID t of None \<Rightarrow> Inl token_invalid | Some i \<Rightarrow> Inr i)
      | Some JNull \<Rightarrow> Inl (Uncaught ''TypeError'')
      | Some _ \<Rightarrow> Inl (Uncaught ''AttributeError''))"

fun unhashable :: "json option \<Rightarrow> bool" where
  "unhashable (Some (JList _)) = True"
| "unhashable (Some (JObj _)) = True"
| "unhashable _ = False"

lemma text_hashable [simp]: "\<not> unhashable (Some (jlit s))"
  by (simp add: jlit_def)

definition is_service :: "claims \<Rightarrow> bool" where
  "is_service claims = (map_of claims ''role'' = Some (jlit SERVICE_ROLE))"

definition session_status_values :: "json option set" where
  "session_status_values = (\<lambda>s. Some (jlit (status_value s))) ` SESSION_ALLOWED_STATUSES"

definition get_current_user_id :: "claims \<Rightarrow> ('r world, uuid) prog" where
  "get_current_user_id claims =
     (if is_service claims then raise (api 403 ''SERVICE_TOKEN_NOT_ALLOWED'' JNull)
      else
        let status = map_of claims ''status'' in
        if unhashable status then raise (Uncaught ''TypeError'')
        else if status \<notin> session_status_values then
          (if status = Some (jlit (status_value SUSPENDED)) then raise user_suspended
           else raise (api 403 ''USER_NOT_VERIFIED'' JNull))
        else from_result (sub_uuid claims))"

definition current_user :: "'r ctx \<Rightarrow> ptext option \<Rightarrow> ('r world, uuid) prog" where
  "current_user c credentials = andthen (get_claims c credentials) get_current_user_id"

definition forbidden_role :: failure where
  "forbidden_role = api 403 ''FORBIDDEN_ROLE'' JNull"

text \<open>The check both gates end in: the account as the database has it now.\<close>

definition fresh_admin :: "uuid \<Rightarrow> ('r world, user) prog" where
  "fresh_admin user_id =
     andthen (get_by_id user_id) (\<lambda>found.
     case found of
       None \<Rightarrow> raise token_invalid
     | Some user \<Rightarrow>
         if usr_status user \<noteq> ACTIVE then raise user_suspended
         else if usr_role user \<noteq> ADMIN then raise forbidden_role
         else return user)"

definition require_admin :: "'r ctx \<Rightarrow> ptext option \<Rightarrow> ('r world, user) prog" where
  "require_admin c credentials = andthen (current_user c credentials) fresh_admin"

definition require_service_or_admin ::
  "'r ctx \<Rightarrow> ptext option \<Rightarrow> ptext option \<Rightarrow> ('r world, uuid option) prog" where
  "require_service_or_admin c x_service_key credentials =
     (case x_service_key of
        Some key \<Rightarrow>
          (let keys = service_api_key_set (cfg c) in
           if keys \<noteq> {} \<and> key \<in> keys then return None
           else raise (api 401 ''SERVICE_KEY_INVALID'' JNull))
      | None \<Rightarrow>
          andthen (get_claims c credentials) (\<lambda>claims.
          if is_service claims then return None
          else
            andthen (from_result (sub_uuid claims)) (\<lambda>user_id.
            andthen (fresh_admin user_id) (\<lambda>user. return (Some (usr_id user))))))"

end
