(* ===== verification/Http.thy ===== *)
theory Http
  imports Cmd_Session Cmd_Status Queries Auth_Deps
begin

text \<open>
  \<open>presentation/\<close> and \<open>main.py\<close>: the routes. A request carries what FastAPI extracted from
  it; the dependencies run first (authentication), then the declared bounds of the body and
  the query are checked, then the command or the query runs in the request's session.
\<close>

section \<open>Declared bounds (schemas.py)\<close>

definition validation_error :: failure where
  "validation_error = api 422 ''VALIDATION_ERROR'' JNull"

definition at_most :: "nat \<Rightarrow> ptext option \<Rightarrow> bool" where
  "at_most n t = (case t of None \<Rightarrow> True | Some s \<Rightarrow> length s \<le> n)"

definition is_otp_pattern :: "ptext \<Rightarrow> bool" where
  "is_otp_pattern code = (length code = 6 \<and> list_all is_py_digit code)"

definition page_ok :: "int \<Rightarrow> int \<Rightarrow> bool" where
  "page_ok page page_size = (1 \<le> page \<and> 1 \<le> page_size \<and> page_size \<le> MAX_PAGE_SIZE)"

definition checked :: "bool \<Rightarrow> ('w, 'a) prog \<Rightarrow> ('w, 'a) prog" where
  "checked ok m = (if ok then m else raise validation_error)"

text \<open>\<open>_client_ip\<close>: the first entry of \<open>X-Forwarded-For\<close>, else the peer.\<close>

definition client_ip :: "ptext option \<Rightarrow> ptext option \<Rightarrow> ptext option" where
  "client_ip x_forwarded_for peer =
     (if truthy x_forwarded_for then Some (py_strip (hd (split_on comma (the x_forwarded_for)))) else peer)"

section \<open>auth_router.py\<close>

definition post_register :: "'r ctx \<Rightarrow> ptext \<Rightarrow> ptext option \<Rightarrow> ('r world, nat \<times> json) prog" where
  "post_register c phone full_name =
     checked (at_most 120 full_name)
       (andthen (register_user c phone full_name) (\<lambda>j. return (201, j)))"

definition post_otp_request ::
  "'r ctx \<Rightarrow> ptext \<Rightarrow> ptext option \<Rightarrow> ptext option \<Rightarrow> ('r world, nat \<times> json) prog" where
  "post_otp_request c phone forwarded peer =
     andthen (request_otp c phone (client_ip forwarded peer)) (\<lambda>j. return (200, j))"

definition post_otp_verify ::
  "'r ctx \<Rightarrow> ptext \<Rightarrow> ptext \<Rightarrow> ptext option \<Rightarrow> ('r world, nat \<times> json) prog" where
  "post_otp_verify c phone code device_info =
     checked (is_otp_pattern code \<and> at_most 200 device_info)
       (andthen (verify_otp c phone code device_info) (\<lambda>j. return (200, j)))"

definition post_refresh :: "'r ctx \<Rightarrow> ptext \<Rightarrow> ptext option \<Rightarrow> ('r world, nat \<times> json) prog" where
  "post_refresh c token device_info =
     checked (at_most 200 device_info)
       (andthen (refresh_access_token c token device_info) (\<lambda>j. return (200, j)))"

definition post_logout :: "'r ctx \<Rightarrow> ptext \<Rightarrow> bool \<Rightarrow> ('r world, nat \<times> json) prog" where
  "post_logout c token all_devices = before (logout c token all_devices) (return (204, JNull))"

section \<open>users_router.py\<close>

definition get_me :: "'r ctx \<Rightarrow> ptext option \<Rightarrow> ('r world, nat \<times> json) prog" where
  "get_me c bearer =
     andthen (current_user c bearer) (\<lambda>i.
     andthen (get_current_user_profile c i) (\<lambda>j. return (200, j)))"

definition patch_me :: "'r ctx \<Rightarrow> ptext option \<Rightarrow> ptext option \<Rightarrow> ('r world, nat \<times> json) prog" where
  "patch_me c bearer full_name =
     andthen (current_user c bearer) (\<lambda>i.
     checked (at_most 120 full_name)
       (andthen (update_profile c i full_name) (\<lambda>j. return (200, j))))"

definition get_backfill ::
  "'r ctx \<Rightarrow> ptext option \<Rightarrow> ptext option \<Rightarrow> instant \<Rightarrow> int \<Rightarrow> int \<Rightarrow>
   ('r world, nat \<times> json) prog" where
  "get_backfill c key bearer since page page_size =
     andthen (require_service_or_admin c key bearer) (\<lambda>_.
     checked (page_ok page page_size)
       (andthen (list_users \<lparr>lf_role = None, lf_status = None, lf_pending_kyc = False,
                             lf_created_since = Some since\<rparr> page page_size) (\<lambda>j. return (200, j))))"

definition get_user ::
  "'r ctx \<Rightarrow> ptext option \<Rightarrow> ptext option \<Rightarrow> uuid \<Rightarrow> ('r world, nat \<times> json) prog" where
  "get_user c key bearer user_id =
     andthen (require_service_or_admin c key bearer) (\<lambda>_.
     andthen (get_user_by_id c user_id) (\<lambda>j. return (200, j)))"

definition patch_role ::
  "'r ctx \<Rightarrow> ptext option \<Rightarrow> ptext option \<Rightarrow> uuid \<Rightarrow> ptext \<Rightarrow> ptext option \<Rightarrow>
   ('r world, nat \<times> json) prog" where
  "patch_role c key bearer user_id role reason =
     andthen (require_service_or_admin c key bearer) (\<lambda>caller.
     andthen (change_role c user_id role reason caller) (\<lambda>j. return (200, j)))"

section \<open>admin_router.py\<close>

definition get_admin_users ::
  "'r ctx \<Rightarrow> ptext option \<Rightarrow> ptext option \<Rightarrow> ptext option \<Rightarrow> bool \<Rightarrow> int \<Rightarrow> int \<Rightarrow>
   ('r world, nat \<times> json) prog" where
  "get_admin_users c bearer role status pending_kyc page page_size =
     andthen (require_admin c bearer) (\<lambda>_.
     checked (page_ok page page_size)
       (andthen (list_users \<lparr>lf_role = role, lf_status = status, lf_pending_kyc = pending_kyc,
                             lf_created_since = None\<rparr> page page_size) (\<lambda>j. return (200, j))))"

definition patch_status ::
  "'r ctx \<Rightarrow> ptext option \<Rightarrow> uuid \<Rightarrow> ptext \<Rightarrow> ptext option \<Rightarrow> ('r world, nat \<times> json) prog" where
  "patch_status c bearer user_id status reason =
     andthen (require_admin c bearer) (\<lambda>admin.
     andthen (change_status c user_id status reason (Some (usr_id admin))) (\<lambda>j. return (200, j)))"

definition patch_kyc ::
  "'r ctx \<Rightarrow> ptext option \<Rightarrow> uuid \<Rightarrow> bool \<Rightarrow> ptext option \<Rightarrow> ('r world, nat \<times> json) prog" where
  "patch_kyc c bearer user_id approved reason =
     andthen (require_admin c bearer) (\<lambda>admin.
     andthen (decide_kyc c user_id approved reason (Some (usr_id admin))) (\<lambda>j. return (200, j)))"

lemmas route_defs [simp] =
  post_register_def post_otp_request_def post_otp_verify_def post_refresh_def post_logout_def
  get_me_def patch_me_def get_backfill_def get_user_def patch_role_def get_admin_users_def
  patch_status_def patch_kyc_def

section \<open>The application\<close>

datatype request =
    PostRegister ptext "ptext option"
  | PostOtpRequest ptext "ptext option" "ptext option"
  | PostOtpVerify ptext ptext "ptext option"
  | PostRefresh ptext "ptext option"
  | PostLogout ptext bool
  | GetMe "ptext option"
  | PatchMe "ptext option" "ptext option"
  | GetBackfill "ptext option" "ptext option" instant int int
  | GetUser "ptext option" "ptext option" uuid
  | PatchRole "ptext option" "ptext option" uuid ptext "ptext option"
  | GetAdminUsers "ptext option" "ptext option" "ptext option" bool int int
  | PatchStatus "ptext option" uuid ptext "ptext option"
  | PatchKyc "ptext option" uuid bool "ptext option"

fun handler :: "'r ctx \<Rightarrow> request \<Rightarrow> ('r world, nat \<times> json) prog" where
  "handler c (PostRegister phone full_name) = post_register c phone full_name"
| "handler c (PostOtpRequest phone forwarded peer) = post_otp_request c phone forwarded peer"
| "handler c (PostOtpVerify phone code device_info) = post_otp_verify c phone code device_info"
| "handler c (PostRefresh token device_info) = post_refresh c token device_info"
| "handler c (PostLogout token all_devices) = post_logout c token all_devices"
| "handler c (GetMe bearer) = get_me c bearer"
| "handler c (PatchMe bearer full_name) = patch_me c bearer full_name"
| "handler c (GetBackfill key bearer since page page_size) =
     get_backfill c key bearer since page page_size"
| "handler c (GetUser key bearer user_id) = get_user c key bearer user_id"
| "handler c (PatchRole key bearer user_id role reason) = patch_role c key bearer user_id role reason"
| "handler c (GetAdminUsers bearer role status pending_kyc page page_size) =
     get_admin_users c bearer role status pending_kyc page page_size"
| "handler c (PatchStatus bearer user_id status reason) = patch_status c bearer user_id status reason"
| "handler c (PatchKyc bearer user_id approved reason) = patch_kyc c bearer user_id approved reason"

text \<open>The exception handlers of the application.\<close>

fun response :: "failure + nat \<times> json \<Rightarrow> nat \<times> json" where
  "response (Inr r) = r"
| "response (Inl (Api e)) = api_error_response e"
| "response (Inl (Uncaught x)) = (500, JNull)"

definition serve :: "'r ctx \<Rightarrow> request \<Rightarrow> 'r world \<Rightarrow> (nat \<times> json) \<times> 'r world" where
  "serve c req w = (case get_session (handler c req) w of (r, w') \<Rightarrow> (response r, w'))"

end
