(* ===== verification/Store_Laws.thy ===== *)
theory Store_Laws
  imports Write_Repository Read_Repository
begin

text \<open>
  What the SQL repositories promise the commands. First, reading: on well-formed tables a
  \<open>SELECT\<close> by a unique column is a partial function of the database. Second, the weakest
  precondition of every repository operation. The ports themselves, with their laws, are in
  \<open>Store_Ports\<close>.
\<close>

section \<open>Well-formed tables\<close>

text \<open>
  The constraints of the schema (primary keys, the unique phone, the foreign keys) and the
  promise that every user row can be read back.
\<close>

definition tables_ok :: "database \<Rightarrow> bool" where
  "tables_ok db =
     (distinct (map ur_id (db_users db)) \<and> distinct (map ur_phone (db_users db)) \<and>
      list_all (\<lambda>r. user_to_domain r \<noteq> None) (db_users db) \<and>
      distinct (map otp_id (db_otp_codes db)) \<and>
      distinct (map rt_id (db_refresh_tokens db)) \<and>
      list_all (\<lambda>t. user_exists (rt_user_id t) db) (db_refresh_tokens db) \<and>
      distinct (map sh_id (db_status_history db)) \<and>
      list_all (\<lambda>h. user_exists (sh_user_id h) db) (db_status_history db) \<and>
      distinct (map rh_id (db_role_history db)) \<and>
      list_all (\<lambda>h. user_exists (rh_user_id h) db) (db_role_history db))"

definition account :: "database \<Rightarrow> uuid \<Rightarrow> user option" where
  "account db i = Option.bind (find (\<lambda>r. ur_id r = i) (db_users db)) user_to_domain"

definition account_by_phone :: "database \<Rightarrow> ptext \<Rightarrow> user option" where
  "account_by_phone db p = Option.bind (find (\<lambda>r. ur_phone r = p) (db_users db)) user_to_domain"

definition phone_known :: "ptext \<Rightarrow> database \<Rightarrow> bool" where
  "phone_known p db = list_ex (\<lambda>r. ur_phone r = p) (db_users db)"

lemma user_to_domain_fields:
  assumes "user_to_domain r = Some u"
  shows "usr_id u = ur_id r" "usr_phone u = ur_phone r" "usr_full_name u = ur_full_name r"
    "usr_created_at u = Some (ur_created_at r)" "ur_role r = ascii (role_value (usr_role u))"
    "ur_status r = ascii (status_value (usr_status u))"
  using assms
  by (auto simp: user_to_domain_def UserRole_Some_iff UserStatus_Some_iff split: option.splits)

lemma filter_unique_key:
  assumes "distinct (map k xs)"
  shows "filter (\<lambda>x. k x = v) xs = (case find (\<lambda>x. k x = v) xs of None \<Rightarrow> [] | Some x \<Rightarrow> [x])"
  using assms
proof (induction xs)
  case (Cons a xs)
  then have "filter (\<lambda>x. k x = k a) xs = []"
    by (auto simp: filter_empty_conv image_iff)
  with Cons show ?case by (auto split: option.splits)
qed simp

lemma select_user_unique:
  assumes "distinct (map k (db_users db))" and "list_all (\<lambda>r. user_to_domain r \<noteq> None) (db_users db)"
  shows "select_user (\<lambda>r. k r = v) db =
         Inr (Option.bind (find (\<lambda>r. k r = v) (db_users db)) user_to_domain)"
  using assms
  by (auto simp: select_user_def filter_unique_key list_all_iff dest!: find_Some_in split: option.splits)

lemma select_by_id [table_rules]:
  "tables_ok db \<Longrightarrow> select_user (\<lambda>r. ur_id r = i) db = Inr (account db i)"
  by (simp add: tables_ok_def account_def select_user_unique)

lemma select_by_phone [table_rules]:
  "tables_ok db \<Longrightarrow> select_user (\<lambda>r. ur_phone r = p) db = Inr (account_by_phone db p)"
  by (simp add: tables_ok_def account_by_phone_def select_user_unique)

lemma account_SomeD:
  assumes "account db i = Some u"
  shows "usr_id u = i" "user_exists i db" "usr_created_at u \<noteq> None"
  using assms user_to_domain_fields
  by (auto simp: account_def user_exists_def list_ex_iff bind_eq_Some_conv dest!: find_Some_in)

lemma account_self:
  assumes "account db i = Some u"
  shows "i = usr_id u" "account db (usr_id u) = Some u" "user_exists (usr_id u) db"
  using assms account_SomeD(1,2) [OF assms] by simp_all

lemma account_by_phone_SomeD:
  assumes "account_by_phone db p = Some u" and "tables_ok db"
  shows "usr_phone u = p" "account db (usr_id u) = Some u"
proof -
  obtain r where r: "r \<in> set (db_users db)" "ur_phone r = p" "user_to_domain r = Some u"
    using assms(1) by (auto simp: account_by_phone_def bind_eq_Some_conv dest!: find_Some_in)
  show "usr_phone u = p" using r user_to_domain_fields [OF r(3)] by simp
  have "find (\<lambda>x. ur_id x = ur_id r) (db_users db) = Some r"
    using assms(2) r(1) by (intro find_key_unique) (auto simp: tables_ok_def)
  then show "account db (usr_id u) = Some u"
    using r user_to_domain_fields [OF r(3)] by (simp add: account_def)
qed

lemma bind_find_None_iff:
  "list_all (\<lambda>r. f r \<noteq> None) xs \<Longrightarrow> Option.bind (find P xs) f = None \<longleftrightarrow> \<not> list_ex P xs"
  by (induction xs) auto

lemma account_None_iff: "tables_ok db \<Longrightarrow> account db i = None \<longleftrightarrow> \<not> user_exists i db"
  by (simp add: tables_ok_def account_def user_exists_def bind_find_None_iff)

lemma account_by_phone_None_iff:
  "tables_ok db \<Longrightarrow> account_by_phone db p = None \<longleftrightarrow> \<not> phone_known p db"
  by (simp add: tables_ok_def account_by_phone_def phone_known_def bind_find_None_iff)

section \<open>Weakest preconditions of the repositories\<close>

lemma wp_user_find_by_id [wp_rules]:
  "wp (user_find_by_id i) Q E w =
   (case select_user (\<lambda>r. ur_id r = i) (w_db w) of Inl e \<Rightarrow> E e w | Inr u \<Rightarrow> Q u w)"
  by (simp add: user_find_by_id_def wp_rules)

lemma wp_user_find_by_phone [wp_rules]:
  "wp (user_find_by_phone p) Q E w =
   (case select_user (\<lambda>r. ur_phone r = p) (w_db w) of Inl e \<Rightarrow> E e w | Inr u \<Rightarrow> Q u w)"
  by (simp add: user_find_by_phone_def wp_rules)

lemma wp_get_by_id [wp_rules]:
  "wp (get_by_id i) Q E w =
   (case select_user (\<lambda>r. ur_id r = i) (w_db w) of Inl e \<Rightarrow> E e w | Inr u \<Rightarrow> Q u w)"
  by (simp add: get_by_id_def wp_rules)

lemma wp_get_by_phone [wp_rules]:
  "wp (get_by_phone p) Q E w =
   (case select_user (\<lambda>r. ur_phone r = p) (w_db w) of Inl e \<Rightarrow> E e w | Inr u \<Rightarrow> Q u w)"
  by (simp add: get_by_phone_def wp_rules)

definition put_user :: "instant \<Rightarrow> user \<Rightarrow> database \<Rightarrow> database" where
  "put_user now u = update_user (usr_id u) (write_user_row now u)"

lemma wp_user_save [wp_rules]:
  "wp (user_save c u) Q E w =
   (let now = clock c (w_clock_ix w); w' = w\<lparr>w_clock_ix := Suc (w_clock_ix w)\<rparr>;
        u' = u\<lparr>usr_updated_at := Some now\<rparr>
    in if user_exists (usr_id u) (w_db w) then Q u' (w'\<lparr>w_db := put_user now u (w_db w)\<rparr>)
       else if phone_known (usr_phone u) (w_db w) then E (Uncaught ''IntegrityError'') w'
       else Q u' (w'\<lparr>w_db := add_user (new_user_row now u) (w_db w)\<rparr>))"
proof (cases "find (\<lambda>r. ur_id r = usr_id u) (db_users (w_db w))")
  case None
  then have "\<not> user_exists (usr_id u) (w_db w)"
    and "list_ex (\<lambda>r. ur_id r = usr_id u \<or> ur_phone r = usr_phone u) (db_users (w_db w)) =
      phone_known (usr_phone u) (w_db w)"
    by (auto simp: user_exists_def phone_known_def list_ex_iff find_None_all)
  then show ?thesis
    by (simp add: None user_save_def insert_user_def wp_rules Let_def new_user_row_def)
next
  case (Some r)
  then have "user_exists (usr_id u) (w_db w)"
    by (auto simp: user_exists_def list_ex_iff dest: find_Some_in)
  then show ?thesis
    by (simp add: Some user_save_def wp_rules Let_def put_user_def)
qed

text \<open>Primary keys that are free.\<close>

definition new_otp_id :: "uuid \<Rightarrow> database \<Rightarrow> bool" where
  "new_otp_id i db = (\<forall>r\<in>set (db_otp_codes db). otp_id r \<noteq> i)"

definition new_token_id :: "uuid \<Rightarrow> database \<Rightarrow> bool" where
  "new_token_id i db = (\<forall>r\<in>set (db_refresh_tokens db). rt_id r \<noteq> i)"

definition new_status_id :: "uuid \<Rightarrow> database \<Rightarrow> bool" where
  "new_status_id i db = (\<forall>r\<in>set (db_status_history db). sh_id r \<noteq> i)"

definition new_role_id :: "uuid \<Rightarrow> database \<Rightarrow> bool" where
  "new_role_id i db = (\<forall>r\<in>set (db_role_history db). rh_id r \<noteq> i)"

lemmas new_id_defs = new_otp_id_def new_token_id_def new_status_id_def new_role_id_def

lemma wp_record_status_change [wp_rules]:
  "wp (record_status_change ch) Q E w =
   (if new_status_id (usc_id ch) (w_db w) \<and> user_exists (usc_user_id ch) (w_db w)
    then Q () (w\<lparr>w_db := add_status_row (status_row ch) (w_db w)\<rparr>)
    else E (Uncaught ''IntegrityError'') w)"
  by (auto simp: record_status_change_def wp_rules list_ex_iff new_id_defs)

lemma wp_record_role_change [wp_rules]:
  "wp (record_role_change ch) Q E w =
   (if new_role_id (urc_id ch) (w_db w) \<and> user_exists (urc_user_id ch) (w_db w)
    then Q () (w\<lparr>w_db := add_role_row (role_row ch) (w_db w)\<rparr>)
    else E (Uncaught ''IntegrityError'') w)"
  by (auto simp: record_role_change_def wp_rules list_ex_iff new_id_defs)

lemma wp_otp_save [wp_rules]:
  "wp (otp_save otp) Q E w =
   (if new_otp_id (otp_id otp) (w_db w)
    then Q () (w\<lparr>w_db := add_otp otp (w_db w)\<rparr>) else E (Uncaught ''IntegrityError'') w)"
  by (auto simp: otp_save_def wp_rules list_ex_iff new_id_defs)

lemma wp_otp_find_latest_active [wp_rules]:
  "wp (otp_find_latest_active p) Q E w = Q (latest_active p (w_db w)) w"
  by (simp add: otp_find_latest_active_def wp_rules)

definition count_attempt :: "uuid \<Rightarrow> database \<Rightarrow> database" where
  "count_attempt i = update_otp i (\<lambda>r. r\<lparr>otp_attempts := otp_attempts r + 1\<rparr>)"

definition consume_otp :: "uuid \<Rightarrow> instant \<Rightarrow> database \<Rightarrow> database" where
  "consume_otp i now = update_otp i (\<lambda>r. r\<lparr>otp_consumed_at := Some now\<rparr>)"

definition find_otp :: "uuid \<Rightarrow> database \<Rightarrow> otp_code option" where
  "find_otp i db = find (\<lambda>r. otp_id r = i) (db_otp_codes db)"

lemma find_otp_count_attempt [table_rules]:
  "find_otp i (count_attempt j db) =
   map_option (\<lambda>r. if otp_id r = j then r\<lparr>otp_attempts := otp_attempts r + 1\<rparr> else r) (find_otp i db)"
  by (simp add: find_otp_def count_attempt_def update_otp_def find_update_where_key)

lemma wp_otp_register_attempt [wp_rules]:
  "wp (otp_register_attempt i) Q E w =
   (let w' = w\<lparr>w_db := count_attempt i (w_db w)\<rparr>
    in case find_otp i (w_db w) of
         None \<Rightarrow> E (Uncaught ''NoResultFound'') w' | Some r \<Rightarrow> Q (otp_attempts r + 1) w')"
proof -
  have "find (\<lambda>r. otp_id r = i) (db_otp_codes (update_otp i f db)) = find_otp i (update_otp i f db)" for f db
    by (simp add: find_otp_def)
  then show ?thesis
    by (auto simp: otp_register_attempt_def wp_rules Let_def find_otp_def update_otp_def count_attempt_def
        find_update_where_key dest: find_Some_in split: option.splits)
qed

lemma wp_otp_mark_consumed [wp_rules]:
  "wp (otp_mark_consumed c i) Q E w =
   (case find_otp i (w_db w) of
      None \<Rightarrow> Q () w
    | Some r \<Rightarrow>
        if otp_consumed_at r \<noteq> None then Q () w
        else Q () (w\<lparr>w_clock_ix := Suc (w_clock_ix w),
                     w_db := consume_otp i (clock c (w_clock_ix w)) (w_db w)\<rparr>))"
  by (auto simp: otp_mark_consumed_def wp_rules find_otp_def consume_otp_def split: option.splits)

lemma wp_token_save [wp_rules]:
  "wp (token_save t) Q E w =
   (if new_token_id (rt_id t) (w_db w) \<and> user_exists (rt_user_id t) (w_db w)
    then Q () (w\<lparr>w_db := add_token t (w_db w)\<rparr>) else E (Uncaught ''IntegrityError'') w)"
  by (auto simp: token_save_def wp_rules list_ex_iff new_id_defs)

text \<open>The hash column is not unique: two rows of one hash make the lookup raise.\<close>

definition token_by_hash :: "database \<Rightarrow> ptext \<Rightarrow> failure + refresh_token option" where
  "token_by_hash db h = scalar_one_or_none (filter (\<lambda>r. rt_token_hash r = h) (db_refresh_tokens db))"

lemma scalar_one_SomeD: "scalar_one_or_none xs = Inr (Some x) \<Longrightarrow> xs = [x]"
  by (cases xs rule: scalar_one_or_none.cases) auto

lemma token_by_hash_SomeD:
  "token_by_hash db h = Inr (Some t) \<Longrightarrow> t \<in> set (db_refresh_tokens db) \<and> rt_token_hash t = h"
  unfolding token_by_hash_def by (drule scalar_one_SomeD) (auto simp: filter_eq_Cons_iff)

lemma wp_token_find_by_hash [wp_rules]:
  "wp (token_find_by_hash h) Q E w =
   (case token_by_hash (w_db w) h of Inl e \<Rightarrow> E e w | Inr t \<Rightarrow> Q t w)"
  by (simp add: token_find_by_hash_def wp_rules token_by_hash_def)

lemma wp_token_revoke [wp_rules]:
  "wp (token_revoke c i) Q E w =
   Q () (w\<lparr>w_clock_ix := Suc (w_clock_ix w),
           w_db := revoke_where (\<lambda>r. rt_id r = i) (clock c (w_clock_ix w)) (w_db w)\<rparr>)"
  by (simp add: token_revoke_def wp_rules)

lemma wp_token_revoke_all_for_user [wp_rules]:
  "wp (token_revoke_all_for_user c u) Q E w =
   Q (length (live_tokens_of u (w_db w)))
     (w\<lparr>w_clock_ix := Suc (w_clock_ix w),
        w_db := revoke_where (\<lambda>r. rt_user_id r = u) (clock c (w_clock_ix w)) (w_db w)\<rparr>)"
  by (simp add: token_revoke_all_for_user_def wp_rules)

end
