(* ===== verification/Store_Ports.thy ===== *)
theory Store_Ports
  imports Store_Laws
begin

text \<open>
  The repository ports of \<open>domain/interfaces.py\<close> as locales: what a command may rely on after
  it wrote an account, opened or revoked a session, counted an attempt on a code or consumed
  it. The tables of the model interpret each of them.
\<close>

section \<open>Statements leave the other tables alone\<close>

lemma statement_frame [simp]:
  "db_users (add_status_row h db) = db_users db" "db_users (add_role_row k db) = db_users db"
  "db_users (add_otp otp db) = db_users db" "db_users (add_token t db) = db_users db"
  "db_users (update_otp i f db) = db_users db" "db_users (revoke_where P now db) = db_users db"
  "db_otp_codes (add_user row db) = db_otp_codes db"
  "db_otp_codes (update_user i g db) = db_otp_codes db"
  "db_otp_codes (add_status_row h db) = db_otp_codes db"
  "db_otp_codes (add_role_row k db) = db_otp_codes db"
  "db_otp_codes (add_token t db) = db_otp_codes db"
  "db_otp_codes (revoke_where P now db) = db_otp_codes db"
  "db_refresh_tokens (add_user row db) = db_refresh_tokens db"
  "db_refresh_tokens (update_user i g db) = db_refresh_tokens db"
  "db_refresh_tokens (add_status_row h db) = db_refresh_tokens db"
  "db_refresh_tokens (add_role_row k db) = db_refresh_tokens db"
  "db_refresh_tokens (add_otp otp db) = db_refresh_tokens db"
  "db_refresh_tokens (update_otp i f db) = db_refresh_tokens db"
  by (simp_all add: statement_defs)

lemma history_frame [simp]:
  "db_status_history (add_user row db) = db_status_history db"
  "db_status_history (update_user i g db) = db_status_history db"
  "db_status_history (add_role_row k db) = db_status_history db"
  "db_status_history (add_otp otp db) = db_status_history db"
  "db_status_history (add_token t db) = db_status_history db"
  "db_status_history (update_otp i f db) = db_status_history db"
  "db_status_history (revoke_where P now db) = db_status_history db"
  "db_role_history (add_user row db) = db_role_history db"
  "db_role_history (update_user i g db) = db_role_history db"
  "db_role_history (add_status_row h db) = db_role_history db"
  "db_role_history (add_otp otp db) = db_role_history db"
  "db_role_history (add_token t db) = db_role_history db"
  "db_role_history (update_otp i f db) = db_role_history db"
  "db_role_history (revoke_where P now db) = db_role_history db"
  by (simp_all add: statement_defs)

lemma statement_effect [simp]:
  "db_users (add_user row db) = db_users db @ [row]"
  "db_status_history (add_status_row h db) = db_status_history db @ [h]"
  "db_role_history (add_role_row k db) = db_role_history db @ [k]"
  "db_otp_codes (add_otp otp db) = db_otp_codes db @ [otp]"
  "db_refresh_tokens (add_token t db) = db_refresh_tokens db @ [t]"
  by (simp_all add: statement_defs)

lemmas otp_statement_defs = count_attempt_def consume_otp_def

lemma accounts_frame [simp]:
  "account (add_status_row h db) = account db" "account (add_role_row k db) = account db"
  "account (add_otp otp db) = account db" "account (add_token t db) = account db"
  "account (count_attempt i db) = account db" "account (consume_otp i now db) = account db"
  "account (revoke_where P now db) = account db"
  by (simp_all add: account_def fun_eq_iff otp_statement_defs)

lemma user_exists_frame [simp]:
  "user_exists i (add_status_row h db) = user_exists i db"
  "user_exists i (add_role_row k db) = user_exists i db"
  "user_exists i (add_otp otp db) = user_exists i db"
  "user_exists i (add_token t db) = user_exists i db"
  "user_exists i (count_attempt j db) = user_exists i db"
  "user_exists i (consume_otp j now db) = user_exists i db"
  "user_exists i (revoke_where P now db) = user_exists i db"
  "user_exists i (add_user row db) = (user_exists i db \<or> ur_id row = i)"
  by (simp_all add: user_exists_def otp_statement_defs)

lemma map_id_users_put [simp]:
  "map ur_id (db_users (put_user now u db)) = map ur_id (db_users db)"
  "map ur_phone (db_users (put_user now u db)) = map ur_phone (db_users db)"
  by (simp_all add: put_user_def update_user_def write_user_row_def)

lemma user_exists_iff: "user_exists i db \<longleftrightarrow> i \<in> set (map ur_id (db_users db))"
  by (auto simp: user_exists_def list_ex_iff)

lemma phone_known_iff: "phone_known p db \<longleftrightarrow> p \<in> set (map ur_phone (db_users db))"
  by (auto simp: phone_known_def list_ex_iff)

lemma user_exists_put [simp]: "user_exists i (put_user now u db) = user_exists i db"
  by (simp only: user_exists_iff map_id_users_put)

lemma put_user_frame [simp]:
  "db_otp_codes (put_user now u db) = db_otp_codes db"
  "db_refresh_tokens (put_user now u db) = db_refresh_tokens db"
  "db_status_history (put_user now u db) = db_status_history db"
  "db_role_history (put_user now u db) = db_role_history db"
  by (simp_all add: put_user_def)

lemma otp_statement_frame [simp]:
  "db_users (count_attempt i db) = db_users db" "db_users (consume_otp i now db) = db_users db"
  "db_refresh_tokens (count_attempt i db) = db_refresh_tokens db"
  "db_refresh_tokens (consume_otp i now db) = db_refresh_tokens db"
  "db_status_history (count_attempt i db) = db_status_history db"
  "db_status_history (consume_otp i now db) = db_status_history db"
  "db_role_history (count_attempt i db) = db_role_history db"
  "db_role_history (consume_otp i now db) = db_role_history db"
  by (simp_all add: otp_statement_defs)

lemma otp_ids_kept [simp]:
  "map otp_id (db_otp_codes (count_attempt i db)) = map otp_id (db_otp_codes db)"
  "map otp_id (db_otp_codes (consume_otp i now db)) = map otp_id (db_otp_codes db)"
  by (simp_all add: otp_statement_defs update_otp_def)

lemma token_ids_kept [simp]:
  "map rt_id (db_refresh_tokens (revoke_where P now db)) = map rt_id (db_refresh_tokens db)"
  "map rt_user_id (db_refresh_tokens (revoke_where P now db)) = map rt_user_id (db_refresh_tokens db)"
  by (simp_all add: revoke_where_def)

lemma new_id_frame [simp]:
  "new_status_id h (put_user now u db) = new_status_id h db"
  "new_status_id h (consume_otp i now db) = new_status_id h db"
  "new_role_id h (put_user now u db) = new_role_id h db"
  "new_role_id h (add_status_row k db) = new_role_id h db"
  "new_token_id h (put_user now u db) = new_token_id h db"
  "new_token_id h (add_status_row k db) = new_token_id h db"
  "new_token_id h (consume_otp i now db) = new_token_id h db"
  by (simp_all add: new_id_defs)

lemma new_token_id_iff: "new_token_id h db \<longleftrightarrow> h \<notin> set (map rt_id (db_refresh_tokens db))"
  by (auto simp: new_id_defs)

lemma new_token_id_revoke_where [simp]:
  "new_token_id h (revoke_where P now db) = new_token_id h db"
  by (simp only: new_token_id_iff token_ids_kept)

section \<open>Every statement keeps the tables well-formed\<close>

lemma user_to_domain_written [simp]:
  "user_to_domain (write_user_row now u r) =
   Some (u\<lparr>usr_id := ur_id r, usr_phone := ur_phone r, usr_created_at := Some (ur_created_at r),
           usr_updated_at := Some now\<rparr>)"
  by (cases "usr_requested_role u") (simp_all add: user_to_domain_def write_user_row_def role_text_def)

lemma user_to_domain_new [simp]:
  "user_to_domain (new_user_row now u) =
   Some (u\<lparr>usr_created_at := Some (case usr_created_at u of None \<Rightarrow> now | Some t \<Rightarrow> t),
           usr_updated_at := Some now\<rparr>)"
  by (cases "usr_requested_role u") (simp_all add: user_to_domain_def new_user_row_def role_text_def)

lemma new_user_row_fields [simp]:
  "ur_id (new_user_row now u) = usr_id u" "ur_phone (new_user_row now u) = usr_phone u"
  by (simp_all add: new_user_row_def)

lemma owners_exist_iff:
  "list_all (\<lambda>t. user_exists (rt_user_id t) db) ts \<longleftrightarrow> (\<forall>i\<in>set (map rt_user_id ts). user_exists i db)"
  by (auto simp: list_all_iff)

lemma tables_ok_add_user:
  "tables_ok db \<Longrightarrow> \<not> user_exists (usr_id u) db \<Longrightarrow> \<not> phone_known (usr_phone u) db \<Longrightarrow>
   tables_ok (add_user (new_user_row now u) db)"
  by (auto simp: tables_ok_def list_all_iff user_exists_iff phone_known_iff)

lemma tables_ok_put_user:
  assumes "tables_ok db"
  shows "tables_ok (put_user now u db)"
proof -
  have "list_all (\<lambda>r. user_to_domain r \<noteq> None) (db_users (put_user now u db))"
    using assms by (auto simp: tables_ok_def list_all_iff put_user_def update_user_def set_update_where)
  then show ?thesis using assms by (simp add: tables_ok_def)
qed

lemma tables_ok_add_status_row:
  "tables_ok db \<Longrightarrow> new_status_id (sh_id h) db \<Longrightarrow> user_exists (sh_user_id h) db \<Longrightarrow>
   tables_ok (add_status_row h db)"
  by (auto simp: tables_ok_def new_id_defs)

lemma tables_ok_add_role_row:
  "tables_ok db \<Longrightarrow> new_role_id (rh_id h) db \<Longrightarrow> user_exists (rh_user_id h) db \<Longrightarrow>
   tables_ok (add_role_row h db)"
  by (auto simp: tables_ok_def new_id_defs)

lemma tables_ok_add_otp:
  "tables_ok db \<Longrightarrow> new_otp_id (otp_id otp) db \<Longrightarrow> tables_ok (add_otp otp db)"
  by (auto simp: tables_ok_def new_id_defs)

lemma tables_ok_add_token:
  "tables_ok db \<Longrightarrow> new_token_id (rt_id t) db \<Longrightarrow> user_exists (rt_user_id t) db \<Longrightarrow>
   tables_ok (add_token t db)"
  by (auto simp: tables_ok_def new_id_defs)

lemma tables_ok_otp_statements:
  "tables_ok db \<Longrightarrow> tables_ok (count_attempt i db)"
  "tables_ok db \<Longrightarrow> tables_ok (consume_otp i now db)"
  by (simp_all add: tables_ok_def)

lemma tables_ok_revoke_where: "tables_ok db \<Longrightarrow> tables_ok (revoke_where P now db)"
  by (simp add: tables_ok_def owners_exist_iff del: set_map)

lemmas tables_ok_statements =
  tables_ok_add_user tables_ok_put_user tables_ok_add_status_row tables_ok_add_role_row
  tables_ok_add_otp tables_ok_add_token tables_ok_otp_statements tables_ok_revoke_where

section \<open>UserWriteRepository: the account store\<close>

text \<open>
  What the commands rely on: saving an account read from the store changes that account and no
  other, whatever was changed in it besides its phone and its creation time (which \<open>save\<close> does
  not write to an existing row).
\<close>

locale account_store =
  fixes lookup :: "'d \<Rightarrow> uuid \<Rightarrow> user option"
    and put :: "instant \<Rightarrow> user \<Rightarrow> 'd \<Rightarrow> 'd"
    and enrol :: "instant \<Rightarrow> user \<Rightarrow> 'd \<Rightarrow> 'd"
    and ok :: "'d \<Rightarrow> bool"
  assumes lookup_id: "lookup d i = Some u \<Longrightarrow> usr_id u = i"
    and lookup_put: "lookup d (usr_id u) = Some v \<Longrightarrow> usr_phone u = usr_phone v \<Longrightarrow>
      usr_created_at u = usr_created_at v \<Longrightarrow>
      lookup (put now u d) = (lookup d)(usr_id u \<mapsto> u\<lparr>usr_updated_at := Some now\<rparr>)"
    and lookup_enrol: "ok d \<Longrightarrow> lookup d (usr_id u) = None \<Longrightarrow> usr_created_at u = Some t \<Longrightarrow>
      lookup (enrol now u d) = (lookup d)(usr_id u \<mapsto> u\<lparr>usr_updated_at := Some now\<rparr>)"
begin

text \<open>Saving a changed copy \<open>f v\<close> of an account that was read.\<close>

lemma lookup_modified:
  assumes "lookup d i = Some v" and "usr_id (f v) = usr_id v" and "usr_phone (f v) = usr_phone v"
    and "usr_created_at (f v) = usr_created_at v"
  shows "lookup (put now (f v) d) = (lookup d)(i \<mapsto> (f v)\<lparr>usr_updated_at := Some now\<rparr>)"
  using assms lookup_id [OF assms(1)] lookup_put [of d "f v" v now] by simp

lemma project_modified:
  assumes "lookup d i = Some v" and "usr_id (f v) = usr_id v" and "usr_phone (f v) = usr_phone v"
    and "usr_created_at (f v) = usr_created_at v"
    and "\<And>u t. g (u\<lparr>usr_updated_at := t\<rparr>) = g u"
  shows "map_option g (lookup (put now (f v) d) j) =
    (if j = i then Some (g (f v)) else map_option g (lookup d j))"
  using assms by (simp add: lookup_modified)

lemma put_keeps_others:
  assumes "lookup d i = Some v" and "usr_id (f v) = usr_id v" and "usr_phone (f v) = usr_phone v"
    and "usr_created_at (f v) = usr_created_at v" and "j \<noteq> i"
  shows "lookup (put now (f v) d) j = lookup d j"
  using assms by (simp add: lookup_modified)

text \<open>The second of two saves of one account is the one that counts.\<close>

lemma put_put:
  assumes "lookup d (usr_id u) = Some v" and "usr_id u' = usr_id u"
    and "usr_phone u = usr_phone v" and "usr_created_at u = usr_created_at v"
    and "usr_phone u' = usr_phone v" and "usr_created_at u' = usr_created_at v"
  shows "lookup (put t' u' (put t u d)) = lookup (put t' u' d)"
proof -
  have "lookup (put t u d) (usr_id u') = Some (u\<lparr>usr_updated_at := Some t\<rparr>)"
    using assms by (simp add: lookup_put)
  with assms show ?thesis
    by (simp add: lookup_put [where v = v] lookup_put [where v = "u\<lparr>usr_updated_at := Some t\<rparr>"])
qed

end

lemma account_id: "account db i = Some u \<Longrightarrow> usr_id u = i"
  by (rule account_SomeD)

lemma account_put_user:
  assumes "account db (usr_id u) = Some v" and "usr_phone u = usr_phone v"
    and "usr_created_at u = usr_created_at v"
  shows "account (put_user now u db) = (account db)(usr_id u \<mapsto> u\<lparr>usr_updated_at := Some now\<rparr>)"
proof
  fix i
  let ?f = "write_user_row now u"
  have found: "find (\<lambda>r. ur_id r = i) (db_users (put_user now u db)) =
      map_option (\<lambda>r. if ur_id r = usr_id u then ?f r else r) (find (\<lambda>r. ur_id r = i) (db_users db))"
    unfolding put_user_def update_user_def
    by (simp add: find_update_where_key write_user_row_def)
  obtain r where r: "find (\<lambda>r. ur_id r = usr_id u) (db_users db) = Some r" "user_to_domain r = Some v"
    using assms(1) by (auto simp: account_def bind_eq_Some_conv)
  have same: "ur_id r = usr_id u" "ur_phone r = usr_phone u" "usr_created_at u = Some (ur_created_at r)"
    using assms(2,3) find_Some_in [OF r(1)] user_to_domain_fields [OF r(2)] by auto
  show "account (put_user now u db) i = ((account db)(usr_id u \<mapsto> u\<lparr>usr_updated_at := Some now\<rparr>)) i"
  proof (cases "i = usr_id u")
    case True
    then show ?thesis using r same by (simp add: account_def found [unfolded True])
  next
    case False
    then have "map_option (\<lambda>r. if ur_id r = usr_id u then ?f r else r) (find (\<lambda>r. ur_id r = i) (db_users db)) =
        find (\<lambda>r. ur_id r = i) (db_users db)"
      by (cases "find (\<lambda>r. ur_id r = i) (db_users db)") (auto dest: find_Some_in)
    with False show ?thesis by (simp add: account_def found)
  qed
qed

lemma account_add_user:
  assumes "tables_ok db" and "account db (usr_id u) = None" and "usr_created_at u = Some t"
  shows "account (add_user (new_user_row now u) db) =
    (account db)(usr_id u \<mapsto> u\<lparr>usr_updated_at := Some now\<rparr>)"
proof -
  have "find (\<lambda>r. ur_id r = usr_id u) (db_users db) = None"
    using assms(1,2) by (auto simp: account_None_iff user_exists_def list_ex_iff find_None_all)
  with assms(3) show ?thesis
    by (auto simp: account_def fun_eq_iff find_append split: option.splits)
qed

interpretation users: account_store account put_user "\<lambda>now u. add_user (new_user_row now u)" tables_ok
  by unfold_locales (fact account_id account_put_user account_add_user)+

section \<open>RefreshTokenRepository: the session store\<close>

text \<open>\<open>live d u\<close> are the ids of the unrevoked tokens of the account \<open>u\<close>.\<close>

locale session_store =
  fixes live :: "'d \<Rightarrow> uuid \<Rightarrow> uuid set"
    and add :: "refresh_token \<Rightarrow> 'd \<Rightarrow> 'd"
    and revoke :: "uuid \<Rightarrow> instant \<Rightarrow> 'd \<Rightarrow> 'd"
    and revoke_all :: "uuid \<Rightarrow> instant \<Rightarrow> 'd \<Rightarrow> 'd"
  assumes live_add: "rt_revoked_at t = None \<Longrightarrow>
      live (add t d) = (live d)(rt_user_id t := insert (rt_id t) (live d (rt_user_id t)))"
    and live_revoke: "live (revoke i now d) u = live d u - {i}"
    and live_revoke_all: "live (revoke_all u now d) = (live d)(u := {})"
    and live_finite: "finite (live d u)"
begin

lemma rotate:
  assumes "rt_revoked_at t = None"
  shows "live (add t (revoke i now d)) (rt_user_id t) = insert (rt_id t) (live d (rt_user_id t) - {i})"
  using assms by (simp add: live_add live_revoke)

text \<open>A rotation neither adds a session nor loses one.\<close>

lemma rotate_card:
  assumes "rt_revoked_at t = None" and "i \<in> live d (rt_user_id t)" and "rt_id t \<notin> live d (rt_user_id t)"
  shows "card (live (add t (revoke i now d)) (rt_user_id t)) = card (live d (rt_user_id t))"
  using assms live_finite [of d "rt_user_id t"] card.remove [OF live_finite assms(2)]
  by (simp add: rotate)

lemma revoke_shrinks: "live (revoke i now d) u \<subseteq> live d u" "live (revoke_all v now d) u \<subseteq> live d u"
  by (auto simp: live_revoke live_revoke_all)

end

definition live_sessions :: "database \<Rightarrow> uuid \<Rightarrow> uuid set" where
  "live_sessions db u = set (map rt_id (live_tokens_of u db))"

lemma live_sessions_iff:
  "i \<in> live_sessions db u \<longleftrightarrow>
   (\<exists>t\<in>set (db_refresh_tokens db). rt_id t = i \<and> rt_user_id t = u \<and> rt_revoked_at t = None)"
  by (auto simp: live_sessions_def live_tokens_of_def)

lemma live_sessions_add_token:
  "rt_revoked_at t = None \<Longrightarrow>
   live_sessions (add_token t db) = (live_sessions db)(rt_user_id t := insert (rt_id t) (live_sessions db (rt_user_id t)))"
  by (auto simp: live_sessions_def live_tokens_of_def fun_eq_iff)

lemma live_sessions_revoke_where:
  "i \<in> live_sessions (revoke_where P now db) u \<longleftrightarrow>
   (\<exists>t\<in>set (db_refresh_tokens db). rt_id t = i \<and> rt_user_id t = u \<and> rt_revoked_at t = None \<and> \<not> P t)"
  unfolding live_sessions_iff revoke_where_def by (auto simp: set_update_where split: if_splits)

lemma live_sessions_frame [simp]:
  "live_sessions (add_user row db) = live_sessions db"
  "live_sessions (put_user now u db) = live_sessions db"
  "live_sessions (add_status_row h db) = live_sessions db"
  "live_sessions (add_role_row k db) = live_sessions db"
  "live_sessions (add_otp otp db) = live_sessions db"
  "live_sessions (count_attempt i db) = live_sessions db"
  "live_sessions (consume_otp i now db) = live_sessions db"
  by (simp_all add: live_sessions_def live_tokens_of_def fun_eq_iff)

interpretation sessions: session_store live_sessions add_token
  "\<lambda>i. revoke_where (\<lambda>r. rt_id r = i)" "\<lambda>u. revoke_where (\<lambda>r. rt_user_id r = u)"
proof
  fix i u :: uuid and now :: instant and db :: database
  show "live_sessions (revoke_where (\<lambda>r. rt_id r = i) now db) u = live_sessions db u - {i}"
    by (rule set_eqI) (simp only: live_sessions_revoke_where Diff_iff, auto simp: live_sessions_iff)
  show "live_sessions (revoke_where (\<lambda>r. rt_user_id r = u) now db) = (live_sessions db)(u := {})"
    by (intro ext set_eqI, simp only: live_sessions_revoke_where fun_upd_apply if_distrib [of "(\<in>) _"])
      (auto simp: live_sessions_iff)
  show "finite (live_sessions db u)" by (simp add: live_sessions_def)
qed (rule live_sessions_add_token)

section \<open>OtpRepository: the code store\<close>

locale code_store =
  fixes code_of :: "uuid \<Rightarrow> 'd \<Rightarrow> otp_code option"
    and attempt :: "uuid \<Rightarrow> 'd \<Rightarrow> 'd"
    and consume :: "uuid \<Rightarrow> instant \<Rightarrow> 'd \<Rightarrow> 'd"
    and put :: "otp_code \<Rightarrow> 'd \<Rightarrow> 'd"
  assumes code_attempt: "code_of i (attempt j d) =
      (if i = j then map_option (\<lambda>x. x\<lparr>otp_attempts := otp_attempts x + 1\<rparr>) (code_of i d) else code_of i d)"
    and code_consume: "code_of i (consume j now d) =
      (if i = j then map_option (\<lambda>x. x\<lparr>otp_consumed_at := Some now\<rparr>) (code_of i d) else code_of i d)"
    and code_put: "code_of i (put otp d) =
      (if code_of i d = None \<and> i = otp_id otp then Some otp else code_of i d)"
begin

text \<open>A burnt code: its last attempt counted, then consumed.\<close>

lemma burn:
  "code_of i d = Some x \<Longrightarrow>
   code_of i (consume i now (attempt i d)) =
   Some (x\<lparr>otp_attempts := otp_attempts x + 1, otp_consumed_at := Some now\<rparr>)"
  by (simp add: code_attempt code_consume)

lemma attempts_of_others: "i \<noteq> j \<Longrightarrow> code_of i (consume j now (attempt j d)) = code_of i d"
  by (simp add: code_attempt code_consume)

end

lemma find_otp_id: "find_otp i db = Some x \<Longrightarrow> otp_id x = i"
  by (auto simp: find_otp_def dest: find_Some_in)

lemma find_otp_consume_otp [table_rules]:
  "find_otp i (consume_otp j now db) =
   map_option (\<lambda>r. if otp_id r = j then r\<lparr>otp_consumed_at := Some now\<rparr> else r) (find_otp i db)"
  by (simp add: find_otp_def consume_otp_def update_otp_def find_update_where_key)

lemma find_otp_add_otp [table_rules]:
  "find_otp i (add_otp otp db) =
   (if find_otp i db = None \<and> i = otp_id otp then Some otp else find_otp i db)"
  by (auto simp: find_otp_def find_append split: option.splits)

interpretation codes: code_store find_otp count_attempt consume_otp add_otp
  by unfold_locales (auto simp: table_rules dest: find_otp_id intro!: map_option_idI option.map_cong0)

end
