(* ===== verification/Service_Spec.thy ===== *)
theory Service_Spec
  imports Http Store_Ports
begin

text \<open>
  What the service promises, one clause per thing it can do: under which condition the accounts,
  codes, sessions and audit rows change, how, and which effects leave the process, in which
  order. The specification knows nothing of sessions, rollbacks, Redis or the order of the
  statements; \<open>Service_Refinement\<close> proves that every request is one of these steps.
\<close>

section \<open>What the clauses write\<close>

definition fresh_code :: "'r ctx \<Rightarrow> uuid \<Rightarrow> ptext \<Rightarrow> ptext \<Rightarrow> instant \<Rightarrow> otp_code" where
  "fresh_code c i phone code now =
     \<lparr>otp_id = i, otp_phone = phone, otp_code_hash = hash_otp_code c code,
      otp_expires_at = now + seconds (otp_code_lifetime_seconds (cfg c)),
      otp_created_at = now, otp_consumed_at = None, otp_attempts = 0\<rparr>"

definition session_token ::
  "'r ctx \<Rightarrow> uuid \<Rightarrow> uuid \<Rightarrow> ptext \<Rightarrow> ptext option \<Rightarrow> instant \<Rightarrow> refresh_token" where
  "session_token c i user_id raw device now =
     \<lparr>rt_id = i, rt_user_id = user_id, rt_token_hash = hash_refresh_token c raw,
      rt_expires_at = refresh_expiry c now, rt_created_at = now, rt_device_info = device,
      rt_revoked_at = None\<rparr>"

text \<open>The audit rows of a change of the account \<open>i\<close>.\<close>

definition status_audit ::
  "uuid \<Rightarrow> uuid \<Rightarrow> user_status \<Rightarrow> user_status \<Rightarrow> ptext option \<Rightarrow> uuid option \<Rightarrow> instant \<Rightarrow>
   status_history_row" where
  "status_audit h i old target reason by_whom now =
     status_row \<lparr>usc_id = h, usc_user_id = i, usc_to_status = target, usc_changed_at = now,
                 usc_from_status = Some old, usc_reason = reason, usc_changed_by = by_whom\<rparr>"

definition role_audit ::
  "uuid \<Rightarrow> uuid \<Rightarrow> user_role \<Rightarrow> user_role option \<Rightarrow> user_role option \<Rightarrow> ptext option \<Rightarrow>
   uuid option \<Rightarrow> instant \<Rightarrow> role_history_row" where
  "role_audit h i old to_role requested reason by_whom now =
     role_row \<lparr>urc_id = h, urc_user_id = i, urc_changed_at = now,
               urc_from_role = Some old, urc_to_role = to_role,
               urc_requested_role = requested, urc_reason = reason, urc_changed_by = by_whom\<rparr>"

definition first_status :: "user \<Rightarrow> user_status" where
  "first_status u = (if usr_requested_role u \<noteq> None then PENDING_KYC else ACTIVE)"

definition decision_event :: "bool \<Rightarrow> user \<Rightarrow> user_role \<Rightarrow> instant \<Rightarrow> domain_event" where
  "decision_event approved u r t =
     (if approved then UserRoleChanged (envelope_of u (role_value r) t) (role_value (usr_role u)) (role_value r)
      else UserUpdated (envelope_of u (role_value (usr_role u)) t) [''requested_role''])"

text \<open>The code a verification is checked against, and whether it is the right one in time.\<close>

definition code_accepted :: "'r ctx \<Rightarrow> ptext \<Rightarrow> ptext \<Rightarrow> instant \<Rightarrow> otp_code \<Rightarrow> database \<Rightarrow> bool" where
  "code_accepted c p code now x db =
     (latest_active p db = Some x \<and> \<not> is_expired x now \<and> verify_otp_code c code (otp_code_hash x))"

definition code_refused :: "'r ctx \<Rightarrow> ptext \<Rightarrow> ptext \<Rightarrow> instant \<Rightarrow> otp_code \<Rightarrow> database \<Rightarrow> bool" where
  "code_refused c p code now x db =
     (latest_active p db = Some x \<and> \<not> is_expired x now \<and> \<not> verify_otp_code c code (otp_code_hash x))"

section \<open>The steps\<close>

inductive service_step :: "'r ctx \<Rightarrow> database \<Rightarrow> effect list \<Rightarrow> database \<Rightarrow> bool" for c where
  idle: "service_step c db [] db"
| purged: "service_step c db [Invalidated i] db"
| registered:
    "service_step c db [Committed] (add_user (new_user_row t (registration i p name now)) db)"
  if "validate_phone s = Inr p" "\<not> phone_known p db" "\<not> user_exists i db" "at_most 120 name"
| profile_changed:
    "service_step c db [Committed, Invalidated (usr_id u), Published (UserUpdated (envelope_of u (role_value (usr_role u)) t') [''full_name''])]
       (put_user t (u\<lparr>usr_full_name := name\<rparr>) db)"
  if "account db (usr_id u) = Some u" "name \<noteq> None" "name \<noteq> usr_full_name u" "at_most 120 name"
| code_issued:
    "service_step c db [Committed, OtpSent p (six_digits (n mod 1000000))]
       (add_otp (fresh_code c i p (six_digits (n mod 1000000)) now) db)"
  if "account_by_phone db p \<noteq> None" "new_otp_id i db"
| code_rejected:
    "service_step c db [Committed] (count_attempt (otp_id x) db)"
  if "code_refused c p code now x db" "otp_attempts x + 1 < otp_max_attempts (cfg c)"
| code_burnt:
    "service_step c db [Committed] (consume_otp (otp_id x) t (count_attempt (otp_id x) db))"
  if "code_refused c p code now x db" "otp_max_attempts (cfg c) \<le> otp_attempts x + 1"
| verified:
    "service_step c db [Committed, Invalidated (usr_id u), Published (UserRegistered (envelope_of u (role_value (usr_role u)) t'))]
       (add_token (session_token c k (usr_id u) raw device now)
         (add_status_row (status_audit h (usr_id u) PENDING_VERIFICATION (first_status u) (Some otp_reason) None now)
           (put_user t (u\<lparr>usr_status := first_status u\<rparr>) (consume_otp (otp_id x) t0 db))))"
  if "code_accepted c p code now x db" "account_by_phone db p = Some u" "account db (usr_id u) = Some u"
    "usr_status u = PENDING_VERIFICATION" "new_status_id h db" "new_token_id k db" "at_most 200 device"
| logged_in:
    "service_step c db [Committed, Invalidated (usr_id u)]
       (add_token (session_token c k (usr_id u) raw device now) (consume_otp (otp_id x) t0 db))"
  if "code_accepted c p code now x db" "account_by_phone db p = Some u" "account db (usr_id u) = Some u"
    "usr_status u \<in> SESSION_ALLOWED_STATUSES" "new_token_id k db" "at_most 200 device"
| rotated:
    "service_step c db [Committed]
       (add_token (session_token c k (usr_id u) raw device now) (revoke_where (\<lambda>r. rt_id r = rt_id x) t db))"
  if "token_by_hash db (hash_refresh_token c shown) = Inr (Some x)" "is_usable x now"
    "rt_user_id x = usr_id u" "account db (usr_id u) = Some u" "usr_status u \<in> SESSION_ALLOWED_STATUSES" "new_token_id k db"
    "at_most 200 device \<or> device = rt_device_info x"
| reuse_detected:
    "service_step c db [Committed] (revoke_where (\<lambda>r. rt_user_id r = rt_user_id x) t db)"
  if "token_by_hash db (hash_refresh_token c shown) = Inr (Some x)" "rt_revoked_at x \<noteq> None"
| logged_out:
    "service_step c db [Committed] (revoke_where (\<lambda>r. rt_id r = rt_id x) t db)"
  if "token_by_hash db (hash_refresh_token c shown) = Inr (Some x)"
| logged_out_everywhere:
    "service_step c db [Committed] (revoke_where (\<lambda>r. rt_user_id r = rt_user_id x) t db)"
  if "token_by_hash db (hash_refresh_token c shown) = Inr (Some x)"
| role_requested:
    "service_step c db
       [Committed, Invalidated (usr_id u), Published (UserUpdated (envelope_of u (role_value (usr_role u)) t') [''requested_role''])]
       (add_role_row (role_audit h (usr_id u) (usr_role u) None (Some r) reason by_whom now)
         (put_user t (u\<lparr>usr_requested_role := Some r\<rparr>) db))"
  if "account db (usr_id u) = Some u" "needs_kyc_for u r" "usr_requested_role u \<noteq> Some r" "new_role_id h db"
| role_set:
    "service_step c db
       [Committed, Invalidated (usr_id u),
        Published (UserRoleChanged (envelope_of u (role_value r) t') (role_value (usr_role u)) (role_value r))]
       (add_role_row (role_audit h (usr_id u) (usr_role u) (Some r) None reason by_whom now)
         (put_user t (u\<lparr>usr_role := r, usr_requested_role := None\<rparr>) db))"
  if "account db (usr_id u) = Some u" "\<not> needs_kyc_for u r" "usr_role u \<noteq> r" "new_role_id h db"
| kyc_decided:
    "service_step c db
       [Committed, Invalidated (usr_id u), Published (decision_event approved u r t')]
       (add_role_row (role_audit h (usr_id u) (usr_role u) (if approved then Some r else None) (Some r) reason by_whom now)
         (put_user t (decided_user u r approved) db))"
  if "account db (usr_id u) = Some u" "usr_requested_role u = Some r" "usr_status u \<noteq> PENDING_KYC"
    "new_role_id h db"
| kyc_settled:
    "service_step c db
       [Committed, Invalidated (usr_id u), Published (decision_event approved u r t')]
       (add_role_row (role_audit h (usr_id u) (usr_role u) (if approved then Some r else None) (Some r) reason by_whom now)
         (add_status_row (status_audit h' (usr_id u) PENDING_KYC ACTIVE why by_whom now)
           (put_user t (decided_user u r approved) db)))"
  if "account db (usr_id u) = Some u" "usr_requested_role u = Some r" "usr_status u = PENDING_KYC"
    "new_role_id h db" "new_status_id h' db"
| suspended:
    "service_step c db
       [Committed, Invalidated (usr_id u),
        Published (UserStatusChanged (envelope_of u (role_value (usr_role u)) t') (status_value (usr_status u)) ''suspended'' reason)]
       (revoke_where (\<lambda>r. rt_user_id r = usr_id u) t''
         (add_status_row (status_audit h (usr_id u) (usr_status u) SUSPENDED reason by_whom now)
           (put_user t (u\<lparr>usr_status := SUSPENDED\<rparr>) db)))"
  if "account db (usr_id u) = Some u" "usr_status u \<noteq> SUSPENDED" "new_status_id h db"
| reinstated:
    "service_step c db
       [Committed, Invalidated (usr_id u),
        Published (UserStatusChanged (envelope_of u (role_value (usr_role u)) t') (status_value (usr_status u)) ''active'' reason)]
       (add_status_row (status_audit h (usr_id u) (usr_status u) ACTIVE reason by_whom now)
         (put_user t (u\<lparr>usr_status := ACTIVE\<rparr>) db))"
  if "account db (usr_id u) = Some u" "usr_status u \<noteq> ACTIVE" "new_status_id h db"

inductive_cases service_stepE: "service_step c db es db'"

text \<open>What a step needs of the transition table, and the shape of its effects.\<close>

lemma first_status_allowed:
  "can_transition PENDING_VERIFICATION (first_status u)" "first_status u \<in> SESSION_ALLOWED_STATUSES"
  by (simp_all add: first_status_def can_transition_def SESSION_ALLOWED_STATUSES_def)

lemma settable_transition:
  "can_transition s SUSPENDED \<longleftrightarrow> s \<noteq> SUSPENDED" "can_transition s ACTIVE \<longleftrightarrow> s \<noteq> ACTIVE"
  by (cases s; simp add: can_transition_def)+

end
