(* ===== verification/Service_Refinement.thy ===== *)
theory Service_Refinement
  imports Service_Spec
begin

text \<open>
  Every request the service answers is one step of \<open>service_step\<close>: the commands, run statement
  by statement in their session, change the committed database and emit their effects exactly
  as one clause of the specification says, or change nothing.
\<close>

section \<open>Conforming to the specification\<close>

text \<open>
  \<open>refines c m w\<close>: run in \<open>w\<close>, a handler that returns leaves a session that is one step from the
  database it started from, and a handler that raises has committed at most one step.
\<close>

definition conforms :: "'r ctx \<Rightarrow> 'r world \<Rightarrow> database \<Rightarrow> effect list \<Rightarrow> bool" where
  "conforms c w db' es' = (\<exists>es. es' = w_effects w @ es \<and> service_step c (w_db w) es db')"

definition refines :: "'r ctx \<Rightarrow> ('r world, 'a) prog \<Rightarrow> 'r world \<Rightarrow> bool" where
  "refines c m w =
     wp m (\<lambda>_ w'. conforms c w (w_db w') (w_effects w'))
          (\<lambda>_ w'. conforms c w (w_committed w') (w_effects w')) w"

definition settled :: "'r world \<Rightarrow> bool" where
  "settled w = (w_committed w = w_db w \<and> tables_ok (w_db w))"

lemma conformsI:
  "service_step c (w_db w) es db' \<Longrightarrow> conforms c w db' (w_effects w @ es)"
  by (auto simp: conforms_def)

lemma conforms_idle [simp]: "conforms c w (w_db w) (w_effects w)"
  using conformsI [OF service_step.idle] by fastforce

lemma conforms_purged [simp]: "conforms c w (w_db w) (w_effects w @ [Invalidated i])"
  by (rule conformsI [OF service_step.purged])

definition fresh_draw :: "'r ctx \<Rightarrow> 'r world \<Rightarrow> bool" where
  "fresh_draw c w = (\<not> user_exists (uuid4s c (w_uuid_ix w)) (w_db w))"

section \<open>The helpers of the commands\<close>

lemma registration_fields [simp]:
  "usr_id (registration i p n t) = i" "usr_phone (registration i p n t) = p"
  "usr_status (registration i p n t) = PENDING_VERIFICATION" "usr_role (registration i p n t) = USER"
  "usr_requested_role (registration i p n t) = None" "usr_created_at (registration i p n t) = Some t"
  by (simp_all add: registration_def)

lemma fresh_code_fields [simp]:
  "otp_id (fresh_code c i p code now) = i" "otp_phone (fresh_code c i p code now) = p"
  "otp_consumed_at (fresh_code c i p code now) = None" "otp_attempts (fresh_code c i p code now) = 0"
  by (simp_all add: fresh_code_def)

lemma session_token_fields [simp]:
  "rt_id (session_token c i u raw device now) = i" "rt_user_id (session_token c i u raw device now) = u"
  "rt_revoked_at (session_token c i u raw device now) = None"
  "rt_token_hash (session_token c i u raw device now) = hash_refresh_token c raw"
  "rt_expires_at (session_token c i u raw device now) = refresh_expiry c now"
  by (simp_all add: session_token_def)

lemma audit_fields [simp]:
  "sh_id (status_audit h i old target why by_whom now) = h"
  "sh_user_id (status_audit h i old target why by_whom now) = i"
  "rh_id (role_audit h i prev to_role q why by_whom now) = h"
  "rh_user_id (role_audit h i prev to_role q why by_whom now) = i"
  by (simp_all add: status_audit_def role_audit_def status_row_def role_row_def)

lemma latest_active_SomeD:
  assumes "latest_active p db = Some x"
  shows "x \<in> set (db_otp_codes db)" "otp_phone x = p" "otp_consumed_at x = None"
proof -
  have "x \<in> set (filter (\<lambda>r. otp_phone r = p \<and> otp_consumed_at r = None) (db_otp_codes db))"
    using assms set_sort [of "\<lambda>r. - otp_created_at r"]
    unfolding latest_active_def by (metis (mono_tags) list.case(2) list.exhaust list.set_intros(1) list.case(1) option.distinct(1) option.inject)
  then show "x \<in> set (db_otp_codes db)" "otp_phone x = p" "otp_consumed_at x = None" by auto
qed

lemma latest_active_found:
  assumes "tables_ok db" and "latest_active p db = Some x"
  shows "find_otp (otp_id x) db = Some x"
  unfolding find_otp_def
  by (rule find_key_unique) (use assms latest_active_SomeD in \<open>auto simp: tables_ok_def\<close>)

lemma wp_open_session [wp_rules]:
  "wp (open_session c now i device) Q E w =
   (let raw = ascii ''opaque_'' @ urlsafe_tokens c (w_token_ix w); k = uuid4s c (w_uuid_ix w);
        t = session_token c k i raw device now;
        w' = w\<lparr>w_token_ix := Suc (w_token_ix w), w_uuid_ix := Suc (w_uuid_ix w)\<rparr>
    in if new_token_id k (w_db w) \<and> user_exists i (w_db w)
       then Q raw (w'\<lparr>w_db := add_token t (w_db w)\<rparr>) else E (Uncaught ''IntegrityError'') w')"
  by (simp add: open_session_def wp_rules Let_def session_token_def)

lemma wp_activate:
  "user_exists (usr_id u) (w_db w) \<Longrightarrow> wp (activate c now u) Q E w =
   (let t = clock c (w_clock_ix w); target = first_status u; u' = u\<lparr>usr_status := target\<rparr>;
        h = status_audit (uuid4s c (w_uuid_ix w)) (usr_id u) PENDING_VERIFICATION target (Some otp_reason) None now;
        w1 = w\<lparr>w_clock_ix := Suc (w_clock_ix w), w_db := put_user t u' (w_db w),
               w_uuid_ix := Suc (w_uuid_ix w)\<rparr>
    in if new_status_id (sh_id h) (w_db w)
       then Q (u'\<lparr>usr_updated_at := Some t\<rparr>) (w1\<lparr>w_db := add_status_row h (w_db w1)\<rparr>)
       else E (Uncaught ''IntegrityError'') w1)"
  by (simp add: activate_def wp_rules Let_def status_audit_def first_status_def status_row_def)

lemma accounts_by_phone_frame [simp]:
  "account_by_phone (consume_otp i now db) = account_by_phone db"
  "account_by_phone (count_attempt i db) = account_by_phone db"
  by (simp_all add: account_by_phone_def fun_eq_iff)

definition otp_gate :: "'r ctx \<Rightarrow> ptext option \<Rightarrow> 'r \<Rightarrow> bool \<times> 'r" where
  "otp_gate c ip r = (case ip of None \<Rightarrow> (True, r) | Some t \<Rightarrow> ip_gate c t r)"

lemma wp_check_ip [wp_rules]:
  "wp (check_ip c ip) Q E w =
   Q (fst (otp_gate c ip (w_redis w))) (w\<lparr>w_redis := snd (otp_gate c ip (w_redis w))\<rparr>)"
  by (auto simp: check_ip_def otp_gate_def wp_rules ip_gate_def split: option.splits)

lemma wp_issue_otp [wp_rules]:
  "wp (issue_otp c p) Q E w =
   (let now = clock c (w_clock_ix w); code = six_digits (random_codes c (w_code_ix w) mod 1000000);
        i = uuid4s c (w_uuid_ix w); db' = add_otp (fresh_code c i p code now) (w_db w);
        w' = w\<lparr>w_clock_ix := Suc (w_clock_ix w), w_code_ix := Suc (w_code_ix w), w_uuid_ix := Suc (w_uuid_ix w)\<rparr>
    in if new_otp_id i (w_db w)
       then Q () (w'\<lparr>w_db := db', w_committed := db', w_effects := w_effects w @ [Committed, OtpSent p code]\<rparr>)
       else E (Uncaught ''IntegrityError'') w')"
  by (simp add: issue_otp_def sender_send_def wp_rules Let_def fresh_code_def)

lemmas audit_folds =
  session_token_def [symmetric] fresh_code_def [symmetric] status_audit_def [symmetric]
  role_audit_def [symmetric]

lemmas refine_simps = refines_def settled_def wp_rules table_rules audit_folds Let_def

section \<open>The commands\<close>

lemma account_cases:
  obtains "account db i = None"
  | u where "account db (usr_id u) = Some u" "user_exists (usr_id u) db" "i = usr_id u"
proof (cases "account db i")
  case (Some u)
  then have "usr_id u = i" and "user_exists i db" by (rule account_SomeD)+
  with Some show thesis by (intro that(2) [of u]) simp_all
qed (rule that(1))

lemma update_profile_refines: "settled w \<Longrightarrow> at_most 120 name \<Longrightarrow> refines c (update_profile c i name) w"
  by (cases "w_db w" i rule: account_cases)
    (auto simp: refine_simps update_profile_def intro!: conformsI service_step.profile_changed)

lemma set_status_refines:
  "settled w \<Longrightarrow> account (w_db w) (usr_id u) = Some u \<Longrightarrow> can_transition (usr_status u) t \<Longrightarrow>
   t \<in> ADMIN_SETTABLE_STATUSES \<Longrightarrow>
   refines c (set_status c u t reason by_whom) w"
  by (auto simp: refine_simps set_status_def account_SomeD(2) settable_transition ADMIN_SETTABLE_STATUSES_def
      intro!: conformsI service_step.suspended service_step.reinstated)

lemma register_user_refines:
  "settled w \<Longrightarrow> fresh_draw c w \<Longrightarrow> at_most 120 name \<Longrightarrow> refines c (register_user c phone name) w"
  by (auto simp: refine_simps fresh_draw_def register_defs account_by_phone_None_iff split: sum.splits
      intro!: conformsI service_step.registered)

lemma reject_code_refines:
  "settled w \<Longrightarrow> code_refused c p code now x (w_db w) \<Longrightarrow> refines c (reject_code c x) w"
  using latest_active_found [of "w_db w" p x] latest_active_SomeD [of p "w_db w" x]
  by (auto simp: refine_simps reject_code_def code_refused_def
      intro!: conformsI service_step.code_rejected service_step.code_burnt)

lemma verify_first_refines:
  assumes "settled w" and "validate_phone phone = Inr p"
    and "code_accepted c p code (clock c (w_clock_ix w)) x (w_db w)"
    and "account_by_phone (w_db w) p = Some u" and "usr_status u = PENDING_VERIFICATION" and "at_most 200 device"
  shows "refines c (verify_otp c phone code device) w"
proof -
  have "tables_ok (w_db w)" using assms(1) by (simp add: settled_def)
  note found = account_by_phone_SomeD(2) [OF assms(4) this]
    account_SomeD(2) [OF account_by_phone_SomeD(2) [OF assms(4) this]]
    latest_active_found [OF this] latest_active_SomeD [of p "w_db w" x]
  show ?thesis
    using assms found tables_ok_otp_statements(2) [OF \<open>tables_ok (w_db w)\<close>]
    by (auto simp: refine_simps verify_otp_defs wp_activate code_accepted_def
        intro!: conformsI service_step.verified)
qed

lemma verify_login_refines:
  assumes "settled w" and "validate_phone phone = Inr p"
    and "code_accepted c p code (clock c (w_clock_ix w)) x (w_db w)"
    and "account_by_phone (w_db w) p = Some u" and "usr_status u \<noteq> PENDING_VERIFICATION" and "at_most 200 device"
  shows "refines c (verify_otp c phone code device) w"
proof -
  have "tables_ok (w_db w)" using assms(1) by (simp add: settled_def)
  note found = account_by_phone_SomeD(2) [OF assms(4) this]
    account_SomeD(2) [OF account_by_phone_SomeD(2) [OF assms(4) this]]
    latest_active_found [OF this] latest_active_SomeD [of p "w_db w" x]
  have "usr_status u = SUSPENDED \<or> usr_status u \<in> SESSION_ALLOWED_STATUSES"
    using assms(5) by (cases "usr_status u") (auto simp: SESSION_ALLOWED_STATUSES_def)
  then show ?thesis
    using assms found tables_ok_otp_statements(2) [OF \<open>tables_ok (w_db w)\<close>]
    by (auto simp: refine_simps verify_otp_defs wp_activate code_accepted_def
        intro!: conformsI service_step.logged_in)
qed

lemma logout_refines: "settled w \<Longrightarrow> refines c (logout c tok all) w"
  by (auto simp: refine_simps logout_def split: sum.splits option.splits
      intro!: conformsI intro: service_step.logged_out service_step.logged_out_everywhere)

lemma refresh_refines: "settled w \<Longrightarrow> at_most 200 dev \<Longrightarrow> refines c (refresh_access_token c tok dev) w"
  by (auto simp: refine_simps refresh_defs is_usable_def py_or_def account_SomeD(2)
      split: sum.splits option.splits intro!: conformsI service_step.reuse_detected service_step.rotated dest: account_self)

lemma change_role_refines: "settled w \<Longrightarrow> refines c (change_role c i role reason by_whom) w"
  by (cases "w_db w" i rule: account_cases)
    (auto simp: refine_simps change_role_def request_role_def set_role_def split: option.splits
      intro!: conformsI service_step.role_requested service_step.role_set)

lemma decided_user_fields [simp]:
  "usr_id (decided_user u r ok) = usr_id u" "usr_phone (decided_user u r ok) = usr_phone u"
  "usr_created_at (decided_user u r ok) = usr_created_at u"
  "usr_requested_role (decided_user u r ok) = None"
  "usr_role (decided_user u r ok) = (if ok then r else usr_role u)"
  "usr_status (decided_user u r ok) = (if usr_status u = PENDING_KYC then ACTIVE else usr_status u)"
  "envelope_of (decided_user u r ok) = envelope_of u"
  by (simp_all add: decided_user_def envelope_of_def fun_eq_iff)

lemmas kyc_steps =
  service_step.kyc_decided [where approved = True, unfolded decision_event_def if_True]
  service_step.kyc_decided [where approved = False, unfolded decision_event_def if_False]
  service_step.kyc_settled [where approved = True, unfolded decision_event_def if_True]
  service_step.kyc_settled [where approved = False, unfolded decision_event_def if_False]

lemma decide_kyc_refines: "settled w \<Longrightarrow> refines c (decide_kyc c i ok reason by_whom) w"
  by (cases "w_db w" i rule: account_cases)
    (auto simp: refine_simps decide_kyc_defs split: option.splits intro!: conformsI kyc_steps)

lemma change_status_refines: "settled w \<Longrightarrow> refines c (change_status c i st reason by_whom) w"
  by (cases "w_db w" i rule: account_cases)
    (auto simp: refine_simps change_status_def split: option.splits
      intro!: set_status_refines [unfolded refines_def settled_def])

lemma request_otp_refines: "settled w \<Longrightarrow> refines c (request_otp c phone ip) w"
  by (auto simp: refine_simps wp_rules request_otp_def split: sum.splits intro!: conformsI service_step.code_issued)

lemma verify_otp_refines:
  assumes "settled w" and "at_most 200 device"
  shows "refines c (verify_otp c phone code device) w"
proof (cases "validate_phone phone")
  case (Inl e)
  then show ?thesis using assms by (simp add: refine_simps verify_otp_defs)
next
  case (Inr p)
  have ok: "tables_ok (w_db w)" and ok': "tables_ok (consume_otp i t (w_db w))" for i t
    using assms by (simp_all add: settled_def tables_ok_otp_statements)
  show ?thesis
  proof (cases "latest_active p (w_db w)")
    case None
    with Inr assms show ?thesis by (simp add: refine_simps verify_otp_defs)
  next
    case (Some x)
    let ?now = "clock c (w_clock_ix w)"
    let ?w = "w\<lparr>w_clock_ix := Suc (w_clock_ix w)\<rparr>"
    consider "is_expired x ?now" | "code_refused c p code ?now x (w_db w)"
      | "code_accepted c p code ?now x (w_db w)"
      using Some by (auto simp: code_refused_def code_accepted_def)
    then show ?thesis
    proof cases
      case 1
      with Inr Some assms show ?thesis by (simp add: refine_simps verify_otp_defs)
    next
      case 2
      then have "refines c (reject_code c x) ?w"
        using assms by (intro reject_code_refines) (simp_all add: settled_def)
      with 2 Inr assms show ?thesis
        by (simp add: verify_otp_defs refines_def conforms_def wp_rules code_refused_def)
    next
      case 3
      show ?thesis
      proof (cases "account_by_phone (w_db w) p")
        case None
        with 3 Inr assms ok ok' latest_active_found [OF ok Some] latest_active_SomeD(3) [OF Some]
        show ?thesis by (simp add: refine_simps verify_otp_defs code_accepted_def)
      next
        case (Some u)
        with 3 Inr assms show ?thesis
          by (cases "usr_status u = PENDING_VERIFICATION")
            (rule verify_first_refines verify_login_refines; assumption)+
      qed
    qed
  qed
qed

section \<open>Queries\<close>

lemma get_user_by_id_refines: "settled w \<Longrightarrow> refines c (get_user_by_id c i) w"
  by (auto simp: refine_simps get_user_by_id_def cache_get_user_def split: option.splits reply.splits sum.splits)

lemma list_users_refines: "settled w \<Longrightarrow> refines c (list_users f page n) w"
  by (auto simp: refine_simps list_users_def read_list_users_def split: option.splits reply.splits sum.splits)

section \<open>Routes\<close>

definition quiet :: "'r world \<Rightarrow> 'r world \<Rightarrow> bool" where
  "quiet w w' =
     (w_db w' = w_db w \<and> w_committed w' = w_committed w \<and> w_effects w' = w_effects w \<and>
      w_uuid_ix w' = w_uuid_ix w)"

lemma quiet_refl [simp]: "quiet w w"
  by (simp add: quiet_def)

lemma quiet_settled: "quiet w w' \<Longrightarrow> settled w \<Longrightarrow> settled w'"
  by (simp add: quiet_def settled_def)

lemma quiet_fresh_draw: "quiet w w' \<Longrightarrow> fresh_draw c w \<Longrightarrow> fresh_draw c w'"
  by (simp add: quiet_def fresh_draw_def)

lemma quiet_trans: "quiet w w' \<Longrightarrow> quiet w' w'' \<Longrightarrow> quiet w w''"
  by (simp add: quiet_def)

definition quietly :: "('r world, 'a) prog \<Rightarrow> bool" where
  "quietly m = (\<forall>w. quiet w (snd (m w)))"

lemma quietly_andthen [intro!]:
  assumes "quietly m" and "\<And>a. quietly (f a)"
  shows "quietly (andthen m f)"
  unfolding quietly_def
proof
  fix w
  obtain r w' where m: "m w = (r, w')" by fastforce
  then have "quiet w w'" using assms(1) by (auto simp: quietly_def dest: spec [of _ w])
  then show "quiet w (snd (andthen m f w))"
    using assms(2) by (cases r) (auto simp: andthen_def m quietly_def intro: quiet_trans)
qed

lemma quietly_basic [intro!]:
  "quietly (return a)" "quietly (raise e)" "quietly (from_result r)" "quietly (gets g)" "quietly (now_utc c)"
  by (simp_all add: quietly_def prog_defs now_utc_def quiet_def)

lemma decode_quietly [intro]: "quietly (decode_access_token c t)"
  unfolding decode_access_token_def
  by (auto split: option.splits sum.splits jwt_error.splits)

lemma get_claims_quietly [intro]: "quietly (get_claims c b)"
  by (auto simp: get_claims_def split: option.splits)

lemma get_by_id_quietly [intro]: "quietly (get_by_id i)"
  by (auto simp: get_by_id_def)

lemma fresh_admin_quietly [intro]: "quietly (fresh_admin i)"
  by (auto simp: fresh_admin_def split: option.splits)

lemma current_user_id_quietly [intro]: "quietly (get_current_user_id claims)"
  by (auto simp: get_current_user_id_def Let_def)

lemma current_user_quietly [intro]: "quietly (current_user c b)"
  by (auto simp: current_user_def)

lemma require_admin_quietly [intro]: "quietly (require_admin c b)"
  by (auto simp: require_admin_def)

lemma require_service_or_admin_quietly [intro]: "quietly (require_service_or_admin c k b)"
  by (auto simp: require_service_or_admin_def Let_def split: option.splits)

lemma refines_after:
  assumes "quietly m" and "settled w"
    and "\<And>a w'. quiet w w' \<Longrightarrow> settled w' \<Longrightarrow> refines c (f a) w'"
  shows "refines c (andthen m f) w"
proof -
  have quiet: "wp m (\<lambda>_. quiet w) (\<lambda>_. quiet w) w"
    using assms(1) by (simp add: wp_state quietly_def)
  have "wp (f a) (\<lambda>_ w'. conforms c w (w_db w') (w_effects w'))
      (\<lambda>_ w'. conforms c w (w_committed w') (w_effects w')) w'" if "quiet w w'" for a w'
    using assms(3) [OF that quiet_settled [OF that assms(2)], of a] that
    by (simp add: refines_def conforms_def quiet_def)
  then show ?thesis
    unfolding refines_def wp_andthen
    by (rule wp_mono [OF quiet]) (use assms(2) in \<open>auto simp: quiet_def settled_def\<close>)
qed

lemma refines_return: "refines c m w \<Longrightarrow> refines c (andthen m (\<lambda>j. return (f j))) w"
  by (auto simp: refines_def wp_def andthen_def return_def split: prod.splits sum.splits)

lemma refines_return': "refines c m w \<Longrightarrow> refines c (before m (return x)) w"
  unfolding before_def by (rule refines_return)

lemma refines_checked: "settled w \<Longrightarrow> (ok \<Longrightarrow> refines c m w) \<Longrightarrow> refines c (checked ok m) w"
  by (simp add: refines_def wp_rules checked_def settled_def)

lemmas command_refines =
  register_user_refines request_otp_refines verify_otp_refines refresh_refines logout_refines
  update_profile_refines change_role_refines decide_kyc_refines change_status_refines
  get_user_by_id_refines list_users_refines

lemma handler_refines:
  assumes "settled w" and "fresh_draw c w"
  shows "refines c (handler c req) w"
  using assms
  by (cases req)
    (auto simp: get_current_user_profile_def intro!: refines_return refines_return' refines_checked
      intro: refines_after command_refines)

text \<open>The whole request, its session included.\<close>

lemma serve_conforms:
  assumes "settled w" and "fresh_draw c w"
  obtains es where "w_effects (snd (serve c req w)) = w_effects w @ es"
    and "service_step c (w_committed w) es (w_committed (snd (serve c req w)))"
    and "w_db (snd (serve c req w)) = w_committed (snd (serve c req w))"
proof -
  obtain r w' where m: "handler c req w = (r, w')" by fastforce
  have "refines c (handler c req) w" by (rule handler_refines [OF assms])
  then show thesis
    using assms(1) that
    by (cases r)
      (auto simp: m refines_def wp_def conforms_def serve_def get_session_def rollback_def settled_def)
qed

end
