(* ===== verification/Service_System.thy ===== *)
theory Service_System
  imports Service_Refinement
begin

text \<open>
  The running service: requests served one after the other over a database that was seeded
  with accounts, while Redis changes under it in any way (expiry, eviction, outage, other
  clients). An invariant of the specification's steps, one case per clause, holds in every
  state the code can reach: the locale \<open>service_invariant\<close>.
\<close>

section \<open>Runs\<close>

text \<open>
  A seed holds accounts and nothing else: what \<open>scripts/migrate_from_diddigo.py\<close> leaves in an
  empty schema, with no role request pending.
\<close>

definition seed_ok :: "database \<Rightarrow> bool" where
  "seed_ok db =
     (tables_ok db \<and> db_otp_codes db = [] \<and> db_refresh_tokens db = [] \<and> db_status_history db = [] \<and>
      db_role_history db = [] \<and> list_all (\<lambda>r. ur_requested_role r = None) (db_users db))"

text \<open>\<open>fresh_draw\<close> in \<open>served\<close>: the first UUID a request draws is not the id of an account.\<close>

inductive reachable :: "'r ctx \<Rightarrow> database \<Rightarrow> 'r world \<Rightarrow> bool" for c and db0 where
  started: "reachable c db0 w"
  if "w_db w = db0" "w_committed w = db0" "w_effects w = []"
| served: "reachable c db0 (snd (serve c req w))" if "reachable c db0 w" "fresh_draw c w"
| drifted: "reachable c db0 (w\<lparr>w_redis := r\<rparr>)" if "reachable c db0 w"

section \<open>Every step keeps the tables well-formed\<close>

lemma put_user_new_phone [simp]: "phone_known p (put_user now u db) = phone_known p db"
  by (simp only: phone_known_iff map_id_users_put)

lemma service_step_tables_ok:
  assumes "service_step c db es db'" and "tables_ok db"
  shows "tables_ok db'"
  using assms
  by (cases rule: service_step.cases)
    (auto intro!: tables_ok_statements dest: account_self(3))

lemma settled_drift [simp]: "settled (w\<lparr>w_redis := r\<rparr>) = settled w"
  by (simp add: settled_def)

lemma settled_served:
  assumes "settled w" and "fresh_draw c w"
  shows "settled (snd (serve c req w))"
proof -
  obtain es where "service_step c (w_committed w) es (w_committed (snd (serve c req w)))"
    and "w_db (snd (serve c req w)) = w_committed (snd (serve c req w))"
    using serve_conforms [OF assms, of req] by blast
  with assms(1) show ?thesis using service_step_tables_ok by (fastforce simp: settled_def)
qed

lemma reachable_settled:
  assumes "reachable c db0 w" and "seed_ok db0"
  shows "settled w"
  using assms
  by (induction rule: reachable.induct) (auto intro: settled_served simp: seed_ok_def, simp add: settled_def)

section \<open>Lifting invariants from the specification to the service\<close>

locale service_invariant =
  fixes ok :: "'r ctx \<Rightarrow> bool"
    and I :: "'r ctx \<Rightarrow> database \<Rightarrow> database \<Rightarrow> effect list \<Rightarrow> bool"
  assumes start: "ok c \<Longrightarrow> seed_ok db0 \<Longrightarrow> I c db0 db0 []"
    and step: "ok c \<Longrightarrow> seed_ok db0 \<Longrightarrow> tables_ok db \<Longrightarrow> I c db0 db es \<Longrightarrow>
      service_step c db fs db' \<Longrightarrow> I c db0 db' (es @ fs)"
begin

theorem reachable_I:
  assumes "reachable c db0 w" and "seed_ok db0" and "ok c"
  shows "I c db0 (w_committed w) (w_effects w)"
  using assms
proof (induction rule: reachable.induct)
  case (served w req)
  have "settled w" using served reachable_settled by blast
  then obtain es where "service_step c (w_committed w) es (w_committed (snd (serve c req w)))"
    and "w_effects (snd (serve c req w)) = w_effects w @ es"
    using serve_conforms [of w c req] served by blast
  moreover have "tables_ok (w_committed w)" using \<open>settled w\<close> by (simp add: settled_def)
  ultimately show ?case using served step by simp
qed (auto intro: start)

end

interpretation wellformed: service_invariant "\<lambda>_. True" "\<lambda>_ _ db _. tables_ok db"
  by unfold_locales (auto simp: seed_ok_def intro: service_step_tables_ok)

section \<open>Facts that last\<close>

text \<open>\<open>later c w w'\<close>: \<open>w'\<close> is reached from \<open>w\<close> by serving requests.\<close>

inductive later :: "'r ctx \<Rightarrow> 'r world \<Rightarrow> 'r world \<Rightarrow> bool" for c and w where
  now: "later c w w"
| later_served: "later c w (snd (serve c req w'))" if "later c w w'" "fresh_draw c w'"
| later_drifted: "later c w (w'\<lparr>w_redis := r\<rparr>)" if "later c w w'"

lemma later_reachable: "later c w w' \<Longrightarrow> reachable c db0 w \<Longrightarrow> reachable c db0 w'"
  by (induction rule: later.induct) (auto intro: reachable.intros)

lemma later_settled: "later c w w' \<Longrightarrow> settled w \<Longrightarrow> settled w'"
  by (induction rule: later.induct) (auto intro: settled_served)

locale lasting_fact =
  fixes J :: "'r ctx \<Rightarrow> 'a \<Rightarrow> database \<Rightarrow> bool"
  assumes kept: "J c x db \<Longrightarrow> tables_ok db \<Longrightarrow> service_step c db es db' \<Longrightarrow> J c x db'"
begin

theorem lasts:
  assumes "later c w w'" and "settled w" and "J c x (w_committed w)"
  shows "J c x (w_committed w')"
  using assms
proof (induction rule: later.induct)
  case (later_served w' req)
  have "settled w'" using later_settled later_served by blast
  then obtain es where "service_step c (w_committed w') es (w_committed (snd (serve c req w')))"
    using serve_conforms [of w' c req] later_served by blast
  moreover have "tables_ok (w_committed w')" using \<open>settled w'\<close> by (simp add: settled_def)
  ultimately show ?case using later_served kept by blast
qed simp_all

end

end
