(* ===== verification/Service_Invariants.thy ===== *)
theory Service_Invariants
  imports Service_System
begin

text \<open>
  What is true in every reachable state: the audit trails replay to the present status, role and
  pending request, an account that may hold no session holds none, codes run out of attempts,
  an activation is announced once, and a role that needs KYC was approved. Each is an
  interpretation of \<open>service_invariant\<close>, proved clause by clause.
\<close>

section \<open>The account after each clause\<close>

lemma account_put_fields [simp]:
  assumes "account db (usr_id u) = Some u"
  shows "account (put_user t (u\<lparr>usr_full_name := n\<rparr>) db) =
      (account db)(usr_id u \<mapsto> u\<lparr>usr_full_name := n, usr_updated_at := Some t\<rparr>)"
    and "account (put_user t (u\<lparr>usr_status := s\<rparr>) db) =
      (account db)(usr_id u \<mapsto> u\<lparr>usr_status := s, usr_updated_at := Some t\<rparr>)"
    and "account (put_user t (u\<lparr>usr_requested_role := q\<rparr>) db) =
      (account db)(usr_id u \<mapsto> u\<lparr>usr_requested_role := q, usr_updated_at := Some t\<rparr>)"
    and "account (put_user t (u\<lparr>usr_role := r, usr_requested_role := q\<rparr>) db) =
      (account db)(usr_id u \<mapsto> u\<lparr>usr_role := r, usr_requested_role := q, usr_updated_at := Some t\<rparr>)"
    and "account (put_user t (decided_user u r' ok) db) =
      (account db)(usr_id u \<mapsto> (decided_user u r' ok)\<lparr>usr_updated_at := Some t\<rparr>)"
  using users.lookup_modified [OF assms, of "\<lambda>u. u\<lparr>usr_full_name := n\<rparr>"]
    users.lookup_modified [OF assms, of "\<lambda>u. u\<lparr>usr_status := s\<rparr>"]
    users.lookup_modified [OF assms, of "\<lambda>u. u\<lparr>usr_requested_role := q\<rparr>"]
    users.lookup_modified [OF assms, of "\<lambda>u. u\<lparr>usr_role := r, usr_requested_role := q\<rparr>"]
    users.lookup_modified [OF assms, of "\<lambda>u. decided_user u r' ok"]
  by simp_all

lemma account_registered [simp]:
  "tables_ok db \<Longrightarrow> \<not> user_exists i db \<Longrightarrow>
   account (add_user (new_user_row t (registration i p n now)) db) =
   (account db)(i \<mapsto> (registration i p n now)\<lparr>usr_updated_at := Some t\<rparr>)"
  using users.lookup_enrol [of db "registration i p n now" now t] by (simp add: account_None_iff)

section \<open>The status audit trail\<close>

text \<open>
  Replaying the rows of an account from a status: each row must start where the previous one
  ended and be a transition the table allows.
\<close>

fun follow_status :: "user_status \<Rightarrow> status_history_row list \<Rightarrow> user_status option" where
  "follow_status s [] = Some s"
| "follow_status s (h # hs) =
     (case UserStatus (sh_to_status h) of
        None \<Rightarrow> None
      | Some t \<Rightarrow>
          if sh_from_status h = Some (ascii (status_value s)) \<and> can_transition s t
          then follow_status t hs else None)"

definition status_trail :: "uuid \<Rightarrow> database \<Rightarrow> status_history_row list" where
  "status_trail i db = filter (\<lambda>h. sh_user_id h = i) (db_status_history db)"

definition initial_status :: "database \<Rightarrow> uuid \<Rightarrow> user_status" where
  "initial_status db0 i =
     (case account db0 i of None \<Rightarrow> PENDING_VERIFICATION | Some u \<Rightarrow> usr_status u)"

definition status_audited :: "database \<Rightarrow> database \<Rightarrow> bool" where
  "status_audited db0 db =
     (dom (account db0) \<subseteq> dom (account db) \<and>
      (\<forall>i u. account db i = Some u \<longrightarrow>
         follow_status (initial_status db0 i) (status_trail i db) = Some (usr_status u)))"

lemma follow_status_append:
  "follow_status s (hs @ ks) = Option.bind (follow_status s hs) (\<lambda>t. follow_status t ks)"
  by (induction s hs rule: follow_status.induct) (auto split: option.splits)

lemma audit_contents [simp]:
  "sh_from_status (status_audit h i old target why by_whom now) = Some (ascii (status_value old))"
  "sh_to_status (status_audit h i old target why by_whom now) = ascii (status_value target)"
  "rh_from_role (role_audit h i prev to_role q why by_whom now) = Some (ascii (role_value prev))"
  "rh_to_role (role_audit h i prev to_role q why by_whom now) = role_text to_role"
  "rh_requested_role (role_audit h i prev to_role q why by_whom now) = role_text q"
  by (simp_all add: status_audit_def role_audit_def status_row_def role_row_def role_text_def)

lemma status_trail_simps [simp]:
  "status_trail i (add_status_row h db) = status_trail i db @ (if sh_user_id h = i then [h] else [])"
  "status_trail i (add_user row db) = status_trail i db"
  "status_trail i (put_user t u db) = status_trail i db"
  "status_trail i (add_role_row k db) = status_trail i db"
  "status_trail i (add_otp otp db) = status_trail i db"
  "status_trail i (add_token tk db) = status_trail i db"
  "status_trail i (count_attempt j db) = status_trail i db"
  "status_trail i (consume_otp j t db) = status_trail i db"
  "status_trail i (revoke_where P t db) = status_trail i db"
  by (simp_all add: status_trail_def)

lemma status_trail_new: "tables_ok db \<Longrightarrow> \<not> user_exists i db \<Longrightarrow> status_trail i db = []"
  by (auto simp: status_trail_def tables_ok_def list_all_iff filter_empty_conv)

lemma initial_status_new:
  "dom (account db0) \<subseteq> dom (account db) \<Longrightarrow> tables_ok db \<Longrightarrow> \<not> user_exists i db \<Longrightarrow>
   initial_status db0 i = PENDING_VERIFICATION"
  by (auto simp: initial_status_def account_None_iff [symmetric] split: option.splits)

lemma status_audited_step:
  assumes "service_step c db fs db'" and "tables_ok db" and "status_audited db0 db"
  shows "status_audited db0 db'"
  using assms
  by (cases rule: service_step.cases)
    (auto simp: status_audited_def follow_status_append first_status_allowed settable_transition
      status_trail_new initial_status_new)

interpretation status_audit: service_invariant "\<lambda>_. True" "\<lambda>_ db0 db _. status_audited db0 db"
proof
  fix db0 :: database
  assume "seed_ok db0"
  then show "status_audited db0 db0"
    by (auto simp: status_audited_def initial_status_def status_trail_def seed_ok_def)
qed (rule status_audited_step)

section \<open>The role audit trail\<close>

text \<open>
  The rows of \<open>user_role_history\<close>, read from a role and a pending request. A row without
  \<open>to_role\<close> is a request when none is pending for that role and a refusal when one is.
\<close>

fun follow_role ::
  "user_role \<times> user_role option \<Rightarrow> role_history_row list \<Rightarrow> (user_role \<times> user_role option) option" where
  "follow_role (r, q) [] = Some (r, q)"
| "follow_role (r, q) (h # hs) =
     (if rh_from_role h \<noteq> Some (ascii (role_value r)) then None
      else case (nullable_role (rh_to_role h), nullable_role (rh_requested_role h)) of
        (Some None, Some (Some x)) \<Rightarrow>
          if q = Some x then follow_role (r, None) hs
          else if x \<in> KYC_REQUIRED_ROLES \<and> x \<noteq> r then follow_role (r, Some x) hs else None
      | (Some (Some t), Some (Some x)) \<Rightarrow>
          if q = Some x \<and> t = x then follow_role (x, None) hs else None
      | (Some (Some t), Some None) \<Rightarrow>
          if t \<notin> KYC_REQUIRED_ROLES \<and> t \<noteq> r then follow_role (t, None) hs else None
      | _ \<Rightarrow> None)"

definition role_trail :: "uuid \<Rightarrow> database \<Rightarrow> role_history_row list" where
  "role_trail i db = filter (\<lambda>h. rh_user_id h = i) (db_role_history db)"

definition initial_role :: "database \<Rightarrow> uuid \<Rightarrow> user_role" where
  "initial_role db0 i = (case account db0 i of None \<Rightarrow> USER | Some u \<Rightarrow> usr_role u)"

definition role_audited :: "database \<Rightarrow> database \<Rightarrow> bool" where
  "role_audited db0 db =
     (dom (account db0) \<subseteq> dom (account db) \<and>
      (\<forall>i u. account db i = Some u \<longrightarrow>
         follow_role (initial_role db0 i, None) (role_trail i db) =
         Some (usr_role u, usr_requested_role u)))"

lemma nullable_role_text [simp]: "nullable_role (role_text q) = Some q"
  by (cases q) (simp_all add: role_text_def)

lemma follow_role_append:
  "follow_role s (hs @ ks) = Option.bind (follow_role s hs) (\<lambda>t. follow_role t ks)"
  by (induction s hs rule: follow_role.induct) (auto split: option.splits)

lemma role_trail_simps [simp]:
  "role_trail i (add_role_row h db) = role_trail i db @ (if rh_user_id h = i then [h] else [])"
  "role_trail i (add_user row db) = role_trail i db"
  "role_trail i (put_user t u db) = role_trail i db"
  "role_trail i (add_status_row k db) = role_trail i db"
  "role_trail i (add_otp otp db) = role_trail i db"
  "role_trail i (add_token tk db) = role_trail i db"
  "role_trail i (count_attempt j db) = role_trail i db"
  "role_trail i (consume_otp j t db) = role_trail i db"
  "role_trail i (revoke_where P t db) = role_trail i db"
  by (simp_all add: role_trail_def)

lemma role_trail_new: "tables_ok db \<Longrightarrow> \<not> user_exists i db \<Longrightarrow> role_trail i db = []"
  by (auto simp: role_trail_def tables_ok_def list_all_iff filter_empty_conv)

lemma initial_role_new:
  "dom (account db0) \<subseteq> dom (account db) \<Longrightarrow> tables_ok db \<Longrightarrow> \<not> user_exists i db \<Longrightarrow>
   initial_role db0 i = USER"
  by (auto simp: initial_role_def account_None_iff [symmetric] split: option.splits)

lemma role_audited_step:
  assumes "service_step c db fs db'" and "tables_ok db" and "role_audited db0 db"
  shows "role_audited db0 db'"
  using assms
  by (cases rule: service_step.cases)
    (auto simp: role_audited_def follow_role_append needs_kyc_for_def role_trail_new initial_role_new)

lemma seed_requests:
  assumes "seed_ok db0" and "account db0 i = Some u"
  shows "usr_requested_role u = None"
proof -
  obtain r where "r \<in> set (db_users db0)" and "user_to_domain r = Some u"
    using assms(2) by (auto simp: account_def bind_eq_Some_conv dest: find_Some_in)
  then show ?thesis
    using assms(1) by (auto simp: seed_ok_def list_all_iff user_to_domain_def split: option.splits)
qed

interpretation role_audit: service_invariant "\<lambda>_. True" "\<lambda>_ db0 db _. role_audited db0 db"
proof
  fix db0 :: database
  assume "seed_ok db0"
  then show "role_audited db0 db0"
    using seed_requests [of db0]
    by (auto simp: role_audited_def initial_role_def role_trail_def seed_ok_def)
qed (rule role_audited_step)

section \<open>Sessions\<close>

definition may_hold_session :: "database \<Rightarrow> uuid \<Rightarrow> bool" where
  "may_hold_session db i =
     (case account db i of None \<Rightarrow> False | Some u \<Rightarrow> usr_status u \<in> SESSION_ALLOWED_STATUSES)"

definition sessions_ok :: "database \<Rightarrow> bool" where
  "sessions_ok db = (\<forall>i. live_sessions db i \<noteq> {} \<longrightarrow> may_hold_session db i)"

lemma session_statuses [simp]:
  "ACTIVE \<in> SESSION_ALLOWED_STATUSES" "PENDING_KYC \<in> SESSION_ALLOWED_STATUSES"
  "SUSPENDED \<notin> SESSION_ALLOWED_STATUSES" "PENDING_VERIFICATION \<notin> SESSION_ALLOWED_STATUSES"
  by (simp_all add: SESSION_ALLOWED_STATUSES_def)

lemma no_session_without_account:
  assumes "tables_ok db" and "\<not> user_exists i db"
  shows "live_sessions db i = {}"
  using assms by (auto simp: live_sessions_iff tables_ok_def list_all_iff)

lemma sessions_ok_step:
  assumes "service_step c db fs db'" and "tables_ok db" and "sessions_ok db"
  shows "sessions_ok db'"
  using assms
  by (cases rule: service_step.cases)
    (auto simp: sessions_ok_def may_hold_session_def first_status_allowed no_session_without_account
      sessions.live_add sessions.live_revoke sessions.live_revoke_all split: if_splits)

interpretation session_rule: service_invariant "\<lambda>_. True" "\<lambda>_ _ db _. sessions_ok db"
proof
  fix db0 :: database
  assume "seed_ok db0"
  then show "sessions_ok db0"
    by (auto simp: sessions_ok_def seed_ok_def live_sessions_iff)
qed (rule sessions_ok_step)

section \<open>Attempts on a code\<close>

definition codes_bounded :: "'r ctx \<Rightarrow> database \<Rightarrow> bool" where
  "codes_bounded c db =
     list_all (\<lambda>x. 0 \<le> otp_attempts x \<and> otp_attempts x \<le> otp_max_attempts (cfg c) \<and>
                  (otp_consumed_at x = None \<longrightarrow> otp_attempts x < otp_max_attempts (cfg c)))
       (db_otp_codes db)"

lemma latest_active_unique:
  assumes "latest_active p db = Some x" and "tables_ok db" and "y \<in> set (db_otp_codes db)"
    and "otp_id y = otp_id x"
  shows "y = x"
  using assms latest_active_SomeD(1) [OF assms(1)] by (auto simp: tables_ok_def distinct_map dest: inj_onD)

lemma codes_bounded_consume: "codes_bounded c db \<Longrightarrow> codes_bounded c (consume_otp i t db)"
  by (auto simp: codes_bounded_def list_all_iff consume_otp_def update_otp_def set_update_where)

text \<open>Counting an attempt on the active code, which had one left.\<close>

lemma codes_after_update:
  "db_otp_codes (update_otp i f db) = update_where (\<lambda>r. otp_id r = i) f (db_otp_codes db)"
  by (simp add: update_otp_def)

lemma counted_codes:
  assumes "latest_active p db = Some x" and "tables_ok db"
  shows "set (db_otp_codes (count_attempt (otp_id x) db)) =
    insert (x\<lparr>otp_attempts := otp_attempts x + 1\<rparr>) (set (db_otp_codes db) - {x})"
proof -
  have "set (db_otp_codes (count_attempt (otp_id x) db)) =
      (\<lambda>r. if r = x then r\<lparr>otp_attempts := otp_attempts r + 1\<rparr> else r) ` set (db_otp_codes db)"
    unfolding count_attempt_def codes_after_update set_update_where
    by (rule image_cong) (use latest_active_unique [OF assms] in auto)
  also have "\<dots> = insert (x\<lparr>otp_attempts := otp_attempts x + 1\<rparr>) (set (db_otp_codes db) - {x})"
    using latest_active_SomeD(1) [OF assms(1)] by auto
  finally show ?thesis .
qed

lemma codes_bounded_reject:
  assumes "latest_active p db = Some x" and "tables_ok db" and "codes_bounded c db"
    and "otp_attempts x + 1 < otp_max_attempts (cfg c)"
  shows "codes_bounded c (count_attempt (otp_id x) db)"
  using assms(3,4) latest_active_SomeD(1) [OF assms(1)]
  by (auto simp: codes_bounded_def list_all_iff counted_codes [OF assms(1,2)])

lemma codes_bounded_burn:
  assumes "latest_active p db = Some x" and "tables_ok db" and "codes_bounded c db"
  shows "codes_bounded c (consume_otp (otp_id x) t (count_attempt (otp_id x) db))"
  using assms(3) latest_active_SomeD [OF assms(1)] latest_active_unique [OF assms(1,2)]
  unfolding consume_otp_def update_otp_def codes_bounded_def list_all_iff
  by (auto simp: set_update_where counted_codes [OF assms(1,2)])

lemma codes_bounded_frame [simp]:
  "codes_bounded c (add_user row db) = codes_bounded c db"
  "codes_bounded c (put_user t u db) = codes_bounded c db"
  "codes_bounded c (add_status_row h db) = codes_bounded c db"
  "codes_bounded c (add_role_row k db) = codes_bounded c db"
  "codes_bounded c (add_token tk db) = codes_bounded c db"
  "codes_bounded c (revoke_where P t db) = codes_bounded c db"
  by (simp_all add: codes_bounded_def)

lemma codes_bounded_step:
  assumes "service_step c db fs db'" and "tables_ok db" and "codes_bounded c db"
    and "1 \<le> otp_max_attempts (cfg c)"
  shows "codes_bounded c db'"
  using assms
  by (cases rule: service_step.cases)
    (auto simp: codes_bounded_consume code_refused_def intro: codes_bounded_reject codes_bounded_burn,
     simp add: codes_bounded_def)

interpretation code_rule: service_invariant "\<lambda>c. 1 \<le> otp_max_attempts (cfg c)" "\<lambda>c _ db _. codes_bounded c db"
proof
  fix c :: "'a ctx" and db0 :: database
  assume "seed_ok db0"
  then show "codes_bounded c db0" by (simp add: codes_bounded_def seed_ok_def)
qed (rule codes_bounded_step)

section \<open>The first verification is announced once\<close>

fun announces :: "uuid \<Rightarrow> effect \<Rightarrow> bool" where
  "announces i (Published (UserRegistered e)) = (ev_user_id e = i)"
| "announces i _ = False"

definition announced_once :: "database \<Rightarrow> effect list \<Rightarrow> bool" where
  "announced_once db es =
     (\<forall>i. length (filter (announces i) es) \<le> 1 \<and>
          (filter (announces i) es \<noteq> [] \<longrightarrow>
             (\<exists>u. account db i = Some u \<and> usr_status u \<noteq> PENDING_VERIFICATION)))"

lemma announced_once_step:
  assumes "service_step c db fs db'" and "tables_ok db" and "announced_once db es"
  shows "announced_once db' (es @ fs)"
  using assms
  apply (cases rule: service_step.cases)
  apply (auto simp: announced_once_def first_status_def decision_event_def account_None_iff [symmetric])
  done

interpretation announcement: service_invariant "\<lambda>_. True" "\<lambda>_ _. announced_once"
proof
  show "announced_once db0 []" for db0 by (simp add: announced_once_def)
qed (rule announced_once_step)

section \<open>Roles that need KYC\<close>

text \<open>The rows of an approved request.\<close>

definition approved :: "user_role \<Rightarrow> role_history_row \<Rightarrow> bool" where
  "approved r h = (rh_to_role h = role_text (Some r) \<and> rh_requested_role h = role_text (Some r))"

definition kyc_gated :: "database \<Rightarrow> database \<Rightarrow> bool" where
  "kyc_gated db0 db =
     (dom (account db0) \<subseteq> dom (account db) \<and>
      (\<forall>i u. account db i = Some u \<longrightarrow> usr_role u \<in> KYC_REQUIRED_ROLES \<longrightarrow>
         usr_role u = initial_role db0 i \<or> list_ex (approved (usr_role u)) (role_trail i db)))"

lemma approved_audit [simp]:
  "approved r (role_audit h i prev to_role q why by_whom now) \<longleftrightarrow> to_role = Some r \<and> q = Some r"
  by (auto simp: approved_def role_text_def)

lemma kyc_gated_step:
  assumes "service_step c db fs db'" and "tables_ok db" and "kyc_gated db0 db"
  shows "kyc_gated db0 db'"
  using assms
  by (cases rule: service_step.cases)
    (auto simp: kyc_gated_def needs_kyc_for_def initial_role_new)

interpretation kyc_gate: service_invariant "\<lambda>_. True" "\<lambda>_ db0 db _. kyc_gated db0 db"
proof
  show "kyc_gated db0 db0" for db0 by (auto simp: kyc_gated_def initial_role_def)
qed (rule kyc_gated_step)

section \<open>Pending requests\<close>

definition requests_ok :: "database \<Rightarrow> bool" where
  "requests_ok db =
     (\<forall>i u r. account db i = Some u \<longrightarrow> usr_requested_role u = Some r \<longrightarrow>
        r \<in> KYC_REQUIRED_ROLES \<and> r \<noteq> usr_role u)"

lemma requests_ok_step:
  assumes "service_step c db fs db'" and "tables_ok db" and "requests_ok db"
  shows "requests_ok db'"
  using assms
  by (cases rule: service_step.cases)
    (auto simp: requests_ok_def needs_kyc_for_def)

interpretation request_rule: service_invariant "\<lambda>_. True" "\<lambda>_ _ db _. requests_ok db"
proof
  fix db0 :: database
  assume "seed_ok db0"
  then show "requests_ok db0" using seed_requests [of db0] by (auto simp: requests_ok_def)
qed (rule requests_ok_step)

section \<open>Phones\<close>

definition phone_origin :: "database \<Rightarrow> uuid \<Rightarrow> ptext \<Rightarrow> bool" where
  "phone_origin db0 i p =
     (case account db0 i of None \<Rightarrow> validate_phone p = Inr p | Some u \<Rightarrow> p = usr_phone u)"

definition phones_ok :: "database \<Rightarrow> database \<Rightarrow> bool" where
  "phones_ok db0 db =
     (dom (account db0) \<subseteq> dom (account db) \<and>
      (\<forall>i u. account db i = Some u \<longrightarrow> phone_origin db0 i (usr_phone u)))"

lemma phone_origin_new:
  "dom (account db0) \<subseteq> dom (account db) \<Longrightarrow> tables_ok db \<Longrightarrow> \<not> user_exists i db \<Longrightarrow>
   validate_phone s = Inr p \<Longrightarrow> phone_origin db0 i p"
  by (auto simp: phone_origin_def account_None_iff [symmetric] validate_phone_idem split: option.splits)

lemma phones_ok_step:
  assumes "service_step c db fs db'" and "tables_ok db" and "phones_ok db0 db"
  shows "phones_ok db0 db'"
  using assms
  by (cases rule: service_step.cases) (auto simp: phones_ok_def phone_origin_new)

interpretation phone_rule: service_invariant "\<lambda>_. True" "\<lambda>_ db0 db _. phones_ok db0 db"
proof
  show "phones_ok db0 db0" for db0 by (auto simp: phones_ok_def phone_origin_def)
qed (rule phones_ok_step)

section \<open>What never comes back\<close>

text \<open>A consumed code stays consumed, a revoked token revoked, an audit row where it is.\<close>

definition code_spent :: "uuid \<Rightarrow> database \<Rightarrow> bool" where
  "code_spent i db = (case find_otp i db of None \<Rightarrow> False | Some x \<Rightarrow> otp_consumed_at x \<noteq> None)"

definition token_spent :: "uuid \<Rightarrow> database \<Rightarrow> bool" where
  "token_spent i db = (\<exists>t\<in>set (db_refresh_tokens db). rt_id t = i \<and> rt_revoked_at t \<noteq> None)"

definition history_starts ::
  "status_history_row list \<times> role_history_row list \<Rightarrow> database \<Rightarrow> bool" where
  "history_starts hs db =
     (take (length (fst hs)) (db_status_history db) = fst hs \<and>
      take (length (snd hs)) (db_role_history db) = snd hs)"

lemma code_spent_statements [simp]:
  "code_spent i (add_user row db) = code_spent i db" "code_spent i (put_user t u db) = code_spent i db"
  "code_spent i (add_status_row h db) = code_spent i db"
  "code_spent i (add_role_row k db) = code_spent i db"
  "code_spent i (add_token tk db) = code_spent i db"
  "code_spent i (revoke_where P t db) = code_spent i db"
  "code_spent i (count_attempt j db) = code_spent i db"
  by (simp_all add: code_spent_def find_otp_def [of i "add_user row db"] find_otp_def [of i "put_user t u db"]
      find_otp_def [of i "add_status_row h db"] find_otp_def [of i "add_role_row k db"]
      find_otp_def [of i "add_token tk db"] find_otp_def [of i "revoke_where P t db"]
      find_otp_def [of i db, symmetric] find_otp_count_attempt split: option.splits)

lemma code_spent_kept:
  "code_spent i db \<Longrightarrow> code_spent i (consume_otp j t db)" "code_spent i db \<Longrightarrow> code_spent i (add_otp x db)"
  by (auto simp: code_spent_def find_otp_consume_otp find_otp_add_otp split: option.splits if_splits)

lemma code_spent_step: "code_spent i db \<Longrightarrow> service_step c db es db' \<Longrightarrow> code_spent i db'"
  by (cases rule: service_step.cases, assumption) (auto intro: code_spent_kept)

lemma token_spent_kept:
  "token_spent i db \<Longrightarrow> token_spent i (add_token t db)"
  "token_spent i db \<Longrightarrow> token_spent i (revoke_where P now db)"
  by (force simp: token_spent_def revoke_where_def set_update_where)+

lemma token_spent_frame [simp]:
  "token_spent i (add_user row db) = token_spent i db" "token_spent i (put_user t u db) = token_spent i db"
  "token_spent i (add_status_row h db) = token_spent i db"
  "token_spent i (add_role_row k db) = token_spent i db"
  "token_spent i (add_otp x db) = token_spent i db"
  "token_spent i (count_attempt j db) = token_spent i db"
  "token_spent i (consume_otp j t db) = token_spent i db"
  by (simp_all add: token_spent_def)

lemma token_spent_step: "token_spent i db \<Longrightarrow> service_step c db es db' \<Longrightarrow> token_spent i db'"
  by (cases rule: service_step.cases, assumption) (auto intro: token_spent_kept)

lemma history_starts_step:
  "history_starts hs db \<Longrightarrow> service_step c db es db' \<Longrightarrow> history_starts hs db'"
  by (cases rule: service_step.cases, assumption)
    (auto simp: history_starts_def dest: arg_cong [of _ _ length])

interpretation spent_codes: lasting_fact "\<lambda>_. code_spent"
  by unfold_locales (rule code_spent_step)

interpretation spent_tokens: lasting_fact "\<lambda>_. token_spent"
  by unfold_locales (rule token_spent_step)

interpretation histories: lasting_fact "\<lambda>_. history_starts"
  by unfold_locales (rule history_starts_step)

text \<open>An account is never removed, keeps its id and phone, and once verified is never unverified again.\<close>

definition account_kept :: "uuid \<times> ptext \<Rightarrow> database \<Rightarrow> bool" where
  "account_kept = (\<lambda>(i, p) db. \<exists>u. account db i = Some u \<and> usr_phone u = p)"

definition verified_once :: "uuid \<Rightarrow> database \<Rightarrow> bool" where
  "verified_once i db = (\<exists>u. account db i = Some u \<and> usr_status u \<noteq> PENDING_VERIFICATION)"

lemma account_kept_step:
  "account_kept x db \<Longrightarrow> tables_ok db \<Longrightarrow> service_step c db es db' \<Longrightarrow> account_kept x db'"
  by (cases x, cases rule: service_step.cases, assumption)
    (auto simp: account_kept_def table_rules dest: account_self)

lemma verified_once_step:
  "verified_once i db \<Longrightarrow> tables_ok db \<Longrightarrow> service_step c db es db' \<Longrightarrow> verified_once i db'"
  by (cases rule: service_step.cases, assumption)
    (auto simp: verified_once_def table_rules dest: account_self)

interpretation permanent_accounts: lasting_fact "\<lambda>_. account_kept"
  by unfold_locales (rule account_kept_step)

interpretation verified_accounts: lasting_fact "\<lambda>_. verified_once"
  by unfold_locales (rule verified_once_step)

text \<open>A token hash that belongs to a revoked token, whatever else the row says.\<close>

definition hash_spent :: "ptext \<Rightarrow> database \<Rightarrow> bool" where
  "hash_spent h db = (\<exists>t\<in>set (db_refresh_tokens db). rt_token_hash t = h \<and> rt_revoked_at t \<noteq> None)"

lemma hash_spent_kept:
  "hash_spent h db \<Longrightarrow> hash_spent h (add_token t db)"
  "hash_spent h db \<Longrightarrow> hash_spent h (revoke_where P now db)"
  by (force simp: hash_spent_def revoke_where_def set_update_where)+

lemma hash_spent_frame [simp]:
  "hash_spent h (add_user row db) = hash_spent h db" "hash_spent h (put_user t u db) = hash_spent h db"
  "hash_spent h (add_status_row k db) = hash_spent h db"
  "hash_spent h (add_role_row l db) = hash_spent h db"
  "hash_spent h (add_otp x db) = hash_spent h db"
  "hash_spent h (count_attempt j db) = hash_spent h db"
  "hash_spent h (consume_otp j t db) = hash_spent h db"
  by (simp_all add: hash_spent_def)

lemma hash_spent_step: "hash_spent h db \<Longrightarrow> service_step c db es db' \<Longrightarrow> hash_spent h db'"
  by (cases rule: service_step.cases, assumption) (auto intro: hash_spent_kept)

interpretation spent_hashes: lasting_fact "\<lambda>_. hash_spent"
  by unfold_locales (rule hash_spent_step)

lemma spent_hash_found:
  assumes "hash_spent h db" and "token_by_hash db h = Inr r"
  obtains t where "r = Some t" and "rt_revoked_at t \<noteq> None"
proof -
  obtain t where t: "t \<in> set (filter (\<lambda>r. rt_token_hash r = h) (db_refresh_tokens db))"
    and "rt_revoked_at t \<noteq> None"
    using assms(1) by (auto simp: hash_spent_def)
  moreover have "filter (\<lambda>r. rt_token_hash r = h) (db_refresh_tokens db) = [t]" and "r = Some t"
    using assms(2) t unfolding token_by_hash_def
    by (cases "filter (\<lambda>r. rt_token_hash r = h) (db_refresh_tokens db)" rule: scalar_one_or_none.cases;
        fastforce)+
  ultimately show thesis by (intro that)
qed

section \<open>The effects of a step\<close>

text \<open>
  Nothing leaves the process before the commit, the cache entry goes before the event, and a
  code is handed over only once it is stored. A purged cache entry is all that happens without
  a commit.
\<close>

fun well_ordered :: "effect list \<Rightarrow> bool" where
  "well_ordered [] = True"
| "well_ordered [Invalidated i] = True"
| "well_ordered [Committed] = True"
| "well_ordered [Committed, OtpSent p code] = True"
| "well_ordered [Committed, Invalidated i] = True"
| "well_ordered [Committed, Invalidated i, Published ev] = (ev_user_id (event_envelope ev) = i)"
| "well_ordered _ = False"

lemma decision_event_user [simp]: "ev_user_id (event_envelope (decision_event ok u r t)) = usr_id u"
  by (simp add: decision_event_def)

lemma service_step_well_ordered: "service_step c db es db' \<Longrightarrow> well_ordered es"
  by (cases rule: service_step.cases, assumption) auto

lemma no_commit_no_change:
  "service_step c db es db' \<Longrightarrow> Committed \<notin> set es \<Longrightarrow> db' = db"
  by (cases rule: service_step.cases, assumption) auto

text \<open>What an event says of its account, in the database it was committed with.\<close>

fun says_truth :: "user \<Rightarrow> domain_event \<Rightarrow> bool" where
  "says_truth u (UserRoleChanged e old new) =
     (new = role_value (usr_role u) \<and> old \<noteq> new \<and> ev_role e = new)"
| "says_truth u (UserStatusChanged e old new reason) =
     (new = status_value (usr_status u) \<and> old \<noteq> new \<and> ev_role e = role_value (usr_role u))"
| "says_truth u (UserRegistered e) =
     (usr_status u \<in> SESSION_ALLOWED_STATUSES \<and> ev_role e = role_value (usr_role u))"
| "says_truth u (UserUpdated e changed) = (ev_role e = role_value (usr_role u))"

definition event_holds :: "database \<Rightarrow> domain_event \<Rightarrow> bool" where
  "event_holds db ev =
     (case account db (ev_user_id (event_envelope ev)) of
        None \<Rightarrow> False
      | Some u \<Rightarrow> ev_phone (event_envelope ev) = usr_phone u \<and> says_truth u ev)"

lemma status_texts [simp]:
  "status_value s = ''suspended'' \<longleftrightarrow> s = SUSPENDED" "status_value s = ''active'' \<longleftrightarrow> s = ACTIVE"
  by (cases s; simp)+

lemma step_events_hold:
  assumes "service_step c db es db'" and "tables_ok db" and "requests_ok db" and "Published ev \<in> set es"
  shows "event_holds db' ev"
  using assms
  by (cases rule: service_step.cases)
    (auto simp: event_holds_def decision_event_def first_status_allowed requests_ok_def split: if_splits)

end
