(* ===== verification/Command_Facts.thy ===== *)
theory Command_Facts
  imports Service_Invariants
begin

text \<open>
  What the statements about single commands share: reading off the outcome of a run from its
  weakest precondition, the ids a request is about to draw, and the facts an accepted code
  brings with it.
\<close>

lemma outcome_wp: "(case m w of (r, w') \<Rightarrow> P r w') = wp m (\<lambda>a. P (Inr a)) (\<lambda>e. P (Inl e)) w"
  by (cases "m w"; cases "fst (m w)") (auto simp: wp_def)

lemma fst_wp: "fst (m w) = r \<longleftrightarrow> wp m (\<lambda>a _. Inr a = r) (\<lambda>e _. Inl e = r) w"
  by (auto simp: wp_def split: prod.splits sum.splits)

lemma profile_payload_updated [simp]:
  "profile_payload (u\<lparr>usr_updated_at := t\<rparr>) = profile_payload u"
  by (simp add: profile_payload_def)

text \<open>
  The ids a request is about to draw are free in every table; no request draws more than two
  for rows of its own.
\<close>

definition ids_fresh :: "'r ctx \<Rightarrow> 'r world \<Rightarrow> bool" where
  "ids_fresh c w =
     (\<forall>n\<in>set [w_uuid_ix w, Suc (w_uuid_ix w)].
        new_otp_id (uuid4s c n) (w_db w) \<and> new_token_id (uuid4s c n) (w_db w) \<and>
        new_status_id (uuid4s c n) (w_db w) \<and> new_role_id (uuid4s c n) (w_db w))"

lemma ids_freshD:
  assumes "ids_fresh c w" and "n = w_uuid_ix w \<or> n = Suc (w_uuid_ix w)"
  shows "new_otp_id (uuid4s c n) (w_db w)" "new_token_id (uuid4s c n) (w_db w)"
    "new_status_id (uuid4s c n) (w_db w)" "new_role_id (uuid4s c n) (w_db w)"
  using assms by (auto simp: ids_fresh_def)

lemmas outcome_simps = outcome_wp settled_def wp_rules table_rules audit_folds Let_def

lemma accepted_facts:
  assumes "settled w" and "code_accepted c p code now x (w_committed w)"
    and "account_by_phone (w_committed w) p = Some u"
  shows "w_committed w = w_db w" "tables_ok (w_db w)" "tables_ok (consume_otp i t (w_db w))"
    "latest_active p (w_db w) = Some x" "\<not> is_expired x now" "verify_otp_code c code (otp_code_hash x)"
    "account_by_phone (w_db w) p = Some u" "account (w_db w) (usr_id u) = Some u"
    "user_exists (usr_id u) (w_db w)" "find_otp (otp_id x) (w_db w) = Some x" "otp_consumed_at x = None"
    "code_spent (otp_id x) (consume_otp (otp_id x) t (w_db w))"
proof -
  show ok: "tables_ok (w_db w)" and same: "w_committed w = w_db w"
    using assms(1) by (simp_all add: settled_def)
  show "tables_ok (consume_otp i t (w_db w))" using ok by (rule tables_ok_otp_statements)
  show active: "latest_active p (w_db w) = Some x" and "\<not> is_expired x now"
    and "verify_otp_code c code (otp_code_hash x)"
    using assms(2) same by (simp_all add: code_accepted_def)
  show owner: "account_by_phone (w_db w) p = Some u" using assms(3) same by simp
  show self: "account (w_db w) (usr_id u) = Some u" using account_by_phone_SomeD(2) [OF owner ok] .
  show "user_exists (usr_id u) (w_db w)" using account_SomeD(2) [OF self] .
  show found: "find_otp (otp_id x) (w_db w) = Some x" using latest_active_found [OF ok active] .
  show "otp_consumed_at x = None" using latest_active_SomeD(3) [OF active] .
  show "code_spent (otp_id x) (consume_otp (otp_id x) t (w_db w))"
    using found by (simp add: code_spent_def find_otp_consume_otp)
qed

lemma revoked_token_spent:
  assumes "x \<in> set (db_refresh_tokens db)" and "P x" and "rt_revoked_at x = None"
  shows "token_spent (rt_id x) (revoke_where P t db)"
proof -
  have "x\<lparr>rt_revoked_at := Some t\<rparr> \<in> set (db_refresh_tokens (revoke_where P t db))"
    unfolding revoke_where_def using assms by (auto simp: set_update_where intro!: image_eqI [of _ _ x])
  then show ?thesis unfolding token_spent_def by (rule bexI [rotated]) simp
qed

lemma request_otp_run:
  assumes "settled w" and "ids_fresh c w"
  shows "case request_otp c phone ip w of (r, w') \<Rightarrow>
    (case validate_phone phone of
       Inl e \<Rightarrow> r = Inl e \<and> w' = w
     | Inr p \<Rightarrow>
         (case otp_gate c ip (w_redis w) of (allowed, r1) \<Rightarrow>
          case cooldown_left c p (otp_rate_limit_seconds (cfg c)) r1 of (left, r2) \<Rightarrow>
            if \<not> allowed then
              r = Inl (otp_rate_limited (otp_rate_limit_seconds (cfg c))) \<and> w' = w\<lparr>w_redis := r1\<rparr>
            else if 0 < left then r = Inl (otp_rate_limited left) \<and> w' = w\<lparr>w_redis := r2\<rparr>
            else
              r = Inr (JObj [(''expires_in_seconds'', JInt (otp_code_lifetime_seconds (cfg c))),
                             (''retry_after_seconds'', JInt (otp_rate_limit_seconds (cfg c)))]) \<and>
              w_redis w' = start_cooldown c p (otp_rate_limit_seconds (cfg c)) r2 \<and>
              (let code = six_digits (random_codes c (w_code_ix w) mod 1000000);
                   x = fresh_code c (uuid4s c (w_uuid_ix w)) p code (clock c (w_clock_ix w));
                   known = (account_by_phone (w_committed w) p \<noteq> None)
               in w_committed w' = (if known then add_otp x (w_committed w) else w_committed w) \<and>
                  w_effects w' = w_effects w @ (if known then [Committed, OtpSent p code] else []))))"
  using assms
  by (auto simp: outcome_simps request_otp_def ids_freshD split: sum.splits prod.splits)

end
