(* ===== verification/Sample_Run.thy ===== *)
theory Sample_Run
  imports Command_Facts
begin

text \<open>
  One run of the service on concrete arguments: a Redis in memory, digests that only tag their
  input, tokens that are the caller's id, and a database seeded with one administrator. Kofi
  registers, asks for a code, verifies it, is requested as a driver, approved and suspended.
  The theorems are applied to these states.
\<close>

section \<open>The arguments\<close>

definition sample_jwt :: jwt_lib where
  "sample_jwt =
     \<lparr>jwt_encode = (\<lambda>claims pem kid. case map_of claims ''sub'' of Some (JText t) \<Rightarrow> t | _ \<Rightarrow> []),
      jwt_header_kid = (\<lambda>t. Some (Some (ascii ''k1''))),
      jwt_decode = (\<lambda>t pem issuer now.
        Inr [(''sub'', JText t), (''role'', jlit ''admin''), (''status'', jlit ''active'')])\<rparr>"

definition sample_ctx :: "mem_redis ctx" where
  "sample_ctx =
     \<lparr>cfg = default_settings, redis = mem_client,
      ring = \<lparr>active_kid = ascii ''k1'', private_pem = ascii ''priv'',
              public_keys = [\<lparr>kid = ascii ''k1'', pem = ascii ''pub''\<rparr>]\<rparr>,
      jwt = sample_jwt, sha256_hex = (\<lambda>t. ascii ''sha:'' @ t),
      hmac_sha256_hex = (\<lambda>k t. ascii ''mac:'' @ t),
      clock = (\<lambda>n. int n), uuid4s = (\<lambda>n. of_nat (100 + n)),
      urlsafe_tokens = (\<lambda>n. [65 + n]), random_codes = (\<lambda>n. 123456 + n)\<rparr>"

definition ama :: user_row where
  "ama =
     \<lparr>ur_id = 1, ur_phone = ascii ''+22890000001'', ur_full_name = None,
      ur_password_hash = None, ur_role = ascii ''admin'', ur_status = ascii ''active'',
      ur_requested_role = None, ur_created_at = 0, ur_updated_at = 0\<rparr>"

definition kofi :: "string \<Rightarrow> string \<Rightarrow> string option \<Rightarrow> instant \<Rightarrow> user_row" where
  "kofi role status requested t =
     \<lparr>ur_id = 100, ur_phone = ascii ''+22890000002'', ur_full_name = None,
      ur_password_hash = None, ur_role = ascii role, ur_status = ascii status,
      ur_requested_role = map_option ascii requested, ur_created_at = 0, ur_updated_at = t\<rparr>"

definition sample_db :: database where
  "sample_db = empty_database\<lparr>db_users := [ama]\<rparr>"

definition fresh_redis :: mem_redis where
  "fresh_redis = \<lparr>mr_online = True, mr_keys = (\<lambda>_. None), mr_streams = []\<rparr>"

text \<open>A settled world: its database, its Redis, its positions and its effects.\<close>

definition at :: "database \<Rightarrow> mem_redis \<Rightarrow> nat list \<Rightarrow> effect list \<Rightarrow> mem_redis world" where
  "at db r ix es =
     \<lparr>w_db = db, w_committed = db, w_redis = r, w_clock_ix = ix ! 0, w_uuid_ix = ix ! 1,
      w_token_ix = ix ! 2, w_code_ix = ix ! 3, w_effects = es\<rparr>"

definition world0 :: "mem_redis world" where
  "world0 = at sample_db fresh_redis [0, 0, 0, 0] []"

section \<open>The requests and the worlds they lead to\<close>

definition kofi_phone :: ptext where
  "kofi_phone = ascii ''+22890000002''"

definition ama_token :: "ptext option" where
  "ama_token = Some (uuid_str 1)"

text \<open>Registered.\<close>

definition db1 :: database where
  "db1 = sample_db\<lparr>db_users := [ama, kofi ''user'' ''pending_verification'' None 1]\<rparr>"

definition world1 :: "mem_redis world" where
  "world1 = at db1 fresh_redis [2, 1, 0, 0] [Committed]"

lemmas sample_defs =
  sample_ctx_def sample_jwt_def ama_def kofi_def sample_db_def fresh_redis_def at_def world0_def
  kofi_phone_def ama_token_def empty_database_def default_settings_def db1_def world1_def

definition succeeds :: "'r ctx \<Rightarrow> request \<Rightarrow> 'r world \<Rightarrow> 'r world \<Rightarrow> bool" where
  "succeeds c req w w' =
     wp (get_session (handler c req)) (\<lambda>_ x. x = w') (\<lambda>_ _. False) w"

lemma succeeds_serve: "succeeds c req w w' \<Longrightarrow> snd (serve c req w) = w'"
  by (auto simp: succeeds_def wp_def serve_def split: prod.splits sum.splits)

lemma succeedsE:
  assumes "succeeds c req w w'"
  obtains r where "get_session (handler c req) w = (Inr r, w')"
  using assms by (cases "get_session (handler c req) w") (auto simp: succeeds_def wp_def split: sum.splits)

text \<open>What evaluating a run unfolds besides the weakest preconditions.\<close>

lemmas run_defs =
  succeeds_def wp_rules Let_def checked_def at_most_def validate_phone_def normalised_eq e164_body_def
  is_py_digit_def digit_zeros_def is_py_space_def ascii_def select_user_def user_to_domain_def
  user_exists_def phone_known_def put_user_def write_user_row_def new_user_row_def registration_def
  py_or_def role_text_def statement_defs UserRole_def role_members_def UserStatus_def
  status_members_def rollback_def

lemma run1: "succeeds sample_ctx (PostRegister (ascii ''+228 90 00 00 02'') None) world0 world1"
  by (simp add: sample_defs run_defs register_defs)

text \<open>A code was sent.\<close>

definition kofi_code :: "instant option \<Rightarrow> otp_code" where
  "kofi_code consumed =
     \<lparr>otp_id = 101, otp_phone = kofi_phone, otp_code_hash = ascii ''mac:123456'',
      otp_expires_at = 300000002, otp_created_at = 2, otp_consumed_at = consumed, otp_attempts = 0\<rparr>"

definition db2 :: database where
  "db2 = db1\<lparr>db_otp_codes := [kofi_code None]\<rparr>"

definition redis2 :: mem_redis where
  "redis2 = mr_put (cooldown_key kofi_phone) (Num 1, Some 60) fresh_redis"

definition effects2 :: "effect list" where
  "effects2 = [Committed, Committed, OtpSent kofi_phone (ascii ''123456'')]"

definition world2 :: "mem_redis world" where
  "world2 = at db2 redis2 [3, 2, 0, 1] effects2"

lemmas code_defs =
  new_otp_id_def cooldown_left_def start_cooldown_def mem_client_defs fresh_code_def hash_otp_code_def
  duration_defs six_digits_def otp_gate_def client_ip_def kofi_code_def db2_def redis2_def
  effects2_def world2_def

lemma run2: "succeeds sample_ctx (PostOtpRequest kofi_phone None None) world1 world2"
  by (simp add: sample_defs run_defs code_defs request_otp_def)

text \<open>The code was verified: the account is active and has a session.\<close>

definition kofi_session :: "instant option \<Rightarrow> refresh_token" where
  "kofi_session revoked =
     \<lparr>rt_id = 103, rt_user_id = 100, rt_token_hash = ascii ''sha:opaque_A'', rt_expires_at = 2592000000003,
      rt_created_at = 3, rt_device_info = None, rt_revoked_at = revoked\<rparr>"

definition db3 :: database where
  "db3 = db2\<lparr>db_users := [ama, kofi ''user'' ''active'' None 5], db_otp_codes := [kofi_code (Some 4)],
     db_refresh_tokens := [kofi_session None],
     db_status_history := [status_audit 102 100 PENDING_VERIFICATION ACTIVE (Some otp_reason) None 3]\<rparr>"

definition registered_event :: domain_event where
  "registered_event = UserRegistered \<lparr>ev_user_id = 100, ev_phone = kofi_phone, ev_role = ''user'', ev_at = 6\<rparr>"

definition redis3 :: mem_redis where
  "redis3 = redis2\<lparr>mr_keys := (mr_keys redis2)(profile_key 100 := None),
     mr_streams := [(STREAM_KEY, stream_entry registered_event)]\<rparr>"

definition effects3 :: "effect list" where
  "effects3 = effects2 @ [Committed, Invalidated 100, Published registered_event]"

definition world3 :: "mem_redis world" where
  "world3 = at db3 redis3 [8, 4, 1, 1] effects3"

lemmas verify_defs =
  is_otp_pattern_def verify_otp_code_def latest_active_def is_expired_def find_otp_def consume_otp_def
  wp_activate status_audit_def status_row_def new_status_id_def new_token_id_def first_status_def
  session_token_def hash_refresh_token_def refresh_expiry_def envelope_of_def issue_access_token_def
  kofi_session_def db3_def registered_event_def redis3_def effects3_def world3_def

lemma run3: "succeeds sample_ctx (PostOtpVerify kofi_phone (ascii ''123456'') None) world2 world3"
  by (simp add: sample_defs run_defs code_defs verify_defs verify_otp_defs)

text \<open>The administrator requests the role of driver for Kofi.\<close>

definition driver_requested :: role_history_row where
  "driver_requested = role_audit 104 100 USER None (Some DRIVER) None (Some 1) 9"

definition db4 :: database where
  "db4 = db3\<lparr>db_users := [ama, kofi ''user'' ''active'' (Some ''driver'') 10],
     db_role_history := [driver_requested]\<rparr>"

definition kofi_event :: "string \<Rightarrow> instant \<Rightarrow> envelope" where
  "kofi_event role t = \<lparr>ev_user_id = 100, ev_phone = kofi_phone, ev_role = role, ev_at = t\<rparr>"

definition publish_on :: "domain_event \<Rightarrow> mem_redis \<Rightarrow> mem_redis" where
  "publish_on ev r = r\<lparr>mr_keys := (mr_keys r)(profile_key 100 := None),
     mr_streams := mr_streams r @ [(STREAM_KEY, stream_entry ev)]\<rparr>"

definition announce :: "domain_event \<Rightarrow> effect list" where
  "announce ev = [Committed, Invalidated 100, Published ev]"

definition event4 :: domain_event where
  "event4 = UserUpdated (kofi_event ''user'' 11) [''requested_role'']"

definition world4 :: "mem_redis world" where
  "world4 = at db4 (publish_on event4 redis3) [12, 5, 1, 1] (effects3 @ announce event4)"

lemmas role_defs =
  require_service_or_admin_def require_admin_def current_user_def get_current_user_id_def
  get_claims_def decode_access_token_def is_service_def SERVICE_ROLE_def sub_uuid_def fresh_admin_def
  session_status_values_def UUID_uuid_str role_audit_def role_row_def new_role_id_def
  needs_kyc_for_def KYC_REQUIRED_ROLES_def SESSION_ALLOWED_STATUSES_def
  kofi_event_def publish_on_def announce_def driver_requested_def db4_def event4_def world4_def

lemma run4: "succeeds sample_ctx (PatchRole None ama_token 100 (ascii ''driver'') None) world3 world4"
  by (simp add: sample_defs run_defs code_defs verify_defs role_defs change_role_def request_role_def)

text \<open>The request is approved.\<close>

definition driver_approved :: role_history_row where
  "driver_approved = role_audit 105 100 USER (Some DRIVER) (Some DRIVER) None (Some 1) 13"

definition db5 :: database where
  "db5 = db4\<lparr>db_users := [ama, kofi ''driver'' ''active'' None 14],
     db_role_history := [driver_requested, driver_approved]\<rparr>"

definition event5 :: domain_event where
  "event5 = UserRoleChanged (kofi_event ''driver'' 15) ''user'' ''driver''"

definition world5 :: "mem_redis world" where
  "world5 = at db5 (publish_on event5 (w_redis world4)) [16, 6, 1, 1] (w_effects world4 @ announce event5)"

lemmas kyc_defs = driver_approved_def db5_def event5_def world5_def decided_user_def

lemma run5: "succeeds sample_ctx (PatchKyc ama_token 100 True None) world4 world5"
  by (simp add: sample_defs run_defs code_defs verify_defs role_defs kyc_defs decide_kyc_defs)

text \<open>The account is suspended, and its session with it.\<close>

definition db6 :: database where
  "db6 = db5\<lparr>db_users := [ama, kofi ''driver'' ''suspended'' None 18],
     db_refresh_tokens := [kofi_session (Some 19)],
     db_status_history := db_status_history db3 @
       [status_audit 106 100 ACTIVE SUSPENDED None (Some 1) 17]\<rparr>"

definition event6 :: domain_event where
  "event6 = UserStatusChanged (kofi_event ''driver'' 20) ''active'' ''suspended'' None"

definition world6 :: "mem_redis world" where
  "world6 = at db6 (publish_on event6 (w_redis world5)) [21, 7, 1, 1] (w_effects world5 @ announce event6)"

lemmas suspend_defs = db6_def event6_def world6_def

lemma run6: "succeeds sample_ctx (PatchStatus ama_token 100 (ascii ''suspended'') None) world5 world6"
  by (simp add: sample_defs run_defs code_defs verify_defs role_defs kyc_defs suspend_defs
    change_status_def set_status_def ADMIN_SETTABLE_STATUSES_def can_transition_def)

section \<open>The run is a run of the service\<close>

lemma sample_seed: "seed_ok sample_db"
  by (simp add: seed_ok_def tables_ok_def user_to_domain_def UserRole_Some_iff UserStatus_Some_iff
      sample_db_def empty_database_def ama_def)

lemma sample_fresh:
  "fresh_draw sample_ctx world0" "fresh_draw sample_ctx world1" "fresh_draw sample_ctx world2"
  "fresh_draw sample_ctx world3" "fresh_draw sample_ctx world4" "fresh_draw sample_ctx world5"
  "fresh_draw sample_ctx world6"
  by (simp_all add: fresh_draw_def user_exists_def sample_defs code_defs verify_defs role_defs kyc_defs
      suspend_defs)

lemma reachable_success:
  assumes "reachable c db0 w" and "fresh_draw c w" and "succeeds c req w w'"
  shows "reachable c db0 w'"
  using reachable.served [OF assms(1,2), of req] unfolding succeeds_serve [OF assms(3)] .

lemma sample_reachable:
  "reachable sample_ctx sample_db world0" "reachable sample_ctx sample_db world1"
  "reachable sample_ctx sample_db world2" "reachable sample_ctx sample_db world3"
  "reachable sample_ctx sample_db world4" "reachable sample_ctx sample_db world5"
  "reachable sample_ctx sample_db world6"
proof -
  show 0: "reachable sample_ctx sample_db world0"
    by (rule reachable.started) (simp_all add: world0_def at_def)
  show 1: "reachable sample_ctx sample_db world1"
    by (rule reachable_success [OF 0 sample_fresh(1) run1])
  show 2: "reachable sample_ctx sample_db world2"
    by (rule reachable_success [OF 1 sample_fresh(2) run2])
  show 3: "reachable sample_ctx sample_db world3"
    by (rule reachable_success [OF 2 sample_fresh(3) run3])
  show 4: "reachable sample_ctx sample_db world4"
    by (rule reachable_success [OF 3 sample_fresh(4) run4])
  show 5: "reachable sample_ctx sample_db world5"
    by (rule reachable_success [OF 4 sample_fresh(5) run5])
  show "reachable sample_ctx sample_db world6"
    by (rule reachable_success [OF 5 sample_fresh(6) run6])
qed

lemmas sample_settled = sample_reachable [THEN reachable_settled, OF sample_seed]

lemma later_success:
  assumes "later c v w" and "fresh_draw c w" and "succeeds c req w w'"
  shows "later c v w'"
  using later_served [OF assms(1,2), of req] unfolding succeeds_serve [OF assms(3)] .

lemma sample_later: "later sample_ctx world3 world6"
  by (rule later_success [OF later_success [OF later_success [OF now sample_fresh(4) run4]
        sample_fresh(5) run5] sample_fresh(6) run6])

lemmas all_sample_defs = sample_defs code_defs verify_defs role_defs kyc_defs suspend_defs

lemma sample_ids_fresh:
  "ids_fresh sample_ctx world1" "ids_fresh sample_ctx world2" "ids_fresh sample_ctx world3"
  "ids_fresh sample_ctx world4" "ids_fresh sample_ctx world5" "ids_fresh sample_ctx world6"
  by (simp_all add: ids_fresh_def new_id_defs all_sample_defs)

text \<open>Kofi as the store gives him back.\<close>

definition kofi_user :: "user_role \<Rightarrow> user_status \<Rightarrow> user_role option \<Rightarrow> instant \<Rightarrow> user" where
  "kofi_user r s q t =
     \<lparr>usr_id = 100, usr_phone = kofi_phone, usr_role = r, usr_status = s, usr_full_name = None,
      usr_password_hash = None, usr_requested_role = q, usr_created_at = Some 0, usr_updated_at = Some t\<rparr>"

lemma kofi_user_fields [simp]:
  "usr_id (kofi_user r s q t) = 100" "usr_phone (kofi_user r s q t) = kofi_phone"
  "usr_role (kofi_user r s q t) = r" "usr_status (kofi_user r s q t) = s"
  "usr_requested_role (kofi_user r s q t) = q"
  by (simp_all add: kofi_user_def)

lemmas sample_account_defs =
  account_def account_by_phone_def user_to_domain_def UserRole_Some_iff UserStatus_Some_iff kofi_user_def

lemma kofi_accounts:
  "account (w_committed world1) 100 = Some (kofi_user USER PENDING_VERIFICATION None 1)"
  "account (w_committed world2) 100 = Some (kofi_user USER PENDING_VERIFICATION None 1)"
  "account (w_committed world3) 100 = Some (kofi_user USER ACTIVE None 5)"
  "account (w_committed world4) 100 = Some (kofi_user USER ACTIVE (Some DRIVER) 10)"
  "account (w_committed world5) 100 = Some (kofi_user DRIVER ACTIVE None 14)"
  "account (w_committed world6) 100 = Some (kofi_user DRIVER SUSPENDED None 18)"
  by (simp_all add: sample_account_defs all_sample_defs)

lemma kofi_by_phone:
  "account_by_phone (w_committed world2) kofi_phone = Some (kofi_user USER PENDING_VERIFICATION None 1)"
  by (simp add: sample_account_defs all_sample_defs)

lemma kofi_phone_valid: "validate_phone kofi_phone = Inr kofi_phone"
  by (simp add: validate_phone_iff e164_body_def is_py_digit_def digit_zeros_def is_py_space_def
      kofi_phone_def ascii_def)

lemma kofi_code_accepted:
  "code_accepted sample_ctx kofi_phone (ascii ''123456'') (clock sample_ctx (w_clock_ix world2))
     (kofi_code None) (w_committed world2)"
  by (simp add: code_accepted_def all_sample_defs ascii_def)

lemma kofi_code_refused:
  "code_refused sample_ctx kofi_phone (ascii ''000000'') (clock sample_ctx (w_clock_ix world2))
     (kofi_code None) (w_committed world2)"
  by (simp add: code_refused_def all_sample_defs ascii_def)

end
