(* ===== verification/Command_Outcomes.thy ===== *)
theory Command_Outcomes
  imports Sample_Run
begin

text \<open>
  What each command answers and commits, branch by branch: the functional contracts of
  \<open>application/commands/\<close>. Every statement is about one run of the command in a settled session;
  the sample run applies it.
\<close>

section \<open>More sample states\<close>

text \<open>Kofi asks for a second code once verified; the same when he was suspended meanwhile.\<close>

definition second_code :: otp_code where
  "second_code = (kofi_code None)\<lparr>otp_id := 150, otp_code_hash := ascii ''mac:123457'', otp_created_at := 7\<rparr>"

definition world_again :: "mem_redis world" where
  "world_again = at (add_otp second_code db3) redis3 [9, 60, 1, 2] []"

definition world_barred :: "mem_redis world" where
  "world_barred = at (add_otp second_code db6) redis3 [22, 60, 1, 2] []"

definition world_empty :: "mem_redis world" where
  "world_empty = at empty_database fresh_redis [0, 0, 0, 0] []"

lemma settled_at [simp]: "settled (at db r ix es) = tables_ok db"
  by (simp add: settled_def at_def)

lemma second_code_ok: "settled world_again" "settled world_barred"
proof -
  have "tables_ok db3" and "tables_ok db6"
    using sample_settled(4,7) by (simp_all add: world3_def world6_def)
  moreover have "new_otp_id 150 db3" and "new_otp_id 150 db6"
    by (simp_all add: new_otp_id_def all_sample_defs)
  ultimately show "settled world_again" and "settled world_barred"
    by (simp_all add: world_again_def world_barred_def second_code_def tables_ok_add_otp)
qed

lemmas extra_defs = world_again_def world_barred_def second_code_def world_empty_def all_sample_defs

lemma again_facts:
  "settled world_again" "ids_fresh sample_ctx world_again"
  "code_accepted sample_ctx kofi_phone (ascii ''123457'') (clock sample_ctx (w_clock_ix world_again))
     second_code (w_committed world_again)"
  "account_by_phone (w_committed world_again) kofi_phone = Some (kofi_user USER ACTIVE None 5)"
  by (rule second_code_ok, simp add: ids_fresh_def new_id_defs extra_defs,
      simp add: code_accepted_def extra_defs ascii_def, simp add: sample_account_defs extra_defs)

lemma barred_facts:
  "settled world_barred"
  "code_accepted sample_ctx kofi_phone (ascii ''123457'') (clock sample_ctx (w_clock_ix world_barred))
     second_code (w_committed world_barred)"
  "account_by_phone (w_committed world_barred) kofi_phone = Some (kofi_user DRIVER SUSPENDED None 18)"
  by (rule second_code_ok, simp add: code_accepted_def extra_defs ascii_def,
      simp add: sample_account_defs extra_defs)

lemma empty_facts:
  "settled world_empty" "ids_fresh sample_ctx world_empty" "w_redis world1 = w_redis world_empty"
  by (simp add: world_empty_def tables_ok_def empty_database_def)
    (simp_all add: ids_fresh_def new_id_defs extra_defs)

lemma kofi_token:
  "token_by_hash (w_committed world3) (hash_refresh_token sample_ctx (ascii ''opaque_A'')) =
     Inr (Some (kofi_session None))"
  "token_by_hash (w_committed world6) (hash_refresh_token sample_ctx (ascii ''opaque_A'')) =
     Inr (Some (kofi_session (Some 19)))"
  by (simp_all add: token_by_hash_def all_sample_defs ascii_def)

lemma kofi_token_usable:
  "is_usable (kofi_session None) (clock sample_ctx (w_clock_ix world3))"
  "live_sessions (w_committed world3) 100 = {103}"
  by (simp_all add: is_usable_def live_sessions_def live_tokens_of_def all_sample_defs)

lemma open_gates:
  "otp_gate sample_ctx None (w_redis world1) = (True, fresh_redis)"
  "cooldown_left sample_ctx kofi_phone (otp_rate_limit_seconds (cfg sample_ctx)) fresh_redis = (0, fresh_redis)"
  "account_by_phone (w_committed world1) kofi_phone = Some (kofi_user USER PENDING_VERIFICATION None 1)"
  "six_digits (random_codes sample_ctx (w_code_ix world1) mod 1000000) = [49, 50, 51, 52, 53, 54]"
  by (simp_all add: sample_account_defs all_sample_defs)

lemma world0_facts:
  "account_by_phone (w_committed world0) kofi_phone = None" "uuid4s sample_ctx (w_uuid_ix world0) = 100"
  by (simp_all add: sample_account_defs all_sample_defs ascii_def)

lemma sample_projections [simp]:
  "rt_id (kofi_session t) = 103" "rt_user_id (kofi_session t) = 100" "rt_revoked_at (kofi_session t) = t"
  "uuid4s sample_ctx (w_uuid_ix world3) = 104" "otp_id (kofi_code t) = 101"
  "otp_attempts (kofi_code t) = 0" "otp_max_attempts (cfg sample_ctx) = 5"
  by (simp_all add: all_sample_defs)

section \<open>Verifying a code\<close>

text \<open>
  The right code of an unverified account, in time: the caller gets both tokens and the
  profile; the account becomes active, or pending KYC when a role request waits; the code is
  spent; one session is opened, whose stored hash is that of the returned token; the cache entry
  is dropped after the commit and user.registered published after that.
\<close>

theorem verify_first_outcome:
  assumes "settled w" and "ids_fresh c w" and "validate_phone phone = Inr p"
    and "now = clock c (w_clock_ix w)" and "code_accepted c p code now x (w_committed w)"
    and "account_by_phone (w_committed w) p = Some u" and "usr_status u = PENDING_VERIFICATION"
    and "k = uuid4s c (Suc (w_uuid_ix w))" and "raw = ascii ''opaque_'' @ urlsafe_tokens c (w_token_ix w)"
    and "u' = u\<lparr>usr_status := first_status u\<rparr>"
  shows "case verify_otp c phone code device w of (r, w') \<Rightarrow>
    (\<exists>access t.
       r = Inr (JObj [(''access_token'', JText access), (''refresh_token'', JText raw),
                      (''user'', profile_payload u')]) \<and>
       account (w_committed w') = (account (w_committed w))(usr_id u \<mapsto> u'\<lparr>usr_updated_at := Some t\<rparr>)) \<and>
    code_spent (otp_id x) (w_committed w') \<and>
    db_refresh_tokens (w_committed w') =
      db_refresh_tokens (w_committed w) @ [session_token c k (usr_id u) raw device now] \<and>
    (\<exists>t. w_effects w' = w_effects w @
       [Committed, Invalidated (usr_id u), Published (UserRegistered (envelope_of u (role_value (usr_role u)) t))])"
  using accepted_facts [OF assms(1,5,6)] assms(2,3,4,7,8,9,10)
  by (simp add: outcome_simps verify_otp_defs wp_activate ids_freshD) blast

lemma verify_first_outcome_witness:
  "case verify_otp sample_ctx kofi_phone (ascii ''123456'') None world2 of (r, w') \<Rightarrow>
     code_spent 101 (w_committed w') \<and> (\<exists>j. r = Inr j)"
  using verify_first_outcome [OF sample_settled(3) sample_ids_fresh(2) kofi_phone_valid refl
      kofi_code_accepted kofi_by_phone _ refl refl refl, of None]
  by (auto split: prod.splits)

text \<open>
  The right code of an account that was verified before: a session is opened and the code
  spent, the account is left as it is, and nothing is published.
\<close>

theorem verify_login_outcome:
  assumes "settled w" and "ids_fresh c w" and "validate_phone phone = Inr p"
    and "now = clock c (w_clock_ix w)" and "code_accepted c p code now x (w_committed w)"
    and "account_by_phone (w_committed w) p = Some u" and "usr_status u \<in> {ACTIVE, PENDING_KYC}"
    and "k = uuid4s c (w_uuid_ix w)" and "raw = ascii ''opaque_'' @ urlsafe_tokens c (w_token_ix w)"
  shows "case verify_otp c phone code device w of (r, w') \<Rightarrow>
    (\<exists>access.
       r = Inr (JObj [(''access_token'', JText access), (''refresh_token'', JText raw),
                      (''user'', profile_payload u)])) \<and>
    account (w_committed w') = account (w_committed w) \<and>
    code_spent (otp_id x) (w_committed w') \<and>
    db_refresh_tokens (w_committed w') =
      db_refresh_tokens (w_committed w) @ [session_token c k (usr_id u) raw device now] \<and>
    w_effects w' = w_effects w @ [Committed, Invalidated (usr_id u)]"
  using accepted_facts [OF assms(1,5,6)] assms(2,3,4,7,8,9)
  by (auto simp add: outcome_simps verify_otp_defs wp_activate ids_freshD)

lemma verify_login_outcome_witness:
  "case verify_otp sample_ctx kofi_phone (ascii ''123457'') None world_again of (r, w') \<Rightarrow>
     w_effects w' = w_effects world_again @ [Committed, Invalidated 100]"
  using verify_login_outcome [OF again_facts(1,2) kofi_phone_valid refl again_facts(3,4) _ refl refl, of None]
  by (auto split: prod.splits)

text \<open>
  A wrong code: below the ceiling the attempt is counted and the answer tells how many are
  left; at the ceiling the code is spent and the answer is OTP_TOO_MANY_ATTEMPTS. Either way the
  count is committed although the request fails, and no account or session changes.
\<close>

theorem verify_wrong_code_outcome:
  assumes "settled w" and "validate_phone phone = Inr p"
    and "code_refused c p code (clock c (w_clock_ix w)) x (w_committed w)"
    and "n = otp_attempts x + 1"
  shows "case verify_otp c phone code device w of (r, w') \<Rightarrow>
    if n < otp_max_attempts (cfg c) then
      r = Inl (otp_invalid (JObj [(''attempts_remaining'', JInt (otp_max_attempts (cfg c) - n))])) \<and>
      w_committed w' = count_attempt (otp_id x) (w_committed w)
    else
      r = Inl (api 429 ''OTP_TOO_MANY_ATTEMPTS'' (JObj [(''attempts'', JInt n)])) \<and>
      code_spent (otp_id x) (w_committed w') \<and>
      account (w_committed w') = account (w_committed w) \<and>
      live_sessions (w_committed w') = live_sessions (w_committed w)"
proof -
  have same: "w_committed w = w_db w" and ok: "tables_ok (w_db w)" using assms(1) by (simp_all add: settled_def)
  have active: "latest_active p (w_db w) = Some x" using assms(3) same by (simp add: code_refused_def)
  show ?thesis
    using assms(2-) same latest_active_found [OF ok active] latest_active_SomeD(3) [OF active]
    by (auto simp: outcome_wp wp_rules verify_otp_defs reject_code_def code_refused_def Let_def
       code_spent_def find_otp_consume_otp find_otp_count_attempt)
qed

lemma verify_wrong_code_outcome_witness:
  "case verify_otp sample_ctx kofi_phone (ascii ''000000'') None world2 of (r, w') \<Rightarrow>
     w_committed w' = count_attempt 101 (w_committed world2)"
  using verify_wrong_code_outcome [OF sample_settled(3) kofi_phone_valid kofi_code_refused refl, of None]
  by (simp split: prod.splits)

text \<open>
  The right code of a suspended account answers 403 and commits nothing: the code is not
  spent, since the session is rolled back.
\<close>

theorem verify_suspended_outcome:
  assumes "settled w" and "validate_phone phone = Inr p"
    and "code_accepted c p code (clock c (w_clock_ix w)) x (w_committed w)"
    and "account_by_phone (w_committed w) p = Some u" and "usr_status u = SUSPENDED"
  shows "case verify_otp c phone code device w of (r, w') \<Rightarrow>
    r = Inl user_suspended \<and> w_committed w' = w_committed w \<and> w_effects w' = w_effects w"
  using accepted_facts [OF assms(1,3,4)] assms(2,5)
  by (simp add: outcome_simps verify_otp_defs ids_freshD)

lemma verify_suspended_outcome_witness:
  "case verify_otp sample_ctx kofi_phone (ascii ''123457'') None world_barred of (r, w') \<Rightarrow>
     r = Inl user_suspended \<and> w_committed w' = w_committed world_barred"
  using verify_suspended_outcome [OF barred_facts(1) kofi_phone_valid barred_facts(2,3), of None]
  by (auto split: prod.splits)

section \<open>Sessions\<close>

text \<open>
  Showing a usable refresh token of an account that may hold a session rotates it: the
  shown token is revoked for good, one new session takes its place, stored under the hash of the
  returned token, with the device of the request or of the old token.
\<close>

theorem refresh_outcome:
  assumes "settled w" and "ids_fresh c w" and "now = clock c (w_clock_ix w)"
    and "token_by_hash (w_committed w) (hash_refresh_token c shown) = Inr (Some x)"
    and "is_usable x now" and "account (w_committed w) (rt_user_id x) = Some u"
    and "usr_status u \<in> {ACTIVE, PENDING_KYC}"
    and "k = uuid4s c (w_uuid_ix w)" and "raw = ascii ''opaque_'' @ urlsafe_tokens c (w_token_ix w)"
  shows "case refresh_access_token c shown device w of (r, w') \<Rightarrow>
    (\<exists>access. r = Inr (JObj [(''access_token'', JText access), (''refresh_token'', JText raw)])) \<and>
    live_sessions (w_committed w') (usr_id u) =
      insert k (live_sessions (w_committed w) (usr_id u) - {rt_id x}) \<and>
    token_spent (rt_id x) (w_committed w') \<and>
    session_token c k (usr_id u) raw (py_or device (rt_device_info x)) now
      \<in> set (db_refresh_tokens (w_committed w')) \<and>
    account (w_committed w') = account (w_committed w)"
proof -
  have x: "x \<in> set (db_refresh_tokens (w_db w))"
    using assms(1,4) token_by_hash_SomeD by (fastforce simp: settled_def)
  have "token_spent (rt_id x) (revoke_where (\<lambda>r. rt_id r = rt_id x) t (w_db w))" for t
    using x assms(5) by (intro revoked_token_spent) (simp_all add: is_usable_def)
  then show ?thesis
    using assms
    by (auto simp: outcome_simps refresh_defs is_usable_def ids_freshD account_self sessions.live_add sessions.live_revoke
      SESSION_ALLOWED_STATUSES_def token_spent_kept)
qed

lemma refresh_outcome_witness:
  "case refresh_access_token sample_ctx (ascii ''opaque_A'') None world3 of (r, w') \<Rightarrow>
     live_sessions (w_committed w') 100 = {104} \<and> token_spent 103 (w_committed w')"
  using refresh_outcome [OF sample_settled(4) sample_ids_fresh(3) refl kofi_token(1)
      kofi_token_usable(1) _ _ refl refl, of "kofi_user USER ACTIVE None 5" None]
  by (auto simp: kofi_accounts kofi_token_usable split: prod.splits)

text \<open>
  C16. Showing a refresh token that was already revoked answers REFRESH_TOKEN_REVOKED and
  commits the end of every session of its account, of no other.
\<close>

theorem refresh_reuse_outcome:
  assumes "settled w" 
    and "token_by_hash (w_committed w) (hash_refresh_token c shown) = Inr (Some x)"
    and "rt_revoked_at x \<noteq> None"
  shows "case refresh_access_token c shown device w of (r, w') \<Rightarrow>
    r = Inl refresh_token_revoked \<and>
    live_sessions (w_committed w') = (live_sessions (w_committed w))(rt_user_id x := {})"
  using assms by (auto simp: outcome_simps refresh_defs sessions.live_revoke_all)

lemma refresh_reuse_outcome_witness:
  "case refresh_access_token sample_ctx (ascii ''opaque_A'') None world6 of (r, w') \<Rightarrow>
     r = Inl refresh_token_revoked \<and> live_sessions (w_committed w') 100 = {}"
  using refresh_reuse_outcome [OF sample_settled(7) kofi_token(2), of None]
  by (auto split: prod.splits)

section \<open>Requesting a code\<close>

text \<open>
  C17. The answer to a code request, and everything it leaves in Redis, is the same whatever the
  database holds: neither shows whether the number has an account.
\<close>

theorem request_otp_hides_accounts:
  assumes "settled w" and "settled v" and "ids_fresh c w" and "ids_fresh c v"
    and "w_redis w = w_redis v"
  shows "fst (request_otp c phone ip w) = fst (request_otp c phone ip v) \<and>
    w_redis (snd (request_otp c phone ip w)) = w_redis (snd (request_otp c phone ip v))"
proof (cases "validate_phone phone")
  case (Inl e)
  then show ?thesis
    using assms(5) request_otp_run [OF assms(1,3), where phone = phone and ip = ip]
      request_otp_run [OF assms(2,4), where phone = phone and ip = ip]
    by (simp split: prod.splits)
next
  case (Inr p)
  obtain allowed r1 where gate: "otp_gate c ip (w_redis v) = (allowed, r1)" by fastforce
  obtain left r2 where cooldown: "cooldown_left c p (otp_rate_limit_seconds (cfg c)) r1 = (left, r2)"
    by fastforce
  show ?thesis
    using assms(5) request_otp_run [OF assms(1,3), where phone = phone and ip = ip]
      request_otp_run [OF assms(2,4), where phone = phone and ip = ip]
    by (cases "request_otp c phone ip w"; cases "request_otp c phone ip v")
      (simp add: Inr gate cooldown split: if_splits)
qed

lemma request_otp_hides_accounts_witness:
  "fst (request_otp sample_ctx kofi_phone None world1) = fst (request_otp sample_ctx kofi_phone None world_empty)"
  using request_otp_hides_accounts [OF sample_settled(2) empty_facts(1) sample_ids_fresh(1) empty_facts(2,3)]
  by blast

text \<open>
  A code request: an unreadable number is refused before any counter moves, then the IP
  ceiling, then the cooldown of the number; past both, a code for a known number is stored and
  committed before it is sent, and the cooldown starts for known and unknown numbers alike.
\<close>

theorem request_otp_outcome:
  assumes "settled w" and "ids_fresh c w"
  shows "case request_otp c phone ip w of (r, w') \<Rightarrow>
    (case validate_phone phone of
       Inl e \<Rightarrow> r = Inl e \<and> w' = w
     | Inr p \<Rightarrow>
         (case otp_gate c ip (w_redis w) of (allowed, r1) \<Rightarrow>
          case cooldown_left c p (otp_rate_limit_seconds (cfg c)) r1 of (left, r2) \<Rightarrow>
            if \<not> allowed then
              r = Inl (otp_rate_limited (otp_rate_limit_seconds (cfg c))) \<and> w' = w\<lparr>w_redis := r1\<rparr>
            else if 0 < left then r = Inl (otp_rate_limited left) \<and> w' = w\<lparr>w_redis := r2\<rparr>
            else
              r = Inr (JObj [(''expires_in_seconds'', JInt (otp_code_lifetime_seconds (cfg c))),
                             (''retry_after_seconds'', JInt (otp_rate_limit_seconds (cfg c)))]) \<and>
              w_redis w' = start_cooldown c p (otp_rate_limit_seconds (cfg c)) r2 \<and>
              (let code = six_digits (random_codes c (w_code_ix w) mod 1000000);
                   x = fresh_code c (uuid4s c (w_uuid_ix w)) p code (clock c (w_clock_ix w));
                   known = (account_by_phone (w_committed w) p \<noteq> None)
               in w_committed w' = (if known then add_otp x (w_committed w) else w_committed w) \<and>
                  w_effects w' = w_effects w @ (if known then [Committed, OtpSent p code] else []))))"
  using assms by (rule request_otp_run)

lemma request_otp_outcome_witness:
  "case request_otp sample_ctx kofi_phone None world1 of (r, w') \<Rightarrow>
     w_effects w' = w_effects world1 @ [Committed, OtpSent kofi_phone [49, 50, 51, 52, 53, 54]]"
  using request_otp_outcome [OF sample_settled(2) sample_ids_fresh(1), where phone = kofi_phone and ip = None]
  by (simp add: kofi_phone_valid open_gates Let_def split: prod.splits)

section \<open>Administration\<close>

text \<open>
  Changing a status, on every branch: unknown status and status not settable by hand answer
  422, an unknown account 404, an account already there 409, all without any change; otherwise
  the account and only it takes the status, and a suspension ends all its sessions and no other.
\<close>

theorem change_status_outcome:
  assumes "settled w" and "ids_fresh c w"
  shows "case change_status c i status reason by_whom w of (r, w') \<Rightarrow>
    (case UserStatus status of
       None \<Rightarrow> r = Inl (field_error ''INVALID_STATUS'' ''status'') \<and> w' = w
     | Some t \<Rightarrow>
         if t \<notin> {ACTIVE, SUSPENDED} then r = Inl (field_error ''STATUS_NOT_SETTABLE'' ''status'') \<and> w' = w
         else case account (w_committed w) i of
           None \<Rightarrow> r = Inl user_not_found \<and> w' = w
         | Some u \<Rightarrow>
             if usr_status u = t then r = Inl (invalid_transition (usr_status u) t) \<and> w' = w
             else
               r = Inr (profile_payload (u\<lparr>usr_status := t\<rparr>)) \<and>
               account (w_committed w') =
                 (account (w_committed w))(i \<mapsto> u\<lparr>usr_status := t, usr_updated_at := Some (clock c (Suc (w_clock_ix w)))\<rparr>) \<and>
               live_sessions (w_committed w') =
                 (if t = SUSPENDED then (live_sessions (w_committed w))(i := {}) else live_sessions (w_committed w)))"
  using assms
  apply (cases "w_db w" i rule: account_cases)
  apply (auto simp: outcome_simps change_status_def set_status_def ids_freshD settable_transition ADMIN_SETTABLE_STATUSES_def sessions.live_revoke_all fun_eq_iff split: option.splits)
  done

lemma change_status_outcome_witness:
  "case change_status sample_ctx 100 (ascii ''suspended'') None None world5 of (r, w') \<Rightarrow>
     live_sessions (w_committed w') 100 = {}"
  using change_status_outcome [OF sample_settled(6) sample_ids_fresh(5), of 100 "ascii ''suspended''" None None]
  by (simp add: kofi_accounts split: prod.splits)

text \<open>
  C20. Deciding on a role request, on every branch: 404 for an unknown account and 409 when
  nothing is pending, without any change; otherwise the request is settled, the role is granted
  exactly when approved, and an account waiting in pending_kyc becomes active whatever the
  decision.
\<close>

theorem decide_kyc_outcome:
  assumes "settled w" and "ids_fresh c w"
  shows "case decide_kyc c i ok reason by_whom w of (r, w') \<Rightarrow>
    (case account (w_committed w) i of
       None \<Rightarrow> r = Inl user_not_found \<and> w' = w
     | Some u \<Rightarrow>
         (case usr_requested_role u of
            None \<Rightarrow> r = Inl (api 409 ''NO_KYC_PENDING'' JNull) \<and> w' = w
          | Some q \<Rightarrow>
              (let u' = u\<lparr>usr_requested_role := None, usr_role := if ok then q else usr_role u,
                         usr_status := if usr_status u = PENDING_KYC then ACTIVE else usr_status u\<rparr>
               in r = Inr (profile_payload u') \<and>
                  account (w_committed w') = 
                 (account (w_committed w))(i \<mapsto> u'\<lparr>usr_updated_at := Some (clock c (Suc (w_clock_ix w)))\<rparr>) \<and>
               live_sessions (w_committed w') = live_sessions (w_committed w))))"
  using assms
  apply (cases "w_db w" i rule: account_cases)
  apply (auto simp: outcome_simps decide_kyc_defs ids_freshD  fun_eq_iff split: option.splits)
         apply (auto simp: decided_user_def)
  done

lemma decide_kyc_outcome_witness:
  "case decide_kyc sample_ctx 100 True None None world4 of (r, w') \<Rightarrow>
     map_option usr_role (account (w_committed w') 100) = Some DRIVER"
  using decide_kyc_outcome [OF sample_settled(5) sample_ids_fresh(4), where i = 100 and ok = True and reason = None and by_whom = None]
  by (simp add: kofi_accounts Let_def split: prod.splits)

text \<open>
  C21. Changing a role, on every branch: an unknown role answers 422 and an unknown account 404;
  a role already held, or a request already pending for it, changes nothing; a role that needs
  KYC is only recorded as requested, the role held being kept; any other role is granted at once
  and drops the pending request.
\<close>

theorem change_role_outcome:
  assumes "settled w" and "ids_fresh c w"
  shows "case change_role c i role reason by_whom w of (r, w') \<Rightarrow>
    (case UserRole role of
       None \<Rightarrow> r = Inl (field_error ''INVALID_ROLE'' ''role'') \<and> w' = w
     | Some q \<Rightarrow>
         (case account (w_committed w) i of
            None \<Rightarrow> r = Inl user_not_found \<and> w' = w
          | Some u \<Rightarrow>
              (let t = Some (clock c (Suc (w_clock_ix w)));
                   unchanged = (w_committed w' = w_committed w \<and> w_effects w' = w_effects w)
               in if usr_role u = q then r = Inr (profile_payload u) \<and> unchanged
                  else if q \<notin> {DRIVER, MERCHANT} then
                    r = Inr (profile_payload (u\<lparr>usr_role := q, usr_requested_role := None\<rparr>)) \<and>
                    account (w_committed w') = (account (w_committed w))
                      (i \<mapsto> u\<lparr>usr_role := q, usr_requested_role := None, usr_updated_at := t\<rparr>)
                  else if usr_requested_role u = Some q then r = Inr (profile_payload u) \<and> unchanged
                  else
                    r = Inr (profile_payload (u\<lparr>usr_requested_role := Some q\<rparr>)) \<and>
                    account (w_committed w') = (account (w_committed w))
                      (i \<mapsto> u\<lparr>usr_requested_role := Some q, usr_updated_at := t\<rparr>))))"
  using assms
  apply (cases "w_db w" i rule: account_cases)
  apply (auto simp: outcome_simps change_role_def request_role_def set_role_def ids_freshD needs_kyc_for_def KYC_REQUIRED_ROLES_def fun_eq_iff split: option.splits)
  done

lemma change_role_outcome_witness:
  "case change_role sample_ctx 100 (ascii ''driver'') None None world3 of (r, w') \<Rightarrow>
     map_option usr_role (account (w_committed w') 100) = Some USER \<and>
     map_option usr_requested_role (account (w_committed w') 100) = Some (Some DRIVER)"
  using change_role_outcome [OF sample_settled(4) sample_ids_fresh(3), of 100 "ascii ''driver''" None None]
  by (simp add: kofi_accounts Let_def split: prod.splits)

text \<open>
  Registering: an unreadable number answers 422 and a known one 409, without any change;
  otherwise an unverified account with role user is committed under the drawn id and no other
  account changes.
\<close>

theorem register_outcome:
  assumes "settled w" and "fresh_draw c w"
  shows "case register_user c phone name w of (r, w') \<Rightarrow>
    (case validate_phone phone of
       Inl e \<Rightarrow> r = Inl e \<and> w' = w
     | Inr p \<Rightarrow>
         if account_by_phone (w_committed w) p \<noteq> None
         then r = Inl (api 409 ''PHONE_ALREADY_REGISTERED'' JNull) \<and> w' = w
         else
           (let i = uuid4s c (w_uuid_ix w); now = clock c (w_clock_ix w)
            in r = Inr (JObj [(''user_id'', JText (uuid_str i)), (''phone'', JText p),
                              (''status'', jlit ''pending_verification'')]) \<and>
               account (w_committed w') = (account (w_committed w))
                 (i \<mapsto> (registration i p name now)\<lparr>usr_updated_at := Some (clock c (Suc (w_clock_ix w)))\<rparr>) \<and>
               w_effects w' = w_effects w @ [Committed]))"
  using assms
  apply (auto simp: outcome_simps register_defs fresh_draw_def split: option.splits sum.splits dest: account_by_phone_None_iff [THEN iffD1, rotated])
  done

lemma register_outcome_witness:
  "case register_user sample_ctx kofi_phone None world0 of (r, w') \<Rightarrow>
     map_option usr_status (account (w_committed w') 100) = Some PENDING_VERIFICATION"
  using register_outcome [OF sample_settled(1) sample_fresh(1), where phone = kofi_phone and name = None]
  by (simp add: kofi_phone_valid world0_facts Let_def registration_def split: prod.splits)

end
