(* ===== verification/Failures.thy ===== *)
theory Failures
  imports Sample_Run
begin

text \<open>
  How requests fail. A failing request leaves no trace, except the three that commit before they
  raise because the count of attempts or the revocation is the point; and the routes of
  \<open>/auth\<close> fail with an \<open>ApiError\<close>, never with an uncaught exception.
\<close>

section \<open>Failing without a trace\<close>

text \<open>The errors raised after a commit: a counted wrong code, a burnt code, a detected reuse.\<close>

definition raised_after_commit :: "failure \<Rightarrow> bool" where
  "raised_after_commit e =
     (e = refresh_token_revoked \<or>
      (\<exists>n. e = otp_invalid (JObj [(''attempts_remaining'', JInt n)])) \<or>
      (\<exists>n. e = api 429 ''OTP_TOO_MANY_ATTEMPTS'' (JObj [(''attempts'', JInt n)])))"

text \<open>A cache entry that cannot be read may have been purged on the way.\<close>

definition no_trace :: "'r world \<Rightarrow> 'r world \<Rightarrow> bool" where
  "no_trace w w' =
     (w_committed w' = w_committed w \<and>
      (w_effects w' = w_effects w \<or> (\<exists>i. w_effects w' = w_effects w @ [Invalidated i])))"

definition fails_clean :: "('r world, 'a) prog \<Rightarrow> 'r world \<Rightarrow> bool" where
  "fails_clean m w = wp m (\<lambda>_ _. True) (\<lambda>e w'. raised_after_commit e \<or> no_trace w w') w"

lemma no_trace_refl [simp]: "no_trace w w"
  by (simp add: no_trace_def)

lemma no_trace_same:
  "w_committed w' = w_committed w \<Longrightarrow> w_effects w' = w_effects w \<Longrightarrow> no_trace w w'"
  by (simp add: no_trace_def)

lemmas fails_clean_simps = fails_clean_def wp_rules Let_def no_trace_same raised_after_commit_def

text \<open>Work in the session before the commit is seen by nobody, whether it succeeds or not.\<close>

definition unseen :: "('r world, 'a) prog \<Rightarrow> bool" where
  "unseen m = (\<forall>w. w_committed (snd (m w)) = w_committed w \<and> w_effects (snd (m w)) = w_effects w)"

lemma unseen_wp:
  "unseen m \<longleftrightarrow> (\<forall>w. wp m (\<lambda>_ w'. w_committed w' = w_committed w \<and> w_effects w' = w_effects w)
     (\<lambda>_ w'. w_committed w' = w_committed w \<and> w_effects w' = w_effects w) w)"
  by (simp add: unseen_def wp_state)

lemma quietly_unseen: "quietly m \<Longrightarrow> unseen m"
  by (simp add: unseen_def quietly_def quiet_def)

lemma clean_after:
  assumes "unseen m" and "\<And>a w'. fails_clean (f a) w'"
  shows "fails_clean (andthen m f) w"
proof -
  have unseen: "wp m (\<lambda>_ w'. w_committed w' = w_committed w \<and> w_effects w' = w_effects w)
      (\<lambda>_ w'. w_committed w' = w_committed w \<and> w_effects w' = w_effects w) w"
    using assms(1) by (simp add: unseen_wp)
  have "wp (f a) (\<lambda>_ _. True) (\<lambda>e w'. raised_after_commit e \<or> no_trace w w') w'"
    if "w_committed w' = w_committed w \<and> w_effects w' = w_effects w" for a w'
    using assms(2) [of a w'] that by (simp add: fails_clean_def no_trace_def)
  then show ?thesis
    unfolding fails_clean_def wp_andthen
    by (rule wp_mono [OF unseen]) (auto simp: no_trace_def)
qed

lemma clean_raise [simp]: "fails_clean (raise e) w"
  by (simp add: fails_clean_simps)

lemma unseen_steps:
  "unseen (from_result r)" "unseen (now_utc c)" "unseen (return a)"
  "unseen (otp_find_latest_active p)" "unseen (otp_mark_consumed c i)" "unseen (user_find_by_phone p)"
  "unseen (activate c t u)" "unseen (open_session c t i device)"
  "unseen (verify_lookup c phone)"
  by (auto simp: unseen_wp wp_rules Let_def activate_def verify_lookup_def split: sum.splits option.splits)

lemma register_user_clean: "fails_clean (register_user c phone name) w"
  by (auto simp: fails_clean_simps register_defs split: sum.splits)

lemma request_otp_clean: "fails_clean (request_otp c phone ip) w"
  by (auto simp: fails_clean_simps request_otp_def split: sum.splits)

lemma reject_code_clean: "fails_clean (reject_code c x) w"
  by (auto simp: fails_clean_simps reject_code_def split: option.splits)

lemma clean_consume:
  "(\<And>w'. fails_clean n w') \<Longrightarrow> fails_clean (before (otp_mark_consumed c i) n) w"
  unfolding before_def by (intro clean_after unseen_steps)

text \<open>After the commit nothing raises.\<close>

lemma clean_tail:
  "fails_clean (before commit (before (cache_invalidate_user c i)
     (before (whenever b (andthen (event_envelope_now c u r) (\<lambda>env. publish c (f env))))
       (andthen (issue_access_token c i' r' s') (\<lambda>t. return (g t)))))) w"
  by (simp add: fails_clean_simps)

lemma verify_otp_clean: "fails_clean (verify_otp c phone code device) w"
  unfolding verify_otp_def verify_code_def Let_def
  by (auto intro!: clean_after clean_consume clean_tail unseen_steps reject_code_clean
      split: option.splits)

lemma refresh_clean: "fails_clean (refresh_access_token c tok dev) w"
  by (auto simp: fails_clean_simps refresh_defs split: sum.splits option.splits)

lemma logout_clean: "fails_clean (logout c tok everywhere) w"
  by (auto simp: fails_clean_simps logout_def split: sum.splits option.splits)

lemma update_profile_clean: "fails_clean (update_profile c i name) w"
  by (auto simp: fails_clean_simps update_profile_def split: sum.splits option.splits)

lemma change_role_clean: "fails_clean (change_role c i role reason by_whom) w"
  by (auto simp: fails_clean_simps change_role_def request_role_def set_role_def split: sum.splits option.splits)

lemma decide_kyc_clean: "fails_clean (decide_kyc c i ok reason by_whom) w"
  by (auto simp: fails_clean_simps decide_kyc_defs split: sum.splits option.splits)

lemma change_status_clean: "fails_clean (change_status c i st reason by_whom) w"
  by (auto simp: fails_clean_simps change_status_def set_status_def split: sum.splits option.splits)

lemma get_user_by_id_clean: "fails_clean (get_user_by_id c i) w"
  by (auto simp: fails_clean_simps get_user_by_id_def cache_get_user_def no_trace_def
      split: sum.splits option.splits reply.splits)

lemma list_users_clean: "fails_clean (list_users f page n) w"
  by (auto simp: fails_clean_simps list_users_def read_list_users_def split: sum.splits option.splits)

lemma clean_return: "fails_clean m w \<Longrightarrow> fails_clean (andthen m (\<lambda>j. return (f j))) w"
  by (auto simp: fails_clean_def wp_def andthen_def return_def split: prod.splits sum.splits)

lemma clean_return': "fails_clean m w \<Longrightarrow> fails_clean (before m (return x)) w"
  unfolding before_def by (rule clean_return)

lemma clean_checked: "fails_clean m w \<Longrightarrow> fails_clean (checked ok m) w"
  by (simp add: fails_clean_simps checked_def)

lemmas commands_clean =
  register_user_clean request_otp_clean verify_otp_clean refresh_clean logout_clean
  update_profile_clean change_role_clean decide_kyc_clean change_status_clean
  get_user_by_id_clean list_users_clean

lemma handler_clean: "fails_clean (handler c req) w"
  by (cases req)
    (auto simp: get_current_user_profile_def intro!: clean_return clean_return' clean_checked
      intro: clean_after quietly_unseen commands_clean)

lemma kofi_registered:
  "select_user (\<lambda>r. ur_phone r = kofi_phone) (w_db world3) = Inr (Some (kofi_user USER ACTIVE None 5))"
  "world3\<lparr>w_db := w_committed world3\<rparr> = world3"
  by (simp_all add: select_user_def sample_account_defs all_sample_defs)



section \<open>Failing with an ApiError\<close>

definition refusal :: "failure \<Rightarrow> bool" where
  "refusal e = (\<exists>st cd d. e = api st cd d \<and> 400 \<le> st \<and> st < 500)"

definition never_crashes :: "('r world, 'a) prog \<Rightarrow> 'r world \<Rightarrow> bool" where
  "never_crashes m w = wp m (\<lambda>_ _. True) (\<lambda>e _. refusal e) w"

lemma refusal_api [simp]: "refusal (api st cd d) \<longleftrightarrow> 400 \<le> st \<and> st < 500"
  by (auto simp: refusal_def)

lemma named_refusals [simp]:
  "refusal invalid_phone" "refusal user_not_found" "refusal user_suspended" "refusal refresh_token_invalid"
  "refusal refresh_token_revoked" "refusal validation_error" "refusal (otp_invalid d)"
  "refusal (otp_rate_limited n)"
  by (simp_all add: invalid_phone_def user_not_found_def user_suspended_def refresh_token_invalid_def
      refresh_token_revoked_def validation_error_def otp_invalid_def otp_rate_limited_def)

lemma phone_refusal [simp]: "validate_phone p = Inl e \<Longrightarrow> refusal e"
  by (drule validate_phone_error) simp

lemmas crash_simps = never_crashes_def wp_rules table_rules settled_def Let_def

definition hashes_unique :: "'r world \<Rightarrow> bool" where
  "hashes_unique w = distinct (map rt_token_hash (db_refresh_tokens (w_db w)))"

lemma lookup_by_hash:
  assumes "hashes_unique w"
  obtains t where "token_by_hash (w_db w) h = Inr t"
proof -
  have "filter (\<lambda>r. rt_token_hash r = h) (db_refresh_tokens (w_db w)) =
      (case find (\<lambda>r. rt_token_hash r = h) (db_refresh_tokens (w_db w)) of None \<Rightarrow> [] | Some x \<Rightarrow> [x])"
    using assms by (intro filter_unique_key) (simp add: hashes_unique_def)
  then show thesis
    using that by (cases "find (\<lambda>r. rt_token_hash r = h) (db_refresh_tokens (w_db w))")
      (simp_all add: token_by_hash_def)
qed

lemma register_never_crashes:
  "settled w \<Longrightarrow> fresh_draw c w \<Longrightarrow> never_crashes (register_user c phone name) w"
  by (auto simp: crash_simps fresh_draw_def register_defs account_by_phone_None_iff split: sum.splits)

lemma request_otp_never_crashes:
  "settled w \<Longrightarrow> ids_fresh c w \<Longrightarrow> never_crashes (request_otp c phone ip) w"
  by (auto simp: crash_simps request_otp_def ids_freshD split: sum.splits)

lemma refresh_never_crashes:
  "settled w \<Longrightarrow> ids_fresh c w \<Longrightarrow> hashes_unique w \<Longrightarrow> never_crashes (refresh_access_token c tok dev) w"
  by (rule lookup_by_hash [of w "hash_refresh_token c tok"])
    (auto simp: crash_simps refresh_defs ids_freshD dest: account_self split: option.splits)

lemma logout_never_crashes:
  "hashes_unique w \<Longrightarrow> never_crashes (logout c tok everywhere) w"
  by (rule lookup_by_hash [of w "hash_refresh_token c tok"])
    (auto simp: crash_simps logout_def split: option.splits)

lemma verify_never_crashes:
  assumes "settled w" and "ids_fresh c w"
  shows "never_crashes (verify_otp c phone code device) w"
proof (cases "validate_phone phone")
  case (Inl e)
  then show ?thesis by (simp add: crash_simps verify_otp_defs)
next
  case (Inr p)
  have ok: "tables_ok (w_db w)" "\<And>i t. tables_ok (consume_otp i t (w_db w))"
    using assms(1) by (simp_all add: settled_def tables_ok_otp_statements)
  show ?thesis
  proof (cases "latest_active p (w_db w)")
    case None
    with Inr show ?thesis by (simp add: crash_simps verify_otp_defs)
  next
    case (Some x)
    note x = Some latest_active_found [OF ok(1) Some] latest_active_SomeD(3) [OF Some]
    show ?thesis
    proof (cases "account_by_phone (w_db w) p")
      case None
      with Inr x ok show ?thesis
        by (auto simp: crash_simps verify_otp_defs reject_code_def)
    next
      case (Some u)
      with Inr x ok assms(2) account_by_phone_SomeD(2) [OF Some ok(1), THEN account_self(3)] show ?thesis
        by (auto simp: crash_simps verify_otp_defs reject_code_def wp_activate ids_freshD)
    qed
  qed
qed

fun auth_route :: "request \<Rightarrow> bool" where
  "auth_route (PostRegister _ _) = True"
| "auth_route (PostOtpRequest _ _ _) = True"
| "auth_route (PostOtpVerify _ _ _) = True"
| "auth_route (PostRefresh _ _) = True"
| "auth_route (PostLogout _ _) = True"
| "auth_route _ = False"

lemma crash_return: "never_crashes m w \<Longrightarrow> never_crashes (andthen m (\<lambda>j. return (f j))) w"
  by (auto simp: never_crashes_def wp_def andthen_def return_def split: prod.splits sum.splits)

lemma crash_return': "never_crashes m w \<Longrightarrow> never_crashes (before m (return x)) w"
  unfolding before_def by (rule crash_return)

lemma crash_checked: "never_crashes m w \<Longrightarrow> never_crashes (checked ok m) w"
  by (simp add: crash_simps checked_def)

lemma auth_routes_polite:
  assumes "settled w" and "fresh_draw c w" and "ids_fresh c w" and "hashes_unique w" and "auth_route req"
  shows "never_crashes (handler c req) w"
  using assms
  by (cases req)
    (auto intro!: crash_return crash_return' crash_checked register_never_crashes request_otp_never_crashes
      verify_never_crashes refresh_never_crashes logout_never_crashes)



end
