(* ===== verification/Access_Control.thy ===== *)
theory Access_Control
  imports Sample_Run
begin

text \<open>
  Who may call what: the routes under \<open>/admin\<close> answer only to an account that is an active
  administrator in the database now, whatever its token says, and the routes for services to a
  configured key, a service token or such an administrator.
\<close>

section \<open>Bearers\<close>

text \<open>The token was accepted by the JWT library, at some instant, under a key the service publishes.\<close>

definition accepted_claims :: "'r ctx \<Rightarrow> ptext option \<Rightarrow> claims \<Rightarrow> bool" where
  "accepted_claims c bearer cl =
     (\<exists>token e now. bearer = Some token \<and> e \<in> set (public_keys (ring c)) \<and>
        jwt_header_kid (jwt c) token = Some (Some (kid e)) \<and>
        jwt_decode (jwt c) token (pem e) (jwt_issuer (cfg c)) now = Inr cl)"

definition speaks_for :: "'r ctx \<Rightarrow> ptext option \<Rightarrow> uuid \<Rightarrow> bool" where
  "speaks_for c bearer i =
     (\<exists>cl t. accepted_claims c bearer cl \<and> \<not> is_service cl \<and> map_of cl ''sub'' = Some (JText t) \<and>
        UUID t = Some i)"

definition acting_admin :: "'r ctx \<Rightarrow> ptext option \<Rightarrow> database \<Rightarrow> user \<Rightarrow> bool" where
  "acting_admin c bearer db u =
     (speaks_for c bearer (usr_id u) \<and> account db (usr_id u) = Some u \<and> usr_role u = ADMIN \<and>
      usr_status u = ACTIVE)"

definition trusted_service :: "'r ctx \<Rightarrow> ptext option \<Rightarrow> ptext option \<Rightarrow> bool" where
  "trusted_service c key bearer =
     (case key of
        Some k \<Rightarrow> k \<in> service_api_key_set (cfg c)
      | None \<Rightarrow> (\<exists>cl. accepted_claims c bearer cl \<and> is_service cl))"

section \<open>What the dependencies let through\<close>

abbreviation lets_through ::
  "('r world, 'a) prog \<Rightarrow> 'r world \<Rightarrow> ('a \<Rightarrow> bool) \<Rightarrow> bool" where
  "lets_through m w P \<equiv> wp m (\<lambda>a w'. P a \<and> quiet w w') (\<lambda>_ _. True) w"

lemma find_key_Some: "find (\<lambda>e. Some (kid e) = k) es = Some e \<Longrightarrow> e \<in> set es \<and> k = Some (kid e)"
  by (auto dest: find_Some_in)

lemma get_claims_through: "lets_through (get_claims c b) w (accepted_claims c b)"
  by (auto simp: get_claims_def decode_access_token_def accepted_claims_def wp_rules quiet_def
      split: option.splits sum.splits jwt_error.splits dest: find_key_Some)

lemma sub_uuid_InrD: "sub_uuid cl = Inr i \<Longrightarrow> \<exists>t. map_of cl ''sub'' = Some (JText t) \<and> UUID t = Some i"
  by (auto simp: sub_uuid_def split: option.splits json.splits)

lemma andthen_through:
  assumes "lets_through m w P" and "\<And>a w'. P a \<Longrightarrow> quiet w w' \<Longrightarrow> lets_through (f a) w' Q"
  shows "lets_through (andthen m f) w Q"
  unfolding wp_andthen
  by (rule wp_mono [OF assms(1)], rule wp_mono [OF assms(2)]) (auto intro: quiet_trans)

lemma get_current_user_id_through:
  "accepted_claims c b cl \<Longrightarrow> lets_through (get_current_user_id cl) w (speaks_for c b)"
  by (auto simp: get_current_user_id_def wp_rules Let_def speaks_for_def split: sum.splits dest!: sub_uuid_InrD)

lemma current_user_through: "lets_through (current_user c b) w (speaks_for c b)"
  unfolding current_user_def by (rule andthen_through [OF get_claims_through get_current_user_id_through])

lemma fresh_admin_through:
  assumes "settled w" and "speaks_for c b i"
  shows "lets_through (fresh_admin i) w (acting_admin c b (w_committed w))"
  using assms
  by (auto simp: fresh_admin_def wp_rules table_rules settled_def acting_admin_def split: option.splits
      dest: account_self)

lemma require_admin_through:
  assumes "settled w"
  shows "lets_through (require_admin c b) w (acting_admin c b (w_committed w))"
  unfolding require_admin_def
proof (rule andthen_through [OF current_user_through])
  fix i w'
  assume "speaks_for c b i" and "quiet w w'"
  then show "lets_through (fresh_admin i) w' (acting_admin c b (w_committed w))"
    using fresh_admin_through [of w' c b i] assms quiet_settled by (auto simp: quiet_def)
qed

definition may_call :: "'r ctx \<Rightarrow> ptext option \<Rightarrow> ptext option \<Rightarrow> database \<Rightarrow> uuid option \<Rightarrow> bool" where
  "may_call c key b db caller =
     (case caller of
        None \<Rightarrow> trusted_service c key b
      | Some i \<Rightarrow> key = None \<and> (\<exists>u. usr_id u = i \<and> acting_admin c b db u))"

lemma require_service_or_admin_through:
  assumes "settled w"
  shows "lets_through (require_service_or_admin c key b) w (may_call c key b (w_committed w))"
proof (cases key)
  case (Some k)
  then show ?thesis
    by (simp add: require_service_or_admin_def Let_def wp_rules may_call_def trusted_service_def)
next
  case None
  have admin: "lets_through (andthen (fresh_admin i) (\<lambda>user. return (Some (usr_id user)))) w'
      (may_call c key b (w_committed w))" if "speaks_for c b i" and "quiet w w'" for i w'
  proof (rule andthen_through)
    show "lets_through (fresh_admin i) w' (acting_admin c b (w_committed w))"
      using fresh_admin_through [of w' c b i] that assms quiet_settled by (auto simp: quiet_def)
  qed (auto simp: wp_rules may_call_def None)
  have "lets_through (if is_service cl then return None
      else andthen (from_result (sub_uuid cl)) (\<lambda>i. andthen (fresh_admin i) (\<lambda>user. return (Some (usr_id user)))))
      w' (may_call c key b (w_committed w))" if cl: "accepted_claims c b cl" and "quiet w w'" for cl w'
  proof (cases "is_service cl")
    case True
    then show ?thesis
      using cl by (auto simp: wp_rules may_call_def trusted_service_def None)
  next
    case False
    have "speaks_for c b i" if "sub_uuid cl = Inr i" for i
      using sub_uuid_InrD [OF that] cl False by (auto simp: speaks_for_def)
    then show ?thesis
      using admin \<open>quiet w w'\<close> quiet_trans
      by (auto simp: False wp_andthen [of "from_result _"] wp_from_result split: sum.splits
          intro!: wp_mono [OF admin])
  qed
  then show ?thesis
    by (simp add: require_service_or_admin_def None) (rule andthen_through [OF get_claims_through])
qed

section \<open>The routes\<close>

lemma gated_success:
  assumes "lets_through m w P" and "get_session (andthen m f) w = (Inr r, w')"
  shows "\<exists>a. P a"
proof (rule ccontr)
  assume "\<not> (\<exists>a. P a)"
  then have "wp (get_session (andthen m f)) (\<lambda>_ _. False) (\<lambda>_ _. True) w"
    using wp_mono [OF assms(1)] by (simp add: wp_get_session wp_andthen)
  with assms(2) show False by (simp add: wp_def)
qed

fun admin_bearer :: "request \<Rightarrow> ptext option option" where
  "admin_bearer (GetAdminUsers b _ _ _ _ _) = Some b"
| "admin_bearer (PatchStatus b _ _ _) = Some b"
| "admin_bearer (PatchKyc b _ _ _) = Some b"
| "admin_bearer _ = None"

text \<open>
C25. A route under /admin answers with success only if its bearer token speaks for an account
  that the database has, at the time of the request, as an active administrator.
\<close>

theorem admin_routes_need_an_active_admin:
  assumes "settled w" and "admin_bearer req = Some b"
    and "get_session (handler c req) w = (Inr r, w')"
  shows "\<exists>u. acting_admin c b (w_committed w) u"
  using assms(2,3) gated_success [OF require_admin_through [OF assms(1), of c b]]
  by (cases req) auto

lemma admin_routes_need_an_active_admin_witness:
  "\<exists>u. acting_admin sample_ctx ama_token (w_committed world5) u"
proof -
  obtain r where "get_session (handler sample_ctx (PatchStatus ama_token 100 (ascii ''suspended'') None)) world5 = (Inr r, world6)"
    by (rule succeedsE [OF run6])
  from admin_routes_need_an_active_admin [OF sample_settled(6) _ this] show ?thesis by simp
qed

fun service_route :: "request \<Rightarrow> (ptext option \<times> ptext option) option" where
  "service_route (GetBackfill key b _ _ _) = Some (key, b)"
| "service_route (GetUser key b _) = Some (key, b)"
| "service_route (PatchRole key b _ _ _) = Some (key, b)"
| "service_route _ = None"

text \<open>
C26. A route for other services answers with success only to a configured service key, a token
  with the service role, or, when no key was sent, an active administrator. A key that was sent
  and is not configured is never made up for by a token.
\<close>

theorem service_routes_need_a_caller:
  assumes "settled w" and "service_route req = Some (key, b)"
    and "get_session (handler c req) w = (Inr r, w')"
  shows "trusted_service c key b \<or> (key = None \<and> (\<exists>u. acting_admin c b (w_committed w) u))"
proof -
  have "\<exists>caller. may_call c key b (w_committed w) caller"
    using assms(2,3) gated_success [OF require_service_or_admin_through [OF assms(1), of c key b]]
    by (cases req) auto
  then show ?thesis by (auto simp: may_call_def split: option.splits)
qed

lemma service_routes_need_a_caller_witness:
  "trusted_service sample_ctx None ama_token \<or> (\<exists>u. acting_admin sample_ctx ama_token (w_committed world3) u)"
proof -
  obtain r where "get_session (handler sample_ctx (PatchRole None ama_token 100 (ascii ''driver'') None)) world3 = (Inr r, world4)"
    by (rule succeedsE [OF run4])
  from service_routes_need_a_caller [OF sample_settled(4) _ this] show ?thesis by simp
qed

section \<open>Signed decisions\<close>

lemma change_status_signs:
  assumes "settled w"
  shows "wp (change_status c i st reason by_whom)
    (\<lambda>_ w'. \<exists>h. db_status_history (w_db w') = db_status_history (w_db w) @ [h] \<and> sh_user_id h = i \<and>
       sh_changed_by h = by_whom \<and> sh_reason h = reason) (\<lambda>_ _. True) w"
  using assms
  by (cases "w_db w" i rule: account_cases)
    (auto simp: change_status_def set_status_def wp_rules table_rules settled_def Let_def status_row_def
      split: option.splits)

text \<open>
  A status change that succeeds adds one row to the status history of the account, with the
  reason of the request, signed by an active administrator for whom the bearer token speaks.
\<close>

theorem status_change_is_signed:
  assumes "settled w" and "get_session (handler c (PatchStatus b i st reason)) w = (Inr r, w')"
  shows "\<exists>u h. acting_admin c b (w_committed w) u \<and>
    db_status_history (w_committed w') = db_status_history (w_committed w) @ [h] \<and>
    sh_user_id h = i \<and> sh_changed_by h = Some (usr_id u) \<and> sh_reason h = reason"
proof -
  let ?Q = "\<lambda>w'. \<exists>u h. acting_admin c b (w_committed w) u \<and>
    db_status_history (w_db w') = db_status_history (w_committed w) @ [h] \<and>
    sh_user_id h = i \<and> sh_changed_by h = Some (usr_id u) \<and> sh_reason h = reason"
  have "wp (andthen (change_status c i st reason (Some (usr_id u))) (\<lambda>j. return (200, j))) (\<lambda>_. ?Q) (\<lambda>_ _. True) v"
    if "acting_admin c b (w_committed w) u" and "quiet w v" for u v
    using that assms(1) change_status_signs [of v c i st reason "Some (usr_id u)"] quiet_settled [OF that(2)]
    by (auto simp: wp_andthen wp_return' quiet_def settled_def elim!: wp_mono)
  then have "wp (handler c (PatchStatus b i st reason)) (\<lambda>_. ?Q) (\<lambda>_ _. True) w"
    unfolding handler.simps patch_status_def wp_andthen [of "require_admin c b"]
    by (rule wp_mono [OF require_admin_through [OF assms(1)]]) auto
  then have "wp (get_session (handler c (PatchStatus b i st reason)))
      (\<lambda>_ w'. ?Q w' \<and> w_committed w' = w_db w') (\<lambda>_ _. True) w"
    by (simp add: wp_get_session)
  then show ?thesis using assms(2) by (simp add: wp_def)
qed

lemma status_change_is_signed_witness:
  "\<exists>u. acting_admin sample_ctx ama_token (w_committed world5) u \<and>
     (\<exists>h\<in>set (db_status_history (w_committed world6)). sh_changed_by h = Some (usr_id u))"
proof -
  obtain r where "get_session (handler sample_ctx (PatchStatus ama_token 100 (ascii ''suspended'') None)) world5 = (Inr r, world6)"
    by (rule succeedsE [OF run6])
  from status_change_is_signed [OF sample_settled(6) this] show ?thesis by fastforce
qed

section \<open>Issued tokens\<close>

text \<open>
  A token issued for an account that may hold a session speaks for that account and no
  other when it comes back: whatever the JWT library does to the time claims, as long as it finds
  the key id it was given and accepts its own signature under the published key, the caller is
  the one the token was issued for.
\<close>

theorem issued_token_speaks_for_its_account:
  assumes "issue_access_token c i (role_value r) (status_value s) w = (Inr token, w1)"
    and "s \<in> SESSION_ALLOWED_STATUSES" and "token \<noteq> []"
    and "find (\<lambda>e. kid e = active_kid (ring c)) (public_keys (ring c)) = Some entry"
    and "jwt_header_kid (jwt c) token = Some (Some (active_kid (ring c)))"
    and "jwt_decode (jwt c) token (pem entry) (jwt_issuer (cfg c)) (clock c (w_clock_ix w')) = Inr cl"
    and "map (map_of cl) [''sub'', ''role'', ''status''] =
      map (map_of (access_claims c i (role_value r) (status_value s) (clock c (w_clock_ix w))))
        [''sub'', ''role'', ''status'']"
  shows "fst (current_user c (Some token) w') = Inr i"
proof -
  have "map_of cl ''sub'' = Some (JText (uuid_str i))" "map_of cl ''role'' = Some (jlit (role_value r))"
    and "map_of cl ''status'' = Some (jlit (status_value s))"
    using assms(7) by (simp_all add: access_claims_def)
  moreover have "role_value r \<noteq> SERVICE_ROLE" by (cases r) (simp_all add: SERVICE_ROLE_def)
  ultimately show ?thesis
    using assms(2-6)
    by (simp add: fst_wp current_user_def get_claims_def decode_access_token_def wp_rules
        get_current_user_id_def is_service_def session_status_values_def sub_uuid_def UUID_uuid_str image_iff Let_def)
qed

lemma issued_token_speaks_for_its_account_witness:
  "fst (current_user sample_ctx (Some (uuid_str 1)) world3) = Inr 1"
  by (rule issued_token_speaks_for_its_account [where r = ADMIN and s = ACTIVE and w = world2
        and ?w1.0 = "world2\<lparr>w_clock_ix := Suc (w_clock_ix world2)\<rparr>"
        and entry = "\<lparr>kid = ascii ''k1'', pem = ascii ''pub''\<rparr>"
        and cl = "[(''sub'', JText (uuid_str 1)), (''role'', jlit ''admin''), (''status'', jlit ''active'')]"])
    (simp_all add: sample_ctx_def sample_jwt_def issue_access_token_def now_utc_def prog_defs
      access_claims_def SESSION_ALLOWED_STATUSES_def)

end
