(* ===== verification/Redis_Behaviour.thy ===== *)
theory Redis_Behaviour
  imports Sample_Run Command_Facts
begin

text \<open>
  What the service shows through Redis when the server is up: the profile cache in front of the
  account store, and the two limits on code requests. The laws of the server are those of the
  locale \<open>redis_server\<close>.
\<close>

section \<open>The profile cache\<close>

lemma stream_is_no_profile [simp]: "profile_key i \<noteq> STREAM_KEY"
  by (simp add: profile_key_def STREAM_KEY_def ascii_def)

lemma wp_cache_get_miss:
  assumes "redis_server (redis c) up val ttl" and "up (w_redis w)" and "val (w_redis w) (profile_key i) = None"
  shows "wp (cache_get_user c i) Q E w = Q None w"
proof -
  have "rc_get (redis c) (profile_key i) (w_redis w) = (Reply None, w_redis w)"
    using redis_server.get_up [OF assms(1,2)] assms(3) by simp
  then show ?thesis by (simp add: cache_get_user_def wp_rules)
qed

lemma wp_cache_get_hit:
  assumes "redis_server (redis c) up val ttl" and "up (w_redis w)"
    and "val (w_redis w) (profile_key i) = Some (Doc (cache_entry u))"
  shows "wp (cache_get_user c i) Q E w = Q (Some (u\<lparr>usr_password_hash := None, usr_requested_role := None\<rparr>)) w"
proof -
  have "rc_get (redis c) (profile_key i) (w_redis w) = (Reply (Some (Doc (cache_entry u))), w_redis w)"
    using redis_server.get_up [OF assms(1,2)] assms(3) by simp
  then show ?thesis by (simp add: cache_get_user_def wp_rules read_entry_cache_entry)
qed

lemma profile_payload_no_hash [simp]:
  "profile_payload (u\<lparr>usr_password_hash := h\<rparr>) = profile_payload u"
  "profile_payload (u\<lparr>usr_password_hash := h, usr_requested_role := q\<rparr>) = profile_payload (u\<lparr>usr_requested_role := q\<rparr>)"
  by (simp_all add: profile_payload_def)

lemma get_user_by_id_miss:
  assumes "redis_server (redis c) up val ttl" and "up (w_redis w)" and "val (w_redis w) (profile_key i) = None"
    and "settled w" and "account (w_db w) i = Some u"
  obtains w' where "get_user_by_id c i w = (Inr (profile_payload u), w')" and "up (w_redis w')"
    and "val (w_redis w') (profile_key i) = Some (Doc (cache_entry u))"
proof -
  obtain r' where r': "rc_set_ex (redis c) (profile_key i) (Doc (cache_entry u)) PROFILE_TTL_SECONDS (w_redis w) = (Reply (), r')"
      "up r'" "val r' = (val (w_redis w))(profile_key i \<mapsto> Doc (cache_entry u))"
    using redis_server.set_up [OF assms(1,2), of PROFILE_TTL_SECONDS] by (fastforce simp: PROFILE_TTL_SECONDS_def)
  have "wp (get_user_by_id c i) (\<lambda>j w'. j = profile_payload u \<and> w' = w\<lparr>w_redis := r'\<rparr>) (\<lambda>_ _. False) w"
    using assms(4,5) account_SomeD(1) [OF assms(5)] r'(1)
    by (simp add: get_user_by_id_def wp_rules wp_cache_get_miss [OF assms(1,2,3)] table_rules settled_def)
  then have run: "get_user_by_id c i w = (Inr (profile_payload u), w\<lparr>w_redis := r'\<rparr>)"
    by (auto simp: wp_def split: prod.splits sum.splits)
  show thesis by (rule that [OF run]) (use r' in simp_all)
qed

lemma get_user_by_id_hit:
  assumes "redis_server (redis c) up val ttl" and "up (w_redis w)"
    and "val (w_redis w) (profile_key i) = Some (Doc (cache_entry u))"
  shows "fst (get_user_by_id c i w) = Inr (profile_payload (u\<lparr>usr_requested_role := None\<rparr>))"
  by (simp add: fst_wp get_user_by_id_def wp_rules wp_cache_get_hit [OF assms])

text \<open>
C28. Reading a profile twice: the first answer comes from the database and fills the cache, the
  second comes from the cache and shows no pending request, whatever the account has.
\<close>

theorem cached_profile_forgets_request:
  assumes "redis_server (redis c) up val ttl" and "up (w_redis w)" and "val (w_redis w) (profile_key i) = None"
    and "settled w" and "account (w_committed w) i = Some u"
  shows "case get_user_by_id c i w of (r, w') \<Rightarrow>
    r = Inr (profile_payload u) \<and>
    fst (get_user_by_id c i w') = Inr (profile_payload (u\<lparr>usr_requested_role := None\<rparr>))"
proof -
  have "account (w_db w) i = Some u" using assms(4,5) by (simp add: settled_def)
  then obtain w' where "get_user_by_id c i w = (Inr (profile_payload u), w')" and "up (w_redis w')"
    and "val (w_redis w') (profile_key i) = Some (Doc (cache_entry u))"
    by (rule get_user_by_id_miss [OF assms(1-4)])
  with get_user_by_id_hit [OF assms(1)] show ?thesis by simp
qed

lemma sample_redis:
  "redis_server (redis sample_ctx) mr_up mr_val mr_ttl" "mr_up (w_redis world4)" "mr_up (w_redis world3)"
  "mr_val (w_redis world4) (profile_key 100) = None"
  using mem.redis_server_axioms by (simp_all add: all_sample_defs)

lemma cached_profile_forgets_request_witness:
  "\<exists>w'. get_user_by_id sample_ctx 100 world4 = (Inr (profile_payload (kofi_user USER ACTIVE (Some DRIVER) 10)), w') \<and>
     fst (get_user_by_id sample_ctx 100 w') = Inr (profile_payload (kofi_user USER ACTIVE None 10))"
  using cached_profile_forgets_request [OF sample_redis(1,2,4) sample_settled(5) kofi_accounts(4)]
  by (auto simp: kofi_user_def split: prod.splits)

text \<open>
A status change is seen by the next read: with Redis up, reading the profile right after a
  successful change answers what the change answered, even if the cache held the old profile.
\<close>

theorem read_after_status_change:
  assumes "redis_server (redis c) up val ttl" and "up (w_redis w)" and "settled w" and "ids_fresh c w"
    and "change_status c i st reason by_whom w = (Inr j, w')"
  shows "fst (get_user_by_id c i w') = Inr j"
proof -
  let ?Q = "\<lambda>j w'. up (w_redis w') \<and> val (w_redis w') (profile_key i) = None \<and> settled w' \<and>
    (\<exists>u. account (w_db w') i = Some u \<and> profile_payload u = j)"
  note gone = redis_server.delete_then_publish [OF assms(1,2) stream_is_no_profile]
  have "wp (change_status c i st reason by_whom) ?Q (\<lambda>_ _. True) w"
    using assms(3,4)
    by (cases "w_db w" i rule: account_cases)
      (auto simp: outcome_simps change_status_def set_status_def ids_freshD gone tables_ok_statements
        split: option.splits)
  then have after: "?Q j w'" using assms(5) by (simp add: wp_def)
  then obtain u where "account (w_db w') i = Some u" and "profile_payload u = j" by blast
  with after show ?thesis using get_user_by_id_miss [OF assms(1), of w' i u] by (metis fst_conv)
qed

lemma read_after_status_change_witness:
  "\<exists>j w'. change_status sample_ctx 100 (ascii ''suspended'') None None world3 = (Inr j, w') \<and>
     fst (get_user_by_id sample_ctx 100 w') = Inr j"
proof -
  have "wp (change_status sample_ctx 100 (ascii ''suspended'') None None) (\<lambda>_ _. True) (\<lambda>_ _. False) world3"
    using kofi_accounts(3) sample_ids_fresh(3) sample_settled(4) account_SomeD(2) [OF kofi_accounts(3)]
    by (simp add: outcome_simps change_status_def set_status_def ids_freshD ADMIN_SETTABLE_STATUSES_def
        settable_transition)
  then obtain j w' where "change_status sample_ctx 100 (ascii ''suspended'') None None world3 = (Inr j, w')"
    by (cases "change_status sample_ctx 100 (ascii ''suspended'') None None world3")
      (auto simp: wp_def split: sum.splits)
  with read_after_status_change [OF sample_redis(1,3) sample_settled(4) sample_ids_fresh(3)]
  show ?thesis by blast
qed

section \<open>Limits on code requests\<close>

text \<open>A context whose Redis never answers.\<close>

definition dead_client :: "unit redis_client" where
  "dead_client =
     \<lparr>rc_get = (\<lambda>_ r. (Down, r)), rc_set_ex = (\<lambda>_ _ _ r. (Down, r)), rc_delete = (\<lambda>_ r. (Down, r)),
      rc_ttl = (\<lambda>_ r. (Down, r)), rc_incr = (\<lambda>_ r. (Down, r)), rc_expire = (\<lambda>_ _ r. (Down, r)),
      rc_xadd = (\<lambda>_ _ _ r. (Down, r))\<rparr>"

definition dead_ctx :: "unit ctx" where
  "dead_ctx =
     \<lparr>cfg = default_settings, redis = dead_client, ring = ring sample_ctx, jwt = sample_jwt,
      sha256_hex = sha256_hex sample_ctx, hmac_sha256_hex = hmac_sha256_hex sample_ctx,
      clock = clock sample_ctx, uuid4s = uuid4s sample_ctx, urlsafe_tokens = urlsafe_tokens sample_ctx,
      random_codes = random_codes sample_ctx\<rparr>"

lemma ip_gate_next:
  assumes "ip \<noteq> []"
  shows "snd (ip_gate c ip r) =
    (case rc_incr (redis c) (ip_key ip) r of (Down, r1) \<Rightarrow> r1
     | (Reply m, r1) \<Rightarrow> if m = 1 then snd (rc_expire (redis c) (ip_key ip) IP_WINDOW_SECONDS r1) else r1)"
  using assms by (auto simp: ip_gate_def split: prod.splits reply.splits)

lemma ip_gate_answer:
  assumes "redis_server (redis c) up val ttl" and "up r" and "ip \<noteq> []"
    and "val r (ip_key ip) = (if n = 0 then None else Some (Num (int n)))"
  shows "fst (ip_gate c ip r) \<longleftrightarrow> n < 10"
proof (cases "n = 0")
  case True
  then obtain r1 where r1: "rc_incr (redis c) (ip_key ip) r = (Reply 1, r1)" "up r1"
      "val r1 = (val r)(ip_key ip \<mapsto> Num 1)"
    using redis_server.incr_new [OF assms(1,2), of "ip_key ip"] assms(4) by auto
  then have "val r1 (ip_key ip) \<noteq> None" by simp
  then obtain r2 where "rc_expire (redis c) (ip_key ip) IP_WINDOW_SECONDS r1 = (Reply (), r2)"
    using redis_server.expire_up [OF assms(1) r1(2), of IP_WINDOW_SECONDS] by (auto simp: IP_WINDOW_SECONDS_def)
  with r1(1) assms(3) True show ?thesis
    by (simp add: ip_gate_def IP_REQUESTS_PER_WINDOW_def)
next
  case False
  then obtain r1 where "rc_incr (redis c) (ip_key ip) r = (Reply (int n + 1), r1)"
    using redis_server.incr_old [OF assms(1,2), of "ip_key ip" "int n"] assms(4) by auto
  with assms(3) False show ?thesis
    by (auto simp: ip_gate_def IP_REQUESTS_PER_WINDOW_def)
qed

text \<open>
  With Redis up, an address for which no window is running is let through ten times in its
  window and refused from the eleventh request on.
\<close>

theorem ip_ceiling:
  assumes "redis_server (redis c) up val ttl" and "up r" and "val r (ip_key ip) = None" and "ip \<noteq> []"
  shows "fst (ip_gate c ip (((\<lambda>r. snd (ip_gate c ip r)) ^^ n) r)) \<longleftrightarrow> n < 10"
proof (rule ip_gate_answer [OF assms(1) _ assms(4)])
  let ?s = "((\<lambda>r. snd (ip_gate c ip r)) ^^ n) r"
  have "up ?s \<and> val ?s (ip_key ip) = (if n = 0 then None else Some (Num (int n)))"
    by (rule redis_server.counted [OF assms(1-3), of IP_WINDOW_SECONDS])
      (simp add: IP_WINDOW_SECONDS_def, rule ip_gate_next [OF assms(4)])
  then show "up ?s" and "val ?s (ip_key ip) = (if n = 0 then None else Some (Num (int n)))" by simp_all
qed

lemma ip_ceiling_witness:
  "\<not> fst (ip_gate sample_ctx [49] (((\<lambda>r. snd (ip_gate sample_ctx [49] r)) ^^ 10) fresh_redis))"
  using ip_ceiling [OF sample_redis(1), of fresh_redis "[49]" 10]
  by (simp add: mr_up_def mr_val_def mr_ttl_def fresh_redis_def)

text \<open>
  The limits fail open: when Redis raises on every command, no address and no number is held
  back.
\<close>

theorem limits_fail_open:
  assumes "\<And>k r. fst (rc_incr (redis c) k r) = Down" and "\<And>k r. fst (rc_ttl (redis c) k r) = Down"
  shows "fst (otp_gate c ip r) \<and> fst (cooldown_left c phone s r) = 0"
  using assms(1) [of "ip_key (the ip)" r] assms(2) [of "cooldown_key phone" r]
  by (auto simp: otp_gate_def ip_gate_def cooldown_left_def split: option.splits prod.splits reply.splits)

lemma limits_fail_open_witness:
  "fst (otp_gate dead_ctx (Some [49]) ())"
  using limits_fail_open [of dead_ctx "Some [49]" "()" "[]" 60]
  by (simp add: dead_ctx_def dead_client_def)

end
