(* ===== verification/Identity_Verifier.thy ===== *)
theory Identity_Verifier
  imports Access_Control "HOL-Library.AList"
begin

text \<open>
  \<open>shared_kernel/contracts/identity_provider.py\<close>: the verifier a consuming module copies. It
  keeps the service's JWKS, fetches it again when the cache is stale or does not know the key of
  a token, and checks tokens without calling the service otherwise.
\<close>

section \<open>The verifier\<close>

text \<open>
  Arguments: the parser of one JWK, \<open>get_unverified_header\<close> reduced to the \<open>kid\<close> it holds
  (\<open>None\<close> for its \<open>InvalidTokenError\<close>), \<open>decode\<close>, the outcome of every GET of the document (the
  class of the exception, or the parsed body), and the readings of the two clocks. Monotonic
  time is in microseconds.
\<close>

record 'k verifier_ctx =
  vc_issuer :: ptext
  vc_ttl_seconds :: int
  vc_header_kid :: "ptext \<Rightarrow> ptext option option"
  vc_from_dict :: "json \<Rightarrow> failure + 'k"
  vc_decode :: "ptext \<Rightarrow> 'k \<Rightarrow> ptext \<Rightarrow> instant \<Rightarrow> jwt_error + claims"
  vc_get :: "nat \<Rightarrow> failure + json"
  vc_monotonic :: "nat \<Rightarrow> int"
  vc_clock :: "nat \<Rightarrow> instant"

text \<open>\<open>_keys\<close> is a dict whose keys are whatever JSON value stood under \<open>kid\<close>.\<close>

record 'k verifier =
  v_keys :: "(json \<times> 'k) list"
  v_fetched_at :: int
  v_fetches :: nat
  v_mono_ix :: nat
  v_clock_ix :: nat

definition new_verifier :: "'k verifier" where
  "new_verifier = \<lparr>v_keys = [], v_fetched_at = 0, v_fetches = 0, v_mono_ix = 0, v_clock_ix = 0\<rparr>"

record verified_identity =
  vi_user_id :: uuid
  vi_role :: json
  vi_status :: json

definition monotonic :: "'k verifier_ctx \<Rightarrow> ('k verifier, int) prog" where
  "monotonic c = andthen (gets (\<lambda>v. vc_monotonic c (v_mono_ix v)))
     (\<lambda>t. before (modify (\<lambda>v. v\<lparr>v_mono_ix := Suc (v_mono_ix v)\<rparr>)) (return t))"

definition utc_time :: "'k verifier_ctx \<Rightarrow> ('k verifier, instant) prog" where
  "utc_time c = andthen (gets (\<lambda>v. vc_clock c (v_clock_ix v)))
     (\<lambda>t. before (modify (\<lambda>v. v\<lparr>v_clock_ix := Suc (v_clock_ix v)\<rparr>)) (return t))"

definition http_get :: "'k verifier_ctx \<Rightarrow> ('k verifier, json) prog" where
  "http_get c = andthen (gets (\<lambda>v. vc_get c (v_fetches v)))
     (\<lambda>r. before (modify (\<lambda>v. v\<lparr>v_fetches := Suc (v_fetches v)\<rparr>)) (from_result r))"

section \<open>Reading the document\<close>

text \<open>\<open>for x in value\<close> over a parsed JSON value, and \<open>document.get("keys", [])\<close>.\<close>

fun json_items :: "json \<Rightarrow> failure + json list" where
  "json_items (JList js) = Inr js"
| "json_items (JObj fs) = Inr (map (\<lambda>(k, _). jlit k) fs)"
| "json_items (JText t) = Inr (map (\<lambda>ch. JText [ch]) t)"
| "json_items _ = Inl (Uncaught ''TypeError'')"

fun document_keys :: "json \<Rightarrow> failure + json list" where
  "document_keys (JObj fs) =
     (case map_of fs ''keys'' of None \<Rightarrow> Inr [] | Some v \<Rightarrow> json_items v)"
| "document_keys _ = Inl (Uncaught ''AttributeError'')"

text \<open>\<open>jwk["kid"]\<close>.\<close>

fun jwk_kid :: "json \<Rightarrow> failure + json" where
  "jwk_kid (JObj fs) =
     (case map_of fs ''kid'' of None \<Rightarrow> Inl (Uncaught ''KeyError'') | Some v \<Rightarrow> Inr v)"
| "jwk_kid _ = Inl (Uncaught ''TypeError'')"

text \<open>The dict comprehension, a later entry replacing an earlier one of the same \<open>kid\<close>.\<close>

fun load_keys :: "'k verifier_ctx \<Rightarrow> json list \<Rightarrow> (json \<times> 'k) list \<Rightarrow> failure + (json \<times> 'k) list" where
  "load_keys c [] keys = Inr keys"
| "load_keys c (j # js) keys =
     (case jwk_kid j of
        Inl e \<Rightarrow> Inl e
      | Inr k \<Rightarrow>
          (case vc_from_dict c j of
             Inl e \<Rightarrow> Inl e
           | Inr key \<Rightarrow>
               if unhashable (Some k) then Inl (Uncaught ''TypeError'')
               else load_keys c js (AList.update k key keys)))"

text \<open>
  The log line joins the \<open>kid\<close>s after the cache was replaced: one that is no string raises there.
\<close>

fun is_text :: "json \<Rightarrow> bool" where
  "is_text (JText _) = True"
| "is_text _ = False"

definition text_keys :: "(json \<times> 'k) list \<Rightarrow> bool" where
  "text_keys keys = list_all is_text (map fst keys)"

definition verifier_refresh :: "'k verifier_ctx \<Rightarrow> ('k verifier, unit) prog" where
  "verifier_refresh c =
     andthen (http_get c) (\<lambda>document.
     andthen (from_result (document_keys document)) (\<lambda>jwks.
     andthen (from_result (load_keys c jwks [])) (\<lambda>keys.
     before (modify (\<lambda>v. v\<lparr>v_keys := keys\<rparr>))
     (andthen (monotonic c) (\<lambda>now.
     before (modify (\<lambda>v. v\<lparr>v_fetched_at := now\<rparr>))
     (whenever (\<not> text_keys keys) (raise (Uncaught ''TypeError''))))))))"

section \<open>Verifying\<close>

definition verifier_token_invalid :: failure where
  "verifier_token_invalid = Uncaught ''TokenInvalid''"

definition verifier_token_expired :: failure where
  "verifier_token_expired = Uncaught ''TokenExpired''"

definition user_not_active :: failure where
  "user_not_active = Uncaught ''UserNotActive''"

definition key_for :: "'k verifier_ctx \<Rightarrow> ptext \<Rightarrow> ('k verifier, 'k) prog" where
  "key_for c k =
     andthen (monotonic c) (\<lambda>now.
     andthen (gets (\<lambda>v. v_keys v = [] \<or> now - v_fetched_at v > seconds (vc_ttl_seconds c))) (\<lambda>stale.
     before (whenever stale (verifier_refresh c))
     (andthen (gets (\<lambda>v. map_of (v_keys v) (JText k) = None)) (\<lambda>unknown.
     before (whenever unknown (verifier_refresh c))
     (andthen (gets (\<lambda>v. map_of (v_keys v) (JText k))) (\<lambda>found.
     case found of None \<Rightarrow> raise verifier_token_invalid | Some key \<Rightarrow> return key))))))"

definition claimed_id :: "claims \<Rightarrow> failure + uuid" where
  "claimed_id cl =
     (case sub_uuid cl of
        Inr i \<Rightarrow> Inr i
      | Inl (Api e) \<Rightarrow> Inl verifier_token_invalid
      | Inl (Uncaught x) \<Rightarrow> Inl (Uncaught x))"

definition identity_of :: "claims \<Rightarrow> failure + verified_identity" where
  "identity_of cl =
     (let status = (case map_of cl ''status'' of None \<Rightarrow> jlit ''active'' | Some s \<Rightarrow> s) in
      if status \<noteq> jlit ''active'' then Inl user_not_active
      else
        (case claimed_id cl of
           Inl e \<Rightarrow> Inl e
         | Inr i \<Rightarrow>
             (case map_of cl ''role'' of
                None \<Rightarrow> Inl (Uncaught ''KeyError'')
              | Some r \<Rightarrow> Inr \<lparr>vi_user_id = i, vi_role = r, vi_status = status\<rparr>)))"

definition verify :: "'k verifier_ctx \<Rightarrow> ptext \<Rightarrow> ('k verifier, verified_identity) prog" where
  "verify c token =
     (case vc_header_kid c token of
        None \<Rightarrow> raise verifier_token_invalid
      | Some k \<Rightarrow>
          if \<not> truthy k then raise verifier_token_invalid
          else
            andthen (key_for c (the k)) (\<lambda>key.
            andthen (utc_time c) (\<lambda>now.
            case vc_decode c token key (vc_issuer c) now of
              Inr cl \<Rightarrow> from_result (identity_of cl)
            | Inl ExpiredSignatureError \<Rightarrow> raise verifier_token_expired
            | Inl InvalidTokenError \<Rightarrow> raise verifier_token_invalid)))"

section \<open>What a verification does\<close>

lemma wp_monotonic [wp_rules]:
  "wp (monotonic c) Q E v = Q (vc_monotonic c (v_mono_ix v)) (v\<lparr>v_mono_ix := Suc (v_mono_ix v)\<rparr>)"
  by (simp add: monotonic_def wp_rules)

lemma wp_utc_time [wp_rules]:
  "wp (utc_time c) Q E v = Q (vc_clock c (v_clock_ix v)) (v\<lparr>v_clock_ix := Suc (v_clock_ix v)\<rparr>)"
  by (simp add: utc_time_def wp_rules)

text \<open>The keys of the document the next GET answers with.\<close>

definition fetched_keys :: "'k verifier_ctx \<Rightarrow> nat \<Rightarrow> failure + (json \<times> 'k) list" where
  "fetched_keys c n =
     (case vc_get c n of Inl e \<Rightarrow> Inl e
      | Inr doc \<Rightarrow> (case document_keys doc of Inl e \<Rightarrow> Inl e | Inr js \<Rightarrow> load_keys c js []))"

lemma wp_verifier_refresh [wp_rules]:
  "wp (verifier_refresh c) Q E v =
   (case fetched_keys c (v_fetches v) of
      Inl e \<Rightarrow> E e (v\<lparr>v_fetches := Suc (v_fetches v)\<rparr>)
    | Inr keys \<Rightarrow>
        (if text_keys keys then Q () else E (Uncaught ''TypeError''))
          (v\<lparr>v_fetches := Suc (v_fetches v), v_keys := keys,
             v_mono_ix := Suc (v_mono_ix v), v_fetched_at := vc_monotonic c (v_mono_ix v)\<rparr>))"
  by (auto simp: verifier_refresh_def http_get_def wp_rules fetched_keys_def split: sum.splits)

definition cache_usable :: "'k verifier_ctx \<Rightarrow> 'k verifier \<Rightarrow> bool" where
  "cache_usable c v =
     (v_keys v \<noteq> [] \<and> vc_monotonic c (v_mono_ix v) - v_fetched_at v \<le> seconds (vc_ttl_seconds c))"

lemma wp_key_for [wp_rules]:
  "wp (key_for c k) Q E v =
   (let v1 = v\<lparr>v_mono_ix := Suc (v_mono_ix v)\<rparr>;
        settle = (\<lambda>v. case map_of (v_keys v) (JText k) of None \<Rightarrow> E verifier_token_invalid v | Some key \<Rightarrow> Q key v);
        look = (\<lambda>v. if map_of (v_keys v) (JText k) = None
                    then wp (verifier_refresh c) (\<lambda>_. settle) E v else settle v)
    in if cache_usable c v then look v1 else wp (verifier_refresh c) (\<lambda>_. look) E v1)"
  by (auto simp: key_for_def wp_rules cache_usable_def Let_def not_le split: option.splits sum.splits)

lemma wp_verify [wp_rules]:
  "wp (verify c token) Q E v =
   (case vc_header_kid c token of
      Some (Some k) \<Rightarrow>
        if k = [] then E verifier_token_invalid v
        else wp (key_for c k)
          (\<lambda>key v. let v' = v\<lparr>v_clock_ix := Suc (v_clock_ix v)\<rparr> in
             case vc_decode c token key (vc_issuer c) (vc_clock c (v_clock_ix v)) of
               Inr cl \<Rightarrow> (case identity_of cl of Inl e \<Rightarrow> E e v' | Inr vi \<Rightarrow> Q vi v')
             | Inl ExpiredSignatureError \<Rightarrow> E verifier_token_expired v'
             | Inl InvalidTokenError \<Rightarrow> E verifier_token_invalid v') E v
    | _ \<Rightarrow> E verifier_token_invalid v)"
  by (auto simp: verify_def wp_raise wp_andthen wp_utc_time wp_from_result Let_def fun_eq_iff
      split: option.splits sum.splits jwt_error.splits intro!: arg_cong [of _ _ "\<lambda>Q. wp (key_for c _) Q E v"])

lemmas verify_simps = wp_verify wp_key_for wp_verifier_refresh Let_def

text \<open>
  Whatever the network does, a verification fetches the document at most twice, and not at
  all when the cache is fresh and knows the key of the token; then the cache stays as it is.
\<close>

theorem verify_fetches:
  "v_fetches (snd (verify c token v)) \<le> v_fetches v + 2 \<and>
   (cache_usable c v \<longrightarrow> vc_header_kid c token = Some (Some k) \<longrightarrow> map_of (v_keys v) (JText k) \<noteq> None \<longrightarrow>
      v_fetches (snd (verify c token v)) = v_fetches v \<and> v_keys (snd (verify c token v)) = v_keys v)"
proof
  have "wp (verify c token) (\<lambda>_ v'. v_fetches v' \<le> v_fetches v + 2) (\<lambda>_ v'. v_fetches v' \<le> v_fetches v + 2) v"
    by (auto simp: verify_simps split: option.splits sum.splits jwt_error.splits)
  then show "v_fetches (snd (verify c token v)) \<le> v_fetches v + 2" by (simp only: wp_state)
  let ?same = "\<lambda>v'. v_fetches v' = v_fetches v \<and> v_keys v' = v_keys v"
  show "cache_usable c v \<longrightarrow> vc_header_kid c token = Some (Some k) \<longrightarrow> map_of (v_keys v) (JText k) \<noteq> None \<longrightarrow>
      ?same (snd (verify c token v))"
  proof (intro impI)
    assume "cache_usable c v" and "vc_header_kid c token = Some (Some k)" and "map_of (v_keys v) (JText k) \<noteq> None"
    then have "wp (verify c token) (\<lambda>_. ?same) (\<lambda>_. ?same) v"
      by (auto simp: verify_simps split: option.splits sum.splits jwt_error.splits)
    then show "?same (snd (verify c token v))" by (simp only: wp_state)
  qed
qed

definition never_published :: "'k verifier_ctx \<Rightarrow> ptext \<Rightarrow> bool" where
  "never_published c k = (\<forall>n keys. fetched_keys c n = Inr keys \<longrightarrow> map_of keys (JText k) = None)"

lemma bogus_kid_step:
  assumes "vc_header_kid c token = Some (Some k)" and "k \<noteq> []" and "map_of (v_keys v) (JText k) = None"
    and "never_published c k"
  shows "\<exists>e v'. verify c token v = (Inl e, v') \<and> Suc (v_fetches v) \<le> v_fetches v' \<and>
    map_of (v_keys v') (JText k) = None"
proof -
  have "wp (verify c token) (\<lambda>_ _. False)
      (\<lambda>_ v'. Suc (v_fetches v) \<le> v_fetches v' \<and> map_of (v_keys v') (JText k) = None) v"
    using assms by (auto simp: verify_simps never_published_def split: sum.splits)
  then show ?thesis by (auto simp: wp_def split: prod.splits sum.splits)
qed

text \<open>
  The rotation fetch is not remembered: as long as no document of the service has the
  \<open>kid\<close>, every verification of a token that names it fails and costs the service a request.
\<close>

theorem bogus_kids_reach_the_service:
  assumes "vc_header_kid c token = Some (Some k)" and "k \<noteq> []" and "map_of (v_keys v) (JText k) = None"
    and "never_published c k"
  shows "v_fetches v + n \<le> v_fetches (((\<lambda>v. snd (verify c token v)) ^^ n) v)"
proof -
  let ?f = "\<lambda>v. snd (verify c token v)"
  have "v_fetches v + n \<le> v_fetches ((?f ^^ n) v) \<and> map_of (v_keys ((?f ^^ n) v)) (JText k) = None"
  proof (induction n)
    case (Suc n)
    obtain e v' where "verify c token ((?f ^^ n) v) = (Inl e, v')" and
      "Suc (v_fetches ((?f ^^ n) v)) \<le> v_fetches v'" and "map_of (v_keys v') (JText k) = None"
      using bogus_kid_step [OF assms(1,2) _ assms(4)] Suc by blast
    with Suc show ?case by simp
  qed (use assms(3) in simp)
  then show ?thesis by simp
qed

text \<open>What an accepted token was checked against.\<close>

definition vouched :: "'k verifier_ctx \<Rightarrow> 'k verifier \<Rightarrow> ptext \<Rightarrow> verified_identity \<Rightarrow> 'k verifier \<Rightarrow> bool" where
  "vouched c v token vi v' =
     (\<exists>k key now cl. vc_header_kid c token = Some (Some k) \<and> map_of (v_keys v') (JText k) = Some key \<and>
        (v_keys v' = v_keys v \<and> cache_usable c v \<or>
         (\<exists>n\<in>{v_fetches v, Suc (v_fetches v)}. fetched_keys c n = Inr (v_keys v'))) \<and>
        vc_decode c token key (vc_issuer c) now = Inr cl \<and> identity_of cl = Inr vi)"


section \<open>The service and its consumers\<close>

lemma published_kid: "to_jwk load e = Inr j \<Longrightarrow> jwk_kid j = Inr (JText (kid e))"
  by (auto simp: to_jwk_def split: option.splits)

lemma text_keys_update [simp]: "text_keys acc \<Longrightarrow> text_keys (AList.update (JText t) key acc)"
  by (induction acc) (auto simp: text_keys_def)

lemma load_text_keys:
  assumes "to_jwks load es = Inr js" and "load_keys m js acc = Inr keys" and "text_keys acc"
  shows "text_keys keys"
  using assms
  by (induction es arbitrary: js acc) (auto simp: published_kid split: sum.splits)

lemma load_published_keys:
  assumes "to_jwks load es = Inr js" and "distinct (map kid es)"
    and "\<And>e j. to_jwk load e = Inr j \<Longrightarrow> \<exists>key. vc_from_dict m j = Inr key"
  shows "\<exists>keys. load_keys m js acc = Inr keys \<and>
    (\<forall>e\<in>set es. \<exists>j key. to_jwk load e = Inr j \<and> vc_from_dict m j = Inr key \<and>
       map_of keys (JText (kid e)) = Some key) \<and>
    (\<forall>k. k \<notin> (\<lambda>e. JText (kid e)) ` set es \<longrightarrow> map_of keys k = map_of acc k)"
  using assms
proof (induction es arbitrary: js acc)
  case (Cons e es)
  obtain j js' where j: "to_jwk load e = Inr j" and js': "to_jwks load es = Inr js'" "js = j # js'"
    using Cons.prems(1) by (auto split: sum.splits)
  obtain key where key: "vc_from_dict m j = Inr key" using Cons.prems(3) [OF j] by auto
  note kid = published_kid [OF j]
  obtain keys where keys: "load_keys m js' (AList.update (JText (kid e)) key acc) = Inr keys"
      "\<forall>e\<in>set es. \<exists>j key. to_jwk load e = Inr j \<and> vc_from_dict m j = Inr key \<and>
         map_of keys (JText (kid e)) = Some key"
      "\<forall>k. k \<notin> (\<lambda>e. JText (kid e)) ` set es \<longrightarrow>
         map_of keys k = map_of (AList.update (JText (kid e)) key acc) k"
    using Cons.IH [OF js'(1) _ Cons.prems(3), where acc = "AList.update (JText (kid e)) key acc"] Cons.prems(2)
    by fastforce
  moreover have "JText (kid e) \<notin> (\<lambda>e. JText (kid e)) ` set es" using Cons.prems(2) by auto
  moreover have "\<not> unhashable (Some (JText (kid e)))" by simp
  ultimately show ?case
    using j key kid js'(2) by (auto simp: update_conv')
qed simp

text \<open>The library agrees with what was issued, up to the time claims it rewrites.\<close>

definition says :: "claims \<Rightarrow> uuid \<Rightarrow> user_role \<Rightarrow> user_status \<Rightarrow> bool" where
  "says cl i r s =
     (map (map_of cl) [''sub'', ''role'', ''status''] =
      [Some (JText (uuid_str i)), Some (jlit (role_value r)), Some (jlit (status_value s))])"

lemma identity_of_says:
  "says cl i r s \<Longrightarrow> identity_of cl =
     (if s = ACTIVE then Inr \<lparr>vi_user_id = i, vi_role = jlit (role_value r), vi_status = jlit ''active''\<rparr>
      else Inl user_not_active)"
  by (cases s) (auto simp: says_def identity_of_def claimed_id_def sub_uuid_def UUID_uuid_str)

text \<open>
  C36. A token the service issues is accepted by a module that fetches the service's JWKS, as the
  account, role and status it was issued for, with one fetch at most; whatever the module has
  cached from before, a rotation included, unless it has another key under the active \<open>kid\<close>. An
  account that is not active is refused by name.
\<close>

theorem module_accepts_issued_token:
  assumes "issue_access_token c i (role_value r) (status_value s) w = (Inr token, w1)"
    and "jwks load (ring c) = Inr doc" and "distinct (map kid (public_keys (ring c)))"
    and "e \<in> set (public_keys (ring c))" and "kid e = active_kid (ring c)" and "active_kid (ring c) \<noteq> []"
    and "\<And>e j. to_jwk load e = Inr j \<Longrightarrow> \<exists>key. vc_from_dict m j = Inr key"
    and "to_jwk load e = Inr jwk" and "vc_from_dict m jwk = Inr key"
    and "vc_header_kid m token = Some (Some (active_kid (ring c)))"
    and "vc_decode m token key (vc_issuer m) (vc_clock m (v_clock_ix v)) = Inr cl"
    and "map (map_of cl) [''sub'', ''role'', ''status''] =
      map (map_of (access_claims c i (role_value r) (status_value s) (clock c (w_clock_ix w))))
        [''sub'', ''role'', ''status'']"
    and "vc_get m (v_fetches v) = Inr doc"
    and "map_of (v_keys v) (JText (active_kid (ring c))) \<in> {None, Some key}"
  shows "fst (verify m token v) =
      (if s = ACTIVE then Inr \<lparr>vi_user_id = i, vi_role = jlit (role_value r), vi_status = jlit ''active''\<rparr>
       else Inl user_not_active) \<and>
    v_fetches (snd (verify m token v)) \<le> Suc (v_fetches v)"
proof -
  let ?r = "if s = ACTIVE then Inr \<lparr>vi_user_id = i, vi_role = jlit (role_value r), vi_status = jlit ''active''\<rparr>
      else Inl user_not_active"
  obtain js where js: "to_jwks load (public_keys (ring c)) = Inr js" "doc = JObj [(''keys'', JList js)]"
    using assms(2) by (auto simp: jwks_def split: sum.splits)
  obtain keys where keys: "load_keys m js [] = Inr keys"
      "\<forall>e\<in>set (public_keys (ring c)). \<exists>j key. to_jwk load e = Inr j \<and> vc_from_dict m j = Inr key \<and>
         map_of keys (JText (kid e)) = Some key"
    using load_published_keys [OF js(1) assms(3), of m "[]"] assms(7) by fastforce
  have fetched: "fetched_keys m (v_fetches v) = Inr keys"
    using assms(13) js(2) keys(1) by (simp add: fetched_keys_def)
  have known: "map_of keys (JText (active_kid (ring c))) = Some key"
    using keys(2) assms(4,5,8,9) by fastforce
  have texts: "text_keys keys" using load_text_keys [OF js(1) keys(1)] by (simp add: text_keys_def)
  have "identity_of cl = ?r"
    using assms(12) by (intro identity_of_says) (simp add: says_def access_claims_def)
  then have "wp (verify m token) (\<lambda>a v'. Inr a = ?r \<and> v_fetches v' \<le> Suc (v_fetches v))
      (\<lambda>e v'. Inl e = ?r \<and> v_fetches v' \<le> Suc (v_fetches v)) v"
    using assms(6,10,11,14) fetched known texts by (auto simp: verify_simps split: sum.splits)
  then show ?thesis by (auto simp: wp_def split: prod.splits sum.splits)
qed

definition sample_module :: "json verifier_ctx" where
  "sample_module =
     \<lparr>vc_issuer = ascii ''diddifree-id'', vc_ttl_seconds = 3600,
      vc_header_kid = (\<lambda>t. Some (Some (ascii ''k1''))), vc_from_dict = Inr,
      vc_decode = (\<lambda>t key issuer now.
        Inr [(''sub'', JText t), (''role'', jlit ''admin''), (''status'', jlit ''active'')]),
      vc_get = (\<lambda>n. jwks (\<lambda>pem. Some (5, 3)) (ring sample_ctx)),
      vc_monotonic = (\<lambda>n. seconds (int n)), vc_clock = (\<lambda>n. seconds (int n))\<rparr>"

lemma sample_jwk: "to_jwk (\<lambda>pem. Some (5, 3)) \<lparr>kid = ascii ''k1'', pem = ascii ''pub''\<rparr> = Inr (JObj
    [(''kid'', JText (ascii ''k1'')), (''kty'', jlit ''RSA''), (''use'', jlit ''sig''), (''alg'', jlit ''RS256''),
     (''n'', JText (b64url_uint 5)), (''e'', JText (b64url_uint 3))])"
  by (simp add: to_jwk_def)

lemma module_accepts_issued_token_witness:
  "fst (verify sample_module (uuid_str 1) new_verifier) =
    Inr \<lparr>vi_user_id = 1, vi_role = jlit ''admin'', vi_status = jlit ''active''\<rparr>"
proof -
  have ring: "ring sample_ctx = \<lparr>active_kid = ascii ''k1'', private_pem = ascii ''priv'',
      public_keys = [\<lparr>kid = ascii ''k1'', pem = ascii ''pub''\<rparr>]\<rparr>"
    by (simp add: sample_ctx_def)
  have "issue_access_token sample_ctx 1 (role_value ADMIN) (status_value ACTIVE) world2 =
      (Inr (uuid_str 1), world2\<lparr>w_clock_ix := Suc (w_clock_ix world2)\<rparr>)"
    by (simp add: sample_ctx_def sample_jwt_def issue_access_token_def now_utc_def prog_defs access_claims_def)
  from module_accepts_issued_token [OF this, of "\<lambda>pem. Some (5, 3)" _ "\<lparr>kid = ascii ''k1'', pem = ascii ''pub''\<rparr>"
      sample_module _ _ new_verifier] show ?thesis
    by (simp add: ring sample_jwk jwks_def sample_module_def new_verifier_def access_claims_def)
qed

lemma warm_verifier:
  "cache_usable sample_module (snd (verify sample_module (uuid_str 1) new_verifier)) \<and>
   map_of (v_keys (snd (verify sample_module (uuid_str 1) new_verifier))) (JText (ascii ''k1'')) \<noteq> None"
proof -
  let ?ok = "\<lambda>v. cache_usable sample_module v \<and> map_of (v_keys v) (JText (ascii ''k1'')) \<noteq> None"
  have "wp (verify sample_module (uuid_str 1)) (\<lambda>_. ?ok) (\<lambda>_. ?ok) new_verifier"
    by (simp add: verify_simps fetched_keys_def sample_module_def new_verifier_def jwks_def sample_ctx_def
        sample_jwk cache_usable_def seconds_def text_keys_def split: sum.splits)
  then show ?thesis unfolding wp_state .
qed

lemma verify_fetches_witness:
  "\<exists>v. v_keys v \<noteq> [] \<and> v_fetches (snd (verify sample_module (uuid_str 1) v)) = v_fetches v"
proof -
  obtain v where v: "cache_usable sample_module v" "map_of (v_keys v) (JText (ascii ''k1'')) \<noteq> None"
    using warm_verifier by blast
  have "vc_header_kid sample_module (uuid_str 1) = Some (Some (ascii ''k1''))"
    by (simp add: sample_module_def)
  with verify_fetches [of sample_module "uuid_str 1" v "ascii ''k1''"] v show ?thesis
    by (auto simp: cache_usable_def)
qed


definition bogus_module :: "json verifier_ctx" where
  "bogus_module = sample_module\<lparr>vc_header_kid := (\<lambda>t. Some (Some (ascii ''zz'')))\<rparr>"

lemma bogus_kids_reach_the_service_witness:
  "1000 \<le> v_fetches (((\<lambda>v. snd (verify bogus_module (ascii ''x'') v)) ^^ 1000) new_verifier)"
  using bogus_kids_reach_the_service [of bogus_module "ascii ''x''" "ascii ''zz''" new_verifier 1000]
  by (auto simp: never_published_def bogus_module_def sample_module_def new_verifier_def fetched_keys_def jwks_def sample_ctx_def
      sample_jwk)

end
