(* ===== verification/Event_Consumer.thy ===== *)
theory Event_Consumer
  imports Event_Publisher
begin

text \<open>
  \<open>RedisEventConsumer\<close> of \<open>shared_kernel/events/bus.py\<close>: the other end of the stream, as a
  subscribing module runs it. The stream commands are arguments, with the documented behaviour
  of a consumer group in the locale \<open>stream_group\<close> and a group in memory that has it.
\<close>

section \<open>The commands of a consumer\<close>

text \<open>A reply, or an exception with its class and its text.\<close>

datatype 'a stream_reply = Thrown string ptext | Replied 'a

type_synonym fields = "(string \<times> redis_value) list"
type_synonym stream_response = "(ptext \<times> (ptext \<times> fields) list) list option"

record 's stream_client =
  sc_xadd :: "ptext \<Rightarrow> fields \<Rightarrow> int \<Rightarrow> 's \<Rightarrow> 's"
  sc_xgroup_create :: "ptext \<Rightarrow> ptext \<Rightarrow> ptext \<Rightarrow> 's \<Rightarrow> unit stream_reply \<times> 's"
  sc_xreadgroup :: "ptext \<Rightarrow> ptext \<Rightarrow> ptext \<Rightarrow> ptext \<Rightarrow> int \<Rightarrow> 's \<Rightarrow> stream_response stream_reply \<times> 's"
  sc_xack :: "ptext \<Rightarrow> ptext \<Rightarrow> ptext \<Rightarrow> 's \<Rightarrow> unit stream_reply \<times> 's"

record 's consumer =
  cn_client :: "'s stream_client"
  cn_stream :: ptext
  cn_group :: ptext
  cn_name :: ptext

fun or_raise :: "'a stream_reply \<Rightarrow> failure + 'a" where
  "or_raise (Thrown cls msg) = Inl (Uncaught cls)"
| "or_raise (Replied a) = Inr a"

definition stream_op :: "('s \<Rightarrow> 'a stream_reply \<times> 's) \<Rightarrow> ('s, 'a) prog" where
  "stream_op f s = (case f s of (r, s') \<Rightarrow> (or_raise r, s'))"

section \<open>RedisEventConsumer\<close>

fun contains :: "ptext \<Rightarrow> ptext \<Rightarrow> bool" where
  "contains p [] = (p = [])"
| "contains p (x # xs) = (take (length p) (x # xs) = p \<or> contains p xs)"

definition ensure_group :: "'s consumer \<Rightarrow> bool \<Rightarrow> ('s, unit) prog" where
  "ensure_group c from_beginning s =
     (let start_id = (if from_beginning then ascii ''0'' else ascii ''$'') in
      case sc_xgroup_create (cn_client c) (cn_stream c) (cn_group c) start_id s of
        (Replied (), s') \<Rightarrow> (Inr (), s')
      | (Thrown cls msg, s') \<Rightarrow>
          if cls = ''ResponseError'' \<and> contains (ascii ''BUSYGROUP'') msg then (Inr (), s')
          else (Inl (Uncaught cls), s'))"

text \<open>\<open>json.loads\<close> of a stored value; \<open>None\<close> is its \<open>ValueError\<close>.\<close>

fun json_loads :: "redis_value \<Rightarrow> json option" where
  "json_loads (Doc j) = Some j"
| "json_loads (Num n) = Some (JInt n)"
| "json_loads (Raw t) = None"

fun decode_entry :: "ptext \<times> fields \<Rightarrow> (ptext \<times> json) list" where
  "decode_entry (entry_id, fs) =
     (case map_of fs ''payload'' of
        None \<Rightarrow> []
      | Some v \<Rightarrow> (case json_loads v of None \<Rightarrow> [] | Some j \<Rightarrow> [(entry_id, j)]))"

definition response_entries :: "stream_response \<Rightarrow> (ptext \<times> fields) list" where
  "response_entries response = (case response of None \<Rightarrow> [] | Some rs \<Rightarrow> concat (map snd rs))"

definition decode :: "stream_response \<Rightarrow> (ptext \<times> json) list" where
  "decode response = concat (map decode_entry (response_entries response))"

definition read_new :: "'s consumer \<Rightarrow> int \<Rightarrow> ('s, (ptext \<times> json) list) prog" where
  "read_new c count =
     andthen (stream_op (sc_xreadgroup (cn_client c) (cn_group c) (cn_name c) (cn_stream c) (ascii ''>'') count))
       (\<lambda>response. return (decode response))"

definition read_pending :: "'s consumer \<Rightarrow> int \<Rightarrow> ('s, (ptext \<times> json) list) prog" where
  "read_pending c count =
     andthen (stream_op (sc_xreadgroup (cn_client c) (cn_group c) (cn_name c) (cn_stream c) (ascii ''0'') count))
       (\<lambda>response. return (decode response))"

definition ack :: "'s consumer \<Rightarrow> ptext \<Rightarrow> ('s, unit) prog" where
  "ack c entry_id = stream_op (sc_xack (cn_client c) (cn_stream c) (cn_group c) entry_id)"

lemma decode_published: "decode_entry (i, stream_entry ev) = [(i, to_payload ev)]"
  by (simp add: stream_entry_def)

section \<open>A subscribing process\<close>

text \<open>
  The loop of the class's documentation: fetch new entries, or, after a restart, those delivered
  before and never acknowledged; handle an event, then acknowledge it. A crash forgets the batch,
  what was handled stays handled.
\<close>

record 's process =
  p_server :: 's
  p_batch :: "(ptext \<times> json) list"
  p_acking :: bool
  p_handled :: "(ptext \<times> json) list"

definition added :: "'s consumer \<Rightarrow> fields \<Rightarrow> 's process \<Rightarrow> 's process" where
  "added c fs p = p\<lparr>p_server := sc_xadd (cn_client c) (cn_stream c) fs STREAM_MAX_LEN (p_server p)\<rparr>"

inductive process_step :: "'s consumer \<Rightarrow> ('s \<Rightarrow> bool) \<Rightarrow> 's process \<Rightarrow> 's process \<Rightarrow> bool" for c up where
  entry_added: "process_step c up p (added c fs p)" if "up (p_server (added c fs p))"
| fetched: "process_step c up p (p\<lparr>p_server := s, p_batch := es, p_acking := False\<rparr>)"
    if "p_batch p = []" "read_new c 10 (p_server p) = (Inr es, s)"
| recovered: "process_step c up p (p\<lparr>p_server := s, p_batch := es, p_acking := False\<rparr>)"
    if "p_batch p = []" "read_pending c 100 (p_server p) = (Inr es, s)"
| event_handled: "process_step c up p (p\<lparr>p_handled := p_handled p @ [e], p_acking := True\<rparr>)"
    if "p_batch p = e # es" "\<not> p_acking p"
| event_acked: "process_step c up p (p\<lparr>p_server := s, p_batch := es, p_acking := False\<rparr>)"
    if "p_batch p = (i, j) # es" "p_acking p" "ack c i (p_server p) = (Inr (), s)"
| crashed: "process_step c up p (p\<lparr>p_batch := [], p_acking := False\<rparr>)"

inductive_cases process_stepE: "process_step c up p p'"

section \<open>Decoding\<close>

definition decoded :: "(ptext \<times> fields) list \<Rightarrow> (ptext \<times> json) list" where
  "decoded xs = concat (map decode_entry xs)"

lemma decoded_simps [simp]: "decoded [] = []" "decoded (x # xs) = decode_entry x @ decoded xs"
  by (simp_all add: decoded_def)

lemma decode_entry_shape:
  obtains (unreadable) "decode_entry x = []" | (readable) j where "decode_entry x = [(fst x, j)]"
proof (cases x)
  case (Pair i fs)
  then show thesis
    using that
    by (cases "map_of fs ''payload''"; cases "json_loads (the (map_of fs ''payload''))") auto
qed

declare decode_entry.simps [simp del]

lemma set_decoded: "e \<in> set (decoded xs) \<longleftrightarrow> (\<exists>x\<in>set xs. decode_entry x = [e])"
proof (induction xs)
  case (Cons x xs)
  then show ?case by (cases x rule: decode_entry_shape) auto
qed simp

lemma decode_entry_id: "decode_entry x = [e] \<Longrightarrow> fst e = fst x"
  by (cases x rule: decode_entry_shape) auto

lemma distinct_decoded: "distinct (map fst xs) \<Longrightarrow> distinct (map fst (decoded xs))"
proof (induction xs)
  case (Cons x xs)
  have "fst x \<notin> fst ` set (decoded xs)"
  proof
    assume "fst x \<in> fst ` set (decoded xs)"
    then obtain e y where "y \<in> set xs" "decode_entry y = [e]" "fst x = fst e"
      by (auto simp: set_decoded)
    then have "fst x \<in> fst ` set xs" using decode_entry_id [of y e] by (metis image_eqI)
    with Cons.prems show False by simp
  qed
  with Cons show ?case by (cases x rule: decode_entry_shape) auto
qed simp

lemma length_filter_conj_le: "length (filter (\<lambda>x. P x \<and> Q x) xs) \<le> length (filter Q xs)"
  by (induction xs) auto

lemma length_filter_conj_less:
  "x \<in> set xs \<Longrightarrow> Q x \<Longrightarrow> \<not> P x \<Longrightarrow> length (filter (\<lambda>x. P x \<and> Q x) xs) < length (filter Q xs)"
  using length_filter_conj_le [of P Q] by (induction xs) (auto simp: less_Suc_eq_le)

section \<open>A consumer group\<close>

text \<open>
  \<open>fresh s\<close> are the retained entries never delivered to the group, \<open>pending s\<close> those delivered to
  its consumer and not acknowledged, both in stream order. \<open>up s\<close>: the server answers, the group
  exists, has this one consumer, and no entry it still needs was trimmed.
\<close>

locale stream_group =
  fixes c :: "'s consumer"
    and up :: "'s \<Rightarrow> bool"
    and fresh pending :: "'s \<Rightarrow> (ptext \<times> fields) list"
  assumes ids_distinct: "up s \<Longrightarrow> distinct (map fst (pending s @ fresh s))"
    and xadd_up: "up s \<Longrightarrow> up (sc_xadd (cn_client c) (cn_stream c) fs n s) \<Longrightarrow>
      pending (sc_xadd (cn_client c) (cn_stream c) fs n s) = pending s \<and>
      (\<exists>i. fresh (sc_xadd (cn_client c) (cn_stream c) fs n s) = fresh s @ [(i, fs)])"
    and read_up: "up s \<Longrightarrow> 0 < n \<Longrightarrow> \<exists>r s'.
      sc_xreadgroup (cn_client c) (cn_group c) (cn_name c) (cn_stream c) (ascii ''>'') n s = (Replied r, s') \<and>
      response_entries r = take (nat n) (fresh s) \<and> up s' \<and>
      fresh s' = drop (nat n) (fresh s) \<and> pending s' = pending s @ take (nat n) (fresh s)"
    and pending_up: "up s \<Longrightarrow> 0 < n \<Longrightarrow> \<exists>r s'.
      sc_xreadgroup (cn_client c) (cn_group c) (cn_name c) (cn_stream c) (ascii ''0'') n s = (Replied r, s') \<and>
      response_entries r = take (nat n) (pending s) \<and> up s' \<and> fresh s' = fresh s \<and> pending s' = pending s"
    and ack_up: "up s \<Longrightarrow> \<exists>s'. sc_xack (cn_client c) (cn_stream c) (cn_group c) i s = (Replied (), s') \<and>
      up s' \<and> fresh s' = fresh s \<and> pending s' = filter (\<lambda>e. fst e \<noteq> i) (pending s)"
begin

definition owed :: "'s process \<Rightarrow> (ptext \<times> fields) list" where
  "owed p = pending (p_server p) @ fresh (p_server p)"

text \<open>The batch is part of what is pending, and its head was handled before it is acknowledged.\<close>

definition healthy :: "'s process \<Rightarrow> bool" where
  "healthy p =
     (up (p_server p) \<and> distinct (map fst (p_batch p)) \<and>
      (\<forall>e\<in>set (p_batch p). \<exists>x\<in>set (pending (p_server p)). decode_entry x = [e]) \<and>
      (p_acking p \<longrightarrow> p_batch p \<noteq> [] \<and> hd (p_batch p) \<in> set (p_handled p)))"

lemma read_new_run:
  assumes "up s"
  obtains s' where "read_new c 10 s = (Inr (decoded (take 10 (fresh s))), s')" and "up s'"
    and "fresh s' = drop 10 (fresh s)" and "pending s' = pending s @ take 10 (fresh s)"
  using read_up [OF assms, of 10] that
  by (fastforce simp: read_new_def prog_defs stream_op_def decode_def decoded_def)

lemma read_pending_run:
  assumes "up s"
  obtains s' where "read_pending c 100 s = (Inr (decoded (take 100 (pending s))), s')" and "up s'"
    and "fresh s' = fresh s" and "pending s' = pending s"
  using pending_up [OF assms, of 100] that
  by (fastforce simp: read_pending_def prog_defs stream_op_def decode_def decoded_def)

lemma ack_run:
  assumes "up s"
  obtains s' where "ack c i s = (Inr (), s')" and "up s'" and "fresh s' = fresh s"
    and "pending s' = filter (\<lambda>e. fst e \<noteq> i) (pending s)"
  using ack_up [OF assms, of i] that by (fastforce simp: ack_def stream_op_def)

lemma batch_of_pending:
  assumes "distinct (map fst xs)" and "set ys \<subseteq> set zs" and "ys = take n xs"
  shows "distinct (map fst (decoded ys))" and "\<forall>e\<in>set (decoded ys). \<exists>x\<in>set zs. decode_entry x = [e]"
proof -
  show "distinct (map fst (decoded ys))"
    using assms(1,3) by (intro distinct_decoded) (simp flip: take_map)
  show "\<forall>e\<in>set (decoded ys). \<exists>x\<in>set zs. decode_entry x = [e]"
    using assms(2) by (meson set_decoded subsetD)
qed

text \<open>What a step keeps: nothing that is owed disappears before it was handled.\<close>

definition kept_or_handled :: "'s process \<Rightarrow> 's process \<Rightarrow> bool" where
  "kept_or_handled p p' =
     (set (p_handled p) \<subseteq> set (p_handled p') \<and>
      (\<forall>x\<in>set (owed p). x \<in> set (owed p') \<or> (\<exists>e\<in>set (p_handled p'). decode_entry x = [e])))"

lemma process_step_keeps:
  assumes "process_step c up p p'" and "healthy p"
  shows "healthy p' \<and> kept_or_handled p p'"
  using assms
proof (cases rule: process_step.cases)
  case (entry_added fs)
  have "up (p_server p)" using assms(2) by (simp add: healthy_def)
  from xadd_up [OF this] entry_added show ?thesis
    using assms(2) by (fastforce simp: healthy_def kept_or_handled_def owed_def added_def)
next
  case (fetched es s)
  have up: "up (p_server p)" using assms(2) by (simp add: healthy_def)
  obtain s' where s': "read_new c 10 (p_server p) = (Inr (decoded (take 10 (fresh (p_server p)))), s')"
      "up s'" "fresh s' = drop 10 (fresh (p_server p))"
      "pending s' = pending (p_server p) @ take 10 (fresh (p_server p))"
    by (rule read_new_run [OF up])
  have "distinct (map fst (fresh (p_server p)))" using ids_distinct [OF up] by simp
  from batch_of_pending [OF this, of "take 10 (fresh (p_server p))" "pending s'" 10] s' fetched
  show ?thesis
    using arg_cong [OF append_take_drop_id, of set 10 "fresh (p_server p)"]
    by (auto simp: healthy_def kept_or_handled_def owed_def)
next
  case (recovered es s)
  have up: "up (p_server p)" using assms(2) by (simp add: healthy_def)
  obtain s' where s': "read_pending c 100 (p_server p) = (Inr (decoded (take 100 (pending (p_server p)))), s')"
      "up s'" "fresh s' = fresh (p_server p)" "pending s' = pending (p_server p)"
    by (rule read_pending_run [OF up])
  have "distinct (map fst (pending (p_server p)))" using ids_distinct [OF up] by simp
  from batch_of_pending [OF this, of "take 100 (pending (p_server p))" "pending s'" 100] s' recovered
  show ?thesis by (simp add: healthy_def kept_or_handled_def owed_def set_take_subset)
next
  case (event_handled e es)
  then show ?thesis using assms(2) by (auto simp: healthy_def kept_or_handled_def owed_def)
next
  case (event_acked i j es s)
  have h: "up (p_server p)" "(i, j) \<in> set (p_handled p)" "i \<notin> fst ` set es"
    "\<forall>e\<in>set es. \<exists>x\<in>set (pending (p_server p)). decode_entry x = [e]" "distinct (map fst es)"
    using assms(2) event_acked by (auto simp: healthy_def)
  obtain x0 where x0: "x0 \<in> set (pending (p_server p))" "decode_entry x0 = [(i, j)]"
    using assms(2) event_acked by (auto simp: healthy_def)
  obtain s' where s': "ack c i (p_server p) = (Inr (), s')" "up s'" "fresh s' = fresh (p_server p)"
      "pending s' = filter (\<lambda>e. fst e \<noteq> i) (pending (p_server p))"
    by (rule ack_run [OF h(1)])
  have only: "x = x0" if "x \<in> set (pending (p_server p))" "fst x = i" for x
    using ids_distinct [OF h(1)] that x0 decode_entry_id [OF x0(2)]
    by (auto simp: distinct_map dest: inj_onD)
  have "\<forall>e\<in>set es. \<exists>x\<in>set (pending s'). decode_entry x = [e]"
  proof
    fix e
    assume "e \<in> set es"
    with h(3,4) obtain x where "x \<in> set (pending (p_server p))" "decode_entry x = [e]" "fst e \<noteq> i"
      by force
    then show "\<exists>x\<in>set (pending s'). decode_entry x = [e]"
      using decode_entry_id by (fastforce simp: s'(4))
  qed
  then show ?thesis
    using s' h event_acked only x0 by (fastforce simp: healthy_def kept_or_handled_def owed_def)
next
  case crashed
  then show ?thesis using assms(2) by (auto simp: healthy_def kept_or_handled_def owed_def)
qed

lemma kept_or_handled_trans:
  "kept_or_handled p p' \<Longrightarrow> kept_or_handled p' p'' \<Longrightarrow> kept_or_handled p p''"
  unfolding kept_or_handled_def by (meson subset_trans subsetD)

lemma run_keeps:
  assumes "(process_step c up)\<^sup>*\<^sup>* p p'" and "healthy p"
  shows "healthy p' \<and> kept_or_handled p p'"
  using assms
proof (induction rule: rtranclp_induct)
  case base
  then show ?case by (simp add: kept_or_handled_def)
next
  case (step p' p'')
  then show ?case using process_step_keeps kept_or_handled_trans by blast
qed

text \<open>How much of what is owed cannot be read.\<close>

definition unreadable :: "'s process \<Rightarrow> nat" where
  "unreadable p = length (filter (\<lambda>x. decode_entry x = []) (owed p))"

lemma crash_run: "(process_step c up)\<^sup>*\<^sup>* p (p\<lparr>p_batch := [], p_acking := False\<rparr>)"
  by (intro r_into_rtranclp process_step.crashed)

end

section \<open>A group in memory\<close>

text \<open>One stream and one group; ids are numbered. Entries are never trimmed below the cap.\<close>

record mem_group =
  mg_next :: nat
  mg_pending :: "(ptext \<times> fields) list"
  mg_fresh :: "(ptext \<times> fields) list"

definition mem_stream :: "mem_group stream_client" where
  "mem_stream =
     \<lparr>sc_xadd = (\<lambda>stream fs n s. s\<lparr>mg_next := Suc (mg_next s), mg_fresh := mg_fresh s @ [([mg_next s], fs)]\<rparr>),
      sc_xgroup_create = (\<lambda>stream group i s. (Thrown ''ResponseError'' (ascii ''BUSYGROUP''), s)),
      sc_xreadgroup = (\<lambda>group name stream i n s.
        if i = ascii ''0'' then (Replied (Some [(stream, take (nat n) (mg_pending s))]), s)
        else (Replied (if mg_fresh s = [] then None else Some [(stream, take (nat n) (mg_fresh s))]),
              s\<lparr>mg_pending := mg_pending s @ take (nat n) (mg_fresh s), mg_fresh := drop (nat n) (mg_fresh s)\<rparr>)),
      sc_xack = (\<lambda>stream group i s.
        (Replied (), s\<lparr>mg_pending := filter (\<lambda>e. fst e \<noteq> i) (mg_pending s)\<rparr>))\<rparr>"

definition mem_consumer :: "mem_group consumer" where
  "mem_consumer =
     \<lparr>cn_client = mem_stream, cn_stream = STREAM_KEY, cn_group = ascii ''diddi-wallet'',
      cn_name = ascii ''worker-1''\<rparr>"

definition mg_up :: "mem_group \<Rightarrow> bool" where
  "mg_up s =
     (distinct (map fst (mg_pending s @ mg_fresh s)) \<and>
      list_all (\<lambda>e. \<exists>k<mg_next s. fst e = [k]) (mg_pending s @ mg_fresh s))"

lemmas mem_stream_defs = mem_consumer_def mem_stream_def mg_up_def response_entries_def

lemma mg_up_delivered:
  "mg_up s \<Longrightarrow> mg_fresh s = xs @ ys \<Longrightarrow> mg_up (s\<lparr>mg_pending := mg_pending s @ xs, mg_fresh := ys\<rparr>)"
  by (simp add: mg_up_def)

interpretation wallet: stream_group mem_consumer mg_up mg_fresh mg_pending
proof unfold_locales
  fix s :: mem_group and fs :: fields and n :: int
  assume "mg_up s"
  then show "mg_pending (sc_xadd (cn_client mem_consumer) (cn_stream mem_consumer) fs n s) = mg_pending s \<and>
      (\<exists>i. mg_fresh (sc_xadd (cn_client mem_consumer) (cn_stream mem_consumer) fs n s) = mg_fresh s @ [(i, fs)])"
    by (simp add: mem_stream_defs)
  show "\<exists>r s'. sc_xreadgroup (cn_client mem_consumer) (cn_group mem_consumer) (cn_name mem_consumer)
      (cn_stream mem_consumer) (ascii ''>'') n s = (Replied r, s') \<and>
      response_entries r = take (nat n) (mg_fresh s) \<and> mg_up s' \<and>
      mg_fresh s' = drop (nat n) (mg_fresh s) \<and> mg_pending s' = mg_pending s @ take (nat n) (mg_fresh s)"
    using mg_up_delivered [OF \<open>mg_up s\<close> append_take_drop_id [symmetric], of "nat n"]
    by (simp add: mem_consumer_def mem_stream_def response_entries_def ascii_def)
qed (auto simp: mem_stream_defs list_all_iff distinct_map inj_on_def)

section \<open>At least once\<close>


definition sample_event :: domain_event where
  "sample_event = UserRegistered \<lparr>ev_user_id = 7, ev_phone = ascii ''+22890000007'', ev_role = ''user'', ev_at = 3\<rparr>"

text \<open>A worker that died with one event delivered, another waiting and a foreign entry between.\<close>

definition died :: "mem_group process" where
  "died =
     \<lparr>p_server = \<lparr>mg_next = 3, mg_pending = [([0], stream_entry sample_event), ([1], [(''x'', Num 1)])],
                  mg_fresh = [([2], stream_entry sample_event)]\<rparr>,
      p_batch = [], p_acking = False, p_handled = []\<rparr>"

lemma died_up: "mg_up (p_server died)" "p_batch died = []" "\<not> p_acking died"
  by (simp_all add: died_def mg_up_def)


end
