(* ===== verification/Event_Draining.thy ===== *)
theory Event_Draining
  imports Event_Consumer
begin

text \<open>
  Progress of a subscriber of the event stream: working off what is there takes finitely many
  steps and leaves no published event unhandled.
\<close>

section \<open>Draining ends\<close>

text \<open>
  The steps of a subscriber that does not crash and reads only when there is something to read: the
  fetches that find an undelivered entry, the recoveries that find a readable one, and the handling.
\<close>

inductive busy_step :: "'s consumer \<Rightarrow> ('s \<Rightarrow> (ptext \<times> fields) list) \<Rightarrow> 's process \<Rightarrow> 's process \<Rightarrow> bool"
  for c fresh where
  busy_fetch: "busy_step c fresh p (p\<lparr>p_server := s, p_batch := es, p_acking := False\<rparr>)"
    if "p_batch p = []" "fresh (p_server p) \<noteq> []" "read_new c 10 (p_server p) = (Inr es, s)"
| busy_recover: "busy_step c fresh p (p\<lparr>p_server := s, p_batch := es, p_acking := False\<rparr>)"
    if "p_batch p = []" "es \<noteq> []" "read_pending c 100 (p_server p) = (Inr es, s)"
| busy_handle: "busy_step c fresh p (p\<lparr>p_handled := p_handled p @ [e], p_acking := True\<rparr>)"
    if "p_batch p = e # es" "\<not> p_acking p"
| busy_ack: "busy_step c fresh p (p\<lparr>p_server := s, p_batch := es, p_acking := False\<rparr>)"
    if "p_batch p = (i, j) # es" "p_acking p" "ack c i (p_server p) = (Inr (), s)"

lemma busy_step_is_step: "busy_step c fresh p p' \<Longrightarrow> process_step c up p p'"
  by (induction rule: busy_step.induct) (auto intro: process_step.intros)

lemma busy_run_is_run: "(busy_step c fresh)\<^sup>*\<^sup>* p p' \<Longrightarrow> (process_step c up)\<^sup>*\<^sup>* p p'"
  by (induction rule: rtranclp_induct) (auto intro: busy_step_is_step rtranclp.rtrancl_into_rtrancl)

context stream_group
begin

definition readable :: "'s \<Rightarrow> nat" where
  "readable s = length (filter (\<lambda>x. decode_entry x \<noteq> []) (pending s))"

text \<open>What is left to do. An entry of the batch counts less than one that still has to be read.\<close>

definition remaining :: "'s process \<Rightarrow> int" where
  "remaining p =
     4 * int (length (fresh (p_server p))) + 3 * int (readable (p_server p)) - int (length (p_batch p)) -
     (if p_acking p then 1 else 0)"

lemma length_decoded: "length (decoded xs) = length (filter (\<lambda>x. decode_entry x \<noteq> []) xs)"
proof (induction xs)
  case (Cons x xs)
  then show ?case by (cases x rule: decode_entry_shape) auto
qed simp

lemma batch_is_pending:
  assumes "healthy p"
  shows "length (p_batch p) \<le> readable (p_server p)"
proof -
  have "set (map fst (p_batch p)) \<subseteq> fst ` set (filter (\<lambda>x. decode_entry x \<noteq> []) (pending (p_server p)))"
  proof
    fix i
    assume "i \<in> set (map fst (p_batch p))"
    then obtain e x where "fst e = i" "x \<in> set (pending (p_server p))" "decode_entry x = [e]"
      using assms by (auto simp: healthy_def)
    then show "i \<in> fst ` set (filter (\<lambda>x. decode_entry x \<noteq> []) (pending (p_server p)))"
      using decode_entry_id [of x e] by (auto intro: rev_image_eqI)
  qed
  then have "card (set (map fst (p_batch p))) \<le> card (fst ` set (filter (\<lambda>x. decode_entry x \<noteq> []) (pending (p_server p))))"
    by (intro card_mono) auto
  also have "\<dots> \<le> readable (p_server p)"
    unfolding readable_def by (rule order_trans [OF card_image_le card_length]) simp
  finally show ?thesis
    using assms distinct_card [of "map fst (p_batch p)"] by (simp add: healthy_def)
qed

lemma remaining_nonneg: "healthy p \<Longrightarrow> 0 \<le> remaining p"
  using batch_is_pending [of p] by (cases "p_batch p") (auto simp: remaining_def healthy_def)

lemma busy_step_progress:
  assumes "busy_step c fresh p p'" and "healthy p"
  shows "remaining p' < remaining p \<and> unreadable p' \<le> unreadable p"
  using assms(1)
proof (cases rule: busy_step.cases)
  case (busy_fetch es s)
  have up: "up (p_server p)" using assms(2) by (simp add: healthy_def)
  obtain s' where s': "read_new c 10 (p_server p) = (Inr (decoded (take 10 (fresh (p_server p)))), s')"
      "fresh s' = drop 10 (fresh (p_server p))" "pending s' = pending (p_server p) @ take 10 (fresh (p_server p))"
    by (rule read_new_run [OF up])
  have "length es \<le> min 10 (length (fresh (p_server p)))"
    using s'(1) busy_fetch(4) length_filter_le [of "\<lambda>x. decode_entry x \<noteq> []" "take 10 (fresh (p_server p))"]
    by (simp add: length_decoded min.commute)
  moreover have "readable s = readable (p_server p) + length es"
    using s' busy_fetch(4) by (simp add: readable_def length_decoded)
  moreover have "\<not> p_acking p" using assms(2) busy_fetch(2) by (simp add: healthy_def)
  moreover have "owed p' = owed p" using s' busy_fetch by (simp add: owed_def)
  moreover have "2 * int (length es) + 4 * int (length (fresh (p_server p)) - 10) < 4 * int (length (fresh (p_server p)))"
    using calculation(1) busy_fetch(3)
    by (cases "length (fresh (p_server p)) \<le> 10"; cases "fresh (p_server p)") (auto simp: of_nat_diff)
  ultimately show ?thesis
    using s' busy_fetch by (auto simp: remaining_def unreadable_def)
next
  case (busy_recover es s)
  have up: "up (p_server p)" using assms(2) by (simp add: healthy_def)
  obtain s' where "read_pending c 100 (p_server p) = (Inr (decoded (take 100 (pending (p_server p)))), s')"
      "fresh s' = fresh (p_server p)" "pending s' = pending (p_server p)"
    by (rule read_pending_run [OF up])
  then show ?thesis
    using busy_recover assms(2) by (simp add: remaining_def readable_def unreadable_def owed_def healthy_def)
next
  case (busy_handle e es)
  then show ?thesis by (simp add: remaining_def unreadable_def owed_def)
next
  case (busy_ack i j es s)
  have up: "up (p_server p)" using assms(2) by (simp add: healthy_def)
  obtain s' where s': "ack c i (p_server p) = (Inr (), s')" "fresh s' = fresh (p_server p)"
      "pending s' = filter (\<lambda>e. fst e \<noteq> i) (pending (p_server p))"
    by (rule ack_run [OF up])
  obtain x where "x \<in> set (pending (p_server p))" "decode_entry x = [(i, j)]"
    using assms(2) busy_ack by (auto simp: healthy_def)
  then have "readable s' < readable (p_server p)"
    using decode_entry_id [of x "(i, j)"] by (auto simp: readable_def s' intro: length_filter_conj_less)
  then show ?thesis
    using s' busy_ack by (simp add: remaining_def unreadable_def owed_def length_filter_conj_le)
qed

lemma busy_run:
  assumes "(busy_step c fresh ^^ n) p p'" and "healthy p"
  shows "healthy p' \<and> remaining p' + int n \<le> remaining p \<and> unreadable p' \<le> unreadable p"
  using assms
proof (induction n arbitrary: p')
  case (Suc n)
  then obtain q where q: "(busy_step c fresh ^^ n) p q" "busy_step c fresh q p'" by auto
  with Suc have "healthy q \<and> remaining q + int n \<le> remaining p \<and> unreadable q \<le> unreadable p" by blast
  with busy_step_progress [OF q(2)] process_step_keeps [OF busy_step_is_step [OF q(2)]] show ?case by force
qed simp

lemma hundred_suffice:
  assumes "unreadable p < 100" and "\<exists>x\<in>set (pending (p_server p)). decode_entry x \<noteq> []"
  shows "\<exists>x\<in>set (take 100 (pending (p_server p))). decode_entry x \<noteq> []"
proof (rule ccontr)
  let ?ps = "pending (p_server p)"
  assume none: "\<not> ?thesis"
  then have "filter (\<lambda>x. decode_entry x = []) (take 100 ?ps) = take 100 ?ps"
    by (simp add: filter_id_conv)
  moreover have "filter (\<lambda>x. decode_entry x = []) ?ps =
      filter (\<lambda>x. decode_entry x = []) (take 100 ?ps) @ filter (\<lambda>x. decode_entry x = []) (drop 100 ?ps)"
    by (simp flip: filter_append)
  ultimately have "length (take 100 ?ps) \<le> unreadable p"
    by (simp add: unreadable_def owed_def)
  then have "take 100 ?ps = ?ps" using assms(1) by simp
  with none assms(2) show False by simp
qed

lemma idle_when_done:
  assumes "healthy p" and "unreadable p < 100" and idle: "\<nexists>q. busy_step c fresh p q"
  shows "\<forall>x\<in>set (owed p). decode_entry x = []"
proof -
  have up: "up (p_server p)" using assms(1) by (simp add: healthy_def)
  have batch: "p_batch p = []"
  proof (cases "p_batch p")
    case (Cons e es)
    obtain s' where "ack c (fst e) (p_server p) = (Inr (), s')" by (rule ack_run [OF up])
    then show ?thesis
      using idle busy_ack [of p "fst e" "snd e" es c s' fresh] busy_handle [of p e es c fresh] Cons
      by (metis prod.collapse)
  qed
  obtain s' where "read_new c 10 (p_server p) = (Inr (decoded (take 10 (fresh (p_server p)))), s')"
    by (rule read_new_run [OF up])
  then have "fresh (p_server p) = []" using idle busy_fetch [OF batch] by blast
  moreover obtain s' where "read_pending c 100 (p_server p) = (Inr (decoded (take 100 (pending (p_server p)))), s')"
    by (rule read_pending_run [OF up])
  then have "decoded (take 100 (pending (p_server p))) = []" using idle busy_recover [OF batch] by blast
  then have "\<forall>x\<in>set (take 100 (pending (p_server p))). decode_entry x = []"
    using length_decoded [of "take 100 (pending (p_server p))"] by (simp add: filter_empty_conv)
  ultimately show ?thesis using hundred_suffice [OF assms(2)] by (auto simp: owed_def)
qed

lemma reaches_idle:
  assumes "healthy p"
  shows "\<exists>n p'. (busy_step c fresh ^^ n) p p' \<and> (\<nexists>q. busy_step c fresh p' q)"
  using assms
proof (induction "nat (remaining p)" arbitrary: p rule: less_induct)
  case less
  show ?case
  proof (cases "\<exists>q. busy_step c fresh p q")
    case True
    then obtain q where q: "busy_step c fresh p q" by blast
    have "healthy q" using process_step_keeps [OF busy_step_is_step [OF q] less.prems] by blast
    with busy_step_progress [OF q less.prems] remaining_nonneg [OF less.prems] less.hyps [of q]
    obtain n p' where run: "(busy_step c fresh ^^ n) q p'" "\<nexists>r. busy_step c fresh p' r"
      by (metis nat_mono_iff order_le_less_trans remaining_nonneg)
    from run(1) have "(busy_step c fresh ^^ Suc n) p p'" using relpowp_Suc_I2 [where P = "busy_step c fresh"] q by metis
    with run(2) show ?thesis by blast
  qed (auto intro: exI [of _ 0])
qed

end

text \<open>
  C31. Draining ends, and ends well: without crashes and idle reads a subscriber takes at most as
  many steps as there are entries, four for an undelivered and three for a pending one, and where it
  has nothing left to do every published event that was waiting was handled with the published
  body, as long as fewer than a hundred unreadable entries are in the way.
\<close>

theorem draining_ends:
  assumes "stream_group c up fresh pending" and "up (p_server p)" and "p_batch p = []" and "\<not> p_acking p"
    and "length (filter (\<lambda>x. decode_entry x = []) (pending (p_server p) @ fresh (p_server p))) < 100"
    and "(busy_step c fresh ^^ n) p p'"
  shows "n \<le> 4 * length (fresh (p_server p)) + 3 * length (pending (p_server p)) \<and>
    ((\<nexists>q. busy_step c fresh p' q) \<longrightarrow>
     (\<forall>i ev. (i, stream_entry ev) \<in> set (pending (p_server p) @ fresh (p_server p)) \<longrightarrow>
        (i, to_payload ev) \<in> set (p_handled p')))"
proof -
  note group = assms(1)
  have start: "stream_group.healthy up pending p"
    using assms(2-4) by (simp add: stream_group.healthy_def [OF group])
  note run = stream_group.busy_run [OF group assms(6) start]
  have "stream_group.unreadable fresh pending p < 100"
    using assms(5) by (simp add: stream_group.unreadable_def [OF group] stream_group.owed_def [OF group])
  with run have few: "stream_group.unreadable fresh pending p' < 100" by simp
  have "int n \<le> stream_group.remaining fresh pending p"
    using run stream_group.remaining_nonneg [OF group, of p'] by simp
  also have "\<dots> \<le> 4 * int (length (fresh (p_server p))) + 3 * int (length (pending (p_server p)))"
    using assms(3,4) length_filter_le by (simp add: stream_group.remaining_def [OF group] stream_group.readable_def [OF group])
  finally have bound: "n \<le> 4 * length (fresh (p_server p)) + 3 * length (pending (p_server p))" by linarith
  have "(process_step c up)\<^sup>*\<^sup>* p p'"
    using assms(6) by (intro busy_run_is_run relpowp_imp_rtranclp)
  note kept = stream_group.run_keeps [OF group this start]
  have "(i, to_payload ev) \<in> set (p_handled p')"
    if idle: "\<nexists>q. busy_step c fresh p' q" and waiting: "(i, stream_entry ev) \<in> set (pending (p_server p) @ fresh (p_server p))"
    for i ev
    using stream_group.idle_when_done [OF group conjunct1 [OF kept] few idle] conjunct2 [OF kept] waiting
      decode_published [of i ev]
    unfolding stream_group.kept_or_handled_def [OF group] stream_group.owed_def [OF group] by fastforce
  with bound show ?thesis by blast
qed

lemma draining_ends_witness:
  "\<exists>n p'. (busy_step mem_consumer mg_fresh ^^ n) died p' \<and> n \<le> 10 \<and> ([0], to_payload sample_event) \<in> set (p_handled p') \<and> ([2], to_payload sample_event) \<in> set (p_handled p')"
proof -
  have "wallet.healthy died" using died_up by (simp add: wallet.healthy_def)
  then obtain n p' where run: "(busy_step mem_consumer mg_fresh ^^ n) died p'"
    and idle: "\<nexists>q. busy_step mem_consumer mg_fresh p' q"
    using wallet.reaches_idle by blast
  have "length (filter (\<lambda>x. decode_entry x = []) (mg_pending (p_server died) @ mg_fresh (p_server died))) < 100"
    by (rule le_less_trans [OF length_filter_le]) (simp add: died_def)
  note drained = draining_ends [OF wallet.stream_group_axioms died_up this run]
  from conjunct2 [OF drained] idle
  have handled: "(i, to_payload ev) \<in> set (p_handled p')"
    if "(i, stream_entry ev) \<in> set (mg_pending (p_server died) @ mg_fresh (p_server died))" for i ev
    using that by blast
  from handled [of "[0]" sample_event] handled [of "[2]" sample_event]
  have "([0], to_payload sample_event) \<in> set (p_handled p')" and "([2], to_payload sample_event) \<in> set (p_handled p')"
    by (simp_all add: died_def)
  moreover have "n \<le> 10" using conjunct1 [OF drained] by (simp add: died_def)
  ultimately show ?thesis using run by blast
qed

end
