(* ===== verification/Event_Bus.thy ===== *)
theory Event_Bus
  imports Event_Draining Redis_Behaviour
begin

text \<open>
  The two ends of the event stream together: the service publishes on the server a subscriber
  reads from. The locale \<open>event_bus\<close> extends the consumer group by what the other commands of the
  service do to the stream, which is nothing, and by the room that is left in it.
\<close>

section \<open>One server, two clients\<close>

text \<open>A command that does not touch the stream. \<open>room n r\<close>: the server answers, and \<open>n\<close> more entries
  can be added before the cap trims one the group still needs.\<close>

definition leaves_stream ::
  "(nat \<Rightarrow> 'r \<Rightarrow> bool) \<Rightarrow> ('r \<Rightarrow> 'x) \<Rightarrow> ('r \<Rightarrow> 'x) \<Rightarrow> ('r \<Rightarrow> 'a \<times> 'r) \<Rightarrow> bool" where
  "leaves_stream room fresh pending f =
     (\<forall>n r. room n r \<longrightarrow> room n (snd (f r)) \<and> fresh (snd (f r)) = fresh r \<and> pending (snd (f r)) = pending r)"

fun published :: "effect list \<Rightarrow> domain_event list" where
  "published [] = []"
| "published (Published ev # es) = ev # published es"
| "published (_ # es) = published es"

lemma published_append [simp]: "published (es @ es') = published es @ published es'"
  by (induction es rule: published.induct) auto

lemma set_published: "ev \<in> set (published es) \<longleftrightarrow> Published ev \<in> set es"
  by (induction es rule: published.induct) auto

lemma service_keys [simp]: "cooldown_key p \<noteq> STREAM_KEY" "ip_key p \<noteq> STREAM_KEY"
  by (simp_all add: cooldown_key_def ip_key_def STREAM_KEY_def ascii_def)

text \<open>Work that leaves Redis alone and publishes nothing.\<close>

definition still :: "('r world, 'a) prog \<Rightarrow> bool" where
  "still m = (\<forall>w. w_redis (snd (m w)) = w_redis w \<and>
     (\<exists>es. w_effects (snd (m w)) = w_effects w @ es \<and> published es = []))"

lemma still_wp:
  "still m \<longleftrightarrow> (\<forall>w. wp m
     (\<lambda>_ w'. w_redis w' = w_redis w \<and> (\<exists>es. w_effects w' = w_effects w @ es \<and> published es = []))
     (\<lambda>_ w'. w_redis w' = w_redis w \<and> (\<exists>es. w_effects w' = w_effects w @ es \<and> published es = [])) w)"
  by (simp add: still_def wp_state)

lemma still_steps:
  "still (return a)" "still (raise e)" "still (from_result r)" "still (gets g)" "still (now_utc c)" "still (uuid4 c)"
  "still (randbelow c n)" "still commit" "still (sender_send p code)" "still (new_refresh_token c)"
  "still (user_find_by_id i)" "still (user_find_by_phone p)" "still (user_save c u)"
  "still (record_status_change sc)" "still (record_role_change rc)" "still (otp_save x)"
  "still (otp_find_latest_active p)" "still (otp_register_attempt i)" "still (otp_mark_consumed c i)"
  "still (token_save t)" "still (token_find_by_hash h)" "still (token_revoke c i)"
  "still (token_revoke_all_for_user c i)" "still (issue_access_token c i role st)"
  "still (event_envelope_now c u role)" "still (get_by_id i)" "still (read_list_users f page page_size)"
  by (auto simp: still_wp wp_rules Let_def sender_send_def get_by_id_def read_list_users_def split: sum.splits option.splits)

lemma get_session_keeps:
  "w_redis (snd (get_session m w)) = w_redis (snd (m w))" "w_effects (snd (get_session m w)) = w_effects (snd (m w))"
  by (auto simp: get_session_def rollback_def split: prod.splits sum.splits)

lemma still_invalidated: "still (emit (Invalidated i))"
  by (simp add: still_wp wp_rules)

lemma still_guards: "still (current_user c b)" "still (require_admin c b)" "still (require_service_or_admin c key b)"
  by (auto simp: still_wp wp_rules Let_def current_user_def get_claims_def decode_access_token_def
      get_current_user_id_def fresh_admin_def get_by_id_def require_admin_def require_service_or_admin_def
      split: option.splits sum.splits jwt_error.splits)

locale event_bus = stream_group k up fresh pending
  for k :: "'r consumer" and up :: "'r \<Rightarrow> bool" and fresh pending :: "'r \<Rightarrow> (ptext \<times> fields) list" +
  fixes c :: "'r ctx"
    and room :: "nat \<Rightarrow> 'r \<Rightarrow> bool"
  assumes same_stream: "cn_stream k = STREAM_KEY"
    and xadd_shared: "snd (rc_xadd (redis c) STREAM_KEY fs m r) = sc_xadd (cn_client k) STREAM_KEY fs m r"
    and xadd_room: "room (Suc n) r \<Longrightarrow> room n (sc_xadd (cn_client k) STREAM_KEY fs m r)"
    and room_up: "room n r \<Longrightarrow> up r"
    and room_less: "room (Suc n) r \<Longrightarrow> room n r"
    and get_elsewhere: "key \<noteq> STREAM_KEY \<Longrightarrow> leaves_stream room fresh pending (rc_get (redis c) key)"
    and set_elsewhere: "key \<noteq> STREAM_KEY \<Longrightarrow> leaves_stream room fresh pending (rc_set_ex (redis c) key v ex)"
    and delete_elsewhere: "key \<noteq> STREAM_KEY \<Longrightarrow> leaves_stream room fresh pending (rc_delete (redis c) key)"
    and ttl_elsewhere: "key \<noteq> STREAM_KEY \<Longrightarrow> leaves_stream room fresh pending (rc_ttl (redis c) key)"
    and incr_elsewhere: "key \<noteq> STREAM_KEY \<Longrightarrow> leaves_stream room fresh pending (rc_incr (redis c) key)"
    and expire_elsewhere: "key \<noteq> STREAM_KEY \<Longrightarrow> leaves_stream room fresh pending (rc_expire (redis c) key ex)"
begin

lemmas elsewhere =
  get_elsewhere set_elsewhere delete_elsewhere ttl_elsewhere incr_elsewhere expire_elsewhere

text \<open>From one state of the server to another, with what was published in between: the entries of
  these events, in their order, were added to the stream, and nothing else happened to it.\<close>

definition grows :: "'r \<Rightarrow> domain_event list \<Rightarrow> 'r \<Rightarrow> bool" where
  "grows r evs r' =
     (pending r' = pending r \<and> (\<exists>new. fresh r' = fresh r @ new \<and> map snd new = map stream_entry evs))"

lemma grows_refl: "grows r [] r"
  by (simp add: grows_def)

lemma grows_trans: "grows r evs r' \<Longrightarrow> grows r' evs' r'' \<Longrightarrow> grows r (evs @ evs') r''"
  by (force simp: grows_def)

text \<open>\<open>logs j m\<close>: a program that publishes at most \<open>j\<close> events, and puts them on the stream.\<close>

definition logs :: "nat \<Rightarrow> ('r world, 'a) prog \<Rightarrow> bool" where
  "logs j m = (\<forall>w n. room (n + j) (w_redis w) \<longrightarrow>
     room n (w_redis (snd (m w))) \<and>
     (\<exists>es. w_effects (snd (m w)) = w_effects w @ es \<and> grows (w_redis w) (published es) (w_redis (snd (m w)))))"

lemma logsD:
  assumes "logs j m" and "m w = (x, w')" and "room (n + j) (w_redis w)"
  obtains es where "room n (w_redis w')" and "w_effects w' = w_effects w @ es"
    and "grows (w_redis w) (published es) (w_redis w')"
  using assms by (force simp: logs_def)

lemma room_add: "room (n + j) r \<Longrightarrow> room n r"
  by (induction j) (auto dest: room_less)

lemma still_logs: "still m \<Longrightarrow> logs 0 m"
  unfolding still_def logs_def using grows_refl by (metis add_0_right)

lemma logs_weaken: "logs 0 m \<Longrightarrow> logs j m"
  unfolding logs_def using room_add by (metis add_0_right)

lemma logs_andthen:
  assumes "logs j m" and "\<And>a. logs l (f a)"
  shows "logs (l + j) (andthen m f)"
  unfolding logs_def
proof (intro allI impI)
  fix w :: "'r world" and n
  assume room: "room (n + (l + j)) (w_redis w)"
  obtain x w' where m: "m w = (x, w')" by fastforce
  obtain es where es: "room (n + l) (w_redis w')" "w_effects w' = w_effects w @ es"
      "grows (w_redis w) (published es) (w_redis w')"
    using logsD [OF assms(1) m, of "n + l"] room by (auto simp: add.assoc)
  show "room n (w_redis (snd (andthen m f w))) \<and>
     (\<exists>es. w_effects (snd (andthen m f w)) = w_effects w @ es \<and>
        grows (w_redis w) (published es) (w_redis (snd (andthen m f w))))"
  proof (cases x)
    case (Inl e)
    with m es room_add show ?thesis by (auto simp: andthen_def)
  next
    case (Inr a)
    obtain y w'' where f: "f a w' = (y, w'')" by fastforce
    obtain es' where "room n (w_redis w'')" "w_effects w'' = w_effects w' @ es'"
        "grows (w_redis w') (published es') (w_redis w'')"
      using logsD [OF assms(2) f es(1)] .
    with m f Inr es grows_trans [OF es(3)] show ?thesis
      by (auto simp: andthen_def intro!: exI [of _ "es @ es'"])
  qed
qed

lemma logs_redis: "leaves_stream room fresh pending f \<Longrightarrow> logs 0 (redis_op f)"
  by (simp add: logs_def redis_op_def leaves_stream_def grows_def case_prod_beta)

lemma logs_publish: "logs 1 (publish c ev)"
  unfolding logs_def
proof (intro allI impI)
  fix w :: "'r world" and n
  let ?r = "w_redis w" and ?r' = "sc_xadd (cn_client k) STREAM_KEY (stream_entry ev) STREAM_MAX_LEN (w_redis w)"
  assume "room (n + 1) ?r"
  then have room: "up ?r" "room n ?r'" using room_up xadd_room by auto
  then have "pending ?r' = pending ?r \<and> (\<exists>i. fresh ?r' = fresh ?r @ [(i, stream_entry ev)])"
    using xadd_up [of ?r "stream_entry ev" STREAM_MAX_LEN] room_up by (simp add: same_stream)
  then have "grows ?r [ev] ?r'" by (auto simp: grows_def)
  moreover have "snd (publish c ev w) = w\<lparr>w_effects := w_effects w @ [Published ev], w_redis := ?r'\<rparr>"
    by (simp add: publish_def prog_defs emit_def redis_op_def xadd_shared [symmetric] split: prod.split)
  ultimately show "room n (w_redis (snd (publish c ev w))) \<and>
     (\<exists>es. w_effects (snd (publish c ev w)) = w_effects w @ es \<and>
        grows ?r (published es) (w_redis (snd (publish c ev w))))"
    using room(2) by simp
qed

lemma logs_get_session: "logs j m \<Longrightarrow> logs j (get_session m)"
  by (simp add: logs_def get_session_keeps)

text \<open>The rules that walk through a command: quiet work first, at most one publication.\<close>

lemma logs0_andthen: "logs 0 m \<Longrightarrow> (\<And>a. logs 0 (f a)) \<Longrightarrow> logs 0 (andthen m f)"
  using logs_andthen [of 0 m 0 f] by simp

lemma logs0_before: "logs 0 m \<Longrightarrow> logs 0 n \<Longrightarrow> logs 0 (before m n)"
  unfolding before_def by (rule logs0_andthen)

lemma logs1_andthen: "logs 0 m \<Longrightarrow> (\<And>a. logs 1 (f a)) \<Longrightarrow> logs 1 (andthen m f)"
  using logs_andthen [of 0 m 1 f] by simp

lemma logs1_before: "logs 0 m \<Longrightarrow> logs 1 n \<Longrightarrow> logs 1 (before m n)"
  unfolding before_def by (rule logs1_andthen)

lemma logs1_andthen': "logs 1 m \<Longrightarrow> (\<And>a. logs 0 (f a)) \<Longrightarrow> logs 1 (andthen m f)"
  using logs_andthen [of 1 m 0 f] by simp

lemma logs1_before': "logs 1 m \<Longrightarrow> logs 0 n \<Longrightarrow> logs 1 (before m n)"
  unfolding before_def by (rule logs1_andthen')

lemma logs_branches:
  "logs j m \<Longrightarrow> logs j n \<Longrightarrow> logs j (if b then m else n)"
  "logs j m \<Longrightarrow> (\<And>a. logs j (f a)) \<Longrightarrow> logs j (case x of None \<Rightarrow> m | Some a \<Rightarrow> f a)"
  "(\<And>a b. logs j (g a b)) \<Longrightarrow> logs j (case p of (a, b) \<Rightarrow> g a b)"
  "logs j m \<Longrightarrow> (\<And>a. logs j (h a)) \<Longrightarrow> logs j (case rep of Down \<Rightarrow> m | Reply a \<Rightarrow> h a)"
  "(\<And>z. logs j (l z)) \<Longrightarrow> logs j (Let y l)"
  by (simp_all split: option.split prod.split reply.split)

lemmas logs0_rules = still_logs [OF still_steps(1)] still_steps [THEN still_logs] logs_branches logs0_before logs0_andthen

lemma logs_cache:
  "logs 0 (cache_invalidate_user c i)" "logs 0 (cache_get_user c i)" "logs 0 (cache_set_user c u)"
  unfolding cache_invalidate_user_def cache_get_user_def cache_set_user_def
  by (intro logs0_rules logs_redis elsewhere stream_is_no_profile still_logs [OF still_invalidated])+

lemma logs_limits:
  "logs 0 (seconds_until_phone_allowed c p s)" "logs 0 (mark_phone_sent c p s)" "logs 0 (check_ip c ip)"
  unfolding seconds_until_phone_allowed_def mark_phone_sent_def check_ip_def hit_ip_def
  by (intro logs0_rules logs_redis elsewhere service_keys)+

lemma logs_session_parts:
  "logs 0 (open_session c t i device)" "logs 0 (activate c t u)" "logs 0 (reject_code c x)" "logs 0 (verify_lookup c phone)"
  "logs 0 (refresh_lookup c tok)" "logs 0 (refresh_rotate c device t st u)" "logs 0 (logout c tok everywhere)"
  "logs 0 (issue_otp c phone)"
  unfolding open_session_def activate_def reject_code_def verify_lookup_def refresh_lookup_def refresh_rotate_def
    logout_def issue_otp_def
  by (intro logs0_rules)+

lemmas logs_parts = logs_cache logs_limits logs_session_parts

lemma queries_log:
  "logs 0 (get_user_by_id c i)" "logs 0 (list_users f page page_size)" "logs 0 (request_otp c phone ip)"
  "logs 0 (register_user c phone name)" "logs 0 (refresh_access_token c tok device)"
  unfolding get_user_by_id_def list_users_def request_otp_def register_defs refresh_access_token_def whenever_def
  by (intro logs0_rules logs_parts)+

lemma logs_ends: "logs j (return a)" "logs j (raise e)"
  by (rule logs_weaken [OF still_logs [OF still_steps(1)]], rule logs_weaken [OF still_logs [OF still_steps(2)]])

lemma logs_publish_before: "logs 0 m \<Longrightarrow> logs 1 (before (publish c ev) m)"
  by (rule logs1_before' [OF logs_publish])

lemma logs_announce:
  "logs 0 m \<Longrightarrow>
   logs 1 (before (if b then andthen (event_envelope_now c u r) (\<lambda>env. publish c (g env)) else return ()) m)"
  by (intro logs1_before' logs_branches(1) logs_ends logs1_andthen logs_publish still_logs [OF still_steps(25)])

lemmas logs_anywhere = logs_ends logs_weaken [OF logs_session_parts(3)] logs_parts still_steps [THEN still_logs]

lemma commands_log:
  "logs 1 (update_profile c i name)" "logs 1 (change_status c i st reason by_whom)"
  "logs 1 (change_role c i role reason by_whom)" "logs 1 (decide_kyc c i ok reason by_whom)"
  "logs 1 (verify_otp c phone code device)"
  unfolding update_profile_def change_status_def set_status_def change_role_def request_role_def set_role_def
    decide_kyc_defs verify_otp_def verify_code_def whenever_def
  by (rule logs_publish_before | rule logs_announce | rule logs_anywhere | rule logs_branches |
      rule logs1_before logs1_andthen logs0_before logs0_andthen)+

lemma logs_checked: "logs j m \<Longrightarrow> logs j (checked b m)"
  by (simp add: checked_def logs_ends)

lemma handler_logs: "logs 1 (handler c req)"
  by (cases req)
    (auto simp: get_current_user_profile_def simp del: One_nat_def intro!: logs_checked logs1_andthen [OF still_logs [OF still_guards(1)]]
      logs1_andthen [OF still_logs [OF still_guards(2)]] logs1_andthen [OF still_logs [OF still_guards(3)]]
      logs1_andthen' [OF commands_log(1)] logs1_andthen' [OF commands_log(2)] logs1_andthen' [OF commands_log(3)]
      logs1_andthen' [OF commands_log(4)] logs1_andthen' [OF commands_log(5)]
      logs1_andthen [OF queries_log(1)] logs1_andthen [OF queries_log(2)] logs1_andthen [OF queries_log(3)]
      logs1_andthen [OF queries_log(4)] logs1_andthen [OF queries_log(5)] logs1_before [OF logs_session_parts(7)] logs_ends)

text \<open>One request: what it published is on the stream, in order, and nothing else changed there.\<close>

lemma serve_logs:
  assumes "room (Suc n) (w_redis w)"
  shows "room n (w_redis (snd (serve c req w))) \<and>
    (\<exists>es. w_effects (snd (serve c req w)) = w_effects w @ es \<and>
       grows (w_redis w) (published es) (w_redis (snd (serve c req w))))"
proof -
  have "snd (serve c req w) = snd (get_session (handler c req) w)"
    by (simp add: serve_def split: prod.split)
  with logs_get_session [OF handler_logs, of req] assms show ?thesis
    by (simp add: logs_def)
qed

end

text \<open>
  C18. From the service to a subscriber: what a request publishes is added to the stream, in order,
  and nothing else is; and when a subscriber that starts then has worked off the stream, it has
  handled every one of these events with the body that was published.
\<close>

theorem published_events_reach_subscribers:
  assumes "event_bus k up fresh pending c room" and "room (Suc n) (w_redis w)"
    and "w_effects (snd (serve c req w)) = w_effects w @ es"
    and "p_server p = w_redis (snd (serve c req w))" and "p_batch p = []" and "\<not> p_acking p"
    and "length (filter (\<lambda>x. decode_entry x = []) (pending (p_server p) @ fresh (p_server p))) < 100"
    and "(busy_step k fresh ^^ m) p p'" and "\<nexists>q. busy_step k fresh p' q"
  shows "pending (p_server p) = pending (w_redis w) \<and>
    (\<exists>new. fresh (p_server p) = fresh (w_redis w) @ new \<and> map snd new = map stream_entry (published es)) \<and>
    (\<forall>ev. Published ev \<in> set es \<longrightarrow> (\<exists>i. (i, to_payload ev) \<in> set (p_handled p')))"
proof -
  note bus = assms(1)
  then have group: "stream_group k up fresh pending" by (simp add: event_bus_def)
  have "event_bus.grows fresh pending (w_redis w) (published es) (p_server p)"
    and room: "room n (p_server p)"
    using event_bus.serve_logs [OF bus assms(2), of req] assms(3,4) by auto
  then obtain new where new: "pending (p_server p) = pending (w_redis w)"
      "fresh (p_server p) = fresh (w_redis w) @ new" "map snd new = map stream_entry (published es)"
    by (auto simp: event_bus.grows_def [OF bus])
  have "up (p_server p)" by (rule event_bus.room_up [OF bus room])
  note drained = conjunct2 [OF draining_ends [OF group this assms(5-8)], rule_format, OF assms(9)]
  have "\<exists>i. (i, to_payload ev) \<in> set (p_handled p')" if "Published ev \<in> set es" for ev
  proof -
    from that have "stream_entry ev \<in> set (map snd new)" unfolding new(3) by (simp add: set_published)
    then obtain i where "(i, stream_entry ev) \<in> set new" by auto
    then show ?thesis using drained [of i ev] new(2) by auto
  qed
  with new show ?thesis by blast
qed

section \<open>A server in memory for both ends\<close>

record bus_server =
  bs_redis :: mem_redis
  bs_group :: mem_group

definition over_redis :: "(mem_redis \<Rightarrow> 'a \<times> mem_redis) \<Rightarrow> bus_server \<Rightarrow> 'a \<times> bus_server" where
  "over_redis f r = (case f (bs_redis r) of (x, m) \<Rightarrow> (x, r\<lparr>bs_redis := m\<rparr>))"

definition over_group :: "(mem_group \<Rightarrow> 'a \<times> mem_group) \<Rightarrow> bus_server \<Rightarrow> 'a \<times> bus_server" where
  "over_group f r = (case f (bs_group r) of (x, g) \<Rightarrow> (x, r\<lparr>bs_group := g\<rparr>))"

definition bus_stream :: "bus_server stream_client" where
  "bus_stream =
     \<lparr>sc_xadd = (\<lambda>s fs n r. r\<lparr>bs_group := sc_xadd mem_stream s fs n (bs_group r)\<rparr>),
      sc_xgroup_create = (\<lambda>s g i. over_group (sc_xgroup_create mem_stream s g i)),
      sc_xreadgroup = (\<lambda>g name s i n. over_group (sc_xreadgroup mem_stream g name s i n)),
      sc_xack = (\<lambda>s g i. over_group (sc_xack mem_stream s g i))\<rparr>"

definition bus_client :: "bus_server redis_client" where
  "bus_client =
     \<lparr>rc_get = (\<lambda>key. over_redis (rc_get mem_client key)),
      rc_set_ex = (\<lambda>key v ex. over_redis (rc_set_ex mem_client key v ex)),
      rc_delete = (\<lambda>key. over_redis (rc_delete mem_client key)),
      rc_ttl = (\<lambda>key. over_redis (rc_ttl mem_client key)),
      rc_incr = (\<lambda>key. over_redis (rc_incr mem_client key)),
      rc_expire = (\<lambda>key ex. over_redis (rc_expire mem_client key ex)),
      rc_xadd = (\<lambda>s fs n r. (Reply (), sc_xadd bus_stream s fs n r))\<rparr>"

definition bus_consumer :: "bus_server consumer" where
  "bus_consumer = \<lparr>cn_client = bus_stream, cn_stream = STREAM_KEY, cn_group = ascii ''diddi-wallet'', cn_name = ascii ''worker-1''\<rparr>"

definition bus_ctx :: "bus_server ctx" where
  "bus_ctx =
     \<lparr>cfg = default_settings, redis = bus_client, ring = ring sample_ctx, jwt = sample_jwt,
      sha256_hex = sha256_hex sample_ctx, hmac_sha256_hex = hmac_sha256_hex sample_ctx, clock = clock sample_ctx,
      uuid4s = uuid4s sample_ctx, urlsafe_tokens = urlsafe_tokens sample_ctx, random_codes = random_codes sample_ctx\<rparr>"

lemmas bus_wiring = bus_consumer_def bus_stream_def bus_client_def bus_ctx_def

lemmas bus_defs = bus_wiring over_redis_def over_group_def

lemma mg_up_added: "mg_up g \<Longrightarrow> mg_up (sc_xadd mem_stream s fs n g)"
proof -
  assume up: "mg_up g"
  let ?old = "mg_pending g @ mg_fresh g"
  have known: "\<exists>k<mg_next g. fst e = [k]" if "e \<in> set ?old" for e
    using up that unfolding mg_up_def list_all_iff by blast
  have "[mg_next g] \<notin> set (map fst ?old)"
  proof
    assume "[mg_next g] \<in> set (map fst ?old)"
    then obtain e where "e \<in> set ?old" "fst e = [mg_next g]" unfolding set_map by fastforce
    with known [of e] show False by simp
  qed
  with up have "distinct (map fst ((mg_pending g @ mg_fresh g) @ [([mg_next g], fs)]))" by (simp add: mg_up_def)
  moreover have "\<exists>k<Suc (mg_next g). fst e = [k]" if "e \<in> set (?old @ [([mg_next g], fs)])" for e
  proof (cases "e \<in> set ?old")
    case True
    with known [of e] show ?thesis using less_SucI by blast
  qed (use that in auto)
  ultimately show "mg_up (sc_xadd mem_stream s fs n g)"
    unfolding mg_up_def list_all_iff by (simp add: mem_stream_def)
qed

lemma over_redis_leaves: "leaves_stream (\<lambda>_ r. P (bs_group r)) (\<lambda>r. f (bs_group r)) (\<lambda>r. g (bs_group r)) (over_redis h)"
  by (simp add: leaves_stream_def over_redis_def case_prod_beta)

interpretation memory_bus: event_bus bus_consumer "\<lambda>r. mg_up (bs_group r)" "\<lambda>r. mg_fresh (bs_group r)"
  "\<lambda>r. mg_pending (bs_group r)" bus_ctx "\<lambda>_ r. mg_up (bs_group r)"
proof unfold_locales
  fix s :: bus_server and fs :: fields and n :: int and i :: ptext
  assume up: "mg_up (bs_group s)"
  show "distinct (map fst (mg_pending (bs_group s) @ mg_fresh (bs_group s)))" by (rule wallet.ids_distinct [OF up])
  show "mg_pending (bs_group (sc_xadd (cn_client bus_consumer) (cn_stream bus_consumer) fs n s)) = mg_pending (bs_group s) \<and>
      (\<exists>i. mg_fresh (bs_group (sc_xadd (cn_client bus_consumer) (cn_stream bus_consumer) fs n s)) =
        mg_fresh (bs_group s) @ [(i, fs)])"
    by (simp add: bus_defs mem_stream_def)
  show "\<exists>s'. sc_xack (cn_client bus_consumer) (cn_stream bus_consumer) (cn_group bus_consumer) i s = (Replied (), s') \<and>
      mg_up (bs_group s') \<and> mg_fresh (bs_group s') = mg_fresh (bs_group s) \<and>
      mg_pending (bs_group s') = filter (\<lambda>e. fst e \<noteq> i) (mg_pending (bs_group s))"
    using wallet.ack_up [OF up, of i] by (auto simp: bus_defs mem_consumer_def)
  assume n: "0 < n"
  show "\<exists>r s'. sc_xreadgroup (cn_client bus_consumer) (cn_group bus_consumer) (cn_name bus_consumer) (cn_stream bus_consumer)
        (ascii ''>'') n s = (Replied r, s') \<and> response_entries r = take (nat n) (mg_fresh (bs_group s)) \<and>
      mg_up (bs_group s') \<and> mg_fresh (bs_group s') = drop (nat n) (mg_fresh (bs_group s)) \<and>
      mg_pending (bs_group s') = mg_pending (bs_group s) @ take (nat n) (mg_fresh (bs_group s))"
    using wallet.read_up [OF up n] by (fastforce simp: bus_defs mem_consumer_def)
  show "\<exists>r s'. sc_xreadgroup (cn_client bus_consumer) (cn_group bus_consumer) (cn_name bus_consumer) (cn_stream bus_consumer)
        (ascii ''0'') n s = (Replied r, s') \<and> response_entries r = take (nat n) (mg_pending (bs_group s)) \<and>
      mg_up (bs_group s') \<and> mg_fresh (bs_group s') = mg_fresh (bs_group s) \<and>
      mg_pending (bs_group s') = mg_pending (bs_group s)"
    using wallet.pending_up [OF up n] by (fastforce simp: bus_defs mem_consumer_def)
qed (simp_all add: bus_wiring mg_up_added over_redis_leaves)

text \<open>Kofi's first login, announced on the stream and handled by a worker of the wallet.\<close>

definition bus_world :: "bus_server world" where
  "bus_world =
     \<lparr>w_db = db2, w_committed = db2,
      w_redis = \<lparr>bs_redis = redis2, bs_group = \<lparr>mg_next = 0, mg_pending = [], mg_fresh = []\<rparr>\<rparr>,
      w_clock_ix = 3, w_uuid_ix = 2, w_token_ix = 0, w_code_ix = 1, w_effects = effects2\<rparr>"

lemma bus_run:
  "w_effects (snd (serve bus_ctx (PostOtpVerify kofi_phone (ascii ''123456'') None) bus_world)) =
     w_effects bus_world @ [Committed, Invalidated 100, Published registered_event]"
proof -
  let ?req = "PostOtpVerify kofi_phone (ascii ''123456'') None"
  have "wp (get_session (handler bus_ctx ?req))
      (\<lambda>_ w'. w_effects w' = effects2 @ [Committed, Invalidated 100, Published registered_event]) (\<lambda>_ _. False) bus_world"
    by (simp add: bus_world_def bus_defs sample_defs run_defs code_defs verify_defs verify_otp_defs)
  then show ?thesis
    by (auto simp: wp_def serve_def bus_world_def split: prod.splits sum.splits)
qed

lemma published_events_reach_subscribers_witness:
  "\<exists>n p'. (busy_step bus_consumer (\<lambda>r. mg_fresh (bs_group r)) ^^ n)
     \<lparr>p_server = w_redis (snd (serve bus_ctx (PostOtpVerify kofi_phone (ascii ''123456'') None) bus_world)),
      p_batch = [], p_acking = False, p_handled = []\<rparr> p' \<and>
     (\<exists>i. (i, to_payload registered_event) \<in> set (p_handled p'))"
proof -
  let ?w' = "snd (serve bus_ctx (PostOtpVerify kofi_phone (ascii ''123456'') None) bus_world)"
  let ?p = "\<lparr>p_server = w_redis ?w', p_batch = [], p_acking = False, p_handled = []\<rparr> :: bus_server process"
  have room: "mg_up (bs_group (w_redis bus_world))" by (simp add: bus_world_def mg_up_def)
  obtain es where logged: "mg_up (bs_group (w_redis ?w'))" "w_effects ?w' = w_effects bus_world @ es"
      "memory_bus.grows (w_redis bus_world) (published es) (w_redis ?w')"
    using memory_bus.serve_logs [OF room] by blast
  have "published es = [registered_event]" using logged(2) by (auto simp: bus_run)
  with logged(3) obtain new where "mg_pending (bs_group (w_redis ?w')) = []" "mg_fresh (bs_group (w_redis ?w')) = new"
      "map snd new = [stream_entry registered_event]"
    by (auto simp: memory_bus.grows_def bus_world_def)
  then have "length (mg_pending (bs_group (w_redis ?w')) @ mg_fresh (bs_group (w_redis ?w'))) < 100"
    using length_map [of snd new] by simp
  then have few: "length (filter (\<lambda>x. decode_entry x = [])
      (mg_pending (bs_group (p_server ?p)) @ mg_fresh (bs_group (p_server ?p)))) < 100"
    by (intro le_less_trans [OF length_filter_le]) simp
  have "memory_bus.healthy ?p" using logged(1) by (simp add: memory_bus.healthy_def)
  then obtain n p' where run: "(busy_step bus_consumer (\<lambda>r. mg_fresh (bs_group r)) ^^ n) ?p p'"
      "\<nexists>q. busy_step bus_consumer (\<lambda>r. mg_fresh (bs_group r)) p' q"
    using memory_bus.reaches_idle by blast
  from published_events_reach_subscribers [OF memory_bus.event_bus_axioms room bus_run _ _ _ few run]
  show ?thesis using run(1) by auto
qed

end
