(* ===== verification/Migration.thy ===== *)
theory Migration
  imports Service_System
begin

text \<open>
  \<open>scripts/migrate_from_diddigo.py\<close>: copying the accounts of DiddiGo into \<open>identity.users\<close>. The
  rows of \<open>auth.users\<close> are an argument, the report keeps what it lists as values instead of
  sentences, and the target is the users table of the model.
\<close>

section \<open>The script\<close>

record source_row =
  sr_id :: uuid
  sr_phone :: ptext
  sr_full_name :: "ptext option"
  sr_password_hash :: "ptext option"
  sr_role :: ptext
  sr_status :: ptext
  sr_created_at :: instant
  sr_updated_at :: instant

definition ROLE_MAP :: "ptext \<Rightarrow> ptext option" where
  "ROLE_MAP = map_of [(ascii ''passenger'', ascii ''user''), (ascii ''driver'', ascii ''driver''),
                      (ascii ''admin'', ascii ''admin'')]"

definition STATUS_MAP :: "ptext \<Rightarrow> ptext option" where
  "STATUS_MAP = map_of [(ascii ''active'', ascii ''active''), (ascii ''suspended'', ascii ''suspended''),
                        (ascii ''pending_verification'', ascii ''pending_verification'')]"

record report =
  migrated :: nat
  skipped_existing_id :: "(ptext \<times> uuid) list"
  skipped_phone_taken :: "(ptext \<times> uuid \<times> uuid) list"
  unknown_role :: "(ptext \<times> uuid \<times> ptext) list"
  unknown_status :: "(ptext \<times> uuid \<times> ptext) list"

definition empty_report :: report where
  "empty_report =
     \<lparr>migrated = 0, skipped_existing_id = [], skipped_phone_taken = [], unknown_role = [],
      unknown_status = []\<rparr>"

definition has_blocking_issues :: "report \<Rightarrow> bool" where
  "has_blocking_issues r = (unknown_role r \<noteq> [] \<or> unknown_status r \<noteq> [] \<or> skipped_phone_taken r \<noteq> [])"

definition migrated_row :: "source_row \<Rightarrow> ptext \<Rightarrow> ptext \<Rightarrow> user_row" where
  "migrated_row r role status =
     \<lparr>ur_id = sr_id r, ur_phone = sr_phone r, ur_full_name = sr_full_name r,
      ur_password_hash = sr_password_hash r, ur_role = role, ur_status = status,
      ur_requested_role = None, ur_created_at = sr_created_at r, ur_updated_at = sr_updated_at r\<rparr>"

definition migrate_row :: "bool \<Rightarrow> source_row \<Rightarrow> report \<times> database \<Rightarrow> report \<times> database" where
  "migrate_row dry_run r = (\<lambda>(rep, db).
     case ROLE_MAP (sr_role r) of
       None \<Rightarrow> (rep\<lparr>unknown_role := unknown_role rep @ [(sr_phone r, sr_id r, sr_role r)]\<rparr>, db)
     | Some role \<Rightarrow>
         (case STATUS_MAP (sr_status r) of
            None \<Rightarrow> (rep\<lparr>unknown_status := unknown_status rep @ [(sr_phone r, sr_id r, sr_status r)]\<rparr>, db)
          | Some status \<Rightarrow>
              if user_exists (sr_id r) db then
                (rep\<lparr>skipped_existing_id := skipped_existing_id rep @ [(sr_phone r, sr_id r)]\<rparr>, db)
              else
                (case find (\<lambda>u. ur_phone u = sr_phone r) (db_users db) of
                   Some clash \<Rightarrow>
                     (rep\<lparr>skipped_phone_taken := skipped_phone_taken rep @ [(sr_phone r, sr_id r, ur_id clash)]\<rparr>, db)
                 | None \<Rightarrow>
                     (rep\<lparr>migrated := Suc (migrated rep)\<rparr>,
                      if dry_run then db else add_user (migrated_row r role status) db))))"

text \<open>The loop over the rows in the order of the query, then the rollback or the commit.\<close>

definition migrate :: "source_row list \<Rightarrow> bool \<Rightarrow> database \<Rightarrow> report \<times> database" where
  "migrate auth_users dry_run target =
     (case fold (migrate_row dry_run) (sort_key sr_created_at auth_users) (empty_report, target) of
        (rep, db) \<Rightarrow> (rep, if dry_run then target else db))"

text \<open>The exit code of \<open>main\<close>: anything that needs arbitration makes the run fail.\<close>

definition exit_code :: "report \<Rightarrow> int" where
  "exit_code rep = (if has_blocking_issues rep then 1 else 0)"

section \<open>One row\<close>

text \<open>A row the maps know, and one whose id or phone the target already has.\<close>

definition known :: "source_row \<Rightarrow> bool" where
  "known r = (ROLE_MAP (sr_role r) \<noteq> None \<and> STATUS_MAP (sr_status r) \<noteq> None)"

definition taken :: "source_row \<Rightarrow> database \<Rightarrow> bool" where
  "taken r db = (\<exists>u\<in>set (db_users db). ur_id u = sr_id r \<or> ur_phone u = sr_phone r)"

definition row_of :: "source_row \<Rightarrow> user_row" where
  "row_of r = migrated_row r (the (ROLE_MAP (sr_role r))) (the (STATUS_MAP (sr_status r)))"

lemma row_of_fields [simp]:
  "ur_id (row_of r) = sr_id r" "ur_phone (row_of r) = sr_phone r" "ur_requested_role (row_of r) = None"
  by (simp_all add: row_of_def migrated_row_def)

lemma migrate_row_target:
  "snd (migrate_row False r (rep, db)) = (if known r \<and> \<not> taken r db then add_user (row_of r) db else db)"
  by (auto simp: migrate_row_def known_def taken_def row_of_def user_exists_def list_ex_iff find_None_all
      split: option.splits dest: find_Some_in)

lemma migrate_row_count:
  "migrated (fst (migrate_row dry r (rep, db))) = migrated rep + (if known r \<and> \<not> taken r db then 1 else 0)"
  by (auto simp: migrate_row_def known_def taken_def user_exists_def list_ex_iff find_None_all
      split: option.splits dest: find_Some_in)

lemma taken_add [simp]:
  "taken r (add_user u db) \<longleftrightarrow> taken r db \<or> ur_id u = sr_id r \<or> ur_phone u = sr_phone r"
  by (auto simp: taken_def add_user_def)

section \<open>The loop\<close>

lemma migrate_loop_target:
  "snd (fold (migrate_row False) rs (rep, db)) =
   fold (\<lambda>r db. if known r \<and> \<not> taken r db then add_user (row_of r) db else db) rs db"
proof (induction rs arbitrary: rep db)
  case (Cons r rs)
  obtain rep' db' where m: "migrate_row False r (rep, db) = (rep', db')" by fastforce
  then have "db' = (if known r \<and> \<not> taken r db then add_user (row_of r) db else db)"
    using migrate_row_target [of r rep db] by simp
  with Cons [of rep' db'] m show ?case by simp
qed simp

definition copied :: "source_row list \<Rightarrow> database \<Rightarrow> database" where
  "copied rs db = fold (\<lambda>r db. if known r \<and> \<not> taken r db then add_user (row_of r) db else db) rs db"

lemma copied_simps [simp]:
  "copied [] db = db"
  "copied (r # rs) db = copied rs (if known r \<and> \<not> taken r db then add_user (row_of r) db else db)"
  by (simp_all add: copied_def)

lemma migrate_target: "snd (migrate src False db) = copied (sort_key sr_created_at src) db"
  using migrate_loop_target [of "sort_key sr_created_at src" empty_report db]
  by (simp add: migrate_def copied_def split: prod.splits)

lemma taken_copied: "taken r db \<Longrightarrow> taken r (copied rs db)"
  by (induction rs arbitrary: db) auto

lemma copied_settles: "r \<in> set rs \<Longrightarrow> known r \<Longrightarrow> taken r (copied rs db)"
  by (induction rs arbitrary: db) (auto intro: taken_copied)

lemma copied_again:
  assumes "\<And>r. r \<in> set rs \<Longrightarrow> known r \<Longrightarrow> taken r db"
  shows "copied rs db = db" and "migrated (fst (fold (migrate_row False) rs (rep, db))) = migrated rep"
proof -
  have "copied rs db = db \<and> migrated (fst (fold (migrate_row False) rs (rep, db))) = migrated rep"
    using assms
  proof (induction rs arbitrary: rep)
    case (Cons r rs)
    obtain rep' db' where m: "migrate_row False r (rep, db) = (rep', db')" by fastforce
    have "known r \<Longrightarrow> taken r db" using Cons.prems by simp
    then have "db' = db" and "migrated rep' = migrated rep"
      using migrate_row_target [of r rep db] migrate_row_count [of False r rep db] m by (auto split: if_splits)
    with Cons m show ?case by auto
  qed simp
  then show "copied rs db = db" and "migrated (fst (fold (migrate_row False) rs (rep, db))) = migrated rep"
    by simp_all
qed

lemma copied_rows:
  obtains new where "db_users (copied rs db) = db_users db @ map row_of new"
    and "set new \<subseteq> set rs" and "migrated (fst (fold (migrate_row False) rs (rep, db))) = migrated rep + length new"
proof -
  have "\<exists>new. db_users (copied rs db) = db_users db @ map row_of new \<and> set new \<subseteq> set rs \<and>
      migrated (fst (fold (migrate_row False) rs (rep, db))) = migrated rep + length new"
  proof (induction rs arbitrary: db rep)
    case (Cons r rs)
    obtain rep' db' where m: "migrate_row False r (rep, db) = (rep', db')" by fastforce
    have db': "db' = (if known r \<and> \<not> taken r db then add_user (row_of r) db else db)"
      and rep': "migrated rep' = migrated rep + (if known r \<and> \<not> taken r db then 1 else 0)"
      using migrate_row_target [of r rep db] migrate_row_count [of False r rep db] m by simp_all
    obtain new where new: "db_users (copied rs db') = db_users db' @ map row_of new" "set new \<subseteq> set rs"
        "migrated (fst (fold (migrate_row False) rs (rep', db'))) = migrated rep' + length new"
      using Cons by blast
    show ?case
    proof (cases "known r \<and> \<not> taken r db")
      case True
      with new db' rep' m show ?thesis by (intro exI [of _ "r # new"]) (auto simp: add_user_def)
    next
      case False
      with new db' rep' m show ?thesis by (intro exI [of _ new]) auto
    qed
  qed simp
  then show thesis using that by blast
qed

text \<open>
  C34. The migration can be run again: it keeps the rows that were there, adds as many rows as it
  reports, each with the id and the phone of a row of DiddiGo, and a second run adds nothing and
  changes nothing. A dry run changes nothing at all.
\<close>

theorem migration_is_idempotent:
  assumes "migrate src False db = (rep, db')"
  shows "snd (migrate src False db') = db' \<and> migrated (fst (migrate src False db')) = 0 \<and>
    snd (migrate src True db) = db \<and>
    (\<exists>new. db_users db' = db_users db @ new \<and> length new = migrated rep \<and>
       set (map (\<lambda>u. (ur_id u, ur_phone u)) new) \<subseteq> set (map (\<lambda>r. (sr_id r, sr_phone r)) src))"
proof -
  let ?rs = "sort_key sr_created_at src"
  have db': "db' = copied ?rs db" using migrate_target [of src db] assms by simp
  have rep: "rep = fst (fold (migrate_row False) ?rs (empty_report, db))"
    using assms by (simp add: migrate_def split: prod.splits)
  have settled: "taken r db'" if "r \<in> set ?rs" and "known r" for r
    using that copied_settles by (simp add: db')
  have "snd (migrate src False db') = db'"
    using copied_again(1) [of ?rs db'] settled by (simp add: migrate_target)
  moreover have "migrated (fst (migrate src False db')) = 0"
    using copied_again(2) [of ?rs db' empty_report] settled
    by (simp add: migrate_def empty_report_def split: prod.splits)
  moreover have "snd (migrate src True db) = db" by (simp add: migrate_def split: prod.splits)
  moreover obtain new where "db_users db' = db_users db @ map row_of new" and "set new \<subseteq> set ?rs"
    and "migrated rep = length new"
    using copied_rows [of ?rs db empty_report] by (auto simp: db' rep empty_report_def)
  ultimately show ?thesis by (auto intro!: exI [of _ "map row_of new"])
qed

section \<open>What the service starts from\<close>

lemma known_row_reads:
  "known r \<Longrightarrow> user_to_domain (row_of r) \<noteq> None"
  by (auto simp: known_def row_of_def migrated_row_def user_to_domain_def ROLE_MAP_def STATUS_MAP_def
      split: if_splits)

lemma seed_ok_add:
  "seed_ok db \<Longrightarrow> known r \<Longrightarrow> \<not> taken r db \<Longrightarrow> seed_ok (add_user (row_of r) db)"
  using known_row_reads [of r]
  by (auto simp: seed_ok_def tables_ok_def taken_def add_user_def user_exists_def)

lemma seed_ok_copied: "seed_ok db \<Longrightarrow> seed_ok (copied rs db)"
  by (induction rs arbitrary: db) (auto simp: seed_ok_add)

lemma copied_account:
  assumes "r \<in> set rs" and "known r" and "\<not> taken r db" and "distinct (map sr_id rs)" and "distinct (map sr_phone rs)"
  shows "row_of r \<in> set (db_users (copied rs db))"
  using assms
proof (induction rs arbitrary: db)
  case (Cons q rs)
  have keep: "row_of r \<in> set (db_users (copied rs db'))" if "row_of r \<in> set (db_users db')" for db'
  proof -
    obtain new where "db_users (copied rs db') = db_users db' @ map row_of new"
      by (rule copied_rows [of rs db' empty_report])
    with that show ?thesis by simp
  qed
  show ?case
  proof (cases "r = q")
    case True
    with Cons.prems keep [of "add_user (row_of q) db"] show ?thesis by (simp add: add_user_def)
  next
    case False
    then have "\<not> taken r (if known q \<and> \<not> taken q db then add_user (row_of q) db else db)"
      using Cons.prems by (auto simp: image_iff)
    with Cons False show ?thesis by simp
  qed
qed simp


definition diddigo :: "source_row list" where
  "diddigo =
     [\<lparr>sr_id = 5, sr_phone = ascii ''+22890000005'', sr_full_name = None, sr_password_hash = None,
       sr_role = ascii ''passenger'', sr_status = ascii ''active'', sr_created_at = 2, sr_updated_at = 2\<rparr>,
      \<lparr>sr_id = 6, sr_phone = ascii ''+22890000006'', sr_full_name = None, sr_password_hash = None,
       sr_role = ascii ''courier'', sr_status = ascii ''active'', sr_created_at = 1, sr_updated_at = 1\<rparr>]"

lemma migration_is_idempotent_witness:
  "migrated (fst (migrate diddigo False (snd (migrate diddigo False empty_database)))) = 0"
  using migration_is_idempotent [OF surjective_pairing, of diddigo empty_database] by blast


end
