(* ===== verification/Login.thy ===== *)
theory Login
  imports Command_Outcomes
begin

text \<open>
  Signing in from end to end: the code that \<open>POST /auth/otp/request\<close> hands to the sender is the one
  that \<open>POST /auth/otp/verify\<close> takes, whatever was served in between.
\<close>

section \<open>The code that was sent\<close>

lemma sent_code_pattern: "is_otp_pattern (six_digits n)"
proof -
  have "is_py_digit (48 + m mod 10)" for m :: nat
    unfolding is_py_digit_def list_ex_iff
    by (rule bexI [of _ 48]) (simp_all add: digit_zeros_def less_Suc_eq_le [symmetric])
  then show ?thesis by (simp add: is_otp_pattern_def six_digits_def)
qed

lemma snd_serve: "snd (serve c req w) = snd (get_session (handler c req) w)"
  by (simp add: serve_def split: prod.splits)

lemma code_sent:
  assumes "settled w" and "ids_fresh c w"
    and "w_effects (snd (serve c (PostOtpRequest phone forwarded peer) w)) = w_effects w @ [Committed, OtpSent p code]"
  shows "validate_phone phone = Inr p" "is_otp_pattern code"
    "db_otp_codes (w_committed (snd (serve c (PostOtpRequest phone forwarded peer) w))) =
     db_otp_codes (w_committed w) @ [fresh_code c (uuid4s c (w_uuid_ix w)) p code (clock c (w_clock_ix w))]"
proof -
  let ?m = "request_otp c phone (client_ip forwarded peer)"
  let ?Q = "\<lambda>w'. w_effects w' = w_effects w @ [Committed, OtpSent p code] \<longrightarrow>
    validate_phone phone = Inr p \<and> is_otp_pattern code \<and>
    db_otp_codes (w_committed w') =
      db_otp_codes (w_committed w) @ [fresh_code c (uuid4s c (w_uuid_ix w)) p code (clock c (w_clock_ix w))]"
  have "wp (get_session (handler c (PostOtpRequest phone forwarded peer))) (\<lambda>_. ?Q) (\<lambda>_. ?Q) w"
    using assms(1,2)
    by (auto simp: outcome_simps request_otp_def ids_freshD sent_code_pattern rollback_def split: sum.splits)
  then have "?Q (snd (serve c (PostOtpRequest phone forwarded peer) w))"
    unfolding wp_state snd_serve .
  with assms(3) show "validate_phone phone = Inr p" "is_otp_pattern code"
    "db_otp_codes (w_committed (snd (serve c (PostOtpRequest phone forwarded peer) w))) =
     db_otp_codes (w_committed w) @ [fresh_code c (uuid4s c (w_uuid_ix w)) p code (clock c (w_clock_ix w))]"
    by simp_all
qed

lemma sort_key_newest:
  assumes "\<forall>y\<in>set ys. f x < f y"
  shows "sort_key f (ys @ [x]) = x # sort_key f ys"
  using assms by (induction ys) (auto simp: not_le)

lemma latest_active_newest:
  assumes "db_otp_codes db = xs @ [x]" and "\<forall>y\<in>set xs. otp_created_at y < otp_created_at x"
    and "otp_phone x = p" and "otp_consumed_at x = None"
  shows "latest_active p db = Some x"
proof -
  have "\<forall>y\<in>set (filter (\<lambda>r. otp_phone r = p \<and> otp_consumed_at r = None) xs). - otp_created_at x < - otp_created_at y"
    using assms(2) by simp
  from sort_key_newest [where f = "\<lambda>r. - otp_created_at r", OF this] assms(1,3,4) show ?thesis
    by (simp add: latest_active_def)
qed

section \<open>The session it opens\<close>

text \<open>An answer of \<open>/auth/otp/verify\<close> with a session of the account \<open>i\<close> behind its refresh token.\<close>

definition signed_in :: "'r ctx \<Rightarrow> uuid \<Rightarrow> (nat \<times> json) \<times> 'r world \<Rightarrow> bool" where
  "signed_in c i = (\<lambda>((status, answer), w).
     status = 200 \<and>
     (\<exists>access raw. jfield ''access_token'' answer = Some (JText access) \<and>
        jfield ''refresh_token'' answer = Some (JText raw) \<and>
        (\<exists>t\<in>set (db_refresh_tokens (w_committed w)). rt_token_hash t = hash_refresh_token c raw \<and>
           rt_user_id t = i \<and> rt_revoked_at t = None)))"

lemma right_code_answers:
  assumes "settled w" and "ids_fresh c w" and "validate_phone phone = Inr p"
    and "code_accepted c p code (clock c (w_clock_ix w)) x (w_committed w)"
    and "account_by_phone (w_committed w) p = Some u" and "usr_status u \<noteq> SUSPENDED"
  shows "wp (verify_otp c phone code device)
    (\<lambda>j w'. \<exists>access raw profile k now.
       j = JObj [(''access_token'', JText access), (''refresh_token'', JText raw), (''user'', profile)] \<and>
       db_refresh_tokens (w_db w') = db_refresh_tokens (w_db w) @ [session_token c k (usr_id u) raw device now])
    (\<lambda>_ _. False) w"
proof (cases "usr_status u = PENDING_VERIFICATION")
  case True
  then show ?thesis
    using accepted_facts [OF assms(1,4,5)] assms(2,3)
    by (simp add: outcome_simps verify_otp_defs wp_activate ids_freshD) blast
next
  case False
  then show ?thesis
    using accepted_facts [OF assms(1,4,5)] assms(2,3,6)
    by (simp add: outcome_simps verify_otp_defs wp_activate ids_freshD) blast
qed

text \<open>
  C38. Signing in works: the code that was sent for a number opens a session of its account, until
  it expires and unless the account was suspended or another code was asked for or tried
  meanwhile; other requests make no difference. The clock is taken to be past the earlier codes.
\<close>

theorem sent_code_signs_in:
  assumes "settled w" and "ids_fresh c w"
    and "w_effects (snd (serve c (PostOtpRequest phone forwarded peer) w)) = w_effects w @ [Committed, OtpSent p code]"
    and "\<forall>y\<in>set (db_otp_codes (w_committed w)). otp_created_at y < clock c (w_clock_ix w)"
    and "settled w2" and "ids_fresh c w2"
    and "db_otp_codes (w_committed w2) =
      db_otp_codes (w_committed (snd (serve c (PostOtpRequest phone forwarded peer) w)))"
    and "clock c (w_clock_ix w2) < clock c (w_clock_ix w) + seconds (otp_code_lifetime_seconds (cfg c))"
    and "account_by_phone (w_committed w2) p = Some u" and "usr_status u \<noteq> SUSPENDED" and "at_most 200 device"
  shows "signed_in c (usr_id u) (serve c (PostOtpVerify phone code device) w2)"
proof -
  note sent = code_sent [OF assms(1-3)]
  let ?x = "fresh_code c (uuid4s c (w_uuid_ix w)) p code (clock c (w_clock_ix w))"
  have "latest_active p (w_committed w2) = Some ?x"
    by (rule latest_active_newest [OF assms(7) [unfolded sent(3)]]) (use assms(4) in \<open>simp_all add: fresh_code_def\<close>)
  then have "code_accepted c p code (clock c (w_clock_ix w2)) ?x (w_committed w2)"
    using assms(8) by (simp add: code_accepted_def fresh_code_def is_expired_def verify_otp_code_def)
  note right = right_code_answers [OF assms(5,6) sent(1) this assms(9,10), of device]
  have "wp (get_session (handler c (PostOtpVerify phone code device)))
      (\<lambda>r w3. signed_in c (usr_id u) (r, w3)) (\<lambda>_ _. False) w2"
    using sent(2) assms(11)
    by (auto simp: wp_get_session wp_andthen wp_return' checked_def signed_in_def session_token_def intro!: wp_mono [OF right])
  then show ?thesis
    by (auto simp: serve_def wp_def split: prod.splits sum.splits)
qed

lemma sent_code_signs_in_witness:
  "signed_in sample_ctx 100 (serve sample_ctx (PostOtpVerify kofi_phone (ascii ''123456'') None) world2)"
proof -
  have "w_effects (snd (serve sample_ctx (PostOtpRequest kofi_phone None None) world1)) =
      w_effects world1 @ [Committed, OtpSent kofi_phone (ascii ''123456'')]"
    unfolding succeeds_serve [OF run2] by (simp add: world2_def world1_def at_def effects2_def)
  moreover have "\<forall>y\<in>set (db_otp_codes (w_committed world1)). otp_created_at y < clock sample_ctx (w_clock_ix world1)"
    by (simp add: sample_defs)
  moreover have "clock sample_ctx (w_clock_ix world2) <
      clock sample_ctx (w_clock_ix world1) + seconds (otp_code_lifetime_seconds (cfg sample_ctx))"
    by (simp add: sample_defs code_defs)
  ultimately show ?thesis
    using sent_code_signs_in [OF sample_settled(2) sample_ids_fresh(1) _ _ sample_settled(3) sample_ids_fresh(2) _ _
        kofi_by_phone, of kofi_phone None None "ascii ''123456''" None]
    unfolding succeeds_serve [OF run2] by (simp add: at_most_def)
qed

end
