(* ===== verification/Operations.thy ===== *)
theory Operations
  imports Access_Control
begin

text \<open>
  What an operator runs and what the process does before the first request:
  \<open>scripts/generate_keys.py\<close>, \<open>scripts/issue_service_token.py\<close>, \<open>core/lifespan.py\<close> with
  \<open>core/redis.py\<close> and \<open>get_token_service\<close>, and the two routes that touch no table.
\<close>

section \<open>Key files\<close>

text \<open>The file system maps the path of a file to its text; the pair of PEM texts is the one
  \<open>cryptography\<close> generated. Directories are created as needed.\<close>

type_synonym files = "ptext \<Rightarrow> ptext option"

definition key_file :: "ptext \<Rightarrow> string \<Rightarrow> ptext" where
  "key_file out_dir name = out_dir @ ascii (''/'' @ name)"

text \<open>\<open>generate\<close>, with the lines it prints for the environment.\<close>

definition generate ::
  "ptext \<times> ptext \<Rightarrow> ptext \<Rightarrow> ptext \<Rightarrow> bool \<Rightarrow> files \<Rightarrow> (failure + (string \<times> ptext) list) \<times> files" where
  "generate pair out_dir new_kid force file =
     (let private_path = key_file out_dir ''private.pem''; public_path = key_file out_dir ''public.pem'' in
      if (file private_path \<noteq> None \<or> file public_path \<noteq> None) \<and> \<not> force
      then (Inl (Uncaught ''SystemExit''), file)
      else
        (Inr [(''JWT_PRIVATE_KEY_PATH'', private_path), (''JWT_PUBLIC_KEY_PATH'', public_path),
              (''JWT_ACTIVE_KID'', new_kid)],
         file(private_path \<mapsto> fst pair, public_path \<mapsto> snd pair)))"

lemma key_files_differ [simp]: "key_file d ''private.pem'' \<noteq> key_file d ''public.pem''"
  by (simp add: key_file_def ascii_def)

section \<open>Start-up\<close>

text \<open>
  The state of the application and of the process: the pool, the token service with its key ring,
  and the one-element cache of \<open>get_key_ring\<close>, which keeps a result and no exception.
\<close>

record app =
  app_redis :: "ptext option"
  app_tokens :: "key_ring option"
  app_ring_cache :: "key_ring option"

definition fresh_app :: app where
  "fresh_app = \<lparr>app_redis = None, app_tokens = None, app_ring_cache = None\<rparr>"

definition cached_key_ring :: "files \<Rightarrow> settings \<Rightarrow> key_paths \<Rightarrow> (app, key_ring) prog" where
  "cached_key_ring file s p =
     andthen (gets app_ring_cache) (\<lambda>cached.
     case cached of
       Some r \<Rightarrow> return r
     | None \<Rightarrow>
         andthen (from_result (get_key_ring file s p)) (\<lambda>r.
         before (modify (\<lambda>a. a\<lparr>app_ring_cache := Some r\<rparr>)) (return r)))"

definition create_redis_pool :: "ptext \<Rightarrow> ptext" where
  "create_redis_pool url = url"

text \<open>\<open>lifespan\<close> up to the \<open>yield\<close>; \<open>ping\<close> is what connecting to the database raised, if anything.\<close>

definition lifespan ::
  "failure option \<Rightarrow> ptext \<Rightarrow> files \<Rightarrow> settings \<Rightarrow> key_paths \<Rightarrow> (app, ptext list) prog" where
  "lifespan ping redis_url file s p =
     before (case ping of None \<Rightarrow> return () | Some e \<Rightarrow> raise e)
     (before (modify (\<lambda>a. a\<lparr>app_redis := Some (create_redis_pool redis_url)\<rparr>))
     (andthen (cached_key_ring file s p) (\<lambda>tokens.
     before (modify (\<lambda>a. a\<lparr>app_tokens := Some tokens\<rparr>))
     (return (map kid (public_keys tokens))))))"

definition get_token_service :: "files \<Rightarrow> settings \<Rightarrow> key_paths \<Rightarrow> (app, key_ring) prog" where
  "get_token_service file s p =
     andthen (gets app_tokens) (\<lambda>service.
     case service of
       Some tokens \<Rightarrow> return tokens
     | None \<Rightarrow>
         andthen (cached_key_ring file s p) (\<lambda>tokens.
         before (modify (\<lambda>a. a\<lparr>app_tokens := Some tokens\<rparr>)) (return tokens)))"

definition get_redis :: "ptext \<Rightarrow> (app, ptext) prog" where
  "get_redis redis_url =
     andthen (gets app_redis) (\<lambda>pool.
     return (case pool of None \<Rightarrow> create_redis_pool redis_url | Some q \<Rightarrow> q))"

section \<open>Routes without a table\<close>

definition JWKS_MAX_AGE_SECONDS :: nat where
  "JWKS_MAX_AGE_SECONDS = 3600"

text \<open>The document with its \<open>Cache-Control\<close>, as the number of seconds it names.\<close>

definition get_jwks ::
  "(ptext \<Rightarrow> (nat \<times> nat) option) \<Rightarrow> files \<Rightarrow> settings \<Rightarrow> key_paths \<Rightarrow> (app, nat \<times> json) prog" where
  "get_jwks load file s p =
     andthen (get_token_service file s p) (\<lambda>tokens.
     andthen (from_result (jwks load tokens)) (\<lambda>doc.
     return (JWKS_MAX_AGE_SECONDS, doc)))"

definition health :: "ptext \<Rightarrow> nat \<times> json" where
  "health app_name = (200, JObj [(''status'', jlit ''ok''), (''app'', JText app_name)])"

lemma wp_cached_key_ring [wp_rules]:
  "wp (cached_key_ring file s p) Q E a =
   (case app_ring_cache a of
      Some r \<Rightarrow> Q r a
    | None \<Rightarrow> (case get_key_ring file s p of Inl e \<Rightarrow> E e a | Inr r \<Rightarrow> Q r (a\<lparr>app_ring_cache := Some r\<rparr>)))"
  by (simp add: cached_key_ring_def wp_rules split: option.splits sum.splits)

text \<open>
  The process starts exactly when the database answers and the key ring loads. From then on the
  JWKS is the one of that key ring, whatever happens to the files, to Redis or to the database.
\<close>

theorem starts_or_refuses:
  "(\<exists>kids. fst (lifespan ping url file s p fresh_app) = Inr kids) \<longleftrightarrow>
     ping = None \<and> (\<exists>r. get_key_ring file s p = Inr r)"
proof -
  have "wp (lifespan ping url file s p)
      (\<lambda>_ _. ping = None \<and> (\<exists>r. get_key_ring file s p = Inr r))
      (\<lambda>_ _. \<not> (ping = None \<and> (\<exists>r. get_key_ring file s p = Inr r))) fresh_app"
    by (auto simp: lifespan_def wp_rules fresh_app_def split: option.splits sum.splits)
  then show ?thesis by (auto simp: wp_def split: prod.splits sum.splits)
qed

lemma jwks_after_start:
  assumes "lifespan ping url file s p fresh_app = (Inr kids, a)"
  obtains r where "get_key_ring file s p = Inr r" and "kids = map kid (public_keys r)"
    and "\<And>load file' s' p'. get_jwks load file' s' p' a = (map_sum id (Pair JWKS_MAX_AGE_SECONDS) (jwks load r), a)"
proof -
  have "wp (lifespan ping url file s p)
      (\<lambda>kids a. \<exists>r. get_key_ring file s p = Inr r \<and> kids = map kid (public_keys r) \<and> app_tokens a = Some r)
      (\<lambda>_ _. True) fresh_app"
    by (auto simp: lifespan_def wp_rules fresh_app_def split: option.splits sum.splits)
  then obtain r where "get_key_ring file s p = Inr r" "kids = map kid (public_keys r)" "app_tokens a = Some r"
    using assms by (auto simp: wp_def)
  then show thesis
    by (intro that [of r])
      (simp_all add: get_jwks_def get_token_service_def prog_defs split: sum.splits)
qed

section \<open>Rotating the keys\<close>

text \<open>The configuration after a rotation: the new pair signs, the old public key stays published.\<close>

definition rotated_settings :: "ptext \<Rightarrow> settings \<Rightarrow> settings" where
  "rotated_settings new_kid s = s\<lparr>jwt_active_kid := new_kid\<rparr>"

definition rotated_paths :: "ptext \<Rightarrow> settings \<Rightarrow> key_paths \<Rightarrow> key_paths" where
  "rotated_paths out_dir s p =
     \<lparr>jwt_private_key_path = key_file out_dir ''private.pem'', jwt_public_key_path = key_file out_dir ''public.pem'',
      jwt_previous_public_key_path = Some (jwt_public_key_path p), jwt_previous_kid = Some (jwt_active_kid s)\<rparr>"


text \<open>The keys of a development machine, rotated into a second directory.\<close>

definition dev_ctx :: "mem_redis ctx" where
  "dev_ctx = sample_ctx\<lparr>jwt := sample_jwt\<lparr>jwt_header_kid := (\<lambda>t. Some (Some (ascii ''dev-2026-07-01'')))\<rparr>\<rparr>"

definition dev_paths :: key_paths where
  "dev_paths =
     \<lparr>jwt_private_key_path = ascii ''keys/private.pem'', jwt_public_key_path = ascii ''keys/public.pem'',
      jwt_previous_public_key_path = None, jwt_previous_kid = None\<rparr>"

definition dev_files :: files where
  "dev_files = [ascii ''keys/private.pem'' \<mapsto> ascii ''priv'', ascii ''keys/public.pem'' \<mapsto> ascii ''pub'']"

lemma dev_key_ring:
  "get_key_ring dev_files (cfg dev_ctx) dev_paths =
   Inr \<lparr>active_kid = ascii ''dev-2026-07-01'', private_pem = ascii ''priv'',
        public_keys = [\<lparr>kid = ascii ''dev-2026-07-01'', pem = ascii ''pub''\<rparr>]\<rparr>"
  by (simp add: get_key_ring_def read_key_def dev_files_def dev_paths_def dev_ctx_def sample_ctx_def
      default_settings_def)

lemma dev_rotation:
  "generate (ascii ''priv2'', ascii ''pub2'') (ascii ''keys/next'') (ascii ''k2'') False dev_files =
   (Inr [(''JWT_PRIVATE_KEY_PATH'', key_file (ascii ''keys/next'') ''private.pem''),
         (''JWT_PUBLIC_KEY_PATH'', key_file (ascii ''keys/next'') ''public.pem''), (''JWT_ACTIVE_KID'', ascii ''k2'')],
    dev_files(key_file (ascii ''keys/next'') ''private.pem'' \<mapsto> ascii ''priv2'',
              key_file (ascii ''keys/next'') ''public.pem'' \<mapsto> ascii ''pub2''))"
  by (simp add: generate_def Let_def dev_files_def) (simp add: key_file_def ascii_def)


section \<open>Service tokens\<close>

text \<open>\<open>issue\<close> of \<open>issue_service_token.py\<close>; the version-5 UUID of the name is an argument.\<close>

definition service_claims :: "'r ctx \<Rightarrow> (ptext \<Rightarrow> uuid) \<Rightarrow> ptext \<Rightarrow> int \<Rightarrow> instant \<Rightarrow> claims" where
  "service_claims c uuid5_url service_name n now =
     [(''sub'', JText (uuid_str (uuid5_url (ascii ''urn:diddifree:service:'' @ service_name)))),
      (''role'', jlit ''service''), (''status'', jlit ''active''), (''service'', JText service_name),
      (''iss'', JText (jwt_issuer (cfg c))), (''iat'', JTime now), (''exp'', JTime (now + hours n))]"

definition issue_service_token :: "'r ctx \<Rightarrow> (ptext \<Rightarrow> uuid) \<Rightarrow> ptext \<Rightarrow> int \<Rightarrow> ('r world, ptext) prog" where
  "issue_service_token c uuid5_url service_name n =
     andthen (now_utc c) (\<lambda>now.
     return (jwt_encode (jwt c) (service_claims c uuid5_url service_name n now)
               (private_pem (ring c)) (active_kid (ring c))))"

text \<open>
  A service token opens the service routes and nothing else: where an account is asked for, the
  caller is told that a service token is not allowed.
\<close>

theorem service_token_is_no_account:
  assumes "issue_service_token c uuid5_url service_name n w = (Inr token, w1)" and "token \<noteq> []"
    and "find (\<lambda>e. kid e = active_kid (ring c)) (public_keys (ring c)) = Some entry"
    and "jwt_header_kid (jwt c) token = Some (Some (active_kid (ring c)))"
    and "jwt_decode (jwt c) token (pem entry) (jwt_issuer (cfg c)) (clock c (w_clock_ix w')) = Inr cl"
    and "map_of cl ''role'' = map_of (service_claims c uuid5_url service_name n (clock c (w_clock_ix w))) ''role''"
  shows "fst (require_service_or_admin c None (Some token) w') = Inr None \<and>
    fst (current_user c (Some token) w') = Inl (api 403 ''SERVICE_TOKEN_NOT_ALLOWED'' JNull) \<and>
    fst (require_admin c (Some token) w') = Inl (api 403 ''SERVICE_TOKEN_NOT_ALLOWED'' JNull)"
proof -
  have "map_of cl ''role'' = Some (jlit SERVICE_ROLE)"
    using assms(6) by (simp add: service_claims_def SERVICE_ROLE_def)
  with assms(2-5) show ?thesis
    by (simp add: fst_wp require_service_or_admin_def current_user_def require_admin_def get_claims_def
        decode_access_token_def get_current_user_id_def is_service_def wp_rules)
qed

end
