(* ===== verification/Schema.thy ===== *)
theory Schema
  imports Models
begin

text \<open>
  The \<open>identity\<close> schema twice: as \<open>infra/models.py\<close> declares it and as the revisions under
  \<open>alembic/versions/\<close> build it. Alembic and PostgreSQL are represented by what the operations of the
  revisions do to tables, columns and indexes; one that the server refuses is \<open>None\<close>.
\<close>

section \<open>Tables\<close>

datatype column_type = Uuid | VarChar nat | TextType | SmallInt | TimestampTz

record column =
  col_name :: string
  col_type :: column_type
  col_nullable :: bool
  col_default :: "string option"

record table =
  tbl_name :: string
  tbl_columns :: "column list"
  tbl_primary_key :: "string list"
  tbl_unique :: "string list"
  tbl_foreign_keys :: "(string \<times> string \<times> string) list"

record schema =
  sch_tables :: "table list"
  sch_indexes :: "(string \<times> string \<times> string list) list"

definition required :: "string \<Rightarrow> column_type \<Rightarrow> column" where
  "required n t = \<lparr>col_name = n, col_type = t, col_nullable = False, col_default = None\<rparr>"

definition optional :: "string \<Rightarrow> column_type \<Rightarrow> column" where
  "optional n t = \<lparr>col_name = n, col_type = t, col_nullable = True, col_default = None\<rparr>"

definition defaulted :: "string \<Rightarrow> column_type \<Rightarrow> string \<Rightarrow> column" where
  "defaulted n t d = \<lparr>col_name = n, col_type = t, col_nullable = False, col_default = Some d\<rparr>"

definition id_column :: column where
  "id_column = defaulted ''id'' Uuid ''uuid_generate_v4()''"

definition owned_by_user :: "(string \<times> string \<times> string) list" where
  "owned_by_user = [(''user_id'', ''identity.users.id'', ''CASCADE'')]"

section \<open>The models\<close>

definition UserModel :: table where
  "UserModel =
     \<lparr>tbl_name = ''users'',
      tbl_columns =
        [id_column, required ''phone'' (VarChar 20), optional ''full_name'' (VarChar 120),
         optional ''password_hash'' TextType, defaulted ''role'' (VarChar 20) ''user'',
         defaulted ''status'' (VarChar 20) ''pending_verification'', optional ''requested_role'' (VarChar 20),
         defaulted ''created_at'' TimestampTz ''now()'', defaulted ''updated_at'' TimestampTz ''now()''],
      tbl_primary_key = [''id''], tbl_unique = [''phone''], tbl_foreign_keys = []\<rparr>"

definition OtpCodeModel :: table where
  "OtpCodeModel =
     \<lparr>tbl_name = ''otp_codes'',
      tbl_columns =
        [id_column, required ''phone'' (VarChar 20), required ''code_hash'' TextType,
         required ''expires_at'' TimestampTz, optional ''consumed_at'' TimestampTz,
         defaulted ''attempts'' SmallInt ''0'', defaulted ''created_at'' TimestampTz ''now()''],
      tbl_primary_key = [''id''], tbl_unique = [], tbl_foreign_keys = []\<rparr>"

definition RefreshTokenModel :: table where
  "RefreshTokenModel =
     \<lparr>tbl_name = ''refresh_tokens'',
      tbl_columns =
        [id_column, required ''user_id'' Uuid, required ''token_hash'' TextType,
         optional ''device_info'' (VarChar 200), optional ''revoked_at'' TimestampTz,
         required ''expires_at'' TimestampTz, defaulted ''created_at'' TimestampTz ''now()''],
      tbl_primary_key = [''id''], tbl_unique = [], tbl_foreign_keys = owned_by_user\<rparr>"

definition UserRoleHistoryModel :: table where
  "UserRoleHistoryModel =
     \<lparr>tbl_name = ''user_role_history'',
      tbl_columns =
        [id_column, required ''user_id'' Uuid, optional ''from_role'' (VarChar 20),
         optional ''to_role'' (VarChar 20), optional ''requested_role'' (VarChar 20), optional ''reason'' TextType,
         optional ''changed_by'' Uuid, defaulted ''changed_at'' TimestampTz ''now()''],
      tbl_primary_key = [''id''], tbl_unique = [], tbl_foreign_keys = owned_by_user\<rparr>"

definition UserStatusHistoryModel :: table where
  "UserStatusHistoryModel =
     \<lparr>tbl_name = ''user_status_history'',
      tbl_columns =
        [id_column, required ''user_id'' Uuid, optional ''from_status'' (VarChar 30),
         required ''to_status'' (VarChar 30), optional ''reason'' TextType, optional ''changed_by'' Uuid,
         defaulted ''changed_at'' TimestampTz ''now()''],
      tbl_primary_key = [''id''], tbl_unique = [], tbl_foreign_keys = owned_by_user\<rparr>"

definition models_schema :: schema where
  "models_schema =
     \<lparr>sch_tables = [UserModel, OtpCodeModel, RefreshTokenModel, UserRoleHistoryModel, UserStatusHistoryModel],
      sch_indexes =
        [(''idx_users_phone'', ''users'', [''phone'']), (''idx_users_role'', ''users'', [''role'']),
         (''idx_otp_phone'', ''otp_codes'', [''phone'']), (''idx_refresh_user'', ''refresh_tokens'', [''user_id'']),
         (''idx_refresh_token_hash'', ''refresh_tokens'', [''token_hash'']),
         (''idx_role_history_user'', ''user_role_history'', [''user_id''])]\<rparr>"

section \<open>The operations of a revision\<close>

datatype ddl =
    CreateTable table
  | CreateIndex string string "string list"
  | AddColumn string column
  | DropTable string
  | DropIndex string
  | DropColumn string string

definition find_table :: "string \<Rightarrow> schema \<Rightarrow> table option" where
  "find_table t s = find (\<lambda>x. tbl_name x = t) (sch_tables s)"

definition change_columns :: "string \<Rightarrow> (column list \<Rightarrow> column list) \<Rightarrow> schema \<Rightarrow> schema" where
  "change_columns t f s =
     s\<lparr>sch_tables := map (\<lambda>x. if tbl_name x = t then x\<lparr>tbl_columns := f (tbl_columns x)\<rparr> else x) (sch_tables s)\<rparr>"

text \<open>Dropping a table takes its indexes with it, dropping a column those that use it; a table other
  tables refer to is not dropped.\<close>

fun apply_ddl :: "ddl \<Rightarrow> schema \<Rightarrow> schema option" where
  "apply_ddl (CreateTable t) s =
     (if find_table (tbl_name t) s \<noteq> None then None else Some (s\<lparr>sch_tables := sch_tables s @ [t]\<rparr>))"
| "apply_ddl (CreateIndex i t cs) s =
     (case find_table t s of
        None \<Rightarrow> None
      | Some x \<Rightarrow>
          if i \<in> fst ` set (sch_indexes s) \<or> \<not> set cs \<subseteq> col_name ` set (tbl_columns x) then None
          else Some (s\<lparr>sch_indexes := sch_indexes s @ [(i, t, cs)]\<rparr>))"
| "apply_ddl (AddColumn t c) s =
     (case find_table t s of
        None \<Rightarrow> None
      | Some x \<Rightarrow>
          if col_name c \<in> col_name ` set (tbl_columns x) then None
          else Some (change_columns t (\<lambda>cs. cs @ [c]) s))"
| "apply_ddl (DropTable t) s =
     (if find_table t s = None \<or>
         list_ex (\<lambda>x. tbl_name x \<noteq> t \<and> list_ex (\<lambda>(_, r, _). r = ''identity.'' @ t @ ''.id'') (tbl_foreign_keys x)) (sch_tables s)
      then None
      else Some (s\<lparr>sch_tables := filter (\<lambda>x. tbl_name x \<noteq> t) (sch_tables s),
                   sch_indexes := filter (\<lambda>(_, u, _). u \<noteq> t) (sch_indexes s)\<rparr>))"
| "apply_ddl (DropIndex i) s =
     (if i \<notin> fst ` set (sch_indexes s) then None
      else Some (s\<lparr>sch_indexes := filter (\<lambda>(j, _). j \<noteq> i) (sch_indexes s)\<rparr>))"
| "apply_ddl (DropColumn t c) s =
     (case find_table t s of
        None \<Rightarrow> None
      | Some x \<Rightarrow>
          if c \<notin> col_name ` set (tbl_columns x) then None
          else Some ((change_columns t (filter (\<lambda>k. col_name k \<noteq> c)) s)
                 \<lparr>sch_indexes := filter (\<lambda>(_, u, cs). \<not> (u = t \<and> c \<in> set cs)) (sch_indexes s)\<rparr>))"

fun run_ddl :: "ddl list \<Rightarrow> schema \<Rightarrow> schema option" where
  "run_ddl [] s = Some s"
| "run_ddl (d # ds) s = (case apply_ddl d s of None \<Rightarrow> None | Some s' \<Rightarrow> run_ddl ds s')"

section \<open>The revisions\<close>

definition initial_upgrade :: "ddl list" where
  "initial_upgrade =
     [CreateTable
        \<lparr>tbl_name = ''users'',
         tbl_columns =
           [defaulted ''id'' Uuid ''uuid_generate_v4()'', required ''phone'' (VarChar 20),
            optional ''full_name'' (VarChar 120), optional ''password_hash'' TextType,
            defaulted ''role'' (VarChar 20) ''user'', defaulted ''status'' (VarChar 20) ''pending_verification'',
            defaulted ''created_at'' TimestampTz ''now()'', defaulted ''updated_at'' TimestampTz ''now()''],
         tbl_primary_key = [''id''], tbl_unique = [''phone''], tbl_foreign_keys = []\<rparr>,
      CreateIndex ''idx_users_phone'' ''users'' [''phone''],
      CreateIndex ''idx_users_role'' ''users'' [''role''],
      CreateTable
        \<lparr>tbl_name = ''otp_codes'',
         tbl_columns =
           [defaulted ''id'' Uuid ''uuid_generate_v4()'', required ''phone'' (VarChar 20), required ''code_hash'' TextType,
            required ''expires_at'' TimestampTz, optional ''consumed_at'' TimestampTz,
            defaulted ''attempts'' SmallInt ''0'', defaulted ''created_at'' TimestampTz ''now()''],
         tbl_primary_key = [''id''], tbl_unique = [], tbl_foreign_keys = []\<rparr>,
      CreateIndex ''idx_otp_phone'' ''otp_codes'' [''phone''],
      CreateTable
        \<lparr>tbl_name = ''refresh_tokens'',
         tbl_columns =
           [defaulted ''id'' Uuid ''uuid_generate_v4()'', required ''user_id'' Uuid, required ''token_hash'' TextType,
            optional ''device_info'' (VarChar 200), optional ''revoked_at'' TimestampTz,
            required ''expires_at'' TimestampTz, defaulted ''created_at'' TimestampTz ''now()''],
         tbl_primary_key = [''id''], tbl_unique = [],
         tbl_foreign_keys = [(''user_id'', ''identity.users.id'', ''CASCADE'')]\<rparr>,
      CreateIndex ''idx_refresh_user'' ''refresh_tokens'' [''user_id''],
      CreateIndex ''idx_refresh_token_hash'' ''refresh_tokens'' [''token_hash''],
      CreateTable
        \<lparr>tbl_name = ''user_status_history'',
         tbl_columns =
           [defaulted ''id'' Uuid ''uuid_generate_v4()'', required ''user_id'' Uuid, optional ''from_status'' (VarChar 30),
            required ''to_status'' (VarChar 30), optional ''reason'' TextType, optional ''changed_by'' Uuid,
            defaulted ''changed_at'' TimestampTz ''now()''],
         tbl_primary_key = [''id''], tbl_unique = [],
         tbl_foreign_keys = [(''user_id'', ''identity.users.id'', ''CASCADE'')]\<rparr>]"

definition initial_downgrade :: "ddl list" where
  "initial_downgrade =
     [DropTable ''user_status_history'', DropIndex ''idx_refresh_token_hash'', DropIndex ''idx_refresh_user'',
      DropTable ''refresh_tokens'', DropIndex ''idx_otp_phone'', DropTable ''otp_codes'',
      DropIndex ''idx_users_role'', DropIndex ''idx_users_phone'', DropTable ''users'']"

definition kyc_upgrade :: "ddl list" where
  "kyc_upgrade =
     [AddColumn ''users'' (optional ''requested_role'' (VarChar 20)),
      CreateTable
        \<lparr>tbl_name = ''user_role_history'',
         tbl_columns =
           [defaulted ''id'' Uuid ''uuid_generate_v4()'', required ''user_id'' Uuid, optional ''from_role'' (VarChar 20),
            optional ''to_role'' (VarChar 20), optional ''requested_role'' (VarChar 20), optional ''reason'' TextType,
            optional ''changed_by'' Uuid, defaulted ''changed_at'' TimestampTz ''now()''],
         tbl_primary_key = [''id''], tbl_unique = [],
         tbl_foreign_keys = [(''user_id'', ''identity.users.id'', ''CASCADE'')]\<rparr>,
      CreateIndex ''idx_role_history_user'' ''user_role_history'' [''user_id'']]"

definition kyc_downgrade :: "ddl list" where
  "kyc_downgrade =
     [DropIndex ''idx_role_history_user'', DropTable ''user_role_history'', DropColumn ''users'' ''requested_role'']"

text \<open>The statement on rows that the downgrade runs first.\<close>

definition kyc_downgrade_rows :: "user_row list \<Rightarrow> user_row list" where
  "kyc_downgrade_rows =
     update_where (\<lambda>r. ur_status r = ascii ''pending_kyc'') (\<lambda>r. r\<lparr>ur_status := ascii ''pending_verification''\<rparr>)"

section \<open>The revisions build what the models declare\<close>

definition empty_schema :: schema where
  "empty_schema = \<lparr>sch_tables = [], sch_indexes = []\<rparr>"

text \<open>The same tables and indexes, columns in any order.\<close>

definition same_table :: "table \<Rightarrow> table \<Rightarrow> bool" where
  "same_table t u =
     (tbl_name t = tbl_name u \<and> set (tbl_columns t) = set (tbl_columns u) \<and>
      length (tbl_columns t) = length (tbl_columns u) \<and> tbl_primary_key t = tbl_primary_key u \<and>
      tbl_unique t = tbl_unique u \<and> tbl_foreign_keys t = tbl_foreign_keys u)"

definition same_schema :: "schema \<Rightarrow> schema \<Rightarrow> bool" where
  "same_schema s s' =
     (list_all (\<lambda>t. list_ex (same_table t) (sch_tables s')) (sch_tables s) \<and>
      length (sch_tables s) = length (sch_tables s') \<and> set (sch_indexes s) = set (sch_indexes s'))"


text \<open>The rows after a downgrade: nobody is left in the status the older code does not know.\<close>

lemma kyc_downgrade_statuses:
  "ascii ''pending_kyc'' \<notin> ur_status ` set (kyc_downgrade_rows rows)"
  "map ur_id (kyc_downgrade_rows rows) = map ur_id rows"
  by (auto simp: kyc_downgrade_rows_def set_update_where)

section \<open>Widths\<close>

text \<open>The declared width of a VARCHAR column.\<close>

definition varchar :: "string \<Rightarrow> string \<Rightarrow> nat" where
  "varchar t c =
     (case find_table t models_schema of
        None \<Rightarrow> 0
      | Some x \<Rightarrow>
          (case find (\<lambda>k. col_name k = c) (tbl_columns x) of
             Some k \<Rightarrow> (case col_type k of VarChar n \<Rightarrow> n | _ \<Rightarrow> 0)
           | None \<Rightarrow> 0))"

lemma widths [simp]:
  "varchar ''users'' ''phone'' = 20" "varchar ''users'' ''full_name'' = 120" "varchar ''users'' ''role'' = 20"
  "varchar ''users'' ''status'' = 20" "varchar ''users'' ''requested_role'' = 20"
  "varchar ''otp_codes'' ''phone'' = 20" "varchar ''refresh_tokens'' ''device_info'' = 200"
  "varchar ''user_status_history'' ''from_status'' = 30" "varchar ''user_status_history'' ''to_status'' = 30"
  "varchar ''user_role_history'' ''from_role'' = 20" "varchar ''user_role_history'' ''to_role'' = 20"
  "varchar ''user_role_history'' ''requested_role'' = 20"
  by code_simp+

end
