(* ===== verification/Column_Types.thy ===== *)
theory Column_Types
  imports Sample_Run Schema
begin

text \<open>
  The widths of the VARCHAR columns of \<open>infra/models.py\<close> and the range of the SMALLINT counter, which
  the tables of the model do not enforce: the bounds of the request bodies, the shape of a phone
  number and the ceiling on attempts keep every value the service commits within its column.
\<close>

section \<open>The declared widths\<close>

definition user_fits :: "user_row \<Rightarrow> bool" where
  "user_fits r =
     (length (ur_phone r) \<le> varchar ''users'' ''phone'' \<and>
      at_most (varchar ''users'' ''full_name'') (ur_full_name r) \<and>
      length (ur_role r) \<le> varchar ''users'' ''role'' \<and> length (ur_status r) \<le> varchar ''users'' ''status'' \<and>
      at_most (varchar ''users'' ''requested_role'') (ur_requested_role r))"

definition status_row_fits :: "status_history_row \<Rightarrow> bool" where
  "status_row_fits h =
     (at_most (varchar ''user_status_history'' ''from_status'') (sh_from_status h) \<and>
      length (sh_to_status h) \<le> varchar ''user_status_history'' ''to_status'')"

definition role_row_fits :: "role_history_row \<Rightarrow> bool" where
  "role_row_fits h =
     (at_most (varchar ''user_role_history'' ''from_role'') (rh_from_role h) \<and>
      at_most (varchar ''user_role_history'' ''to_role'') (rh_to_role h) \<and>
      at_most (varchar ''user_role_history'' ''requested_role'') (rh_requested_role h))"

definition otp_fits :: "otp_code \<Rightarrow> bool" where
  [simp]: "otp_fits x = (length (otp_phone x) \<le> varchar ''otp_codes'' ''phone'')"

definition token_fits :: "refresh_token \<Rightarrow> bool" where
  [simp]: "token_fits t = at_most (varchar ''refresh_tokens'' ''device_info'') (rt_device_info t)"

definition fits_columns :: "database \<Rightarrow> bool" where
  "fits_columns db =
     (list_all user_fits (db_users db) \<and>
      list_all otp_fits (db_otp_codes db) \<and> list_all token_fits (db_refresh_tokens db) \<and>
      list_all status_row_fits (db_status_history db) \<and> list_all role_row_fits (db_role_history db))"

section \<open>What the statements write\<close>

lemma length_ascii [simp]: "length (ascii t) = length t"
  by (simp add: ascii_def)

lemma wire_widths [simp]:
  "length (role_value r) \<le> 20" "length (status_value s) \<le> 20" "length (status_value s) \<le> 30"
  by (cases r; simp) (cases s; simp)+

lemma at_most_simps [simp]:
  "at_most n None" "at_most n (Some t) \<longleftrightarrow> length t \<le> n" "at_most 20 (role_text r)"
  by (simp_all add: at_most_def role_text_def split: option.splits)

lemma audit_rows_fit [simp]:
  "status_row_fits (status_audit h i old target reason by_whom now)"
  "role_row_fits (role_audit h i old' to_role requested reason by_whom now)"
  by (simp_all add: status_row_fits_def role_row_fits_def status_audit_def status_row_def role_audit_def role_row_def)

lemma fits_add_audit [simp]:
  "fits_columns (add_status_row h db) \<longleftrightarrow> fits_columns db \<and> status_row_fits h"
  "fits_columns (add_role_row k db) \<longleftrightarrow> fits_columns db \<and> role_row_fits k"
  "fits_columns (add_token t db) \<longleftrightarrow> fits_columns db \<and> at_most 200 (rt_device_info t)"
  "fits_columns (add_otp x db) \<longleftrightarrow> fits_columns db \<and> length (otp_phone x) \<le> 20"
  "fits_columns (add_user r db) \<longleftrightarrow> fits_columns db \<and> user_fits r"
  by (auto simp: fits_columns_def add_user_def)

lemma list_all_update_where:
  "list_all P xs \<Longrightarrow> (\<And>x. P x \<Longrightarrow> P (f x)) \<Longrightarrow> list_all P (update_where Q f xs)"
  by (induction xs) auto

lemma fits_otp_statements [simp]:
  "fits_columns db \<Longrightarrow> fits_columns (count_attempt i db)"
  "fits_columns db \<Longrightarrow> fits_columns (consume_otp i now db)"
  "fits_columns db \<Longrightarrow> fits_columns (revoke_where P now db)"
  by (auto simp: fits_columns_def count_attempt_def consume_otp_def update_otp_def revoke_where_def
      intro!: list_all_update_where)

lemma fits_put_user:
  assumes "fits_columns db" and "at_most 120 (usr_full_name u)"
  shows "fits_columns (put_user now u db)"
  using assms
  by (auto simp: fits_columns_def put_user_def update_user_def write_user_row_def user_fits_def
      intro!: list_all_update_where)

lemma account_name_fits:
  assumes "fits_columns db" and "account db i = Some u"
  shows "at_most 120 (usr_full_name u)"
  using assms user_to_domain_fields
  by (fastforce simp: account_def bind_eq_Some_conv fits_columns_def list_all_iff user_fits_def dest!: find_Some_in)

lemma known_phone_fits:
  assumes "fits_columns db" and "account_by_phone db p \<noteq> None"
  shows "length p \<le> 20"
  using assms
  by (auto simp: account_by_phone_def bind_eq_Some_conv fits_columns_def list_all_iff user_fits_def dest!: find_Some_in)

lemma new_account_fits:
  assumes "validate_phone s = Inr p" and "at_most 120 name"
  shows "user_fits (new_user_row t (registration i p name now))"
  using assms validate_phone_length [OF assms(1)]
  by (auto simp: user_fits_def new_user_row_def registration_def py_or_def)

lemma stored_device_fits:
  assumes "fits_columns db" and "token_by_hash db h = Inr (Some x)"
  shows "at_most 200 (rt_device_info x)"
  using assms token_by_hash_SomeD [OF assms(2)] by (auto simp: fits_columns_def list_all_iff)

lemma decided_user_name [simp]: "usr_full_name (decided_user u r ok) = usr_full_name u"
  by (simp add: decided_user_def)

lemma fits_columns_step:
  assumes "service_step c db es db'" and "fits_columns db"
  shows "fits_columns db'"
  using assms
  by (cases rule: service_step.cases)
    (auto intro!: fits_otp_statements fits_put_user new_account_fits
      simp: session_token_def fresh_code_def known_phone_fits account_name_fits stored_device_fits)

interpretation columns: service_invariant "\<lambda>_. True" "\<lambda>_ db0 db _. fits_columns db0 \<longrightarrow> fits_columns db"
  by unfold_locales (auto intro: fits_columns_step)

text \<open>
  C12. The database is well typed in every reachable state: keys are unique, rows refer to
  accounts that exist, every account reads back into the domain, every text fits its column,
  and so does the SMALLINT counter of attempts when the configured ceiling does: no commit fails
  for a value out of range.
\<close>

theorem database_is_well_typed:
  assumes "reachable c db0 w" and "seed_ok db0" and "fits_columns db0"
  shows "tables_ok (w_committed w) \<and> fits_columns (w_committed w) \<and>
    (\<forall>r\<in>set (db_users (w_committed w)). \<exists>u. user_to_domain r = Some u) \<and>
    (1 \<le> otp_max_attempts (cfg c) \<and> otp_max_attempts (cfg c) < 2 ^ 15 \<longrightarrow>
      (\<forall>x\<in>set (db_otp_codes (w_committed w)). - (2 ^ 15) \<le> otp_attempts x \<and> otp_attempts x < 2 ^ 15))"
proof -
  have "- (2 ^ 15) \<le> otp_attempts x \<and> otp_attempts x < 2 ^ 15"
    if "1 \<le> otp_max_attempts (cfg c)" "otp_max_attempts (cfg c) < 2 ^ 15" "x \<in> set (db_otp_codes (w_committed w))" for x
    using code_rule.reachable_I [OF assms(1,2) that(1)] that(2,3) by (fastforce simp: codes_bounded_def list_all_iff)
  then show ?thesis
    using wellformed.reachable_I [OF assms(1,2)] columns.reachable_I [OF assms(1,2)] assms(3)
    by (auto simp: tables_ok_def list_all_iff)
qed

lemma database_is_well_typed_witness: "fits_columns db6 \<and> tables_ok db6"
proof -
  have "fits_columns sample_db"
    by (simp add: fits_columns_def sample_defs user_fits_def ascii_def)
  from database_is_well_typed [OF sample_reachable(7) sample_seed this] show ?thesis
    by (simp add: world6_def at_def)
qed

end
