(* ===== verification/Schemas.thy ===== *)
theory Schemas
  imports Http
begin

text \<open>
  \<open>presentation/schemas.py\<close>: the models of bodies and answers. Pydantic is represented by what a
  field of a model accepts; the texts it converts to numbers, UUIDs, instants and truth values are
  an argument.
\<close>

section \<open>Models\<close>

record conversions =
  cv_int :: "ptext \<Rightarrow> int option"
  cv_bool :: "ptext \<Rightarrow> bool option"
  cv_uuid :: "ptext \<Rightarrow> uuid option"
  cv_datetime :: "ptext \<Rightarrow> instant option"

text \<open>An annotation with the constraint of its \<open>Field\<close>; a field of a model has a name, an
  annotation and a default, \<open>None\<close> when it is required.\<close>

datatype annotation =
    Str "ptext \<Rightarrow> bool"
  | Integer
  | Boolean
  | Nullable annotation
  | ListOf annotation
  | Model "(string \<times> annotation \<times> json option) list"

type_synonym model_field = "string \<times> annotation \<times> json option"

fun to_int :: "conversions \<Rightarrow> json \<Rightarrow> json option" where
  "to_int v (JInt n) = Some (JInt n)"
| "to_int v (JBool b) = Some (JInt (if b then 1 else 0))"
| "to_int v (JText t) = map_option JInt (cv_int v t)"
| "to_int v _ = None"

fun to_bool :: "conversions \<Rightarrow> json \<Rightarrow> json option" where
  "to_bool v (JBool b) = Some (JBool b)"
| "to_bool v (JInt n) = (if n = 0 then Some (JBool False) else if n = 1 then Some (JBool True) else None)"
| "to_bool v (JText t) = map_option JBool (cv_bool v t)"
| "to_bool v _ = None"

text \<open>The value validation gives, \<open>None\<close> when it fails. Members a model does not declare are dropped.\<close>

fun accept :: "conversions \<Rightarrow> annotation \<Rightarrow> json \<Rightarrow> json option" where
  "accept v (Str ok) j = (case j of JText t \<Rightarrow> if ok t then Some j else None | _ \<Rightarrow> None)"
| "accept v Integer j = to_int v j"
| "accept v Boolean j = to_bool v j"
| "accept v (Nullable a) j = (if j = JNull then Some JNull else accept v a j)"
| "accept v (ListOf a) j =
     (case j of JList js \<Rightarrow> map_option JList (those (map (accept v a) js)) | _ \<Rightarrow> None)"
| "accept v (Model fs) j =
     (case j of
        JObj kvs \<Rightarrow>
          map_option JObj (those (map (\<lambda>(n, a, d).
            map_option (Pair n) (case map_of kvs n of None \<Rightarrow> d | Some x \<Rightarrow> accept v a x)) fs))
      | _ \<Rightarrow> None)"

definition text_type :: annotation where
  "text_type = Str (\<lambda>_. True)"

definition max_length :: "nat \<Rightarrow> annotation" where
  "max_length n = Str (\<lambda>t. length t \<le> n)"

definition needed :: "string \<Rightarrow> annotation \<Rightarrow> model_field" where
  "needed n a = (n, a, None)"

definition defaults_to :: "string \<Rightarrow> annotation \<Rightarrow> json \<Rightarrow> model_field" where
  "defaults_to n a d = (n, a, Some d)"

section \<open>schemas.py\<close>

definition RegisterRequest :: annotation where
  "RegisterRequest =
     Model [needed ''phone'' text_type, defaults_to ''full_name'' (Nullable (max_length 120)) JNull]"

definition OtpRequestBody :: annotation where
  "OtpRequestBody = Model [needed ''phone'' text_type]"

definition OtpVerifyRequest :: annotation where
  "OtpVerifyRequest =
     Model [needed ''phone'' text_type, needed ''code'' (Str is_otp_pattern),
            defaults_to ''device_info'' (Nullable (max_length 200)) JNull]"

definition RefreshRequest :: annotation where
  "RefreshRequest =
     Model [needed ''refresh_token'' text_type, defaults_to ''device_info'' (Nullable (max_length 200)) JNull]"

definition LogoutRequest :: annotation where
  "LogoutRequest = Model [needed ''refresh_token'' text_type, defaults_to ''all_devices'' Boolean (JBool False)]"

definition UpdateProfileRequest :: annotation where
  "UpdateProfileRequest = Model [defaults_to ''full_name'' (Nullable (max_length 120)) JNull]"

definition ChangeRoleRequest :: annotation where
  "ChangeRoleRequest = Model [needed ''role'' text_type, defaults_to ''reason'' (Nullable text_type) JNull]"

definition ChangeStatusRequest :: annotation where
  "ChangeStatusRequest = Model [needed ''status'' text_type, defaults_to ''reason'' (Nullable text_type) JNull]"

definition KycDecisionRequest :: annotation where
  "KycDecisionRequest = Model [needed ''approved'' Boolean, defaults_to ''reason'' (Nullable text_type) JNull]"

definition UserProfile :: annotation where
  "UserProfile =
     Model [needed ''id'' text_type, needed ''phone'' text_type, needed ''full_name'' (Nullable text_type),
            needed ''role'' text_type, needed ''status'' text_type,
            defaults_to ''requested_role'' (Nullable text_type) JNull]"

definition RegisterResponse :: annotation where
  "RegisterResponse = Model [needed ''user_id'' text_type, needed ''phone'' text_type, needed ''status'' text_type]"

definition OtpRequestResponse :: annotation where
  "OtpRequestResponse = Model [needed ''expires_in_seconds'' Integer, needed ''retry_after_seconds'' Integer]"

definition token_pair_fields :: "model_field list" where
  "token_pair_fields = [needed ''access_token'' text_type, needed ''refresh_token'' text_type]"

definition TokenPairResponse :: annotation where
  "TokenPairResponse = Model token_pair_fields"

definition AuthenticatedResponse :: annotation where
  "AuthenticatedResponse = Model (token_pair_fields @ [needed ''user'' UserProfile])"

definition Pagination :: annotation where
  "Pagination =
     Model [needed ''page'' Integer, needed ''page_size'' Integer, needed ''total_items'' Integer,
            needed ''total_pages'' Integer]"

definition UserListResponse :: annotation where
  "UserListResponse = Model [needed ''data'' (ListOf UserProfile), needed ''pagination'' Pagination]"

lemmas field_defs = text_type_def max_length_def needed_def defaults_to_def token_pair_fields_def

lemmas model_defs =
  RegisterRequest_def OtpRequestBody_def OtpVerifyRequest_def RefreshRequest_def LogoutRequest_def
  UpdateProfileRequest_def ChangeRoleRequest_def ChangeStatusRequest_def KycDecisionRequest_def
  UserProfile_def RegisterResponse_def OtpRequestResponse_def TokenPairResponse_def
  AuthenticatedResponse_def Pagination_def UserListResponse_def

end
