(* ===== verification/Wire.thy ===== *)
theory Wire
  imports Failures Schemas
begin

text \<open>
  What FastAPI does around the handlers of \<open>Http\<close>: it picks a route of the three routers in their
  order, reads path, query and body as the parameters and models declare them, and passes each
  answer through the response model of its route. A body is what \<open>request.json()\<close> returned.
\<close>

section \<open>Routes\<close>

text \<open>A path below the API prefix, split at its slashes. \<open>Param\<close> is one segment in braces.\<close>

datatype segment = Lit string | Param

datatype route =
    Register | OtpRequest | OtpVerify | Refresh | Logout | Me | UpdateMe | Backfill | UserById | RoleOfUser
  | AdminUsers | AdminStatus | AdminKyc

definition routes :: "(string \<times> segment list \<times> route) list" where
  "routes =
     [(''POST'', [Lit ''auth'', Lit ''register''], Register),
      (''POST'', [Lit ''auth'', Lit ''otp'', Lit ''request''], OtpRequest),
      (''POST'', [Lit ''auth'', Lit ''otp'', Lit ''verify''], OtpVerify),
      (''POST'', [Lit ''auth'', Lit ''refresh''], Refresh),
      (''POST'', [Lit ''auth'', Lit ''logout''], Logout),
      (''GET'', [Lit ''users'', Lit ''me''], Me),
      (''PATCH'', [Lit ''users'', Lit ''me''], UpdateMe),
      (''GET'', [Lit ''users'', Lit ''backfill''], Backfill),
      (''GET'', [Lit ''users'', Param], UserById),
      (''PATCH'', [Lit ''users'', Param, Lit ''role''], RoleOfUser),
      (''GET'', [Lit ''admin'', Lit ''users''], AdminUsers),
      (''PATCH'', [Lit ''admin'', Lit ''users'', Param, Lit ''status''], AdminStatus),
      (''PATCH'', [Lit ''admin'', Lit ''users'', Param, Lit ''kyc''], AdminKyc)]"

fun matches_path :: "segment list \<Rightarrow> ptext list \<Rightarrow> bool" where
  "matches_path [] [] = True"
| "matches_path (Lit s # ss) (p # ps) = (p = ascii s \<and> matches_path ss ps)"
| "matches_path (Param # ss) (p # ps) = (p \<noteq> [] \<and> matches_path ss ps)"
| "matches_path _ _ = False"

text \<open>The first route of the path and the method; else 405 for a path of some other method, a
  redirect for a slash too many, 404.\<close>

definition some_path :: "ptext list \<Rightarrow> bool" where
  "some_path path = list_ex (\<lambda>(_, ss, _). matches_path ss path) routes"

definition dispatch :: "string \<Rightarrow> ptext list \<Rightarrow> nat + route" where
  "dispatch meth path =
     (case find (\<lambda>(m, ss, _). m = meth \<and> matches_path ss path) routes of
        Some (_, _, r) \<Rightarrow> Inr r
      | None \<Rightarrow>
          if some_path path then Inl 405
          else if path \<noteq> [] \<and> last path = [] \<and> some_path (rev (dropWhile (\<lambda>p. p = []) (rev path))) then Inl 307
          else Inl 404)"

section \<open>From the wire to a request\<close>

record wire_request =
  wr_method :: string
  wr_path :: "ptext list"
  wr_query :: "(string \<times> ptext) list"
  wr_body :: "json option"
  wr_bearer :: "ptext option"
  wr_service_key :: "ptext option"
  wr_forwarded :: "ptext option"
  wr_peer :: "ptext option"

text \<open>What authenticates the caller of a route, before its parameters are looked at.\<close>

datatype guard = Open | User_Only | Service_Or_Admin | Admin_Only

datatype decoded_request = Unrouted nat | Malformed guard | Routed request

definition text_field :: "string \<Rightarrow> json \<Rightarrow> ptext option" where
  "text_field k j = (case jfield k j of Some (JText t) \<Rightarrow> Some t | _ \<Rightarrow> None)"

definition bool_field :: "string \<Rightarrow> json \<Rightarrow> bool option" where
  "bool_field k j = (case jfield k j of Some (JBool b) \<Rightarrow> Some b | _ \<Rightarrow> None)"

definition read_body :: "conversions \<Rightarrow> annotation \<Rightarrow> wire_request \<Rightarrow> json option" where
  "read_body v m r = Option.bind (wr_body r) (accept v m)"

text \<open>A repeated query parameter has its last value.\<close>

definition query_text :: "wire_request \<Rightarrow> string \<Rightarrow> ptext option" where
  "query_text r k = map_of (rev (wr_query r)) k"

definition query_int :: "conversions \<Rightarrow> wire_request \<Rightarrow> string \<Rightarrow> int \<Rightarrow> int option" where
  "query_int v r k absent = (case query_text r k of None \<Rightarrow> Some absent | Some t \<Rightarrow> cv_int v t)"

definition query_bool :: "conversions \<Rightarrow> wire_request \<Rightarrow> string \<Rightarrow> bool \<Rightarrow> bool option" where
  "query_bool v r k absent = (case query_text r k of None \<Rightarrow> Some absent | Some t \<Rightarrow> cv_bool v t)"

definition path_uuid :: "conversions \<Rightarrow> wire_request \<Rightarrow> nat \<Rightarrow> uuid option" where
  "path_uuid v r k = cv_uuid v (wr_path r ! k)"

definition query_page :: "conversions \<Rightarrow> wire_request \<Rightarrow> int \<Rightarrow> (int \<times> int) option" where
  "query_page v r default_size =
     Option.bind (query_int v r ''page'' 1) (\<lambda>page.
     Option.bind (query_int v r ''page_size'' default_size) (\<lambda>page_size.
     if page_ok page page_size then Some (page, page_size) else None))"

fun parse_route :: "conversions \<Rightarrow> wire_request \<Rightarrow> route \<Rightarrow> request option" where
  "parse_route v r Register =
     Option.bind (read_body v RegisterRequest r) (\<lambda>j.
     Option.bind (text_field ''phone'' j) (\<lambda>phone. Some (PostRegister phone (text_field ''full_name'' j))))"
| "parse_route v r OtpRequest =
     Option.bind (read_body v OtpRequestBody r) (\<lambda>j.
     Option.bind (text_field ''phone'' j) (\<lambda>phone. Some (PostOtpRequest phone (wr_forwarded r) (wr_peer r))))"
| "parse_route v r OtpVerify =
     Option.bind (read_body v OtpVerifyRequest r) (\<lambda>j.
     Option.bind (text_field ''phone'' j) (\<lambda>phone.
     Option.bind (text_field ''code'' j) (\<lambda>code. Some (PostOtpVerify phone code (text_field ''device_info'' j)))))"
| "parse_route v r Refresh =
     Option.bind (read_body v RefreshRequest r) (\<lambda>j.
     Option.bind (text_field ''refresh_token'' j) (\<lambda>t. Some (PostRefresh t (text_field ''device_info'' j))))"
| "parse_route v r Logout =
     Option.bind (read_body v LogoutRequest r) (\<lambda>j.
     Option.bind (text_field ''refresh_token'' j) (\<lambda>t.
     Option.bind (bool_field ''all_devices'' j) (\<lambda>all. Some (PostLogout t all))))"
| "parse_route v r Me = Some (GetMe (wr_bearer r))"
| "parse_route v r UpdateMe =
     Option.bind (read_body v UpdateProfileRequest r) (\<lambda>j. Some (PatchMe (wr_bearer r) (text_field ''full_name'' j)))"
| "parse_route v r Backfill =
     Option.bind (Option.bind (query_text r ''since'') (cv_datetime v)) (\<lambda>since.
     Option.bind (query_page v r 100) (\<lambda>(page, page_size).
     Some (GetBackfill (wr_service_key r) (wr_bearer r) since page page_size)))"
| "parse_route v r UserById =
     Option.bind (path_uuid v r 1) (\<lambda>i. Some (GetUser (wr_service_key r) (wr_bearer r) i))"
| "parse_route v r RoleOfUser =
     Option.bind (path_uuid v r 1) (\<lambda>i.
     Option.bind (read_body v ChangeRoleRequest r) (\<lambda>j.
     Option.bind (text_field ''role'' j) (\<lambda>role.
     Some (PatchRole (wr_service_key r) (wr_bearer r) i role (text_field ''reason'' j)))))"
| "parse_route v r AdminUsers =
     Option.bind (query_bool v r ''pending_kyc'' False) (\<lambda>pending.
     Option.bind (query_page v r 20) (\<lambda>(page, page_size).
     Some (GetAdminUsers (wr_bearer r) (query_text r ''role'') (query_text r ''status'') pending page page_size)))"
| "parse_route v r AdminStatus =
     Option.bind (path_uuid v r 2) (\<lambda>i.
     Option.bind (read_body v ChangeStatusRequest r) (\<lambda>j.
     Option.bind (text_field ''status'' j) (\<lambda>st. Some (PatchStatus (wr_bearer r) i st (text_field ''reason'' j)))))"
| "parse_route v r AdminKyc =
     Option.bind (path_uuid v r 2) (\<lambda>i.
     Option.bind (read_body v KycDecisionRequest r) (\<lambda>j.
     Option.bind (bool_field ''approved'' j) (\<lambda>ok. Some (PatchKyc (wr_bearer r) i ok (text_field ''reason'' j)))))"

fun guard_of :: "route \<Rightarrow> guard" where
  "guard_of Me = User_Only"
| "guard_of UpdateMe = User_Only"
| "guard_of Backfill = Service_Or_Admin"
| "guard_of UserById = Service_Or_Admin"
| "guard_of RoleOfUser = Service_Or_Admin"
| "guard_of AdminUsers = Admin_Only"
| "guard_of AdminStatus = Admin_Only"
| "guard_of AdminKyc = Admin_Only"
| "guard_of _ = Open"

definition decode_request :: "conversions \<Rightarrow> wire_request \<Rightarrow> decoded_request" where
  "decode_request v r =
     (case dispatch (wr_method r) (wr_path r) of
        Inl status \<Rightarrow> Unrouted status
      | Inr route \<Rightarrow>
          (case parse_route v r route of None \<Rightarrow> Malformed (guard_of route) | Some req \<Rightarrow> Routed req))"

section \<open>From the answer back to the wire\<close>

fun response_model :: "request \<Rightarrow> annotation option" where
  "response_model (PostRegister _ _) = Some RegisterResponse"
| "response_model (PostOtpRequest _ _ _) = Some OtpRequestResponse"
| "response_model (PostOtpVerify _ _ _) = Some AuthenticatedResponse"
| "response_model (PostRefresh _ _) = Some TokenPairResponse"
| "response_model (PostLogout _ _) = None"
| "response_model (GetBackfill _ _ _ _ _) = Some UserListResponse"
| "response_model (GetAdminUsers _ _ _ _ _ _) = Some UserListResponse"
| "response_model _ = Some UserProfile"

text \<open>An answer its model does not accept is an exception of FastAPI; of an accepted one the model's
  members are sent.\<close>

definition serialize :: "conversions \<Rightarrow> request \<Rightarrow> nat \<times> json \<Rightarrow> failure + nat \<times> json" where
  "serialize v req a =
     (case response_model req of
        None \<Rightarrow> Inr a
      | Some m \<Rightarrow>
          (case accept v m (snd a) of
             None \<Rightarrow> Inl (Uncaught ''ResponseValidationError'')
           | Some j \<Rightarrow> Inr (fst a, j)))"

fun authenticate :: "'r ctx \<Rightarrow> wire_request \<Rightarrow> guard \<Rightarrow> ('r world, unit) prog" where
  "authenticate c r Open = return ()"
| "authenticate c r User_Only = andthen (current_user c (wr_bearer r)) (\<lambda>_. return ())"
| "authenticate c r Service_Or_Admin =
     andthen (require_service_or_admin c (wr_service_key r) (wr_bearer r)) (\<lambda>_. return ())"
| "authenticate c r Admin_Only = andthen (require_admin c (wr_bearer r)) (\<lambda>_. return ())"

definition in_session :: "('r world, nat \<times> json) prog \<Rightarrow> 'r world \<Rightarrow> (nat \<times> json) \<times> 'r world" where
  "in_session m w = (case get_session m w of (a, w') \<Rightarrow> (response a, w'))"

definition receive :: "'r ctx \<Rightarrow> conversions \<Rightarrow> wire_request \<Rightarrow> 'r world \<Rightarrow> (nat \<times> json) \<times> 'r world" where
  "receive c v r w =
     (case decode_request v r of
        Unrouted status \<Rightarrow> ((status, JNull), w)
      | Malformed g \<Rightarrow> in_session (before (authenticate c r g) (raise validation_error)) w
      | Routed req \<Rightarrow> in_session (andthen (handler c req) (\<lambda>a. from_result (serialize v req a))) w)"

section \<open>Answers fit their models\<close>

definition answers :: "('a \<Rightarrow> bool) \<Rightarrow> ('w, 'a) prog \<Rightarrow> bool" where
  "answers P m = (\<forall>w. wp m (\<lambda>a _. P a) (\<lambda>_ _. True) w)"

lemma answers_last: "answers Q m \<Longrightarrow> (\<And>a. Q a \<Longrightarrow> answers P (f a)) \<Longrightarrow> answers P (andthen m f)"
  by (fastforce simp: answers_def wp_def andthen_def split: prod.splits sum.splits)

lemma answers_andthen: "(\<And>a. answers P (f a)) \<Longrightarrow> answers P (andthen m f)"
  by (rule answers_last [where Q = "\<lambda>_. True"]) (auto simp: answers_def wp_def split: prod.splits sum.splits)

lemma answers_before: "answers P n \<Longrightarrow> answers P (before m n)"
  unfolding before_def by (rule answers_andthen)

lemma answers_return [simp]: "answers P (return a) = P a"
  by (simp add: answers_def wp_return)

lemma answers_raise [simp]: "answers P (raise e)"
  by (simp add: answers_def wp_raise)

lemma answers_if [simp]: "answers P (if b then m else n) \<longleftrightarrow> (if b then answers P m else answers P n)"
  by simp

lemma answers_checked: "answers P m \<Longrightarrow> answers P (checked b m)"
  by (simp add: checked_def)

lemma answers_Let: "(\<And>x. answers P (f x)) \<Longrightarrow> answers P (Let x f)"
  by simp

lemma answers_case_option:
  "answers P m \<Longrightarrow> (\<And>a. answers P (f a)) \<Longrightarrow> answers P (case x of None \<Rightarrow> m | Some a \<Rightarrow> f a)"
  by (simp split: option.split)

lemma answers_case_prod: "(\<And>a b. answers P (f a b)) \<Longrightarrow> answers P (case p of (a, b) \<Rightarrow> f a b)"
  by (simp split: prod.split)

lemma answers_cases: "(b \<Longrightarrow> answers P m) \<Longrightarrow> (\<not> b \<Longrightarrow> answers P n) \<Longrightarrow> answers P (if b then m else n)"
  by simp

lemmas answers_rules =
  answers_before answers_andthen answers_checked answers_Let answers_case_option answers_case_prod answers_cases

definition fits :: "conversions \<Rightarrow> annotation \<Rightarrow> json \<Rightarrow> bool" where
  "fits v m j = (accept v m j = Some j)"

lemma accept_text [simp]: "accept v text_type (JText t) = Some (JText t)" "accept v text_type (jlit s) = Some (jlit s)"
  by (simp_all add: text_type_def jlit_def)

lemma accept_text_or_null [simp]: "accept v (Nullable text_type) (jtext_or_null t) = Some (jtext_or_null t)"
  by (cases t) auto

lemma profile_fits [simp]: "accept v UserProfile (profile_payload u) = Some (profile_payload u)"
  by (cases "usr_full_name u"; cases "usr_requested_role u")
    (simp_all add: UserProfile_def profile_payload_def needed_def defaults_to_def)

lemma profiles_fit [simp]: "those (map (accept v UserProfile) (map profile_payload us)) = Some (map profile_payload us)"
  by (induction us) auto

lemmas fits_simps = fits_def model_defs field_defs [folded text_type_def]

lemma reject_code_answers [simp]: "answers P (reject_code c x)"
  unfolding reject_code_def by (intro answers_rules answers_raise)

lemmas command_models =
  RegisterResponse_def OtpRequestResponse_def AuthenticatedResponse_def TokenPairResponse_def
  UserListResponse_def Pagination_def token_pair_fields_def needed_def

lemma commands_fit:
  "answers (fits v RegisterResponse) (register_user c phone name)"
  "answers (fits v OtpRequestResponse) (request_otp c phone ip)"
  "answers (fits v AuthenticatedResponse) (verify_otp c phone code device)"
  "answers (fits v TokenPairResponse) (refresh_access_token c t device)"
  "answers (fits v UserProfile) (update_profile c i name)"
  "answers (fits v UserProfile) (get_user_by_id c i)"
  "answers (fits v UserProfile) (change_role c i role reason by_whom)"
  "answers (fits v UserProfile) (decide_kyc c i ok reason by_whom)"
  "answers (fits v UserProfile) (change_status c i st reason by_whom)"
  "answers (fits v UserListResponse) (list_users f page page_size)"
  subgoal unfolding register_defs by (intro answers_rules; simp add: fits_def command_models)
  subgoal unfolding request_otp_def by (intro answers_rules; simp add: fits_def command_models)
  subgoal unfolding verify_otp_defs by (intro answers_rules; simp add: fits_def command_models)
  subgoal unfolding refresh_defs by (intro answers_rules; simp add: fits_def command_models)
  subgoal unfolding update_profile_def by (intro answers_rules; simp add: fits_def)
  subgoal unfolding get_user_by_id_def by (intro answers_rules; simp add: fits_def)
  subgoal unfolding change_role_def request_role_def set_role_def by (intro answers_rules; simp add: fits_def)
  subgoal unfolding decide_kyc_defs by (intro answers_rules; simp add: fits_def)
  subgoal unfolding change_status_def set_status_def by (intro answers_rules; simp add: fits_def)
  subgoal unfolding list_users_def by (intro answers_rules; simp add: fits_def command_models del: map_map)
  done

lemma handler_serializes: "answers (\<lambda>a. serialize v req a = Inr a) (handler c req)"
proof (cases req)
  case (PostLogout t all)
  then show ?thesis by (simp add: answers_before serialize_def)
qed (auto simp: serialize_def fits_def get_current_user_profile_def
      intro!: answers_checked answers_andthen [where m = "current_user c b" for b]
        answers_andthen [where m = "require_service_or_admin c k b" for k b] answers_andthen [where m = "require_admin c b" for b]
        answers_last [OF commands_fit(1) [of v]] answers_last [OF commands_fit(2) [of v]]
        answers_last [OF commands_fit(3) [of v]] answers_last [OF commands_fit(4) [of v]]
        answers_last [OF commands_fit(5) [of v]] answers_last [OF commands_fit(6) [of v]]
        answers_last [OF commands_fit(7) [of v]] answers_last [OF commands_fit(8) [of v]]
        answers_last [OF commands_fit(9) [of v]] answers_last [OF commands_fit(10) [of v]])

lemma andthen_same:
  assumes "answers (\<lambda>a. f a = Inr a) m"
  shows "andthen m (\<lambda>a. from_result (f a)) = m"
proof
  fix w
  show "andthen m (\<lambda>a. from_result (f a)) w = m w"
    using assms
    by (cases "m w"; cases "fst (m w)") (auto simp: answers_def wp_def andthen_def from_result_def dest!: spec [of _ w])
qed

lemma handler_fits:
  assumes "get_session (handler c req) w = (Inr a, w')" and "response_model req = Some m"
  shows "accept v m (snd a) = Some (snd a)"
proof -
  have "serialize v req a = Inr a"
    using handler_serializes [of v req c] assms(1)
    by (cases a) (fastforce simp: answers_def wp_def get_session_def split: prod.splits sum.splits)
  with assms(2) show ?thesis
    by (cases a) (auto simp: serialize_def split: option.splits)
qed

text \<open>
  C14. Response validation never interferes: the answer to a well-formed request is exactly the
  one its handler built, and it has the members and types its response model declares, no more.
\<close>

theorem answers_fit_their_models:
  assumes "decode_request v r = Routed req"
  shows "receive c v r w = serve c req w \<and>
    (\<forall>a w' m. get_session (handler c req) w = (Inr a, w') \<and> response_model req = Some m \<longrightarrow>
       accept v m (snd a) = Some (snd a))"
  using assms andthen_same [OF handler_serializes [of v req c]] handler_fits
  by (auto simp: receive_def in_session_def serve_def)

section \<open>Malformed requests\<close>

lemma authenticate_quietly: "quietly (authenticate c r g)"
  by (cases g) auto

lemma rejected_request:
  assumes "quietly m"
  shows "case in_session (before m (raise e)) w of (a, w') \<Rightarrow>
    w_committed w' = w_committed w \<and> w_effects w' = w_effects w \<and>
    (a = response (Inl e) \<or> (\<exists>e'. a = response (Inl e') \<and> fst (m w) = Inl e'))"
proof -
  obtain x w' where m: "m w = (x, w')" by fastforce
  then have "quiet w w'" using assms by (auto simp: quietly_def dest: spec [of _ w])
  with m show ?thesis
    by (cases x) (auto simp: in_session_def get_session_def before_def andthen_def raise_def rollback_def quiet_def)
qed

text \<open>What reaches a handler is within the bounds it checks.\<close>

fun within_bounds :: "request \<Rightarrow> bool" where
  "within_bounds (PostRegister _ name) = at_most 120 name"
| "within_bounds (PostOtpVerify _ code device) = (is_otp_pattern code \<and> at_most 200 device)"
| "within_bounds (PostRefresh _ device) = at_most 200 device"
| "within_bounds (PatchMe _ name) = at_most 120 name"
| "within_bounds (GetBackfill _ _ _ page page_size) = page_ok page page_size"
| "within_bounds (GetAdminUsers _ _ _ _ page page_size) = page_ok page page_size"
| "within_bounds _ = True"

lemma map_of_those:
  "those (map (\<lambda>(n, a, d). map_option (Pair n) (g n a d)) fs) = Some xs \<Longrightarrow>
   map_of xs k = Option.bind (map_of fs k) (\<lambda>(a, d). g k a d)"
  by (induction fs arbitrary: xs) (auto split: option.splits)

lemma model_member:
  assumes "accept v (Model fs) j = Some j'" and "map_of fs k = Some (a, d)"
  shows "\<exists>kvs. jfield k j' = (case map_of kvs k of None \<Rightarrow> d | Some x \<Rightarrow> accept v a x)"
proof -
  obtain kvs where j: "j = JObj kvs" using assms(1) by (auto split: json.splits)
  with assms(1) obtain xs where xs: "j' = JObj xs"
    and "those (map (\<lambda>(n, a, d).
      map_option (Pair n) (case map_of kvs n of None \<Rightarrow> d | Some x \<Rightarrow> accept v a x)) fs) = Some xs"
    by auto
  from map_of_those [OF this(2), of k] assms(2) xs show ?thesis by (auto intro: exI [of _ kvs])
qed

lemma accepted_text:
  "accept v (Str ok) x = Some (JText t) \<Longrightarrow> ok t"
  "accept v (Nullable (Str ok)) x = Some (JText t) \<Longrightarrow> ok t"
  by (auto split: json.splits if_splits)

lemma model_text:
  assumes "accept v (Model fs) j = Some j'" and "text_field k j' = Some t"
    and "map_of fs k = Some (a, d)" and "a = Str ok \<or> a = Nullable (Str ok)" and "d = None \<or> d = Some JNull"
  shows "ok t"
proof -
  obtain kvs where "jfield k j' = (case map_of kvs k of None \<Rightarrow> d | Some x \<Rightarrow> accept v a x)"
    using model_member [OF assms(1,3)] by blast
  moreover have "jfield k j' = Some (JText t)"
    using assms(2) by (simp add: text_field_def split: option.splits json.splits)
  ultimately obtain x where "accept v a x = Some (JText t)"
    using assms(5) by (auto split: option.splits)
  with assms(4) accepted_text show ?thesis by blast
qed

lemma model_text_at_most:
  assumes "accept v (Model fs) j = Some j'"
    and "map_of fs k = Some (Nullable (Str (\<lambda>t. length t \<le> n)), Some JNull)"
  shows "at_most n (text_field k j')"
  using model_text [OF assms(1) _ assms(2), of _ "\<lambda>t. length t \<le> n"]
  by (simp add: at_most_def split: option.split)

lemma read_body_accepts: "read_body v m r = Some j \<Longrightarrow> \<exists>b. accept v m b = Some j"
  by (auto simp: read_body_def bind_eq_Some_conv)

lemma body_bounds:
  "read_body v RegisterRequest r = Some j \<Longrightarrow> at_most 120 (text_field ''full_name'' j)"
  "read_body v UpdateProfileRequest r = Some j \<Longrightarrow> at_most 120 (text_field ''full_name'' j)"
  "read_body v RefreshRequest r = Some j \<Longrightarrow> at_most 200 (text_field ''device_info'' j)"
  "read_body v OtpVerifyRequest r = Some j \<Longrightarrow> at_most 200 (text_field ''device_info'' j)"
  unfolding model_defs
  by (drule read_body_accepts, erule exE, erule model_text_at_most, simp add: field_defs)+

lemma code_bounds:
  assumes "read_body v OtpVerifyRequest r = Some j" and "text_field ''code'' j = Some t"
  shows "is_otp_pattern t"
proof -
  obtain b where b: "accept v OtpVerifyRequest b = Some j" using read_body_accepts [OF assms(1)] by blast
  show ?thesis
    by (rule model_text [OF b [unfolded OtpVerifyRequest_def] assms(2)], simp add: field_defs) simp_all
qed

lemma query_page_ok: "query_page v r n = Some (page, page_size) \<Longrightarrow> page_ok page page_size"
  by (auto simp: query_page_def bind_eq_Some_conv split: if_splits)

lemma decoded_within_bounds: "decode_request v r = Routed req \<Longrightarrow> within_bounds req"
  by (cases "dispatch (wr_method r) (wr_path r)"; cases "projr (dispatch (wr_method r) (wr_path r))")
    (auto simp: decode_request_def bind_eq_Some_conv body_bounds code_bounds query_page_ok split: option.splits)


text \<open>The fixed path is matched before the parameter.\<close>

lemma dispatch_users:
  "dispatch ''GET'' [ascii ''users'', x] =
     (if x = ascii ''me'' then Inr Me else if x = ascii ''backfill'' then Inr Backfill
      else if x = [] then Inl 404 else Inr UserById)"
  by (simp add: dispatch_def routes_def some_path_def)

section \<open>Applied\<close>

text \<open>Conversions that know decimal digits, two truth values and canonical UUIDs.\<close>

definition sample_conversions :: conversions where
  "sample_conversions =
     \<lparr>cv_int = (\<lambda>t. if list_all (\<lambda>k. 48 \<le> k \<and> k \<le> 57) t then Some (foldl (\<lambda>n k. 10 * n + int k - 48) 0 t) else None),
      cv_bool = (\<lambda>t. if t = ascii ''true'' then Some True else if t = ascii ''false'' then Some False else None),
      cv_uuid = UUID, cv_datetime = (\<lambda>t. None)\<rparr>"

definition wire_verify :: "string \<Rightarrow> wire_request" where
  "wire_verify code =
     \<lparr>wr_method = ''POST'', wr_path = [ascii ''auth'', ascii ''otp'', ascii ''verify''], wr_query = [],
      wr_body = Some (JObj [(''phone'', JText kofi_phone), (''code'', jlit code)]),
      wr_bearer = None, wr_service_key = None, wr_forwarded = None, wr_peer = None\<rparr>"

lemma wire_verify_parsed:
  "decode_request v (wire_verify code) =
     (if is_otp_pattern (ascii code) then Routed (PostOtpVerify kofi_phone (ascii code) None) else Malformed Open)"
proof -
  have "dispatch ''POST'' [ascii ''auth'', ascii ''otp'', ascii ''verify''] = Inr OtpVerify"
    by (simp add: dispatch_def routes_def)
  then show ?thesis
    by (simp add: decode_request_def wire_verify_def read_body_def OtpVerifyRequest_def field_defs
        jlit_def text_field_def)
qed

lemma wire_verify_routed:
  "decode_request sample_conversions (wire_verify ''123456'') =
     Routed (PostOtpVerify kofi_phone (ascii ''123456'') None)"
  by (simp add: wire_verify_parsed is_otp_pattern_def is_py_digit_def digit_zeros_def ascii_def)

lemma wire_verify_malformed: "decode_request sample_conversions (wire_verify ''12345'') = Malformed Open"
  by (simp add: wire_verify_parsed is_otp_pattern_def ascii_def)

lemma answers_fit_their_models_witness:
  "snd (receive sample_ctx sample_conversions (wire_verify ''123456'') world2) = world3"
  using answers_fit_their_models [OF wire_verify_routed, where c = sample_ctx and w = world2] succeeds_serve [OF run3] by simp


end
