(* ===== verification/Key_Encoding.thy ===== *)
theory Key_Encoding
  imports Keys
begin

text \<open>
  What a consumer reads in the published key set: the parameters \<open>core/keys.py\<close> writes with
  \<open>_b64url_uint\<close> are decoded as RFC 7518 says, an octet string of minimal length in base64url
  without padding.
\<close>

section \<open>Reading base64url\<close>

definition b64_value :: "nat \<Rightarrow> nat option" where
  "b64_value c =
     (if 65 \<le> c \<and> c \<le> 90 then Some (c - 65) else if 97 \<le> c \<and> c \<le> 122 then Some (c - 71)
      else if 48 \<le> c \<and> c \<le> 57 then Some (c + 4) else if c = 45 then Some 62 else if c = 95 then Some 63
      else None)"

fun octets :: "nat list \<Rightarrow> nat list option" where
  "octets [] = Some []"
| "octets [w] = None"
| "octets [w, x] = (if x mod 16 = 0 then Some [w * 4 + x div 16] else None)"
| "octets [w, x, y] =
     (if y mod 4 = 0 then Some [w * 4 + x div 16, x mod 16 * 16 + y div 4] else None)"
| "octets (w # x # y # z # rest) =
     map_option (\<lambda>bs. (w * 4 + x div 16) # (x mod 16 * 16 + y div 4) # (y mod 4 * 64 + z) # bs) (octets rest)"

definition of_octets :: "nat list \<Rightarrow> nat" where
  "of_octets bs = foldl (\<lambda>n b. 256 * n + b) 0 bs"

text \<open>\<open>Base64urlUInt\<close>: no superfluous zero octet; zero itself is one octet.\<close>

definition base64url_uint_value :: "ptext \<Rightarrow> nat option" where
  "base64url_uint_value t =
     (case those (map b64_value t) of
        None \<Rightarrow> None
      | Some digits \<Rightarrow>
          (case octets digits of
             None \<Rightarrow> None
           | Some bs \<Rightarrow> if bs = [] \<or> (hd bs = 0 \<and> bs \<noteq> [0]) then None else Some (of_octets bs)))"

section \<open>Characters and padding\<close>

text \<open>The digits of the encoding, without padding.\<close>

fun digits_of :: "nat list \<Rightarrow> nat list" where
  "digits_of [] = []"
| "digits_of [a] = [a div 4, a mod 4 * 16]"
| "digits_of [a, b] = [a div 4, a mod 4 * 16 + b div 16, b mod 16 * 4]"
| "digits_of (a # b # c # bs) =
     [a div 4, a mod 4 * 16 + b div 16, b mod 16 * 4 + c div 64, c mod 64] @ digits_of bs"

abbreviation bytes :: "nat list \<Rightarrow> bool" where
  "bytes bs \<equiv> list_all (\<lambda>b. b < 256) bs"

lemma b64_char_value [simp]: "d < 64 \<Longrightarrow> b64_value (b64_char d) = Some d"
  by (auto simp: b64_value_def b64_char_def)

lemma b64_char_not_pad: "d < 64 \<Longrightarrow> b64_char d \<noteq> pad"
  by (auto simp: b64_char_def pad_def)

text \<open>Two bytes share a digit: its upper part comes from the first, its lower part from the second.\<close>

lemma shared_digit:
  assumes "(b::nat) < 256"
  shows "a mod 4 * 16 + b div 16 < 64" "(a mod 4 * 16 + b div 16) div 16 = a mod 4"
    "(a mod 4 * 16 + b div 16) mod 16 = b div 16"
    "a mod 16 * 4 + b div 64 < 64" "(a mod 16 * 4 + b div 64) div 4 = a mod 16"
    "(a mod 16 * 4 + b div 64) mod 4 = b div 64"
proof -
  have b: "b div 16 < 16" "b div 64 < 4" using assms by (simp_all add: less_mult_imp_div_less)
  have a: "a mod 4 \<le> 3" "a mod 16 \<le> 15" using mod_less_divisor [of 4 a] mod_less_divisor [of 16 a] by linarith+
  show "a mod 4 * 16 + b div 16 < 64" using a b by linarith
  show "a mod 16 * 4 + b div 64 < 64" using a b by linarith
qed (use assms in \<open>simp_all add: less_mult_imp_div_less\<close>)

lemma one_byte:
  assumes "(b::nat) < 256"
  shows "b div 4 < 64" "b div 16 div 16 = 0" "b div 16 mod 16 = b div 16" "b div 64 div 4 = 0" "b div 64 mod 4 = b div 64"
  using assms by (simp_all add: less_mult_imp_div_less)

lemma digits_of_bound: "bytes bs \<Longrightarrow> list_all (\<lambda>d. d < 64) (digits_of bs)"
proof (induction bs rule: digits_of.induct)
  case (4 a b c bs)
  then show ?case by (simp add: shared_digit one_byte)
qed (auto simp: shared_digit one_byte)

lemma encode_digits: "\<exists>k. urlsafe_b64encode bs = map b64_char (digits_of bs) @ replicate k pad"
proof (induction bs rule: digits_of.induct)
  case 1
  show ?case by (auto intro: exI [of _ 0])
next
  case (2 a)
  show ?case by (rule exI [of _ 2]) (simp add: numeral_2_eq_2)
next
  case (3 a b)
  show ?case by (rule exI [of _ 1]) simp
qed auto

lemma rstrip_replicate: "pad \<notin> set xs \<Longrightarrow> rstrip_pad (xs @ replicate k pad) = xs"
proof -
  assume "pad \<notin> set xs"
  moreover from this have "xs \<noteq> [] \<Longrightarrow> hd (rev xs) \<noteq> pad" using hd_in_set [of "rev xs"] by auto
  ultimately have "dropWhile (\<lambda>c. c = pad) (replicate k pad @ rev xs) = rev xs"
    by (subst dropWhile_append2) (auto simp: dropWhile_eq_self_iff)
  then show ?thesis by (simp add: rstrip_pad_def)
qed

lemma encoded: "bytes bs \<Longrightarrow> rstrip_pad (urlsafe_b64encode bs) = map b64_char (digits_of bs)"
  using encode_digits [of bs] digits_of_bound [of bs] b64_char_not_pad
  by (force simp: list_all_iff intro: rstrip_replicate)

lemma read_digits: "list_all (\<lambda>d. d < 64) ds \<Longrightarrow> those (map b64_value (map b64_char ds)) = Some ds"
  by (induction ds) auto

lemma octets_digits: "bytes bs \<Longrightarrow> octets (digits_of bs) = Some bs"
  by (induction bs rule: digits_of.induct) (simp_all add: shared_digit one_byte)

section \<open>Octets\<close>

lemma bytes_to_bytes: "bytes (to_bytes k n)"
  by (induction k arbitrary: n) auto

lemma of_octets_snoc [simp]: "of_octets (bs @ [b]) = 256 * of_octets bs + b" "of_octets [] = 0"
  by (simp_all add: of_octets_def)

lemma of_octets_to_bytes: "n < 256 ^ k \<Longrightarrow> of_octets (to_bytes k n) = n"
  by (induction k arbitrary: n) (auto simp: div_less_iff_less_mult mult.commute)

lemma length_to_bytes [simp]: "length (to_bytes k n) = k"
  by (induction k arbitrary: n) auto

lemma hd_to_bytes: "hd (to_bytes (Suc k) n) = n div 256 ^ k mod 256"
proof (induction k arbitrary: n)
  case (Suc k)
  have "to_bytes (Suc k) (n div 256) \<noteq> []" by (metis length_to_bytes list.size(3) nat.distinct(1))
  then have "hd (to_bytes (Suc (Suc k)) n) = hd (to_bytes (Suc k) (n div 256))"
    by (subst to_bytes.simps(2) [of "Suc k" n]) (rule hd_append2)
  with Suc show ?case by (simp add: div_mult2_eq)
qed simp

lemma bit_length_bounds: "n < 2 ^ bit_length n \<and> (0 < n \<longrightarrow> 2 ^ (bit_length n - 1) \<le> n)"
proof (induction n rule: bit_length.induct)
  case (1 n)
  show ?case
  proof (cases "n = 0")
    case False
    with 1 have "n div 2 < 2 ^ bit_length (n div 2)" "0 < n div 2 \<longrightarrow> 2 ^ (bit_length (n div 2) - 1) \<le> n div 2"
      by blast+
    moreover have "bit_length n = Suc (bit_length (n div 2))" using False by (simp add: bit_length.simps [of n])
    moreover have "n = 1" if "n div 2 = 0" using that False by auto
    ultimately show ?thesis
      by (cases "bit_length (n div 2)") (auto simp: bit_length.simps [of 0])
  qed (simp add: bit_length.simps [of 0])
qed

lemma octets_of_uint:
  assumes "0 < n" and "k = (bit_length n + 7) div 8"
  shows "of_octets (to_bytes k n) = n" "to_bytes k n \<noteq> []" "hd (to_bytes k n) \<noteq> 0"
proof -
  have b: "n < 2 ^ bit_length n" "2 ^ (bit_length n - 1) \<le> n" using bit_length_bounds [of n] assms(1) by auto
  have "bit_length n \<noteq> 0" using b(1) assms(1) by (cases "bit_length n") auto
  then obtain m where m: "k = Suc m" "8 * m \<le> bit_length n - 1" "bit_length n \<le> 8 * k"
    using assms(2) by (intro that [of "k - 1"]) presburger+
  have "n < 256 ^ k"
    using b(1) power_increasing [OF m(3), of "2::nat"] by (simp add: power_mult)
  then show "of_octets (to_bytes k n) = n" by (rule of_octets_to_bytes)
  show "to_bytes k n \<noteq> []" using m(1) by simp
  have "256 ^ m \<le> n"
    using b(2) power_increasing [OF m(2), of "2::nat"] by (simp add: power_mult)
  then have "0 < n div 256 ^ m" by (simp add: div_greater_zero_iff)
  moreover have "n div 256 ^ m < 256"
    using \<open>n < 256 ^ k\<close> m(1) by (simp add: div_less_iff_less_mult mult.commute)
  ultimately show "hd (to_bytes k n) \<noteq> 0" using m(1) by (simp only: hd_to_bytes) simp
qed

lemma b64url_uint_value: "0 < n \<Longrightarrow> base64url_uint_value (b64url_uint n) = Some n"
  using octets_of_uint [OF _ refl, of n]
  by (simp add: base64url_uint_value_def b64url_uint_def encoded [OF bytes_to_bytes] read_digits
      digits_of_bound [OF bytes_to_bytes] octets_digits [OF bytes_to_bytes] del: map_map)

section \<open>The published key set\<close>

text \<open>What an entry of the key set says of a key: its id and, once decoded, its modulus and exponent.\<close>

definition publishes :: "(ptext \<Rightarrow> (nat \<times> nat) option) \<Rightarrow> public_key_entry \<Rightarrow> json \<Rightarrow> bool" where
  "publishes load e j =
     (jfield ''kid'' j = Some (JText (kid e)) \<and>
      (\<exists>tn te. jfield ''n'' j = Some (JText tn) \<and> jfield ''e'' j = Some (JText te) \<and>
         Some (base64url_uint_value tn, base64url_uint_value te) = map_option (map_prod Some Some) (load (pem e))))"

lemma to_jwk_publishes:
  "to_jwk load e = Inr j \<Longrightarrow> (\<forall>p n x. load p = Some (n, x) \<longrightarrow> 0 < n \<and> 0 < x) \<Longrightarrow> publishes load e j"
  by (auto simp: to_jwk_def publishes_def b64url_uint_value split: option.splits)

lemma to_jwks_publishes:
  "to_jwks load es = Inr js \<Longrightarrow> (\<forall>p n x. load p = Some (n, x) \<longrightarrow> 0 < n \<and> 0 < x) \<Longrightarrow>
   list_all2 (publishes load) es js"
  by (induction es arbitrary: js) (auto intro: to_jwk_publishes split: sum.splits)

text \<open>
  C13. The published key set carries the keys: decoded the way RFC 7518 says, its entries give back,
  in order, the id, the modulus and the exponent of every key of the ring, and no other key.
\<close>

theorem jwks_publishes_the_keys:
  assumes "jwks load ring = Inr doc" and "\<forall>p n x. load p = Some (n, x) \<longrightarrow> 0 < n \<and> 0 < x"
  shows "\<exists>js. jfield ''keys'' doc = Some (JList js) \<and> list_all2 (publishes load) (public_keys ring) js"
  using assms to_jwks_publishes by (auto simp: jwks_def split: sum.splits)

text \<open>A ring of one key with the modulus 3233 and the usual exponent.\<close>

definition small_ring :: key_ring where
  "small_ring = \<lparr>active_kid = ascii ''k1'', private_pem = [], public_keys = [\<lparr>kid = ascii ''k1'', pem = []\<rparr>]\<rparr>"

lemma jwks_publishes_the_keys_witness:
  "\<exists>doc js. jwks (\<lambda>_. Some (3233, 65537)) small_ring = Inr doc \<and> jfield ''keys'' doc = Some (JList js) \<and>
     list_all2 (publishes (\<lambda>_. Some (3233, 65537))) (public_keys small_ring) js"
proof -
  have "\<exists>doc. jwks (\<lambda>_. Some (3233, 65537)) small_ring = Inr doc"
    by (simp add: jwks_def small_ring_def to_jwk_def)
  then show ?thesis using jwks_publishes_the_keys [of "\<lambda>_. Some (3233, 65537)" small_ring] by auto
qed

end
