(* ===== verification/Ports.thy ===== *)
theory Ports
  imports Prelude
begin

text \<open>
  \<open>domain/interfaces.py\<close> and the classes that meet at it: what a Protocol promises, what the
  adapters of \<open>infra/\<close> offer, and what the dataclasses of \<open>application/\<close> declare and call. Annotations
  are their source text. What the methods do is in the theories of the components; here are their
  signatures, which is all that a structural type has.
\<close>

section \<open>Signatures\<close>

record parameter =
  pr_name :: string
  pr_type :: string
  pr_keyword_only :: bool
  pr_default :: bool

definition arg :: "string \<Rightarrow> string \<Rightarrow> parameter" where
  "arg n t = \<lparr>pr_name = n, pr_type = t, pr_keyword_only = False, pr_default = False\<rparr>"

definition optional :: "string \<Rightarrow> string \<Rightarrow> parameter" where
  "optional n t = \<lparr>pr_name = n, pr_type = t, pr_keyword_only = False, pr_default = True\<rparr>"

definition keyword :: "string \<Rightarrow> string \<Rightarrow> parameter" where
  "keyword n t = \<lparr>pr_name = n, pr_type = t, pr_keyword_only = True, pr_default = False\<rparr>"

definition optional_keyword :: "string \<Rightarrow> string \<Rightarrow> parameter" where
  "optional_keyword n t = \<lparr>pr_name = n, pr_type = t, pr_keyword_only = True, pr_default = True\<rparr>"

record signature =
  sg_async :: bool
  sg_params :: "parameter list"
  sg_returns :: string

type_synonym interface = "(string \<times> signature) list"

definition awaits :: "string \<Rightarrow> parameter list \<Rightarrow> string \<Rightarrow> string \<times> signature" where
  "awaits n ps r = (n, \<lparr>sg_async = True, sg_params = ps, sg_returns = r\<rparr>)"

definition calls :: "string \<Rightarrow> parameter list \<Rightarrow> string \<Rightarrow> string \<times> signature" where
  "calls n ps r = (n, \<lparr>sg_async = False, sg_params = ps, sg_returns = r\<rparr>)"

text \<open>A class: the parameters of its constructor, which for a dataclass are its fields, its methods,
  and the calls through \<open>self.<field>\<close> in their order: field, method, number of positional
  arguments, names of the keyword arguments.\<close>

type_synonym field_call = "string \<times> string \<times> nat \<times> string list"

record class_def =
  cd_init :: "parameter list"
  cd_methods :: interface
  cd_calls :: "field_call list"

text \<open>What Python checks when it binds arguments: every positional one has a place, every keyword is
  a parameter not yet given, and what is left over has a default.\<close>

definition binds :: "parameter list \<Rightarrow> nat \<Rightarrow> string list \<Rightarrow> bool" where
  "binds ps n kws =
     (let positional = filter (\<lambda>p. \<not> pr_keyword_only p) ps;
          given = take n positional;
          rest = filter (\<lambda>p. p \<notin> set given) ps
      in n \<le> length positional \<and> distinct kws \<and> set kws \<subseteq> set (map pr_name rest) \<and>
         list_all (\<lambda>p. pr_default p \<or> pr_name p \<in> set kws) rest)"

text \<open>A method may stand for one of a Protocol: the same kind of function and result, the same
  positional parameters in the same places, its keyword parameters too, and defaults for the rest.\<close>

definition stands_for :: "signature \<Rightarrow> signature \<Rightarrow> bool" where
  "stands_for s p =
     (let positional = filter (\<lambda>x. \<not> pr_keyword_only x); shape = map (\<lambda>x. (pr_name x, pr_type x));
          places = shape (positional (sg_params s)); wanted = shape (positional (sg_params p))
      in sg_async s = sg_async p \<and> sg_returns s = sg_returns p \<and>
         take (length wanted) places = wanted \<and>
         set (shape (sg_params p)) \<subseteq> set (shape (sg_params s)) \<and>
         list_all (\<lambda>x. pr_default x \<or> (pr_name x, pr_type x) \<in> set (shape (sg_params p))) (sg_params s))"

definition implements :: "interface \<Rightarrow> interface \<Rightarrow> bool" where
  "implements c protocol =
     list_all (\<lambda>(n, p). case map_of c n of None \<Rightarrow> False | Some s \<Rightarrow> stands_for s p) protocol"

section \<open>The Protocols\<close>

definition UserWriteRepository :: interface where
  "UserWriteRepository =
     [awaits ''save'' [arg ''user'' ''User''] ''User'',
      awaits ''find_by_id'' [arg ''user_id'' ''UUID''] ''User | None'',
      awaits ''find_by_phone'' [arg ''phone'' ''str''] ''User | None'',
      awaits ''record_status_change'' [arg ''change'' ''UserStatusChange''] ''None'',
      awaits ''record_role_change'' [arg ''change'' ''UserRoleChange''] ''None'',
      awaits ''commit'' [] ''None'']"

definition UserReadRepository :: interface where
  "UserReadRepository =
     [awaits ''get_by_id'' [arg ''user_id'' ''UUID''] ''User | None'',
      awaits ''get_by_phone'' [arg ''phone'' ''str''] ''User | None'',
      awaits ''list_users'' [keyword ''role'' ''str | None'', keyword ''status'' ''str | None'',
         keyword ''pending_kyc'' ''bool'', keyword ''created_since'' ''datetime | None'',
         keyword ''page'' ''int'', keyword ''page_size'' ''int''] ''tuple[list[User], int]'']"

definition OtpRepository :: interface where
  "OtpRepository =
     [awaits ''save'' [arg ''otp'' ''OtpCode''] ''OtpCode'',
      awaits ''find_latest_active'' [arg ''phone'' ''str''] ''OtpCode | None'',
      awaits ''register_attempt'' [arg ''otp_id'' ''UUID''] ''int'',
      awaits ''mark_consumed'' [arg ''otp_id'' ''UUID''] ''None'',
      awaits ''commit'' [] ''None'']"

definition RefreshTokenRepository :: interface where
  "RefreshTokenRepository =
     [awaits ''save'' [arg ''token'' ''RefreshToken''] ''RefreshToken'',
      awaits ''find_by_hash'' [arg ''token_hash'' ''str''] ''RefreshToken | None'',
      awaits ''revoke'' [arg ''token_id'' ''UUID''] ''None'',
      awaits ''revoke_all_for_user'' [arg ''user_id'' ''UUID''] ''int'',
      awaits ''commit'' [] ''None'']"

definition ProfileCache :: interface where
  "ProfileCache =
     [awaits ''get_user'' [arg ''user_id'' ''UUID''] ''User | None'',
      awaits ''set_user'' [arg ''user'' ''User''] ''None'',
      awaits ''invalidate_user'' [arg ''user_id'' ''UUID''] ''None'']"

definition EventPublisher :: interface where
  "EventPublisher =
     [awaits ''publish'' [arg ''event'' ''DomainEvent''] ''None'']"

definition OtpSender :: interface where
  "OtpSender =
     [awaits ''send'' [arg ''phone'' ''str'', arg ''code'' ''str''] ''None'']"

section \<open>The adapters\<close>

definition SqlAlchemyUserWriteRepository :: class_def where
  "SqlAlchemyUserWriteRepository =
     \<lparr>cd_init = [arg ''session'' ''AsyncSession''],
      cd_methods =
        [awaits ''commit'' [] ''None'',
         awaits ''save'' [arg ''user'' ''User''] ''User'',
         awaits ''find_by_id'' [arg ''user_id'' ''UUID''] ''User | None'',
         awaits ''find_by_phone'' [arg ''phone'' ''str''] ''User | None'',
         awaits ''record_status_change'' [arg ''change'' ''UserStatusChange''] ''None'',
         awaits ''record_role_change'' [arg ''change'' ''UserRoleChange''] ''None''],
      cd_calls = []\<rparr>"

definition SqlAlchemyOtpRepository :: class_def where
  "SqlAlchemyOtpRepository =
     \<lparr>cd_init = [arg ''session'' ''AsyncSession''],
      cd_methods =
        [awaits ''commit'' [] ''None'',
         awaits ''save'' [arg ''otp'' ''OtpCode''] ''OtpCode'',
         awaits ''find_latest_active'' [arg ''phone'' ''str''] ''OtpCode | None'',
         awaits ''register_attempt'' [arg ''otp_id'' ''UUID''] ''int'',
         awaits ''mark_consumed'' [arg ''otp_id'' ''UUID''] ''None''],
      cd_calls = []\<rparr>"

definition SqlAlchemyRefreshTokenRepository :: class_def where
  "SqlAlchemyRefreshTokenRepository =
     \<lparr>cd_init = [arg ''session'' ''AsyncSession''],
      cd_methods =
        [awaits ''commit'' [] ''None'',
         awaits ''save'' [arg ''token'' ''RefreshToken''] ''RefreshToken'',
         awaits ''find_by_hash'' [arg ''token_hash'' ''str''] ''RefreshToken | None'',
         awaits ''revoke'' [arg ''token_id'' ''UUID''] ''None'',
         awaits ''revoke_all_for_user'' [arg ''user_id'' ''UUID''] ''int''],
      cd_calls = []\<rparr>"

definition SqlAlchemyUserReadRepository :: class_def where
  "SqlAlchemyUserReadRepository =
     \<lparr>cd_init = [arg ''session'' ''AsyncSession''],
      cd_methods =
        [awaits ''get_by_id'' [arg ''user_id'' ''UUID''] ''User | None'',
         awaits ''get_by_phone'' [arg ''phone'' ''str''] ''User | None'',
         awaits ''list_users'' [optional_keyword ''role'' ''str | None'',
            optional_keyword ''status'' ''str | None'',
          optional_keyword ''pending_kyc'' ''bool'',
          optional_keyword ''created_since'' ''datetime | None'', optional_keyword ''page'' ''int'',
          optional_keyword ''page_size'' ''int''] ''tuple[list[User], int]''],
      cd_calls = []\<rparr>"

definition RedisProfileCache :: class_def where
  "RedisProfileCache =
     \<lparr>cd_init = [arg ''redis'' ''Redis'', optional ''ttl_seconds'' ''int''],
      cd_methods =
        [awaits ''get_user'' [arg ''user_id'' ''UUID''] ''User | None'',
         awaits ''set_user'' [arg ''user'' ''User''] ''None'',
         awaits ''invalidate_user'' [arg ''user_id'' ''UUID''] ''None''],
      cd_calls = []\<rparr>"

definition RedisOtpRateLimiter :: class_def where
  "RedisOtpRateLimiter =
     \<lparr>cd_init = [arg ''redis'' ''Redis''],
      cd_methods =
        [awaits ''seconds_until_phone_allowed'' [arg ''phone'' ''str'',
           arg ''cooldown_seconds'' ''int''] ''int'',
         awaits ''mark_phone_sent'' [arg ''phone'' ''str'', arg ''cooldown_seconds'' ''int''] ''None'',
         awaits ''hit_ip'' [arg ''ip'' ''str''] ''bool''],
      cd_calls = []\<rparr>"

definition LoggingOtpSender :: class_def where
  "LoggingOtpSender =
     \<lparr>cd_init = [],
      cd_methods =
        [awaits ''send'' [arg ''phone'' ''str'', arg ''code'' ''str''] ''None''],
      cd_calls = []\<rparr>"

definition RedisEventPublisher :: class_def where
  "RedisEventPublisher =
     \<lparr>cd_init = [arg ''redis'' ''Redis'', optional ''stream'' ''str''],
      cd_methods =
        [awaits ''publish'' [arg ''event'' ''DomainEvent''] ''None''],
      cd_calls = []\<rparr>"

definition NullEventPublisher :: class_def where
  "NullEventPublisher =
     \<lparr>cd_init = [],
      cd_methods =
        [awaits ''publish'' [arg ''event'' ''DomainEvent''] ''None''],
      cd_calls = []\<rparr>"

definition TokenService :: class_def where
  "TokenService =
     \<lparr>cd_init = [optional ''key_ring'' ''KeyRing | None''],
      cd_methods =
        [calls ''issue_access_token'' [keyword ''user_id'' ''UUID'', keyword ''role'' ''str'',
           keyword ''status'' ''str''] ''str'',
         calls ''decode_access_token'' [arg ''token'' ''str''] ''dict'',
         calls ''new_refresh_token'' [] ''tuple[str, str]'',
         calls ''refresh_expiry'' [optional ''now'' ''datetime | None''] ''datetime'',
         calls ''jwks'' [] ''dict''],
      cd_calls = []\<rparr>"

section \<open>Commands\<close>

text \<open>Calls to module functions, to the domain and to the standard library are not listed.\<close>

definition RegisterUser :: class_def where
  "RegisterUser =
     \<lparr>cd_init = [arg ''users'' ''UserWriteRepository''],
      cd_methods =
        [awaits ''__call__'' [keyword ''phone'' ''str'',
           keyword ''full_name'' ''str | None''] ''dict''],
      cd_calls =
        [(''users'', ''find_by_phone'', 1, []), (''users'', ''save'', 1, []),
         (''users'', ''commit'', 0, [])]\<rparr>"

definition RequestOtp :: class_def where
  "RequestOtp =
     \<lparr>cd_init = [arg ''otps'' ''OtpRepository'', arg ''users'' ''UserWriteRepository'',
                arg ''sender'' ''OtpSender'', arg ''rate_limiter'' ''RedisOtpRateLimiter''],
      cd_methods =
        [awaits ''__call__'' [keyword ''phone'' ''str'',
           optional_keyword ''client_ip'' ''str | None''] ''dict''],
      cd_calls =
        [(''rate_limiter'', ''hit_ip'', 1, []),
         (''rate_limiter'', ''seconds_until_phone_allowed'', 2, []),
         (''users'', ''find_by_phone'', 1, []), (''otps'', ''save'', 1, []),
         (''otps'', ''commit'', 0, []), (''sender'', ''send'', 2, []),
         (''rate_limiter'', ''mark_phone_sent'', 2, [])]\<rparr>"

definition VerifyOtp :: class_def where
  "VerifyOtp =
     \<lparr>cd_init = [arg ''otps'' ''OtpRepository'', arg ''users'' ''UserWriteRepository'',
                arg ''refresh_tokens'' ''RefreshTokenRepository'', arg ''tokens'' ''TokenService'',
                arg ''events'' ''EventPublisher'', arg ''cache'' ''ProfileCache''],
      cd_methods =
        [awaits ''__call__'' [keyword ''phone'' ''str'', keyword ''code'' ''str'',
          optional_keyword ''device_info'' ''str | None''] ''dict''],
      cd_calls =
        [(''otps'', ''find_latest_active'', 1, []), (''otps'', ''register_attempt'', 1, []),
         (''otps'', ''mark_consumed'', 1, []), (''otps'', ''commit'', 0, []),
         (''otps'', ''commit'', 0, []), (''otps'', ''mark_consumed'', 1, []),
         (''users'', ''find_by_phone'', 1, []), (''users'', ''save'', 1, []),
         (''users'', ''record_status_change'', 1, []), (''tokens'', ''new_refresh_token'', 0, []),
         (''refresh_tokens'', ''save'', 1, []), (''tokens'', ''refresh_expiry'', 1, []),
         (''users'', ''commit'', 0, []), (''cache'', ''invalidate_user'', 1, []),
         (''events'', ''publish'', 1, []),
         (''tokens'', ''issue_access_token'', 0, [''user_id'', ''role'', ''status''])]\<rparr>"

definition RefreshAccessToken :: class_def where
  "RefreshAccessToken =
     \<lparr>cd_init = [arg ''refresh_tokens'' ''RefreshTokenRepository'',
                arg ''users'' ''UserWriteRepository'', arg ''tokens'' ''TokenService''],
      cd_methods =
        [awaits ''__call__'' [keyword ''refresh_token'' ''str'',
           optional_keyword ''device_info'' ''str | None''] ''dict''],
      cd_calls =
        [(''refresh_tokens'', ''find_by_hash'', 1, []),
         (''refresh_tokens'', ''revoke_all_for_user'', 1, []),
         (''refresh_tokens'', ''commit'', 0, []), (''users'', ''find_by_id'', 1, []),
         (''refresh_tokens'', ''revoke'', 1, []), (''tokens'', ''new_refresh_token'', 0, []),
         (''refresh_tokens'', ''save'', 1, []), (''tokens'', ''refresh_expiry'', 1, []),
         (''refresh_tokens'', ''commit'', 0, []),
         (''tokens'', ''issue_access_token'', 0, [''user_id'', ''role'', ''status''])]\<rparr>"

definition Logout :: class_def where
  "Logout =
     \<lparr>cd_init = [arg ''refresh_tokens'' ''RefreshTokenRepository''],
      cd_methods =
        [awaits ''__call__'' [keyword ''refresh_token'' ''str'',
           optional_keyword ''all_devices'' ''bool''] ''None''],
      cd_calls =
        [(''refresh_tokens'', ''find_by_hash'', 1, []),
         (''refresh_tokens'', ''revoke_all_for_user'', 1, []),
         (''refresh_tokens'', ''revoke'', 1, []), (''refresh_tokens'', ''commit'', 0, [])]\<rparr>"

definition UpdateProfile :: class_def where
  "UpdateProfile =
     \<lparr>cd_init = [arg ''users'' ''UserWriteRepository'', arg ''events'' ''EventPublisher'',
                arg ''cache'' ''ProfileCache''],
      cd_methods =
        [awaits ''__call__'' [keyword ''user_id'' ''UUID'',
           keyword ''full_name'' ''str | None''] ''dict''],
      cd_calls =
        [(''users'', ''find_by_id'', 1, []), (''users'', ''save'', 1, []),
         (''users'', ''commit'', 0, []), (''cache'', ''invalidate_user'', 1, []),
         (''events'', ''publish'', 1, [])]\<rparr>"

definition ChangeRole :: class_def where
  "ChangeRole =
     \<lparr>cd_init = [arg ''users'' ''UserWriteRepository'', arg ''events'' ''EventPublisher'',
                arg ''cache'' ''ProfileCache''],
      cd_methods =
        [awaits ''__call__'' [keyword ''user_id'' ''UUID'', keyword ''role'' ''str'',
          optional_keyword ''reason'' ''str | None'',
          optional_keyword ''changed_by'' ''UUID | None''] ''dict''],
      cd_calls =
        [(''users'', ''find_by_id'', 1, []), (''users'', ''save'', 1, []),
         (''users'', ''record_role_change'', 1, []), (''users'', ''commit'', 0, []),
         (''cache'', ''invalidate_user'', 1, []), (''events'', ''publish'', 1, []),
         (''users'', ''save'', 1, []), (''users'', ''record_role_change'', 1, []),
         (''users'', ''commit'', 0, []), (''cache'', ''invalidate_user'', 1, []),
         (''events'', ''publish'', 1, [])]\<rparr>"

definition DecideKyc :: class_def where
  "DecideKyc =
     \<lparr>cd_init = [arg ''users'' ''UserWriteRepository'', arg ''events'' ''EventPublisher'',
                arg ''cache'' ''ProfileCache''],
      cd_methods =
        [awaits ''__call__'' [keyword ''user_id'' ''UUID'', keyword ''approved'' ''bool'',
          keyword ''reason'' ''str | None'', keyword ''decided_by'' ''UUID | None''] ''dict''],
      cd_calls =
        [(''users'', ''find_by_id'', 1, []), (''users'', ''save'', 1, []),
         (''users'', ''record_status_change'', 1, []), (''users'', ''record_role_change'', 1, []),
         (''users'', ''commit'', 0, []), (''cache'', ''invalidate_user'', 1, []),
         (''events'', ''publish'', 1, []), (''events'', ''publish'', 1, [])]\<rparr>"

definition ChangeStatus :: class_def where
  "ChangeStatus =
     \<lparr>cd_init = [arg ''users'' ''UserWriteRepository'',
                arg ''refresh_tokens'' ''RefreshTokenRepository'',
                arg ''events'' ''EventPublisher'', arg ''cache'' ''ProfileCache''],
      cd_methods =
        [awaits ''__call__'' [keyword ''user_id'' ''UUID'', keyword ''status'' ''str'',
          keyword ''reason'' ''str | None'', keyword ''changed_by'' ''UUID | None''] ''dict''],
      cd_calls =
        [(''users'', ''find_by_id'', 1, []), (''users'', ''save'', 1, []),
         (''users'', ''record_status_change'', 1, []),
         (''refresh_tokens'', ''revoke_all_for_user'', 1, []), (''users'', ''commit'', 0, []),
         (''cache'', ''invalidate_user'', 1, []), (''events'', ''publish'', 1, [])]\<rparr>"

section \<open>Queries\<close>

text \<open>\<open>GetCurrentUserProfile\<close> hands its two fields to a \<open>GetUserById\<close> and so makes its calls.\<close>

definition GetUserById :: class_def where
  "GetUserById =
     \<lparr>cd_init = [arg ''users'' ''UserReadRepository'', arg ''cache'' ''ProfileCache''],
      cd_methods =
        [awaits ''__call__'' [arg ''user_id'' ''UUID''] ''dict''],
      cd_calls =
        [(''cache'', ''get_user'', 1, []), (''users'', ''get_by_id'', 1, []),
         (''cache'', ''set_user'', 1, [])]\<rparr>"

definition GetCurrentUserProfile :: class_def where
  "GetCurrentUserProfile =
     \<lparr>cd_init = [arg ''users'' ''UserReadRepository'', arg ''cache'' ''ProfileCache''],
      cd_methods =
        [awaits ''__call__'' [arg ''user_id'' ''UUID''] ''dict''],
      cd_calls = cd_calls GetUserById\<rparr>"

definition GetUserByPhone :: class_def where
  "GetUserByPhone =
     \<lparr>cd_init = [arg ''users'' ''UserReadRepository''],
      cd_methods =
        [awaits ''__call__'' [arg ''phone'' ''str''] ''dict | None''],
      cd_calls =
        [(''users'', ''get_by_phone'', 1, [])]\<rparr>"

definition ListUsers :: class_def where
  "ListUsers =
     \<lparr>cd_init = [arg ''users'' ''UserReadRepository''],
      cd_methods =
        [awaits ''__call__'' [optional_keyword ''role'' ''str | None'',
           optional_keyword ''status'' ''str | None'',
          optional_keyword ''pending_kyc'' ''bool'',
          optional_keyword ''created_since'' ''datetime | None'', optional_keyword ''page'' ''int'',
          optional_keyword ''page_size'' ''int''] ''dict''],
      cd_calls =
        [(''users'', ''list_users'', 0, [''role'', ''status'', ''pending_kyc'', ''created_since'',
           ''page'', ''page_size''])]\<rparr>"

definition GetJwks :: class_def where
  "GetJwks =
     \<lparr>cd_init = [arg ''tokens'' ''TokenService''],
      cd_methods =
        [awaits ''__call__'' [] ''dict''],
      cd_calls =
        [(''tokens'', ''jwks'', 0, [])]\<rparr>"

section \<open>By name\<close>

definition protocol_named :: "string \<Rightarrow> interface option" where
  "protocol_named c =
     (if c = ''UserWriteRepository'' then Some UserWriteRepository else
      if c = ''UserReadRepository'' then Some UserReadRepository else
      if c = ''OtpRepository'' then Some OtpRepository else
      if c = ''RefreshTokenRepository'' then Some RefreshTokenRepository else
      if c = ''ProfileCache'' then Some ProfileCache else
      if c = ''EventPublisher'' then Some EventPublisher else
      if c = ''OtpSender'' then Some OtpSender else None)"

definition class_named :: "string \<Rightarrow> class_def option" where
  "class_named c =
     (if c = ''RegisterUser'' then Some RegisterUser else
      if c = ''RequestOtp'' then Some RequestOtp else
      if c = ''VerifyOtp'' then Some VerifyOtp else
      if c = ''RefreshAccessToken'' then Some RefreshAccessToken else
      if c = ''Logout'' then Some Logout else
      if c = ''UpdateProfile'' then Some UpdateProfile else
      if c = ''ChangeRole'' then Some ChangeRole else
      if c = ''DecideKyc'' then Some DecideKyc else
      if c = ''ChangeStatus'' then Some ChangeStatus else
      if c = ''GetUserById'' then Some GetUserById else
      if c = ''GetCurrentUserProfile'' then Some GetCurrentUserProfile else
      if c = ''GetUserByPhone'' then Some GetUserByPhone else
      if c = ''ListUsers'' then Some ListUsers else
      if c = ''GetJwks'' then Some GetJwks else
      if c = ''SqlAlchemyUserWriteRepository'' then Some SqlAlchemyUserWriteRepository else
      if c = ''SqlAlchemyOtpRepository'' then Some SqlAlchemyOtpRepository else
      if c = ''SqlAlchemyRefreshTokenRepository'' then Some SqlAlchemyRefreshTokenRepository else
      if c = ''SqlAlchemyUserReadRepository'' then Some SqlAlchemyUserReadRepository else
      if c = ''RedisProfileCache'' then Some RedisProfileCache else
      if c = ''RedisOtpRateLimiter'' then Some RedisOtpRateLimiter else
      if c = ''LoggingOtpSender'' then Some LoggingOtpSender else
      if c = ''RedisEventPublisher'' then Some RedisEventPublisher else
      if c = ''NullEventPublisher'' then Some NullEventPublisher else
      if c = ''TokenService'' then Some TokenService else None)"

definition commands :: "string list" where
  "commands =
     [''RegisterUser'', ''RequestOtp'', ''VerifyOtp'', ''RefreshAccessToken'', ''Logout'',
      ''UpdateProfile'', ''ChangeRole'', ''DecideKyc'', ''ChangeStatus'']"

definition queries :: "string list" where
  "queries =
     [''GetUserById'', ''GetCurrentUserProfile'', ''GetUserByPhone'', ''ListUsers'',
      ''GetJwks'']"

lemmas protocol_defs = UserWriteRepository_def UserReadRepository_def OtpRepository_def
  RefreshTokenRepository_def ProfileCache_def EventPublisher_def OtpSender_def
lemmas adapter_defs = SqlAlchemyUserWriteRepository_def SqlAlchemyOtpRepository_def
  SqlAlchemyRefreshTokenRepository_def SqlAlchemyUserReadRepository_def RedisProfileCache_def
  RedisOtpRateLimiter_def LoggingOtpSender_def RedisEventPublisher_def NullEventPublisher_def
  TokenService_def
lemmas handler_defs = RegisterUser_def RequestOtp_def VerifyOtp_def RefreshAccessToken_def Logout_def
  UpdateProfile_def ChangeRole_def DecideKyc_def ChangeStatus_def GetUserById_def
  GetCurrentUserProfile_def GetUserByPhone_def ListUsers_def GetJwks_def

end
