(* ===== verification/Wiring.thy ===== *)
theory Wiring
  imports Wire Ports
begin

text \<open>
  \<open>core/deps.py\<close>: the factories behind \<open>Depends\<close>, the dependencies of \<open>core/auth_deps.py\<close> and of
  the routes, and what FastAPI does with them for one request. FastAPI resolves the parameters of a
  callable in their order, each one after its own parameters, and calls nothing twice in a request:
  a callable it has a result of is answered from the cache of the request.
\<close>

section \<open>Callables\<close>

text \<open>The callable itself is the key of the cache.\<close>

datatype dep =
    Get_Session | Get_Redis | Get_Token_Service | Bearer_Scheme
  | User_Write_Repo | Otp_Repo | Refresh_Token_Repo | User_Read_Repo
  | Profile_Cache_Dep | Event_Publisher_Dep | Otp_Rate_Limiter | Otp_Sender
  | Register_User_Command | Request_Otp_Command | Verify_Otp_Command | Refresh_Token_Command
  | Logout_Command | Update_Profile_Command | Change_Role_Command | Decide_Kyc_Command
  | Change_Status_Command
  | Get_User_By_Id_Query | Get_Current_Profile_Query | List_Users_Query | Get_Jwks_Query
  | Get_Claims | Get_Current_User_Id | Require_Admin | Require_Service_Or_Admin

text \<open>
  A parameter has a name, an annotation and the callable of its \<open>Depends\<close>. The body of a factory is
  one constructor call, whose keywords are listed with the parameters they pass on; \<open>None\<close> is a
  body that computes its result, modelled where its component is. Parameters filled from the
  request itself are not listed.
\<close>

type_synonym dependency = "string \<times> string \<times> dep"

record factory =
  fa_params :: "dependency list"
  fa_returns :: string
  fa_builds :: "(string \<times> string) list option"

definition computes :: "dependency list \<Rightarrow> string \<Rightarrow> factory" where
  "computes ps r = \<lparr>fa_params = ps, fa_returns = r, fa_builds = None\<rparr>"

definition builds :: "dependency list \<Rightarrow> string \<Rightarrow> (string \<times> string) list \<Rightarrow> factory" where
  "builds ps r kws = \<lparr>fa_params = ps, fa_returns = r, fa_builds = Some kws\<rparr>"

definition session_dep :: dep where
  "session_dep = Get_Session"

definition user_write_repo :: factory where
  "user_write_repo =
     builds [(''session'', ''AsyncSession'', session_dep)]
       ''SqlAlchemyUserWriteRepository'' [(''session'', ''session'')]"

definition otp_repo :: factory where
  "otp_repo =
     builds [(''session'', ''AsyncSession'', session_dep)]
       ''SqlAlchemyOtpRepository'' [(''session'', ''session'')]"

definition refresh_token_repo :: factory where
  "refresh_token_repo =
     builds [(''session'', ''AsyncSession'', session_dep)]
       ''SqlAlchemyRefreshTokenRepository'' [(''session'', ''session'')]"

definition user_read_repo :: factory where
  "user_read_repo =
     builds [(''session'', ''AsyncSession'', session_dep)]
       ''SqlAlchemyUserReadRepository'' [(''session'', ''session'')]"

definition profile_cache :: factory where
  "profile_cache = builds [(''redis'', ''Redis'', Get_Redis)] ''RedisProfileCache'' [(''redis'', ''redis'')]"

definition event_publisher :: factory where
  "event_publisher = builds [(''redis'', ''Redis'', Get_Redis)] ''RedisEventPublisher'' [(''redis'', ''redis'')]"

definition otp_rate_limiter :: factory where
  "otp_rate_limiter = builds [(''redis'', ''Redis'', Get_Redis)] ''RedisOtpRateLimiter'' [(''redis'', ''redis'')]"

definition otp_sender :: factory where
  "otp_sender = builds [] ''LoggingOtpSender'' []"

section \<open>Commands and queries\<close>

definition register_user_command :: factory where
  "register_user_command =
     builds [(''users'', ''SqlAlchemyUserWriteRepository'', User_Write_Repo)]
       ''RegisterUser'' [(''users'', ''users'')]"

definition request_otp_command :: factory where
  "request_otp_command =
     builds
       [(''otps'', ''SqlAlchemyOtpRepository'', Otp_Repo),
        (''users'', ''SqlAlchemyUserWriteRepository'', User_Write_Repo),
        (''sender'', ''LoggingOtpSender'', Otp_Sender),
        (''limiter'', ''RedisOtpRateLimiter'', Otp_Rate_Limiter)]
       ''RequestOtp''
       [(''otps'', ''otps''), (''users'', ''users''), (''sender'', ''sender''), (''rate_limiter'', ''limiter'')]"

definition verify_otp_command :: factory where
  "verify_otp_command =
     builds
       [(''otps'', ''SqlAlchemyOtpRepository'', Otp_Repo),
        (''users'', ''SqlAlchemyUserWriteRepository'', User_Write_Repo),
        (''refresh_tokens'', ''SqlAlchemyRefreshTokenRepository'', Refresh_Token_Repo),
        (''tokens'', ''TokenService'', Get_Token_Service),
        (''events'', ''RedisEventPublisher'', Event_Publisher_Dep),
        (''cache'', ''RedisProfileCache'', Profile_Cache_Dep)]
       ''VerifyOtp''
       [(''otps'', ''otps''), (''users'', ''users''), (''refresh_tokens'', ''refresh_tokens''),
        (''tokens'', ''tokens''), (''events'', ''events''), (''cache'', ''cache'')]"

definition refresh_token_command :: factory where
  "refresh_token_command =
     builds
       [(''refresh_tokens'', ''SqlAlchemyRefreshTokenRepository'', Refresh_Token_Repo),
        (''users'', ''SqlAlchemyUserWriteRepository'', User_Write_Repo),
        (''tokens'', ''TokenService'', Get_Token_Service)]
       ''RefreshAccessToken''
       [(''refresh_tokens'', ''refresh_tokens''), (''users'', ''users''), (''tokens'', ''tokens'')]"

definition logout_command :: factory where
  "logout_command =
     builds [(''refresh_tokens'', ''SqlAlchemyRefreshTokenRepository'', Refresh_Token_Repo)]
       ''Logout'' [(''refresh_tokens'', ''refresh_tokens'')]"

definition update_profile_command :: factory where
  "update_profile_command =
     builds
       [(''users'', ''SqlAlchemyUserWriteRepository'', User_Write_Repo),
        (''events'', ''RedisEventPublisher'', Event_Publisher_Dep),
        (''cache'', ''RedisProfileCache'', Profile_Cache_Dep)]
       ''UpdateProfile'' [(''users'', ''users''), (''events'', ''events''), (''cache'', ''cache'')]"

definition change_role_command :: factory where
  "change_role_command =
     builds
       [(''users'', ''SqlAlchemyUserWriteRepository'', User_Write_Repo),
        (''events'', ''RedisEventPublisher'', Event_Publisher_Dep),
        (''cache'', ''RedisProfileCache'', Profile_Cache_Dep)]
       ''ChangeRole'' [(''users'', ''users''), (''events'', ''events''), (''cache'', ''cache'')]"

definition decide_kyc_command :: factory where
  "decide_kyc_command =
     builds
       [(''users'', ''SqlAlchemyUserWriteRepository'', User_Write_Repo),
        (''events'', ''RedisEventPublisher'', Event_Publisher_Dep),
        (''cache'', ''RedisProfileCache'', Profile_Cache_Dep)]
       ''DecideKyc'' [(''users'', ''users''), (''events'', ''events''), (''cache'', ''cache'')]"

definition change_status_command :: factory where
  "change_status_command =
     builds
       [(''users'', ''SqlAlchemyUserWriteRepository'', User_Write_Repo),
        (''refresh_tokens'', ''SqlAlchemyRefreshTokenRepository'', Refresh_Token_Repo),
        (''events'', ''RedisEventPublisher'', Event_Publisher_Dep),
        (''cache'', ''RedisProfileCache'', Profile_Cache_Dep)]
       ''ChangeStatus''
       [(''users'', ''users''), (''refresh_tokens'', ''refresh_tokens''), (''events'', ''events''),
        (''cache'', ''cache'')]"

definition get_user_by_id_query :: factory where
  "get_user_by_id_query =
     builds
       [(''users'', ''SqlAlchemyUserReadRepository'', User_Read_Repo),
        (''cache'', ''RedisProfileCache'', Profile_Cache_Dep)]
       ''GetUserById'' [(''users'', ''users''), (''cache'', ''cache'')]"

definition get_current_profile_query :: factory where
  "get_current_profile_query =
     builds
       [(''users'', ''SqlAlchemyUserReadRepository'', User_Read_Repo),
        (''cache'', ''RedisProfileCache'', Profile_Cache_Dep)]
       ''GetCurrentUserProfile'' [(''users'', ''users''), (''cache'', ''cache'')]"

definition list_users_query :: factory where
  "list_users_query =
     builds [(''users'', ''SqlAlchemyUserReadRepository'', User_Read_Repo)] ''ListUsers'' [(''users'', ''users'')]"

definition get_jwks_query :: factory where
  "get_jwks_query = builds [(''tokens'', ''TokenService'', Get_Token_Service)] ''GetJwks'' [(''tokens'', ''tokens'')]"

section \<open>Guards\<close>

definition get_claims_params :: "dependency list" where
  "get_claims_params =
     [(''credentials'', ''HTTPAuthorizationCredentials'', Bearer_Scheme), (''tokens'', ''TokenService'', Get_Token_Service)]"

definition get_current_user_id_params :: "dependency list" where
  "get_current_user_id_params = [(''claims'', ''dict'', Get_Claims)]"

definition require_admin_params :: "dependency list" where
  "require_admin_params =
     [(''user_id'', ''UUID'', Get_Current_User_Id), (''users'', ''SqlAlchemyUserReadRepository'', User_Read_Repo)]"

definition require_service_or_admin_params :: "dependency list" where
  "require_service_or_admin_params =
     [(''credentials'', ''HTTPAuthorizationCredentials'', Bearer_Scheme),
      (''tokens'', ''TokenService'', Get_Token_Service),
      (''users'', ''SqlAlchemyUserReadRepository'', User_Read_Repo)]"

fun declared :: "dep \<Rightarrow> factory" where
  "declared Get_Session = computes [] ''AsyncSession''"
| "declared Get_Redis = computes [] ''Redis''"
| "declared Get_Token_Service = computes [] ''TokenService''"
| "declared Bearer_Scheme = computes [] ''HTTPAuthorizationCredentials''"
| "declared User_Write_Repo = user_write_repo"
| "declared Otp_Repo = otp_repo"
| "declared Refresh_Token_Repo = refresh_token_repo"
| "declared User_Read_Repo = user_read_repo"
| "declared Profile_Cache_Dep = profile_cache"
| "declared Event_Publisher_Dep = event_publisher"
| "declared Otp_Rate_Limiter = otp_rate_limiter"
| "declared Otp_Sender = otp_sender"
| "declared Register_User_Command = register_user_command"
| "declared Request_Otp_Command = request_otp_command"
| "declared Verify_Otp_Command = verify_otp_command"
| "declared Refresh_Token_Command = refresh_token_command"
| "declared Logout_Command = logout_command"
| "declared Update_Profile_Command = update_profile_command"
| "declared Change_Role_Command = change_role_command"
| "declared Decide_Kyc_Command = decide_kyc_command"
| "declared Change_Status_Command = change_status_command"
| "declared Get_User_By_Id_Query = get_user_by_id_query"
| "declared Get_Current_Profile_Query = get_current_profile_query"
| "declared List_Users_Query = list_users_query"
| "declared Get_Jwks_Query = get_jwks_query"
| "declared Get_Claims = computes get_claims_params ''dict''"
| "declared Get_Current_User_Id = computes get_current_user_id_params ''UUID''"
| "declared Require_Admin = computes require_admin_params ''User''"
| "declared Require_Service_Or_Admin = computes require_service_or_admin_params ''UUID | None''"

lemmas factory_defs = computes_def builds_def session_dep_def user_write_repo_def otp_repo_def
  refresh_token_repo_def user_read_repo_def profile_cache_def event_publisher_def
  otp_rate_limiter_def otp_sender_def register_user_command_def request_otp_command_def
  verify_otp_command_def refresh_token_command_def logout_command_def update_profile_command_def
  change_role_command_def decide_kyc_command_def change_status_command_def get_user_by_id_query_def
  get_current_profile_query_def list_users_query_def get_jwks_query_def get_claims_params_def
  get_current_user_id_params_def require_admin_params_def require_service_or_admin_params_def

section \<open>Routes\<close>

text \<open>The dependencies of each route in the order of its parameters, and the call its body makes of
  the last one: number of positional arguments and names of the keywords.\<close>

datatype endpoint = Route route | Jwks

definition auth_endpoints :: "(endpoint \<times> dependency list \<times> nat \<times> string list) list" where
  "auth_endpoints =
     [(Route Register, [(''command'', ''RegisterUser'', Register_User_Command)], 0, [''phone'', ''full_name'']),
      (Route OtpRequest, [(''command'', ''RequestOtp'', Request_Otp_Command)], 0, [''phone'', ''client_ip'']),
      (Route OtpVerify, [(''command'', ''VerifyOtp'', Verify_Otp_Command)], 0,
       [''phone'', ''code'', ''device_info'']),
      (Route Refresh, [(''command'', ''RefreshAccessToken'', Refresh_Token_Command)], 0,
       [''refresh_token'', ''device_info'']),
      (Route Wire.Logout, [(''command'', ''Logout'', Logout_Command)], 0, [''refresh_token'', ''all_devices''])]"

definition users_endpoints :: "(endpoint \<times> dependency list \<times> nat \<times> string list) list" where
  "users_endpoints =
     [(Route Me,
       [(''user_id'', ''UUID'', Get_Current_User_Id),
        (''query'', ''GetCurrentUserProfile'', Get_Current_Profile_Query)], 1, []),
      (Route UpdateMe,
       [(''user_id'', ''UUID'', Get_Current_User_Id), (''command'', ''UpdateProfile'', Update_Profile_Command)],
       0, [''user_id'', ''full_name'']),
      (Route Backfill,
       [(''_caller'', ''UUID | None'', Require_Service_Or_Admin), (''query'', ''ListUsers'', List_Users_Query)],
       0, [''created_since'', ''page'', ''page_size'']),
      (Route UserById,
       [(''_caller'', ''UUID | None'', Require_Service_Or_Admin), (''query'', ''GetUserById'', Get_User_By_Id_Query)],
       1, []),
      (Route RoleOfUser,
       [(''caller'', ''UUID | None'', Require_Service_Or_Admin), (''command'', ''ChangeRole'', Change_Role_Command)],
       0, [''user_id'', ''role'', ''reason'', ''changed_by''])]"

definition admin_endpoints :: "(endpoint \<times> dependency list \<times> nat \<times> string list) list" where
  "admin_endpoints =
     [(Route AdminUsers,
       [(''_admin'', ''User'', Require_Admin), (''query'', ''ListUsers'', List_Users_Query)],
       0, [''role'', ''status'', ''pending_kyc'', ''page'', ''page_size'']),
      (Route AdminStatus,
       [(''admin'', ''User'', Require_Admin), (''command'', ''ChangeStatus'', Change_Status_Command)],
       0, [''user_id'', ''status'', ''reason'', ''changed_by'']),
      (Route AdminKyc,
       [(''admin'', ''User'', Require_Admin), (''command'', ''DecideKyc'', Decide_Kyc_Command)],
       0, [''user_id'', ''approved'', ''reason'', ''decided_by''])]"

definition jwks_endpoint :: "(endpoint \<times> dependency list \<times> nat \<times> string list) list" where
  "jwks_endpoint = [(Jwks, [(''query'', ''GetJwks'', Get_Jwks_Query)], 0, [])]"

definition endpoints :: "(endpoint \<times> dependency list \<times> nat \<times> string list) list" where
  "endpoints = auth_endpoints @ users_endpoints @ admin_endpoints @ jwks_endpoint"

lemmas endpoint_defs = endpoints_def auth_endpoints_def users_endpoints_def admin_endpoints_def
  jwks_endpoint_def

text \<open>Every route of the routers is an endpoint.\<close>

lemma every_route_is_an_endpoint:
  "(\<lambda>(_, _, r). Route r) ` set routes \<union> {Jwks} = fst ` set endpoints"
  by (simp add: routes_def endpoint_defs insert_commute)

text \<open>The guard a route authenticates with is its first dependency, before its command or query.\<close>

lemma guards_come_first:
  assumes "(Route r, ps, n, kws) \<in> set endpoints"
  shows "guard_of r =
    (case ps of
       (_, _, Get_Current_User_Id) # _ \<Rightarrow> User_Only
     | (_, _, Require_Service_Or_Admin) # _ \<Rightarrow> Service_Or_Admin
     | (_, _, Require_Admin) # _ \<Rightarrow> Admin_Only
     | _ \<Rightarrow> Open)"
  using assms by (auto simp: endpoint_defs)

end
