(* ===== verification/Resolution.thy ===== *)
theory Resolution
  imports Wiring
begin

text \<open>
  The resolution of the dependencies of a route: the cache of a request, what is called and in
  which order, and the objects that come out of it.
\<close>

section \<open>The solver\<close>

text \<open>
  A value is an object a factory constructed, the result of the \<open>n\<close>-th call of another callable
  (so that two sessions would be two values), or a name a factory body does not find.
\<close>

datatype obj =
    Object string "(string \<times> obj) list"
  | Result dep nat "(string \<times> obj) list"
  | Unbound string

definition invoke :: "dep \<Rightarrow> nat \<Rightarrow> (string \<times> obj) list \<Rightarrow> obj" where
  "invoke d n args =
     (case fa_builds (declared d) of
        None \<Rightarrow> Result d n args
      | Some kws \<Rightarrow>
          Object (fa_returns (declared d))
            (map (\<lambda>(k, x). (k, case map_of args x of None \<Rightarrow> Unbound x | Some v \<Rightarrow> v)) kws))"

record solver =
  so_cache :: "(dep \<times> obj) list"
  so_calls :: "dep list"

definition fresh_solver :: solver where
  "fresh_solver = \<lparr>so_cache = [], so_calls = []\<rparr>"

text \<open>A bound on the callables met below a callable.\<close>

fun weight :: "dep \<Rightarrow> nat" where
  "weight d =
     (if d \<in> {Get_Session, Get_Redis, Get_Token_Service, Bearer_Scheme, Otp_Sender} then 1
      else if d \<in> {User_Write_Repo, Otp_Repo, Refresh_Token_Repo, User_Read_Repo, Profile_Cache_Dep,
        Event_Publisher_Dep, Otp_Rate_Limiter} then 3
      else if d = Get_Claims then 5
      else if d = Get_Current_User_Id then 7
      else 30)"

definition load :: "dependency list \<Rightarrow> nat" where
  "load ps = sum_list (map (\<lambda>(_, _, e). Suc (weight e)) ps)"

lemma load_simps [simp]: "load [] = 0" "load ((x, t, e) # ps) = Suc (weight e) + load ps"
  by (simp_all add: load_def)

lemma load_params [simp]: "load (fa_params (declared d)) < weight d"
  by (cases d) (simp_all add: factory_defs)

text \<open>\<open>None\<close> when some callable raised; nothing is called after that.\<close>

function solve :: "(dep \<Rightarrow> bool) \<Rightarrow> dep \<Rightarrow> solver \<Rightarrow> obj option \<times> solver"
  and solve_all :: "(dep \<Rightarrow> bool) \<Rightarrow> dependency list \<Rightarrow> solver \<Rightarrow> (string \<times> obj) list option \<times> solver"
where
  "solve raises d s =
     (case solve_all raises (fa_params (declared d)) s of
        (None, s1) \<Rightarrow> (None, s1)
      | (Some args, s1) \<Rightarrow>
          (case map_of (so_cache s1) d of
             Some v \<Rightarrow> (Some v, s1)
           | None \<Rightarrow>
               let s2 = s1\<lparr>so_calls := so_calls s1 @ [d]\<rparr> in
               if raises d then (None, s2)
               else
                 let v = invoke d (count_list (so_calls s1) d) args in
                 (Some v, s2\<lparr>so_cache := (d, v) # so_cache s1\<rparr>)))"
| "solve_all raises [] s = (Some [], s)"
| "solve_all raises ((x, t, e) # ps) s =
     (case solve raises e s of
        (None, s1) \<Rightarrow> (None, s1)
      | (Some v, s1) \<Rightarrow>
          (case solve_all raises ps s1 of
             (None, s2) \<Rightarrow> (None, s2)
           | (Some vs, s2) \<Rightarrow> (Some ((x, v) # vs), s2)))"
  by pat_completeness auto
termination
  by (relation "measure (case_sum (\<lambda>(_, d, _). weight d) (\<lambda>(_, ps, _). load ps))")
    (auto simp del: weight.simps)

declare solve.simps [simp del] weight.simps [simp del]

text \<open>The reference: every callable called once, as a function of its name.\<close>

function object_of :: "dep \<Rightarrow> obj"
  and objects_of :: "dependency list \<Rightarrow> (string \<times> obj) list"
where
  "object_of d = invoke d 0 (objects_of (fa_params (declared d)))"
| "objects_of [] = []"
| "objects_of ((x, t, e) # ps) = (x, object_of e) # objects_of ps"
  by pat_completeness auto
termination
  by (relation "measure (case_sum weight load)") (auto simp del: weight.simps)

declare object_of.simps [simp del]

lemma objects_of_map: "objects_of ps = map (\<lambda>(x, t, e). (x, object_of e)) ps"
  by (induction ps) auto

section \<open>The cache computes the reference\<close>

primrec in_order :: "dep set \<Rightarrow> dep list \<Rightarrow> bool" where
  "in_order seen [] = True"
| "in_order seen (d # ds) = ((\<lambda>(_, _, e). e) ` set (fa_params (declared d)) \<subseteq> seen \<and> in_order (insert d seen) ds)"

lemma in_order_snoc [simp]:
  "in_order seen (ds @ [d]) \<longleftrightarrow>
     in_order seen ds \<and> (\<lambda>(_, _, e). e) ` set (fa_params (declared d)) \<subseteq> seen \<union> set ds"
  by (induction ds arbitrary: seen) auto

definition consistent :: "(dep \<Rightarrow> bool) \<Rightarrow> solver \<Rightarrow> bool" where
  "consistent raises s \<longleftrightarrow>
     distinct (so_calls s) \<and> in_order {} (so_calls s) \<and> (\<forall>d \<in> set (so_calls s). \<not> raises d) \<and>
     (\<forall>d. map_of (so_cache s) d = (if d \<in> set (so_calls s) then Some (object_of d) else None))"

definition stopped :: "(dep \<Rightarrow> bool) \<Rightarrow> solver \<Rightarrow> bool" where
  "stopped raises s \<longleftrightarrow>
     distinct (so_calls s) \<and> in_order {} (so_calls s) \<and> so_calls s \<noteq> [] \<and> raises (last (so_calls s)) \<and>
     (\<forall>d \<in> set (butlast (so_calls s)). \<not> raises d)"

lemma solve_correct:
  "consistent raises s \<Longrightarrow>
     (case solve raises d s of
        (None, s') \<Rightarrow> stopped raises s' \<and> (\<exists>ds. so_calls s' = so_calls s @ ds)
      | (Some v, s') \<Rightarrow> consistent raises s' \<and> v = object_of d \<and> d \<in> set (so_calls s') \<and>
          (\<exists>ds. so_calls s' = so_calls s @ ds))"
  "consistent raises s \<Longrightarrow>
     (case solve_all raises ps s of
        (None, s') \<Rightarrow> stopped raises s' \<and> (\<exists>ds. so_calls s' = so_calls s @ ds)
      | (Some vs, s') \<Rightarrow> consistent raises s' \<and> vs = objects_of ps \<and>
          (\<lambda>(_, _, e). e) ` set ps \<subseteq> set (so_calls s') \<and> (\<exists>ds. so_calls s' = so_calls s @ ds))"
proof (induction raises d s and raises ps s rule: solve_solve_all.induct)
  case (1 raises d s)
  show ?case
  proof (cases "solve_all raises (fa_params (declared d)) s")
    case (Pair r s1)
    show ?thesis
    proof (cases r)
      case None
      then show ?thesis using 1 Pair by (simp add: solve.simps)
    next
      case (Some args)
      have ok: "consistent raises s1" "args = objects_of (fa_params (declared d))"
        "(\<lambda>(_, _, e). e) ` set (fa_params (declared d)) \<subseteq> set (so_calls s1)"
        "\<exists>ds. so_calls s1 = so_calls s @ ds"
        using 1 Pair Some by simp_all
      show ?thesis
      proof (cases "d \<in> set (so_calls s1)")
        case True
        then show ?thesis using ok Pair Some by (simp add: solve.simps consistent_def)
      next
        case False
        then have "count_list (so_calls s1) d = 0" by (simp add: count_list_0_iff)
        moreover have "map_of (so_cache s1) d = None" using ok(1) False by (simp add: consistent_def)
        ultimately show ?thesis using ok Pair Some False
          by (auto simp: solve.simps consistent_def stopped_def Let_def object_of.simps)
      qed
    qed
  qed
next
  case (2 raises s)
  then show ?case by simp
next
  case (3 raises x t e ps s)
  show ?case
  proof (cases "solve raises e s")
    case (Pair r s1)
    show ?thesis
    proof (cases r)
      case None
      then show ?thesis using 3 Pair by simp
    next
      case (Some v)
      then have "consistent raises s1" using 3 Pair by simp
      then show ?thesis
        using 3 Pair Some by (fastforce split: prod.splits option.splits)
    qed
  qed
qed

lemma fresh_consistent [simp]: "consistent raises fresh_solver"
  by (simp add: consistent_def fresh_solver_def)


section \<open>What is inside an object\<close>

primrec parts :: "obj \<Rightarrow> obj list" where
  "parts (Object c args) = Object c args # concat (map snd (map (map_prod id parts) args))"
| "parts (Result d n args) = Result d n args # concat (map snd (map (map_prod id parts) args))"
| "parts (Unbound x) = [Unbound x]"

definition class_of :: "obj \<Rightarrow> string" where
  "class_of v = (case v of Object c _ \<Rightarrow> c | Result d _ _ \<Rightarrow> fa_returns (declared d) | Unbound _ \<Rightarrow> [])"

definition parts_of :: "(string \<times> obj) list \<Rightarrow> obj list" where
  "parts_of args = concat (map (parts \<circ> snd) args)"

lemma object_of_parameter:
  "(x, v) \<in> set (objects_of ps) \<Longrightarrow> \<exists>t e. (x, t, e) \<in> set ps \<and> v = object_of e"
  by (auto simp: objects_of_map)

lemma results_are_shared:
  "Result d' n vs \<in> set (parts (object_of d)) \<Longrightarrow> Result d' n vs = object_of d'"
  "(x, v) \<in> set (objects_of ps) \<Longrightarrow> Result d' n vs \<in> set (parts v) \<Longrightarrow> Result d' n vs = object_of d'"
proof (induction d and ps arbitrary: and x v rule: object_of_objects_of.induct)
  case (1 d)
  show ?case
  proof (cases "Result d' n vs = object_of d")
    case True
    then have "d' = d" by (auto simp: object_of.simps [of d] invoke_def split: option.splits)
    then show ?thesis using True by simp
  next
    case False
    then show ?thesis
      using 1 by (auto simp: object_of.simps [of d] invoke_def split: option.splits dest!: map_of_SomeD)
  qed
qed auto

text \<open>
  For every list of dependencies and whichever callables raise: no callable is called twice, each
  one is called after everything it depends on, resolution fails exactly when something it called
  raised, which is then the last thing called, and when it succeeds the parameters are the
  reference objects. Every result inside them is the one result of its only call.
\<close>

theorem resolution_calls_once:
  assumes "solve_all raises ps fresh_solver = (r, s)"
  shows "distinct (so_calls s) \<and> in_order {} (so_calls s) \<and>
    (r = None \<longleftrightarrow> (\<exists>d \<in> set (so_calls s). raises d)) \<and>
    (\<forall>d \<in> set (butlast (so_calls s)). \<not> raises d) \<and>
    (\<forall>args. r = Some args \<longrightarrow>
       args = objects_of ps \<and>
       (\<forall>d n vs. Result d n vs \<in> set (parts_of args) \<longrightarrow> n = 0 \<and> Result d n vs = object_of d))"
proof (cases r)
  case None
  then have "stopped raises s" using solve_correct(2) [OF fresh_consistent, of raises ps] assms by simp
  then show ?thesis using None by (auto simp: stopped_def)
next
  case (Some args)
  then have ok: "consistent raises s" "args = objects_of ps"
    using solve_correct(2) [OF fresh_consistent, of raises ps] assms by simp_all
  have shared: "n = 0 \<and> Result d n vs = object_of d" if found: "Result d n vs \<in> set (parts_of args)" for d n vs
  proof -
    obtain x v where "(x, v) \<in> set (objects_of ps)" "Result d n vs \<in> set (parts v)"
      using found by (auto simp: parts_of_def ok(2))
    then have "Result d n vs = object_of d" by (rule results_are_shared)
    then show ?thesis by (auto simp: object_of.simps [of d] invoke_def split: option.splits)
  qed
  show ?thesis using ok(1) Some shared by (auto simp: consistent_def ok(2) dest: in_set_butlastD)
qed

section \<open>One session, guards first\<close>

text \<open>Everything below a callable, itself included.\<close>

function needs :: "dep \<Rightarrow> dep list" and needs_all :: "dependency list \<Rightarrow> dep list" where
  "needs d = needs_all (fa_params (declared d)) @ [d]"
| "needs_all [] = []"
| "needs_all ((x, t, e) # ps) = needs e @ needs_all ps"
  by pat_completeness auto
termination
  by (relation "measure (case_sum weight load)") (auto simp del: weight.simps)

declare needs.simps [simp del]

lemma calls_needed:
  "set (so_calls (snd (solve raises d s))) \<subseteq> set (so_calls s) \<union> set (needs d)"
  "set (so_calls (snd (solve_all raises ps s))) \<subseteq> set (so_calls s) \<union> set (needs_all ps)"
proof (induction raises d s and raises ps s rule: solve_solve_all.induct)
  case (1 raises d s)
  then show ?case
    by (auto simp: solve.simps [of raises d s] needs.simps [of d] Let_def split: prod.splits option.splits)
next
  case (3 raises x t e ps s)
  then show ?case by (fastforce split: prod.splits option.splits)
qed simp

lemma raising_stops:
  assumes "raises d"
  shows "fst (solve raises d fresh_solver) = None"
    and "set (so_calls (snd (solve raises d fresh_solver))) \<subseteq> set (needs d)"
proof -
  show "fst (solve raises d fresh_solver) = None"
    using solve_correct(1) [OF fresh_consistent, of raises d] assms
    by (auto simp: consistent_def split: prod.splits option.splits)
  show "set (so_calls (snd (solve raises d fresh_solver))) \<subseteq> set (needs d)"
    using calls_needed(1) [of raises d fresh_solver] by (simp add: fresh_solver_def)
qed

definition guards :: "dep set" where
  "guards = {Get_Current_User_Id, Require_Admin, Require_Service_Or_Admin}"

text \<open>What checking a caller may use: the token, the key ring and one reading repository.\<close>

definition caller_check :: "dep set" where
  "caller_check = guards \<union> {Bearer_Scheme, Get_Token_Service, Get_Claims, Get_Session, User_Read_Repo}"

definition repositories :: "string set" where
  "repositories = {''SqlAlchemyUserWriteRepository'', ''SqlAlchemyOtpRepository'',
     ''SqlAlchemyRefreshTokenRepository'', ''SqlAlchemyUserReadRepository''}"

definition on_the_session :: "obj \<Rightarrow> bool" where
  "on_the_session v =
     (case v of
        Object c args \<Rightarrow> c \<in> repositories \<longrightarrow> args = [(''session'', Result Get_Session 0 [])]
      | _ \<Rightarrow> True)"

lemma guards_needs: "g \<in> guards \<Longrightarrow> set (needs g) \<subseteq> caller_check"
proof -
  have "list_all (\<lambda>g. list_all (\<lambda>d. d \<in> caller_check) (needs g))
      [Get_Current_User_Id, Require_Admin, Require_Service_Or_Admin]"
    by code_simp
  then show "g \<in> guards \<Longrightarrow> set (needs g) \<subseteq> caller_check" by (auto simp: guards_def list_all_iff)
qed

lemma repositories_on_the_session:
  "list_all (\<lambda>(e, ps, n, kws). list_all on_the_session (parts_of (objects_of ps))) endpoints"
  by code_simp

text \<open>A guard of a route is its first dependency.\<close>

lemma guards_lead:
  "list_all (\<lambda>(e, ps, n, kws). list_all (\<lambda>(x, t, d). d \<notin> guards) (tl ps)) endpoints"
  by code_simp


section \<open>The wiring is well typed\<close>

definition methods_of :: "obj \<Rightarrow> interface" where
  "methods_of v = (case class_named (class_of v) of None \<Rightarrow> [] | Some c \<Rightarrow> cd_methods c)"

definition has_type :: "string \<Rightarrow> obj \<Rightarrow> bool" where
  "has_type t v =
     (class_of v = t \<or> (case protocol_named t of None \<Rightarrow> False | Some p \<Rightarrow> implements (methods_of v) p))"

definition can_call :: "obj \<Rightarrow> string \<Rightarrow> nat \<Rightarrow> string list \<Rightarrow> bool" where
  "can_call v m n kws =
     (case map_of (methods_of v) m of None \<Rightarrow> False | Some sg \<Rightarrow> binds (sg_params sg) n kws)"

text \<open>An object whose constructor got what its signature asks for, in types the annotations allow,
  and each of whose calls through a field finds a method that takes those arguments.\<close>

definition well_built :: "obj \<Rightarrow> bool" where
  "well_built v =
     (case v of
        Unbound _ \<Rightarrow> False
      | Result d _ args \<Rightarrow>
          list_all2 (\<lambda>(x, w) (y, t, e). x = y \<and> has_type t w) args (fa_params (declared d))
      | Object c args \<Rightarrow>
          (case class_named c of
             None \<Rightarrow> False
           | Some cd \<Rightarrow>
               binds (cd_init cd) 0 (map fst args) \<and>
               list_all (\<lambda>(k, w). list_ex (\<lambda>p. pr_name p = k \<and> has_type (pr_type p) w) (cd_init cd)) args \<and>
               list_all (\<lambda>(f, m, n, kws). case map_of args f of None \<Rightarrow> False | Some w \<Rightarrow> can_call w m n kws)
                 (cd_calls cd)))"

definition write_side :: "string set" where
  "write_side = {''SqlAlchemyUserWriteRepository'', ''SqlAlchemyOtpRepository'',
     ''SqlAlchemyRefreshTokenRepository'', ''RedisEventPublisher''}"

definition kept_apart :: "obj \<Rightarrow> bool" where
  "kept_apart v =
     (let inside = class_of ` set (parts v) in
      (class_of v \<in> set commands \<longrightarrow> ''SqlAlchemyUserReadRepository'' \<notin> inside) \<and>
      (class_of v \<in> set queries \<longrightarrow> inside \<inter> write_side = {}))"

text \<open>An endpoint whose annotations name the classes its factories return, whose objects are well
  built to their leaves, and whose body calls the last of them as its signature allows.\<close>

definition typed_parameters :: "dependency list \<Rightarrow> bool" where
  "typed_parameters ps = list_all (\<lambda>(x, t, e). fa_returns (declared e) = t) ps"

definition typed_endpoint :: "dependency list \<Rightarrow> nat \<Rightarrow> string list \<Rightarrow> bool" where
  "typed_endpoint ps n kws =
     (typed_parameters ps \<and>
      list_all (\<lambda>(x, v). list_all well_built (parts v) \<and> kept_apart v) (objects_of ps) \<and>
      can_call (snd (last (objects_of ps))) ''__call__'' n kws)"

lemma every_endpoint_typed:
  "list_all (\<lambda>(e, ps, n, kws). typed_endpoint ps n kws) (take 2 auth_endpoints)"
  "list_all (\<lambda>(e, ps, n, kws). typed_endpoint ps n kws) (drop 2 auth_endpoints)"
  by code_simp+

lemma every_users_endpoint_typed: "list_all (\<lambda>(e, ps, n, kws). typed_endpoint ps n kws) users_endpoints"
  by code_simp

lemma every_admin_endpoint_typed: "list_all (\<lambda>(e, ps, n, kws). typed_endpoint ps n kws) admin_endpoints"
  by code_simp

lemma jwks_endpoint_typed: "list_all (\<lambda>(e, ps, n, kws). typed_endpoint ps n kws) jwks_endpoint"
  by code_simp

lemma endpoint_typed:
  assumes "(e, ps, n, kws) \<in> set endpoints"
  shows "typed_endpoint ps n kws"
proof -
  have "set auth_endpoints = set (take 2 auth_endpoints) \<union> set (drop 2 auth_endpoints)"
    by (metis append_take_drop_id set_append)
  then show ?thesis
    using assms every_endpoint_typed every_users_endpoint_typed every_admin_endpoint_typed jwks_endpoint_typed
    by (auto simp: endpoints_def list_all_iff)
qed


text \<open>Signing in: the objects of \<open>POST /auth/otp/verify\<close>, all on one session and one pool.\<close>

definition verify_objects :: "(string \<times> obj) list" where
  "verify_objects =
     (let session = Result Get_Session 0 []; redis = Result Get_Redis 0 [] in
      [(''command'', Object ''VerifyOtp''
         [(''otps'', Object ''SqlAlchemyOtpRepository'' [(''session'', session)]),
          (''users'', Object ''SqlAlchemyUserWriteRepository'' [(''session'', session)]),
          (''refresh_tokens'', Object ''SqlAlchemyRefreshTokenRepository'' [(''session'', session)]),
          (''tokens'', Result Get_Token_Service 0 []),
          (''events'', Object ''RedisEventPublisher'' [(''redis'', redis)]),
          (''cache'', Object ''RedisProfileCache'' [(''redis'', redis)])])])"

lemma verify_resolves:
  "solve_all (\<lambda>_. False) [(''command'', ''VerifyOtp'', Verify_Otp_Command)] fresh_solver =
     (Some verify_objects, snd (solve_all (\<lambda>_. False) [(''command'', ''VerifyOtp'', Verify_Otp_Command)] fresh_solver))"
  by code_simp

text \<open>A decision of somebody who is no administrator: neither the command nor any write repository
  comes into being.\<close>

definition refused_decision :: "(string \<times> obj) list option \<times> solver" where
  "refused_decision =
     solve_all (\<lambda>d. d = Require_Admin)
       [(''admin'', ''User'', Require_Admin), (''command'', ''DecideKyc'', Decide_Kyc_Command)] fresh_solver"



end
