(* ===== verification/Limiter_Races.thy ===== *)
theory Limiter_Races
  imports Redis_Behaviour
begin

text \<open>
  \<open>hit_ip\<close> sends two commands, and requests of one address run side by side in several workers, each
  of which may be killed. Here a caller is a small state machine, one step per command, and the
  steps of any number of callers are interleaved on one server.
\<close>

section \<open>A caller, command by command\<close>

text \<open>\<open>Counted n\<close> has the answer of its \<open>INCR\<close> and is about to send \<open>EXPIRE\<close>; \<open>Finished\<close> holds what
  \<open>hit_ip\<close> returns; \<open>Stopped\<close> is a worker that ended in between.\<close>

datatype caller = Waiting | Counted int | Finished bool | Stopped

definition count_request :: "'r ctx \<Rightarrow> ptext \<Rightarrow> 'r \<Rightarrow> caller \<times> 'r" where
  "count_request c ip r =
     (case rc_incr (redis c) (ip_key ip) r of
        (Down, r') \<Rightarrow> (Finished True, r')
      | (Reply count, r') \<Rightarrow>
          (if count = 1 then Counted count else Finished (count \<le> IP_REQUESTS_PER_WINDOW), r'))"

definition arm_window :: "'r ctx \<Rightarrow> ptext \<Rightarrow> int \<Rightarrow> 'r \<Rightarrow> caller \<times> 'r" where
  "arm_window c ip count r =
     (case rc_expire (redis c) (ip_key ip) IP_WINDOW_SECONDS r of
        (Down, r') \<Rightarrow> (Finished True, r')
      | (Reply _, r') \<Rightarrow> (Finished (count \<le> IP_REQUESTS_PER_WINDOW), r'))"

text \<open>A caller that runs alone is \<open>hit_ip\<close>.\<close>

lemma hit_ip_in_two_steps:
  assumes "ip \<noteq> []"
  shows "(case count_request c ip r of
      (Counted n, r1) \<Rightarrow> arm_window c ip n r1
    | other \<Rightarrow> other) = (Finished (fst (ip_gate c ip r)), snd (ip_gate c ip r))"
  using assms by (auto simp: count_request_def arm_window_def ip_gate_def split: prod.splits reply.splits)

section \<open>Many callers\<close>

text \<open>\<open>other\<close> is what else happens to the server meanwhile.\<close>

inductive limiter_step :: "'r ctx \<Rightarrow> ptext \<Rightarrow> ('r \<Rightarrow> 'r \<Rightarrow> bool) \<Rightarrow> ('i \<Rightarrow> caller) \<times> 'r \<Rightarrow> ('i \<Rightarrow> caller) \<times> 'r \<Rightarrow> bool"
  for c ip other
where
  counts: "ip \<noteq> [] \<Longrightarrow> pc i = Waiting \<Longrightarrow> count_request c ip r = (s, r') \<Longrightarrow> limiter_step c ip other (pc, r) (pc(i := s), r')"
| arms: "pc i = Counted n \<Longrightarrow> arm_window c ip n r = (s, r') \<Longrightarrow> limiter_step c ip other (pc, r) (pc(i := s), r')"
| dies: "pc i = Counted n \<Longrightarrow> limiter_step c ip other (pc, r) (pc(i := Stopped), r)"
| elsewhere: "other r r' \<Longrightarrow> limiter_step c ip other (pc, r) (pc, r')"

definition counted :: "('i \<Rightarrow> caller) \<Rightarrow> 'i set" where
  "counted pc = {i. pc i \<noteq> Waiting}"

definition admitted :: "('i \<Rightarrow> caller) \<Rightarrow> 'i set" where
  "admitted pc = {i. pc i \<noteq> Waiting \<and> pc i \<noteq> Finished False}"

definition unarmed :: "('i \<Rightarrow> caller) \<Rightarrow> 'i set" where
  "unarmed pc = {i. (\<exists>n. pc i = Counted n) \<or> pc i = Stopped}"

lemmas caller_sets = counted_def admitted_def unarmed_def

definition quota :: "'i set \<Rightarrow> nat" where
  "quota A = min (card A) (nat IP_REQUESTS_PER_WINDOW)"

text \<open>The counter is the number of callers that were counted, the first ten of them are let through,
  and the window is running exactly when no caller is left between its two commands.\<close>

definition limiter_ok ::
  "('r \<Rightarrow> bool) \<Rightarrow> ('r \<Rightarrow> ptext \<Rightarrow> redis_value option) \<Rightarrow> ('r \<Rightarrow> ptext \<Rightarrow> int option) \<Rightarrow> ptext \<Rightarrow>
   ('i \<Rightarrow> caller) \<times> 'r \<Rightarrow> bool"
where
  "limiter_ok up val ttl ip s =
     (case s of (pc, r) \<Rightarrow>
        up r \<and> finite (counted pc) \<and> card (admitted pc) = quota (counted pc) \<and>
        (\<forall>i n. pc i = Counted n \<longrightarrow> n = 1) \<and>
        val r (ip_key ip) = (if counted pc = {} then None else Some (Num (int (card (counted pc))))) \<and>
        (unarmed pc = {} \<or> (\<exists>i. unarmed pc = {i})) \<and>
        (counted pc \<noteq> {} \<longrightarrow> ttl r (ip_key ip) = (if unarmed pc = {} then Some IP_WINDOW_SECONDS else None)))"

lemma caller_sets_upd:
  "pc i = Waiting \<Longrightarrow> s \<noteq> Waiting \<Longrightarrow> counted (pc(i := s)) = insert i (counted pc)"
  "pc i = Waiting \<Longrightarrow> s = Finished b \<Longrightarrow> admitted (pc(i := s)) = (if b then insert i (admitted pc) else admitted pc)"
  "pc i = Waiting \<Longrightarrow> s = Counted n \<Longrightarrow> admitted (pc(i := s)) = insert i (admitted pc)"
  "pc i = Waiting \<Longrightarrow> s = Finished b \<Longrightarrow> unarmed (pc(i := s)) = unarmed pc"
  "pc i = Waiting \<Longrightarrow> s = Counted n \<Longrightarrow> unarmed (pc(i := s)) = insert i (unarmed pc)"
  "pc i = Counted n \<Longrightarrow> s \<noteq> Waiting \<Longrightarrow> counted (pc(i := s)) = counted pc"
  "pc i = Counted n \<Longrightarrow> s = Finished True \<Longrightarrow> admitted (pc(i := s)) = admitted pc"
  "pc i = Counted n \<Longrightarrow> s = Finished b \<Longrightarrow> unarmed (pc(i := s)) = unarmed pc - {i}"
  "pc i = Counted n \<Longrightarrow> s = Stopped \<Longrightarrow> unarmed (pc(i := s)) = unarmed pc"
  "pc i = Counted n \<Longrightarrow> s = Stopped \<Longrightarrow> admitted (pc(i := s)) = admitted pc"
  by (auto simp: caller_sets)

lemma not_counted: "pc i = Waiting \<Longrightarrow> i \<notin> counted pc \<and> i \<notin> admitted pc"
  by (simp add: caller_sets)

lemma unarmed_counted: "unarmed pc \<subseteq> counted pc" "admitted pc \<subseteq> counted pc"
  by (auto simp: caller_sets)

context redis_server
begin

lemma limiter_ok_counts:
  assumes ok: "limiter_ok up val ttl ip (pc, r)" and i: "pc i = Waiting" and c: "redis x = c"
    and step: "count_request x ip r = (s, r')"
  shows "limiter_ok up val ttl ip (pc(i := s), r')"
proof (cases "counted pc = {}")
  case True
  then have empty: "unarmed pc = {}" "admitted pc = {}" using unarmed_counted [of pc] by auto
  then have "finite (admitted pc)" by simp
  have "val r (ip_key ip) = None" "up r" using ok True by (simp_all add: limiter_ok_def)
  from incr_new [OF this(2,1)] obtain r1 where
    "rc_incr c (ip_key ip) r = (Reply 1, r1)" "up r1" "val r1 = (val r)(ip_key ip \<mapsto> Num 1)"
    "ttl r1 = (ttl r)(ip_key ip := None)" by blast
  then show ?thesis
    using True empty \<open>finite (admitted pc)\<close> ok i step c
    by (auto simp: limiter_ok_def count_request_def caller_sets_upd quota_def IP_REQUESTS_PER_WINDOW_def)
next
  case False
  define k where "k = card (counted pc)"
  have "val r (ip_key ip) = Some (Num (int k))" "up r" using ok False by (simp_all add: limiter_ok_def k_def)
  from incr_old [OF this(2,1)] obtain r1 where
    r1: "rc_incr c (ip_key ip) r = (Reply (int k + 1), r1)" "up r1"
    "val r1 = (val r)(ip_key ip \<mapsto> Num (int k + 1))" "ttl r1 = ttl r" by blast
  have "0 < k" using ok False by (simp add: k_def limiter_ok_def card_gt_0_iff)
  then have s: "s = Finished (int k + 1 \<le> IP_REQUESTS_PER_WINDOW)" "r' = r1"
    using step r1(1) c by (auto simp: count_request_def)
  have "finite (counted pc)" using ok by (simp add: limiter_ok_def)
  then have "finite (admitted pc)" by (rule finite_subset [OF unarmed_counted(2)])
  then show ?thesis
    using False ok i s r1 not_counted [of pc i] k_def
    by (auto simp: limiter_ok_def caller_sets_upd quota_def IP_REQUESTS_PER_WINDOW_def)
qed

lemma limiter_ok_arms:
  assumes ok: "limiter_ok up val ttl ip (pc, r)" and i: "pc i = Counted n" and c: "redis x = c"
    and step: "arm_window x ip n r = (s, r')"
  shows "limiter_ok up val ttl ip (pc(i := s), r')"
proof -
  have "i \<in> unarmed pc" "i \<in> counted pc" using i by (auto simp: caller_sets)
  then have counted: "i \<in> counted pc" "unarmed pc = {i}" "n = 1" "up r" "val r (ip_key ip) \<noteq> None"
    using ok i by (auto simp: limiter_ok_def)
  from expire_up [OF counted(4) _ counted(5), of IP_WINDOW_SECONDS] obtain r1 where
    "rc_expire c (ip_key ip) IP_WINDOW_SECONDS r = (Reply (), r1)" "up r1" "val r1 = val r"
    "ttl r1 = (ttl r)(ip_key ip \<mapsto> IP_WINDOW_SECONDS)" by (auto simp: IP_WINDOW_SECONDS_def)
  then show ?thesis
    using ok i step c counted
    by (auto simp: limiter_ok_def arm_window_def caller_sets_upd IP_REQUESTS_PER_WINDOW_def)
qed

lemma limiter_ok_step:
  assumes "limiter_step x ip other s t" and "limiter_ok up val ttl ip s" and "redis x = c"
    and other: "\<And>a b. other a b \<Longrightarrow> up a \<Longrightarrow>
      up b \<and> val b (ip_key ip) = val a (ip_key ip) \<and> ttl b (ip_key ip) = ttl a (ip_key ip)"
  shows "limiter_ok up val ttl ip t"
  using assms(1,2)
proof cases
  case (dies pc i n r)
  then show ?thesis using assms(2) by (auto simp: limiter_ok_def caller_sets_upd)
next
  case (elsewhere r r' pc)
  then show ?thesis using assms(2) other [OF elsewhere(3)] by (auto simp: limiter_ok_def)
next
  case (counts pc i r p r')
  then show ?thesis using assms(2) by (auto intro: limiter_ok_counts [OF _ _ assms(3)])
next
  case (arms pc i n r p r')
  then show ?thesis using assms(2) by (auto intro: limiter_ok_arms [OF _ _ assms(3)])
qed

end

text \<open>
  C19. Requests of one address side by side: from a missing counter on, however the commands of any
  number of callers are interleaved with one another and with what else the server does, and
  whichever workers die, exactly the first ten that are counted are let through, none twice and
  no more. But a worker that dies between its two commands leaves a counter without expiry, and
  the address is then refused for good.
\<close>

theorem limiter_under_interleaving:
  assumes "redis_server (redis c) up val ttl" and "up r" and "val r (ip_key ip) = None"
    and "\<And>a b. other a b \<Longrightarrow> up a \<Longrightarrow>
      up b \<and> val b (ip_key ip) = val a (ip_key ip) \<and> ttl b (ip_key ip) = ttl a (ip_key ip)"
    and "(limiter_step c ip other)\<^sup>*\<^sup>* (\<lambda>_. Waiting, r) (pc, r')"
  shows "finite (counted pc) \<and> card (admitted pc) = min (card (counted pc)) 10 \<and>
    ((\<exists>i. pc i = Stopped) \<longrightarrow>
       ttl r' (ip_key ip) = None \<and> val r' (ip_key ip) = Some (Num (int (card (counted pc)))))"
proof -
  have "limiter_ok up val ttl ip (pc, r')"
    using assms(5)
  proof (induction rule: rtranclp_induct)
    case base
    show ?case using assms(2,3) by (auto simp: limiter_ok_def caller_sets quota_def)
  next
    case (step s t)
    show ?case by (rule redis_server.limiter_ok_step [OF assms(1) step(2) step.IH refl assms(4)])
  qed
  then show ?thesis
    by (auto simp: limiter_ok_def quota_def IP_REQUESTS_PER_WINDOW_def caller_sets split: if_splits)
qed

text \<open>The first caller is counted and its worker dies.\<close>

lemma limiter_under_interleaving_witness:
  "\<exists>r'. (limiter_step sample_ctx [49] (\<lambda>_ _. False))\<^sup>*\<^sup>* (\<lambda>_. Waiting, fresh_redis) ((\<lambda>_. Waiting)(0::nat := Stopped), r') \<and>
     mr_ttl r' (ip_key [49]) = None \<and> mr_val r' (ip_key [49]) = Some (Num 1)"
proof -
  let ?s = "limiter_step sample_ctx [49] (\<lambda>_ _. False)"
  obtain r' where count: "count_request sample_ctx [49] fresh_redis = (Counted 1, r')"
    by (simp add: count_request_def sample_ctx_def mem_client_defs fresh_redis_def)
  have "?s (\<lambda>_. Waiting, fresh_redis) ((\<lambda>_. Waiting)(0::nat := Counted 1), r')"
    by (rule counts [OF _ _ count]) simp_all
  moreover have "?s ((\<lambda>_. Waiting)(0::nat := Counted 1), r') (((\<lambda>_. Waiting)(0 := Counted 1))(0 := Stopped), r')"
    by (rule dies) simp
  ultimately have run: "?s\<^sup>*\<^sup>* (\<lambda>_. Waiting, fresh_redis) ((\<lambda>_. Waiting)(0::nat := Stopped), r')"
    by simp
  have "counted ((\<lambda>_. Waiting)(0::nat := Stopped)) = {0}" by (auto simp: counted_def)
  with run limiter_under_interleaving [OF sample_redis(1) _ _ _ run] show ?thesis
    by (auto simp: mr_up_def mr_val_def mr_ttl_def fresh_redis_def)
qed

end
