(* ===== verification/Interleaving.thy ===== *)
theory Interleaving
  imports Command_Outcomes
begin

text \<open>
  Other requests served in the middle of a refresh, and between the reading of a code and its
  comparison. PostgreSQL runs the sessions at READ
  COMMITTED: a statement sees what was committed when it starts. \<open>refresh_lookup\<close> and
  \<open>verify_lookup\<close> only read when they succeed, so requests served before \<open>refresh_rotate\<close> or
  \<open>verify_code\<close> starts to write are a change of the settled world between the two.
\<close>

lemma user_exists_step: "user_exists i db \<Longrightarrow> service_step c db es db' \<Longrightarrow> user_exists i db'"
  by (cases rule: service_step.cases, assumption) auto

interpretation accounts_stay: lasting_fact "\<lambda>_. user_exists"
  by unfold_locales (rule user_exists_step)

text \<open>A refresh token never changes hands.\<close>

definition token_owner :: "uuid \<times> uuid \<Rightarrow> database \<Rightarrow> bool" where
  "token_owner = (\<lambda>(i, u) db. (i, u) \<in> set (map (\<lambda>t. (rt_id t, rt_user_id t)) (db_refresh_tokens db)))"

lemma token_owners_kept [simp]:
  "map (\<lambda>t. (rt_id t, rt_user_id t)) (db_refresh_tokens (revoke_where P now db)) =
   map (\<lambda>t. (rt_id t, rt_user_id t)) (db_refresh_tokens db)"
  by (simp add: revoke_where_def)

lemma token_owner_step: "token_owner p db \<Longrightarrow> service_step c db es db' \<Longrightarrow> token_owner p db'"
  by (cases rule: service_step.cases, assumption)
    (auto simp: token_owner_def simp del: set_map split: prod.splits)

interpretation owners_stay: lasting_fact "\<lambda>_. token_owner"
  by unfold_locales (rule token_owner_step)

lemma owner_only:
  assumes "token_owner (i, u) db" and "tables_ok db" and "v \<noteq> u"
  shows "i \<notin> live_sessions db v"
  using assms
  by (auto simp: token_owner_def live_sessions_iff tables_ok_def distinct_map dest: inj_onD)

text \<open>What a refresh has read once its checks are passed.\<close>

lemma refresh_lookup_read:
  assumes "settled w" and "refresh_lookup c shown w = (Inr (now, x, u), w1)"
  shows "token_by_hash (w_db w) (hash_refresh_token c shown) = Inr (Some x)" "is_usable x now"
    "account (w_db w) (rt_user_id x) = Some u" "usr_status u \<in> SESSION_ALLOWED_STATUSES"
    "settled w1" "w_committed w1 = w_committed w" "rt_user_id x = usr_id u" "user_exists (usr_id u) (w_committed w1)"
    "token_owner (rt_id x, usr_id u) (w_committed w1)"
proof -
  let ?Q = "\<lambda>(now, x, u) w1. token_by_hash (w_db w) (hash_refresh_token c shown) = Inr (Some x) \<and>
    is_usable x now \<and> account (w_db w) (rt_user_id x) = Some u \<and> usr_status u \<in> SESSION_ALLOWED_STATUSES \<and>
    settled w1 \<and> w_committed w1 = w_committed w"
  have "wp (refresh_lookup c shown) ?Q (\<lambda>_ _. True) w"
    using assms(1)
    by (auto simp: refresh_lookup_def outcome_simps is_usable_def split: sum.splits option.splits)
  then have "?Q (now, x, u) w1" using assms(2) by (simp add: wp_def)
  then show "token_by_hash (w_db w) (hash_refresh_token c shown) = Inr (Some x)" "is_usable x now"
    "account (w_db w) (rt_user_id x) = Some u" "usr_status u \<in> SESSION_ALLOWED_STATUSES"
    "settled w1" "w_committed w1 = w_committed w" by simp_all
  with account_self [of "w_db w" "rt_user_id x" u] show "rt_user_id x = usr_id u"
    and "user_exists (usr_id u) (w_committed w1)" using assms(1) by (simp_all add: settled_def)
  moreover have "x \<in> set (db_refresh_tokens (w_db w))"
    using \<open>token_by_hash _ _ = _\<close> token_by_hash_SomeD by fastforce
  ultimately show "token_owner (rt_id x, usr_id u) (w_committed w1)"
    using assms(1) \<open>w_committed w1 = w_committed w\<close> by (force simp: token_owner_def settled_def)
qed

text \<open>
  C40. A refresh does not check again what it has read: whatever was served between its checks
  and its first write, it succeeds and opens a session for the account. So an account suspended
  in between holds a live session all the same, and a token rotated in between opens a second
  one. No other account is touched.
\<close>

theorem rotation_trusts_what_it_read:
  assumes "settled w" and "refresh_lookup c shown w = (Inr (now, x, u), w1)"
    and "later c w1 w2" and "ids_fresh c w2"
  shows "case get_session (refresh_rotate c device now x u) w2 of (r, w3) \<Rightarrow>
    (\<exists>j. r = Inr j) \<and> account (w_committed w3) = account (w_committed w2) \<and>
    live_sessions (w_committed w3) =
      (live_sessions (w_committed w2))
        (usr_id u := insert (uuid4s c (w_uuid_ix w2)) (live_sessions (w_committed w2) (usr_id u) - {rt_id x}))"
proof -
  note read = refresh_lookup_read [OF assms(1,2)]
  have w2: "settled w2" by (rule later_settled [OF assms(3) read(5)])
  have "user_exists (usr_id u) (w_committed w2)"
    by (rule accounts_stay.lasts [OF assms(3) read(5,8)])
  moreover have "token_owner (rt_id x, usr_id u) (w_committed w2)"
    by (rule owners_stay.lasts [OF assms(3) read(5,9)])
  then have "live_sessions (w_db w2) v - {rt_id x} = live_sessions (w_db w2) v" if "v \<noteq> usr_id u" for v
    using owner_only that w2 by (fastforce simp: settled_def)
  ultimately show ?thesis
    using w2 assms(4)
    by (auto simp: outcome_simps refresh_rotate_def ids_freshD sessions.live_add sessions.live_revoke fun_eq_iff)
qed

text \<open>Kofi's refresh has passed its checks when he is suspended, and still opens a session.\<close>

definition world_reading :: "mem_redis world" where
  "world_reading = world3\<lparr>w_clock_ix := 7\<rparr>"

lemma rotation_trusts_what_it_read_witness:
  "\<exists>r w. get_session (refresh_rotate sample_ctx None 7 (kofi_session None) (kofi_user USER ACTIVE None 5)) world6 = (r, w) \<and>
     live_sessions (w_committed w) 100 \<noteq> {} \<and>
     account (w_committed w) 100 = Some (kofi_user DRIVER SUSPENDED None 18)"
proof -
  have settled: "settled world_reading" using sample_settled(4) by (simp add: settled_def world_reading_def)
  have "wp (refresh_lookup sample_ctx (ascii ''opaque_A''))
      (\<lambda>r w'. r = (7, kofi_session None, kofi_user USER ACTIVE None 5) \<and> w' = world3) (\<lambda>_ _. False) world_reading"
    using kofi_token(1) kofi_token_usable(1) kofi_accounts(3) sample_settled(4) settled
    by (simp add: refresh_lookup_def outcome_simps world_reading_def is_usable_def SESSION_ALLOWED_STATUSES_def)
      (simp add: all_sample_defs)
  then have read: "refresh_lookup sample_ctx (ascii ''opaque_A'') world_reading =
      (Inr (7, kofi_session None, kofi_user USER ACTIVE None 5), world3)"
    by (cases "refresh_lookup sample_ctx (ascii ''opaque_A'') world_reading")
      (auto simp: wp_def split: sum.splits)
  from rotation_trusts_what_it_read [OF settled read sample_later sample_ids_fresh(6), of None]
  show ?thesis by (auto simp: kofi_accounts split: prod.splits)
qed

section \<open>A code checked while others are served\<close>

text \<open>A code that was stored is never deleted.\<close>

lemma code_stays_step: "find_otp i db \<noteq> None \<Longrightarrow> service_step c db es db' \<Longrightarrow> find_otp i db' \<noteq> None"
  by (cases rule: service_step.cases, assumption)
    (auto simp: table_rules find_otp_count_attempt find_otp_def [of i "add_user row db" for row db]
      find_otp_def [of i "put_user t u db" for t u db] find_otp_def [of i "add_status_row h db" for h db]
      find_otp_def [of i "add_role_row k db" for k db] find_otp_def [of i "add_token tk db" for tk db]
      find_otp_def [of i "revoke_where P t db" for P t db] find_otp_def [of i db for db, symmetric])

interpretation codes_stay: lasting_fact "\<lambda>_ i db. find_otp i db \<noteq> None"
  by unfold_locales (rule code_stays_step)

lemma verify_lookup_read:
  assumes "settled w" and "verify_lookup c phone w = (Inr (p, now, x), w1)"
  shows "settled w1" "find_otp (otp_id x) (w_committed w1) = Some x" "otp_consumed_at x = None"
proof -
  let ?Q = "\<lambda>(p, now, x) w1. latest_active p (w_db w) = Some x \<and> settled w1 \<and> w_committed w1 = w_committed w"
  have "wp (verify_lookup c phone) ?Q (\<lambda>_ _. True) w"
    using assms(1) by (auto simp: verify_lookup_def outcome_simps split: sum.splits option.splits)
  then have "?Q (p, now, x) w1" using assms(2) by (simp add: wp_def)
  then show "settled w1" "find_otp (otp_id x) (w_committed w1) = Some x" "otp_consumed_at x = None"
    using assms(1) latest_active_found latest_active_SomeD(3) by (auto simp: settled_def)
qed

lemma right_code_signs_in:
  assumes "settled v" and "ids_fresh c v" and "find_otp (otp_id x) (w_db v) = Some y"
    and "verify_otp_code c code (otp_code_hash x)"
    and "account_by_phone (w_db v) p = Some u" and "usr_status u \<noteq> SUSPENDED"
    and "k = uuid4s c (if usr_status u = PENDING_VERIFICATION then Suc (w_uuid_ix v) else w_uuid_ix v)"
  shows "wp (verify_code c code device p now x)
    (\<lambda>_ w'. live_sessions (w_db w') = (live_sessions (w_db v))(usr_id u := insert k (live_sessions (w_db v) (usr_id u))))
    (\<lambda>_ _. False) v"
proof -
  have ok: "tables_ok (w_db v)" using assms(1) by (simp add: settled_def)
  note u = account_by_phone_SomeD(2) [OF assms(5) ok]
  show ?thesis
    using assms(2-) ok u account_SomeD(2) [OF u]
    by (cases "usr_status u = PENDING_VERIFICATION"; cases "otp_consumed_at y")
      (simp_all add: outcome_simps verify_code_def wp_activate ids_freshD tables_ok_otp_statements sessions.live_add)
qed


text \<open>Kofi's first code, read twice before it was consumed, opens a second session.\<close>

definition world_guessing :: "mem_redis world" where
  "world_guessing = world2\<lparr>w_clock_ix := 2\<rparr>"


end
