(* ===== verification/Write_Races.thy ===== *)
theory Write_Races
  imports Interleaving
begin

text \<open>
  Other requests served between the reading and the writing of \<open>DecideKyc\<close> and of \<open>RegisterUser\<close>.
  \<open>decide_lookup\<close> and \<open>register_lookup\<close> only read, so whatever is served before the first write of
  \<open>decide_write\<close> or \<open>register_insert\<close> is a change of the settled world between the two.
\<close>

section \<open>A decision on a request\<close>

text \<open>The number and the creation time of an account never change.\<close>

definition account_identity :: "uuid \<times> ptext \<times> instant option \<Rightarrow> database \<Rightarrow> bool" where
  "account_identity = (\<lambda>(i, p, t) db. \<exists>v. account db i = Some v \<and> usr_phone v = p \<and> usr_created_at v = t)"

lemma account_identity_step: "account_identity x db \<Longrightarrow> tables_ok db \<Longrightarrow> service_step c db es db' \<Longrightarrow> account_identity x db'"
  by (cases rule: service_step.cases, assumption)
    (auto simp: account_identity_def table_rules dest: account_SomeD(2) split: prod.splits)

interpretation identities_stay: lasting_fact "\<lambda>_. account_identity"
  by unfold_locales (rule account_identity_step)

lemma decide_lookup_read:
  assumes "settled w" and "decide_lookup i w = (Inr (u, q), w1)"
  shows "settled w1" "w_committed w1 = w_committed w" "account (w_committed w1) (usr_id u) = Some u"
    "usr_requested_role u = Some q"
proof -
  let ?Q = "\<lambda>(u, q) w1. w1 = w \<and> account (w_db w) i = Some u \<and> usr_requested_role u = Some q"
  have "wp (decide_lookup i) ?Q (\<lambda>_ _. True) w"
    using assms(1) by (cases "w_db w" i rule: account_cases)
      (auto simp: decide_lookup_def outcome_simps split: option.splits)
  then have "?Q (u, q) w1" using assms(2) by (simp add: wp_def)
  then show "settled w1" "w_committed w1 = w_committed w" "account (w_committed w1) (usr_id u) = Some u"
    "usr_requested_role u = Some q"
    using assms(1) account_self [of "w_db w" i u] by (auto simp: settled_def)
qed

text \<open>
  C29. A decision writes the status it has read: an account that was waiting in \<open>pending_kyc\<close> when the
  decision read it ends active whatever was served before the write, a suspension included, which
  is thereby undone without the reinstatement an administrator would have to ask for; the audit
  row says \<open>pending_kyc\<close> to \<open>active\<close>, so that the trail of the account no longer replays. No other
  account and no session is touched.
\<close>

theorem decision_trusts_what_it_read:
  assumes "settled w" and "decide_lookup i w = (Inr (u, q), w1)" and "usr_status u = PENDING_KYC"
    and "later c w1 v" and "ids_fresh c v"
    and "account (w_committed v) (usr_id u) = Some u'" and "status_audited db0 (w_committed v)"
  shows "case get_session (decide_write c u q ok reason by_whom) v of (r, v') \<Rightarrow>
    (\<exists>j. r = Inr j) \<and>
    (\<exists>u''. account (w_committed v') = (account (w_committed v))(usr_id u \<mapsto> u'') \<and>
       usr_status u'' = ACTIVE \<and> (ok \<longrightarrow> usr_role u'' = q) \<and> usr_requested_role u'' = None) \<and>
    live_sessions (w_committed v') = live_sessions (w_committed v) \<and>
    (usr_status u' = SUSPENDED \<longrightarrow> \<not> status_audited db0 (w_committed v'))"
proof -
  note read = decide_lookup_read [OF assms(1,2)]
  have v: "settled v" by (rule later_settled [OF assms(4) read(1)])
  then have same: "w_committed v = w_db v" by (simp add: settled_def)
  have "account_identity (usr_id u, usr_phone u, usr_created_at u) (w_committed v)"
    by (rule identities_stay.lasts [OF assms(4) read(1)]) (simp add: account_identity_def read(3))
  then have ident: "usr_phone u' = usr_phone u" "usr_created_at u' = usr_created_at u"
    using assms(6) by (simp_all add: account_identity_def)
  have trail: "follow_status (initial_status db0 (usr_id u)) (status_trail (usr_id u) (w_db v)) = Some (usr_status u')"
    using assms(6,7) same by (simp add: status_audited_def)
  let ?d = "decided_user u q ok"
  have d: "usr_id ?d = usr_id u" "usr_status ?d = ACTIVE" "usr_role ?d = (if ok then q else usr_role u)"
    "usr_requested_role ?d = None"
    using assms(3) by (simp_all add: decided_user_def)
  have put: "account (put_user now ?d (w_db v)) = (account (w_db v))(usr_id u \<mapsto> ?d\<lparr>usr_updated_at := Some now\<rparr>)"
    for now
    using account_put_user [of "w_db v" ?d u' now] assms(6) same ident by (simp add: decided_user_def)
  have broken: "\<not> status_audited db0 (add_role_row k
      (add_status_row (status_audit h (usr_id u) PENDING_KYC ACTIVE why by_whom now) (put_user t ?d (w_db v))))"
    if "usr_status u' = SUSPENDED" for k h why now t
    using trail that by (auto simp: status_audited_def put follow_status_append)
  have "user_exists (usr_id u) (w_db v)" using account_SomeD(2) assms(6) same by simp
  then show ?thesis
    using v assms(3,5) by (auto simp: outcome_simps decide_write_def ids_freshD put d broken)
qed

text \<open>Kofi waits in \<open>pending_kyc\<close> when his request is read; before the approval is written he is
  suspended.\<close>

definition queued_kofi :: user where
  "queued_kofi = kofi_user USER PENDING_KYC (Some DRIVER) 10"

definition kyc_row :: status_history_row where
  "kyc_row = status_audit 102 100 PENDING_VERIFICATION PENDING_KYC (Some otp_reason) None 2"

definition db_queued :: database where
  "db_queued = db3\<lparr>db_users := [ama, kofi ''user'' ''pending_kyc'' (Some ''driver'') 10],
     db_status_history := [kyc_row]\<rparr>"

definition world_queued :: "mem_redis world" where
  "world_queued = at db_queued redis3 [12, 5, 1, 1] []"

definition db_withdrawn :: database where
  "db_withdrawn = db_queued\<lparr>db_users := [ama, kofi ''user'' ''suspended'' (Some ''driver'') 14],
     db_refresh_tokens := [kofi_session (Some 15)],
     db_status_history := [kyc_row, status_audit 105 100 PENDING_KYC SUSPENDED None (Some 1) 13]\<rparr>"

definition withdrawn_event :: domain_event where
  "withdrawn_event = UserStatusChanged (kofi_event ''user'' 16) ''pending_kyc'' ''suspended'' None"

definition world_withdrawn :: "mem_redis world" where
  "world_withdrawn = at db_withdrawn (publish_on withdrawn_event redis3) [17, 6, 1, 1] (announce withdrawn_event)"

lemmas queued_defs = queued_kofi_def kyc_row_def db_queued_def world_queued_def db_withdrawn_def withdrawn_event_def world_withdrawn_def
  all_sample_defs

lemma withdrawn_run:
  "succeeds sample_ctx (PatchStatus ama_token 100 (ascii ''suspended'') None) world_queued world_withdrawn"
  by (simp add: queued_defs run_defs change_status_def set_status_def ADMIN_SETTABLE_STATUSES_def can_transition_def)

lemma queued_ok: "settled world_queued"
  by (simp add: settled_def tables_ok_def user_exists_def queued_defs sample_account_defs)

lemma queued_fresh: "fresh_draw sample_ctx world_queued" "ids_fresh sample_ctx world_withdrawn"
  by (simp_all add: fresh_draw_def user_exists_def ids_fresh_def new_id_defs queued_defs)

lemma queued_read: "decide_lookup 100 world_queued = (Inr (queued_kofi, DRIVER), world_queued)"
  by (simp add: decide_lookup_def prog_defs user_find_by_id_def queued_defs select_user_def sample_account_defs)

lemma withdrawn_kofi: "account (w_committed world_withdrawn) 100 = Some (kofi_user USER SUSPENDED (Some DRIVER) 14)"
  by (simp add: queued_defs sample_account_defs)

lemmas queued_facts = queued_ok queued_fresh queued_read withdrawn_kofi

lemma withdrawn_audited: "status_audited sample_db (w_committed world_withdrawn)"
  by (auto simp: status_audited_def queued_defs sample_account_defs status_trail_def initial_status_def
      can_transition_def split: if_splits)

lemma decision_trusts_what_it_read_witness:
  "\<exists>r w u. get_session (decide_write sample_ctx queued_kofi DRIVER True None (Some 1)) world_withdrawn = (r, w) \<and>
     account (w_committed w) 100 = Some u \<and> usr_status u = ACTIVE \<and> usr_role u = DRIVER \<and>
     \<not> status_audited sample_db (w_committed w)"
proof -
  have "later sample_ctx world_queued world_withdrawn"
    by (rule later_success [OF now queued_facts(2) withdrawn_run])
  moreover have "usr_status queued_kofi = PENDING_KYC" "usr_id queued_kofi = 100" by (simp_all add: queued_kofi_def)
  ultimately show ?thesis
    using decision_trusts_what_it_read [OF queued_facts(1,4) _ _ queued_facts(3) _ withdrawn_audited,
        of "kofi_user USER SUSPENDED (Some DRIVER) 14" True None "Some 1"] queued_facts(5)
    by (auto split: prod.splits)
qed

section \<open>A registration\<close>

text \<open>
  A number that was free when a registration looked, and is taken when it inserts, is not answered
  409: the unique constraint raises an exception nothing catches. The database is as before. When
  it is still free the registration succeeds.
\<close>

theorem registration_trusts_what_it_read:
  assumes "settled w" and "register_lookup phone w = (Inr p, w1)" and "later c w1 v" and "fresh_draw c v"
  shows "case get_session (register_insert c name p) v of (r, v') \<Rightarrow>
    if phone_known p (w_committed v)
    then r = Inl (Uncaught ''IntegrityError'') \<and> w_committed v' = w_committed v \<and> w_effects v' = w_effects v
    else (\<exists>j. r = Inr j) \<and> phone_known p (w_committed v')"
proof -
  have "wp (register_lookup phone) (\<lambda>_ w'. settled w') (\<lambda>_ _. True) w"
    using assms(1) by (auto simp: register_lookup_def outcome_simps split: sum.splits)
  then have "settled w1" using assms(2) by (simp add: wp_def)
  then have "settled v" by (rule later_settled [OF assms(3)])
  then show ?thesis
    using assms(4)
    by (auto simp: outcome_simps register_insert_def fresh_draw_def rollback_def phone_known_iff
      add_user_def new_user_row_def)
qed

lemma registration_trusts_what_it_read_witness:
  "fst (get_session (register_insert sample_ctx None kofi_phone) world1) = Inl (Uncaught ''IntegrityError'')"
proof -
  have look: "register_lookup kofi_phone world0 = (Inr kofi_phone, world0)"
    using world0_facts(1) kofi_phone_valid
    by (simp add: register_lookup_def prog_defs user_find_by_phone_def select_user_def sample_account_defs all_sample_defs)
  have "phone_known kofi_phone (w_committed world1)"
    by (simp add: phone_known_def all_sample_defs)
  then show ?thesis
    using registration_trusts_what_it_read [OF sample_settled(1) look later_success [OF now sample_fresh(1) run1]
        sample_fresh(2), of None]
    by (auto simp: split: prod.splits)
qed

end
