(* ===== verification/Alembic_Env.thy ===== *)
theory Alembic_Env
  imports Schema
begin

text \<open>
  \<open>alembic/env.py\<close>: which objects of a database the comparison with the models may see, and the
  running of the pending revisions in one transaction. Alembic finds the pending ones in its
  version table; here they are an argument, as is what the comparison does with what it sees.
\<close>

section \<open>What autogenerate may see\<close>

definition INCLUDE_SCHEMAS :: "string set" where
  "INCLUDE_SCHEMAS = {''identity''}"

text \<open>\<open>obj_schema\<close> is \<open>None\<close> for an object of the default schema.\<close>

definition include_object :: "string option \<Rightarrow> string option \<Rightarrow> string \<Rightarrow> bool" where
  "include_object obj_schema name kind =
     (if kind = ''table'' then obj_schema \<in> Some ` INCLUDE_SCHEMAS
      else if kind = ''schema'' then name \<in> Some ` INCLUDE_SCHEMAS
      else True)"

text \<open>The tables of a cluster with the schema each is in, and those that pass.\<close>

type_synonym cluster = "(string option \<times> table) list"

definition visible_tables :: "cluster \<Rightarrow> table list" where
  "visible_tables cl = map snd (filter (\<lambda>(s, t). include_object s (Some (tbl_name t)) ''table'') cl)"

text \<open>Whatever other projects keep in the same cluster, only the tables of the service are seen,
  none of them missing: every comparison gives the same operations as on a database of its own.\<close>

lemma other_schemas_are_invisible:
  assumes "\<And>s t. (s, t) \<in> set others \<Longrightarrow> s \<noteq> Some ''identity''"
  shows "visible_tables (others @ map (Pair (Some ''identity'')) ts @ others) = ts"
proof -
  have "filter (\<lambda>(s, t). include_object s (Some (tbl_name t)) ''table'') others = []"
    using assms by (auto simp: filter_empty_conv include_object_def INCLUDE_SCHEMAS_def)
  then show ?thesis
    by (simp add: visible_tables_def filter_map o_def include_object_def INCLUDE_SCHEMAS_def)
qed

section \<open>Running the pending revisions\<close>

text \<open>One transaction around all of them: when one is refused, nothing stays.\<close>

fun run_revisions :: "ddl list list \<Rightarrow> schema \<Rightarrow> schema option" where
  "run_revisions [] s = Some s"
| "run_revisions (r # rs) s = Option.bind (run_ddl r s) (run_revisions rs)"

definition do_run_migrations :: "ddl list list \<Rightarrow> schema \<Rightarrow> bool \<times> schema" where
  "do_run_migrations pending s =
     (case run_revisions pending s of None \<Rightarrow> (False, s) | Some s' \<Rightarrow> (True, s'))"

lemma upgrade_head:
  "case do_run_migrations [initial_upgrade, kyc_upgrade] empty_schema of (ok, s) \<Rightarrow>
     ok \<and> same_schema s models_schema \<and> visible_tables (map (Pair (Some ''identity'')) (sch_tables s)) = sch_tables s"
  by code_simp

text \<open>Running all revisions on a schema that has them already is refused and changes nothing.\<close>

lemma upgrade_is_all_or_nothing:
  "do_run_migrations pending s = (False, s') \<Longrightarrow> s' = s"
  "do_run_migrations [initial_upgrade, kyc_upgrade] models_schema = (False, models_schema)"
  subgoal by (simp add: do_run_migrations_def split: option.splits)
  subgoal by code_simp
  done

end
