(* ===== verification/Spec2Isabelle.thy ===== *)
theory Spec2Isabelle
  imports Command_Outcomes Failures Access_Control Redis_Behaviour Identity_Verifier Event_Bus Migration
    Login Operations Column_Types Wire Key_Encoding Resolution Limiter_Races Write_Races Alembic_Env
begin

text \<open>
  The identity service of the DiddiFree ecosystem (\<open>src/identity_app\<close>), modelled from its Python
  source and verified.

  \<^bold>\<open>The program.\<close> Accounts are registered by phone, verified by a one-time code, hold sessions as
  opaque refresh tokens stored by their hash, carry a global role and status, and are announced
  to the other modules of the ecosystem as events on one Redis stream. Commands run in a database
  session of their own, commit before anything leaves the process, then drop the cached profile
  and publish; queries read through a Redis cache. Two limits in Redis slow code requests down.
  The repository also ships what other modules copy: a verifier of access tokens with a cached
  JWKS and a consumer of the event stream; and the scripts of the operators.

  \<^bold>\<open>Components and theories.\<close> In the order of the imports:
  \<^item> \<open>Prelude\<close>: Python text, JSON documents, \<open>core/errors.py\<close>, programs that read and write a state
    and may raise, their weakest preconditions (\<open>wp_rules\<close>), SQL tables as lists (\<open>table_rules\<close>).
  \<^item> \<open>Entities\<close>, \<open>Models\<close>: \<open>domain/entities.py\<close> and the rows of \<open>infra/models.py\<close>. \<open>Schema\<close>: the tables
    and columns it declares and the revisions under \<open>alembic/versions/\<close> that build them. \<open>Alembic_Env\<close>:
    \<open>alembic/env.py\<close>, the filter of autogenerate and the transaction around the revisions. \<open>Settings\<close>, \<open>Validation\<close>,
    \<open>Payloads\<close>, \<open>User_Events\<close>, \<open>Keys\<close>: the files of these names. \<open>Py_Uuid\<close>: \<open>UUID(text)\<close> of the
    standard library.
    \<open>Key_Encoding\<close>: what the published key parameters decode to.
  \<^item> \<open>Redis_Client\<close>: the Redis commands the source sends, an argument of the model, with the locale
    \<open>redis_server\<close> for their documented behaviour and a server in memory that has it.
  \<^item> \<open>World\<close>: what a request runs in. The record \<open>ctx\<close> holds the settings, the clients, the digests
    and the outcomes of every clock reading and random draw; the record \<open>world\<close> holds the session's
    view \<open>w_db\<close>, the committed database \<open>w_committed\<close>, the Redis server, the positions in the
    streams of outcomes and the effects that left the process, in order. \<open>get_session\<close> of
    \<open>core/database.py\<close> commits or rolls back.
  \<^item> \<open>Write_Repository\<close>, \<open>Read_Repository\<close>, \<open>Profile_Cache\<close>, \<open>Rate_Limiter\<close>, \<open>Token_Service\<close>,
    \<open>Event_Publisher\<close>: the files under \<open>infra/\<close>, \<open>core/security.py\<close> and the publisher of
    \<open>shared_kernel/events/bus.py\<close>, one definition per method.
  \<^item> \<open>Cmd_Account\<close>, \<open>Cmd_Otp\<close>, \<open>Cmd_Session\<close>, \<open>Cmd_Roles\<close>, \<open>Cmd_Status\<close>, \<open>Queries\<close>: the commands and
    queries under \<open>application/\<close>. \<open>Auth_Deps\<close>: \<open>core/auth_deps.py\<close>. \<open>Http\<close>: the handlers
    of the routers, the bounds they check and the exception handlers; \<open>serve\<close> is one request from
    authentication to answer. \<open>Schemas\<close> and \<open>Wire\<close>: the models of \<open>schemas.py\<close>, the choice of the
    route, the reading of path, query and body, and the validation of answers; \<open>receive\<close> is one
    request as it arrives.
  \<^item> \<open>Ports\<close>: the Protocols of \<open>domain/interfaces.py\<close>, the signatures of the adapters under \<open>infra/\<close>,
    the fields and calls of the dataclasses under \<open>application/\<close>. \<open>Wiring\<close>: the factories of
    \<open>core/deps.py\<close>, the parameters of the guards and of every route. \<open>Resolution\<close>: how FastAPI
    resolves them for one request, with its cache.
  \<^item> \<open>Event_Consumer\<close>: the consumer of \<open>bus.py\<close> and the documented loop around it, as a step relation
    with crashes; the locale \<open>stream_group\<close> states what a Redis consumer group does.
    \<open>Event_Draining\<close>: its progress and termination. \<open>Event_Bus\<close>: the service and a subscriber on one
    server (locale \<open>event_bus\<close>), from the request to the handled event.
    \<open>Identity_Verifier\<close>: \<open>shared_kernel/contracts/identity_provider.py\<close>.
  \<^item> \<open>Operations\<close>: \<open>core/lifespan.py\<close>, \<open>core/redis.py\<close>, the JWKS and health routes,
    \<open>scripts/generate_keys.py\<close> and \<open>scripts/issue_service_token.py\<close>. \<open>Migration\<close>:
    \<open>scripts/migrate_from_diddigo.py\<close>.

  \<^bold>\<open>Specification and proofs.\<close>
  \<^item> \<open>Store_Laws\<close> and \<open>Store_Ports\<close>: the abstract views of the tables (an account by id, the live
    sessions of an account, the active code of a number) and the contracts of the stores as the
    locales \<open>account_store\<close>, \<open>session_store\<close>, \<open>code_store\<close>, interpreted on the repositories.
  \<^item> \<open>Service_Spec\<close>: the relation \<open>service_step\<close>, one clause per thing the service can do, over
    whole databases and without sessions, rollbacks or Redis. \<open>Service_Refinement\<close>: every request
    is one of these steps. \<open>Service_System\<close>: reachable states, and the locales
    \<open>service_invariant\<close> and \<open>lasting_fact\<close> that lift a property of the steps to the code.
    \<open>Service_Invariants\<close>: their interpretations.
  \<^item> \<open>Command_Outcomes\<close>, \<open>Failures\<close>, \<open>Access_Control\<close>, \<open>Redis_Behaviour\<close>: what single commands and
    routes do on every branch, errors included. \<open>Login\<close>: from the code request to the session.
    \<open>Column_Types\<close>: values fit the columns they are stored in. \<open>Interleaving\<close>: a refresh and
    a verification with other requests served in their middle. \<open>Write_Races\<close>: the same for a
    decision on a role and a registration. \<open>Limiter_Races\<close>: the two commands of the address limit,
    interleaved over any number of callers that may die. \<open>Sample_Run\<close>: a run of the service on concrete
    arguments, to which the theorems are applied.
  \<^item> This theory: the properties of the whole service.

  \<^bold>\<open>Arguments of the model.\<close> Redis, PyJWT, SHA-256, HMAC, PEM parsing and file reads are functions of
  \<open>ctx\<close> or arguments; so are the conversions of Pydantic, httpx, the monotonic clock, key generation, version-5 UUIDs and the
  rows of DiddiGo for the programs that use them. The clock, \<open>uuid4\<close>, \<open>token_urlsafe\<close> and \<open>randbelow\<close> are arbitrary streams;
  \<open>fresh_draw\<close> and \<open>ids_fresh\<close> say that the next UUIDs drawn are not ids already in the tables.

  \<^bold>\<open>Bounds.\<close> The programs are total functions without fuel: every loop of the source is a recursion
  on a list or a text; the resolution of dependencies recurses along their graph, which the measure
  \<open>weight\<close> shows to have no cycle. Python integers are \<open>int\<close>; UUIDs are 128-bit words. \<open>ceil(a / b)\<close> is taken
  exactly, which the float division of Python is below \<open>2 ^ 53\<close> accounts. A consumer recovers 100
  pending entries at a time; the liveness of the consumer assumes fewer unreadable ones, and that
  the stream still retains what it waits for. Paths of key files are taken as normalised.

  \<^bold>\<open>Not modelled.\<close> French messages and log lines; the field list of a 422 body; the text a body is
  parsed from, numbers with a fraction, and the bodies of 404, 405 and redirect answers, which are the framework's;
  JSON and ISO-8601 text (documents are trees, an instant written
  with \<open>isoformat\<close> is an instant); ties between codes created in the same microsecond are broken in
  table order; shutdown, argument parsing of the scripts, the offline mode and the
  engine of \<open>alembic/env.py\<close>, the tests. Requests are served one after the
  other: the invariants are those of such runs, and \<open>Interleaving\<close> and \<open>Write_Races\<close> show that they do
  not survive every interleaving of a real database. A seed database holds accounts and no other row, and no pending role request.
\<close>

section \<open>The code refines its specification\<close>

text \<open>
  C1. Serving any request in a settled state is one step of the specification: the committed
  database, the effects that left the process and their order are those of one clause, and
  what was not committed is gone.
\<close>

theorem serve_refines_spec:
  assumes "settled w" and "fresh_draw c w"
  shows "\<exists>es. w_effects (snd (serve c req w)) = w_effects w @ es \<and>
    service_step c (w_committed w) es (w_committed (snd (serve c req w))) \<and>
    settled (snd (serve c req w))"
  using serve_conforms [OF assms, of req] settled_served [OF assms, of req] by metis

lemma serve_refines_spec_witness:
  "\<exists>es. effects3 = effects2 @ es \<and> service_step sample_ctx db2 es db3"
  using serve_refines_spec [OF sample_settled(3) sample_fresh(3), of "PostOtpVerify kofi_phone (ascii ''123456'') None"]
  unfolding succeeds_serve [OF run3] by (auto simp: world2_def world3_def at_def)

section \<open>What holds in every reachable state\<close>

text \<open>
  C2. The status audit trail is complete: in every reachable state, replaying the rows of an
  account from its first status yields its present status, every row starting where the
  previous one ended and being a transition of the table.
\<close>

theorem status_audit_replays:
  assumes "reachable c db0 w" and "seed_ok db0" and "account (w_committed w) i = Some u"
  shows "follow_status (initial_status db0 i) (status_trail i (w_committed w)) = Some (usr_status u)"
  using status_audit.reachable_I [OF assms(1,2)] assms(3) by (simp add: status_audited_def)

lemma status_audit_replays_witness:
  "follow_status PENDING_VERIFICATION (status_trail 100 db6) = Some SUSPENDED"
  using status_audit_replays [OF sample_reachable(7) sample_seed kofi_accounts(6)]
  by (simp add: initial_status_def account_def sample_db_def empty_database_def ama_def world6_def at_def)

text \<open>
  C3. The role audit trail is complete in the same sense: from the first role, with nothing
  requested, the rows yield the present role and the present pending request.
\<close>

theorem role_audit_replays:
  assumes "reachable c db0 w" and "seed_ok db0" and "account (w_committed w) i = Some u"
  shows "follow_role (initial_role db0 i, None) (role_trail i (w_committed w)) =
    Some (usr_role u, usr_requested_role u)"
  using role_audit.reachable_I [OF assms(1,2)] assms(3) by (simp add: role_audited_def)

lemma role_audit_replays_witness:
  "follow_role (USER, None) (role_trail 100 db5) = Some (DRIVER, None)"
  using role_audit_replays [OF sample_reachable(6) sample_seed kofi_accounts(5)]
  by (simp add: initial_role_def account_def sample_db_def empty_database_def ama_def world5_def at_def)

text \<open>
  C4. A suspended account, or one that was never verified, holds no live session in any
  reachable state.
\<close>

theorem barred_account_has_no_session:
  assumes "reachable c db0 w" and "seed_ok db0" and "account (w_committed w) i = Some u"
    and "usr_status u \<in> {SUSPENDED, PENDING_VERIFICATION}"
  shows "live_sessions (w_committed w) i = {}"
proof (rule ccontr)
  assume "live_sessions (w_committed w) i \<noteq> {}"
  then have "may_hold_session (w_committed w) i"
    using session_rule.reachable_I [OF assms(1,2)] by (simp add: sessions_ok_def)
  with assms(3,4) show False by (auto simp: may_hold_session_def)
qed

lemma barred_account_has_no_session_witness: "live_sessions db6 100 = {}"
  using barred_account_has_no_session [OF sample_reachable(7) sample_seed kofi_accounts(6)]
  by (simp add: world6_def at_def)

text \<open>
  C5. An account holds a role that needs KYC only if it came with the seed or the trail shows
  the approval of a request for that role.
\<close>

theorem kyc_role_was_approved:
  assumes "reachable c db0 w" and "seed_ok db0" and "account (w_committed w) i = Some u"
    and "usr_role u \<in> KYC_REQUIRED_ROLES" and "usr_role u \<noteq> initial_role db0 i"
  shows "list_ex (approved (usr_role u)) (role_trail i (w_committed w))"
  using kyc_gate.reachable_I [OF assms(1,2)] assms(3-5) by (auto simp: kyc_gated_def)

lemma kyc_role_was_approved_witness: "list_ex (approved DRIVER) (role_trail 100 db5)"
  using kyc_role_was_approved [OF sample_reachable(6) sample_seed kofi_accounts(5)]
  by (simp add: initial_role_def account_def sample_db_def empty_database_def ama_def world5_def at_def
      KYC_REQUIRED_ROLES_def)

text \<open>
  C6. No code is ever tried more often than the settings allow, and a code that may still be
  tried has an attempt left.
\<close>

theorem attempts_below_ceiling:
  assumes "reachable c db0 w" and "seed_ok db0" and "1 \<le> otp_max_attempts (cfg c)"
    and "x \<in> set (db_otp_codes (w_committed w))"
  shows "0 \<le> otp_attempts x \<and> otp_attempts x \<le> otp_max_attempts (cfg c) \<and>
    (otp_consumed_at x = None \<longrightarrow> otp_attempts x < otp_max_attempts (cfg c))"
  using code_rule.reachable_I [OF assms(1-3)] assms(4)
  by (auto simp: codes_bounded_def list_all_iff)

lemma attempts_below_ceiling_witness: "otp_attempts (kofi_code None) < 5"
  using attempts_below_ceiling [OF sample_reachable(3) sample_seed, of "kofi_code None"]
  by (simp add: all_sample_defs)

text \<open>
  C7. In the whole life of the service the activation of an account is announced at most once.
\<close>

theorem activation_announced_once:
  assumes "reachable c db0 w" and "seed_ok db0"
  shows "length (filter (announces i) (w_effects w)) \<le> 1"
  using announcement.reachable_I [OF assms] by (simp add: announced_once_def)

lemma activation_announced_once_witness: "length (filter (announces 100) (w_effects world6)) \<le> 1"
  by (rule activation_announced_once [OF sample_reachable(7) sample_seed])



text \<open>
  C9. Whatever a request does, nothing leaves the process before the commit, the cache entry is
  dropped before the event goes out, a code is sent only once it is stored, and a request that
  commits nothing changes nothing.
\<close>

theorem effects_in_order:
  assumes "settled w" and "fresh_draw c w"
  shows "\<exists>es. w_effects (snd (serve c req w)) = w_effects w @ es \<and> well_ordered es \<and>
    (Committed \<in> set es \<or> w_committed (snd (serve c req w)) = w_committed w)"
  using serve_conforms [OF assms, of req] service_step_well_ordered no_commit_no_change by metis

lemma effects_in_order_witness:
  "well_ordered [Committed, Invalidated 100, Published registered_event]"
  using effects_in_order [OF sample_settled(3) sample_fresh(3), of "PostOtpVerify kofi_phone (ascii ''123456'') None"]
  unfolding succeeds_serve [OF run3] by (simp add: world2_def world3_def at_def effects3_def)

text \<open>
  C10. Every event a request publishes tells the truth about the database it was committed
  with: the account exists and has the phone, the role and the status the event names.
\<close>

theorem events_match_database:
  assumes "reachable c db0 w" and "seed_ok db0" and "fresh_draw c w"
    and "w_effects (snd (serve c req w)) = w_effects w @ es" and "Published ev \<in> set es"
  shows "event_holds (w_committed (snd (serve c req w))) ev"
proof -
  have ok: "settled w" by (rule reachable_settled [OF assms(1,2)])
  have "requests_ok (w_committed w)" by (rule request_rule.reachable_I [OF assms(1,2)]) simp
  with ok show ?thesis
    using serve_conforms [OF ok assms(3), of req] assms(4,5) step_events_hold
    by (metis same_append_eq settled_def)
qed

lemma events_match_database_witness: "event_holds db3 registered_event"
  using events_match_database [OF sample_reachable(3) sample_seed sample_fresh(3),
      of "PostOtpVerify kofi_phone (ascii ''123456'') None" "[Committed, Invalidated 100, Published registered_event]"]
  unfolding succeeds_serve [OF run3] by (simp add: world2_def world3_def at_def effects3_def)

text \<open>
  The audit trails are append-only: whatever is served afterwards, the rows that were
  there stay there, unchanged and in their order.
\<close>

theorem audit_rows_are_kept:
  assumes "settled w" and "later c w w'"
  shows "take (length (db_status_history (w_committed w))) (db_status_history (w_committed w')) =
      db_status_history (w_committed w) \<and>
    take (length (db_role_history (w_committed w))) (db_role_history (w_committed w')) =
      db_role_history (w_committed w)"
  using histories.lasts [OF assms(2,1),
      of "(db_status_history (w_committed w), db_role_history (w_committed w))"]
  by (simp add: history_starts_def)

lemma audit_rows_are_kept_witness:
  "take 1 (db_status_history (w_committed world6)) = db_status_history (w_committed world3)"
  using audit_rows_are_kept [OF sample_settled(4) sample_later]
  by (simp add: all_sample_defs)

text \<open>
  Accounts are permanent: whatever is served afterwards, an account stays, with its id and its
  phone, and one that was verified never waits for its first verification again.
\<close>

theorem accounts_are_permanent:
  assumes "settled w" and "later c w w'" and "account (w_committed w) i = Some u"
  shows "\<exists>u'. account (w_committed w') i = Some u' \<and> usr_phone u' = usr_phone u \<and>
    (usr_status u \<noteq> PENDING_VERIFICATION \<longrightarrow> usr_status u' \<noteq> PENDING_VERIFICATION)"
  using permanent_accounts.lasts [OF assms(2,1), of "(i, usr_phone u)"]
    verified_accounts.lasts [OF assms(2,1), of i] assms(3)
  by (auto simp: account_kept_def verified_once_def)

text \<open>
  A token that was revoked never opens a session again: at any later time, showing it to
  the refresh route fails and adds no session to any account.
\<close>

theorem revoked_token_never_rotates:
  assumes "settled w" and "later c w w'" and "t \<in> set (db_refresh_tokens (w_committed w))"
    and "rt_token_hash t = hash_refresh_token c shown" and "rt_revoked_at t \<noteq> None"
  shows "case refresh_access_token c shown device w' of (r, w'') \<Rightarrow>
    (\<exists>e. r = Inl e) \<and> (\<forall>i. live_sessions (w_committed w'') i \<subseteq> live_sessions (w_committed w') i)"
proof -
  have spent: "hash_spent (hash_refresh_token c shown) (w_committed w')"
    using spent_hashes.lasts [OF assms(2,1)] assms(3-5) by (auto simp: hash_spent_def)
  have same: "w_db w' = w_committed w'"
    using later_settled [OF assms(2,1)] by (simp add: settled_def)
  show ?thesis
  proof (cases "token_by_hash (w_committed w') (hash_refresh_token c shown)")
    case (Inr r)
    then obtain x where "r = Some x" and "rt_revoked_at x \<noteq> None"
      using spent_hash_found [OF spent] by blast
    with Inr same show ?thesis
      by (auto simp: outcome_simps refresh_defs sessions.live_revoke_all split: if_splits)
  qed (use same in \<open>auto simp: outcome_simps refresh_defs\<close>)
qed

lemma revoked_token_never_rotates_witness:
  "case refresh_access_token sample_ctx (ascii ''opaque_A'') None world6 of (r, w'') \<Rightarrow>
    (\<exists>e. r = Inl e) \<and> (\<forall>i. live_sessions (w_committed w'') i \<subseteq> live_sessions (w_committed world6) i)"
  by (rule revoked_token_never_rotates [OF sample_settled(7) now, of "kofi_session (Some 19)"])
    (simp_all add: all_sample_defs ascii_def)

end
